(* ===== verification/Prelude.thy ===== *)
theory Prelude
  imports Main "HOL-Library.Word" "HOL-Library.List_Lexorder" "HOL-Library.Char_ord"
    "HOL-Library.Monad_Syntax"
begin

text \<open>
  The vocabulary the component theories share.

  \<^item> Go maps as association lists: \<open>gomap\<close> with \<open>mput\<close> and \<open>mdel\<close>, and the
    zero-value reads \<open>mget_str\<close>, \<open>mget_bool\<close>, \<open>mget_int\<close> that Go's \<open>m[k]\<close>
    performs on an absent key.  The locale \<open>dict\<close> states what a client may
    rely on and is interpreted on these operations.
  \<^item> Machine integers: \<open>wrap64\<close> is what a 64-bit signed \<open>int\<close> holds after an
    addition, subtraction or multiplication.
  \<^item> Time: \<open>time.Time\<close> is the number of nanoseconds since Go's zero time, so
    \<open>IsZero\<close> is equality with \<open>0\<close>; \<open>time.Duration\<close> is a number of nanoseconds.
  \<^item> Strings: decimal rendering and parsing (\<open>fmt.Sprint\<close>, \<open>strconv.Atoi\<close>),
    \<open>strings.Contains\<close>, \<open>strings.Join\<close> and \<open>strings.Split\<close>.
\<close>

named_theorems go_defs "characteristic equations of small Go helpers"
named_theorems go_dest "what a check that returned nil establishes"

section \<open>Go maps\<close>

type_synonym ('k, 'v) gomap = "('k \<times> 'v) list"
type_synonym 'v smap = "(string, 'v) gomap"

primrec mput :: "'k \<Rightarrow> 'v \<Rightarrow> ('k, 'v) gomap \<Rightarrow> ('k, 'v) gomap" where
  "mput k v [] = [(k, v)]"
| "mput k v (p # m) = (if fst p = k then (k, v) # m else p # mput k v m)"

primrec mdel :: "'k \<Rightarrow> ('k, 'v) gomap \<Rightarrow> ('k, 'v) gomap" where
  "mdel k [] = []"
| "mdel k (p # m) = (if fst p = k then mdel k m else p # mdel k m)"

abbreviation mkeys :: "('k, 'v) gomap \<Rightarrow> 'k list" where
  "mkeys m \<equiv> map fst m"

abbreviation mvals :: "('k, 'v) gomap \<Rightarrow> 'v list" where
  "mvals m \<equiv> map snd m"

definition mwf :: "('k, 'v) gomap \<Rightarrow> bool" where
  "mwf m \<longleftrightarrow> distinct (mkeys m)"

definition mhas :: "('k, 'v) gomap \<Rightarrow> 'k \<Rightarrow> bool" where
  "mhas m k \<longleftrightarrow> map_of m k \<noteq> None"

definition mget_str :: "('k, string) gomap \<Rightarrow> 'k \<Rightarrow> string" where
  "mget_str m k = (case map_of m k of None \<Rightarrow> [] | Some v \<Rightarrow> v)"

definition mget_bool :: "('k, bool) gomap \<Rightarrow> 'k \<Rightarrow> bool" where
  "mget_bool m k = (case map_of m k of None \<Rightarrow> False | Some v \<Rightarrow> v)"

definition mget_int :: "('k, int) gomap \<Rightarrow> 'k \<Rightarrow> int" where
  "mget_int m k = (case map_of m k of None \<Rightarrow> 0 | Some v \<Rightarrow> v)"

lemma map_of_mput [simp]: "map_of (mput k v m) = (map_of m)(k \<mapsto> v)"
  by (induction m) (auto simp: fun_eq_iff)

lemma map_of_mdel [simp]: "map_of (mdel k m) = (map_of m)(k := None)"
  by (induction m) (auto simp: fun_eq_iff)

lemma set_mkeys_mput [simp]: "fst ` set (mput k v m) = insert k (fst ` set m)"
  by (induction m) auto

lemma set_mdel: "set (mdel k m) = {p \<in> set m. fst p \<noteq> k}"
  by (induction m) auto

lemma set_mput_subset: "set (mput k v m) \<subseteq> insert (k, v) (set m)"
  by (induction m) auto

lemma mwf_Nil [simp]: "mwf []"
  by (simp add: mwf_def)

lemma mwf_mput [simp]: "mwf m \<Longrightarrow> mwf (mput k v m)"
  unfolding mwf_def by (induction m) auto

lemma mwf_mdel [simp]: "mwf m \<Longrightarrow> mwf (mdel k m)"
  unfolding mwf_def by (induction m) (auto simp: set_mdel)

lemma mwf_Cons: "mwf (p # m) \<longleftrightarrow> map_of m (fst p) = None \<and> mwf m"
  by (auto simp: mwf_def map_of_eq_None_iff)

lemma mwf_in_set: "mwf m \<Longrightarrow> (k, v) \<in> set m \<longleftrightarrow> map_of m k = Some v"
  by (simp add: mwf_def)

lemma mdel_absent: "map_of m k = None \<Longrightarrow> mdel k m = m"
  by (induction m) (auto split: if_splits)

lemma mput_absent: "map_of m k = None \<Longrightarrow> mput k v m = m @ [(k, v)]"
  by (induction m) (auto split: if_splits)

lemma mvals_mput_set: "set (mvals (mput k v m)) \<subseteq> insert v (set (mvals m))"
  using set_mput_subset [of k v m] by fastforce

lemma mvals_mdel_set: "set (mvals (mdel k m)) \<subseteq> set (mvals m)"
  by (auto simp: set_mdel)

lemma mwf_vals: "mwf m \<Longrightarrow> v \<in> set (mvals m) \<longleftrightarrow> (\<exists>k. map_of m k = Some v)"
  by (auto simp: mwf_in_set [symmetric] image_iff Bex_def)

lemma map_of_vals: "map_of m k = Some v \<Longrightarrow> v \<in> set (mvals m)"
  by (metis image_eqI list.set_map map_of_SomeD snd_conv)

lemma Some_eq_map_option [simp]: "Some x = map_option f y \<longleftrightarrow> (\<exists>z. y = Some z \<and> x = f z)"
  by (cases y) auto

text \<open>Totals over the values of a map, the shape of every counting loop in the code.\<close>

definition msum :: "('v \<Rightarrow> int) \<Rightarrow> ('k, 'v) gomap \<Rightarrow> int" where
  "msum f m = sum_list (map f (mvals m))"

lemma msum_Nil [simp]: "msum f [] = 0"
  by (simp add: msum_def)

lemma msum_Cons [simp]: "msum f (p # m) = f (snd p) + msum f m"
  by (simp add: msum_def)

lemma msum_append [simp]: "msum f (m @ m') = msum f m + msum f m'"
  by (simp add: msum_def)

lemma msum_mput:
  "mwf m \<Longrightarrow> msum f (mput k v m)
    = msum f m + f v - (case map_of m k of None \<Rightarrow> 0 | Some u \<Rightarrow> f u)"
  by (induction m) (auto simp: mwf_Cons)

lemma msum_mdel:
  "mwf m \<Longrightarrow> msum f (mdel k m)
    = msum f m - (case map_of m k of None \<Rightarrow> 0 | Some u \<Rightarrow> f u)"
  by (induction m) (auto simp: mwf_Cons mdel_absent)

lemma msum_nonneg: "(\<And>v. v \<in> set (mvals m) \<Longrightarrow> 0 \<le> f v) \<Longrightarrow> 0 \<le> msum f m"
  by (induction m) auto

lemma msum_ge_member:
  "\<lbrakk>map_of m k = Some v; \<And>u. u \<in> set (mvals m) \<Longrightarrow> 0 \<le> f u\<rbrakk> \<Longrightarrow> f v \<le> msum f m"
proof (induction m)
  case (Cons p m)
  have "0 \<le> msum f m" by (rule msum_nonneg) (simp add: Cons.prems(2))
  moreover have "0 \<le> f (snd p)" by (simp add: Cons.prems(2))
  moreover have "f v \<le> msum f m" if "map_of m k = Some v"
    by (rule Cons.IH [OF that]) (simp add: Cons.prems(2))
  ultimately show ?case using Cons.prems(1) by (fastforce split: if_splits)
qed simp

lemma msum_dom: "mwf m \<Longrightarrow> msum f m = (\<Sum>k \<in> dom (map_of m). f (the (map_of m k)))"
proof (induction m)
  case (Cons p m)
  then have p: "fst p \<notin> dom (map_of m)" and m: "mwf m" by (auto simp: mwf_Cons)
  have "(\<Sum>k \<in> dom (map_of m). f (the (map_of (p # m) k))) = (\<Sum>k \<in> dom (map_of m). f (the (map_of m k)))"
    by (rule sum.cong) (use p in \<open>auto split: if_splits\<close>)
  moreover have "dom (map_of (p # m)) = insert (fst p) (dom (map_of m))" by auto
  ultimately show ?case using Cons.IH [OF m] p finite_dom_map_of [of m]
    by (simp only: msum_Cons sum.insert) simp
qed simp

lemma msum_view:
  assumes "mwf m" "mwf m'" "\<And>k. map_option g (map_of m k) = map_option g (map_of m' k)"
    "\<And>u v. g u = g v \<Longrightarrow> f u = f v"
  shows "msum f m = msum f m'"
proof -
  have "dom (map_of m) = dom (map_of m')"
  proof -
    have "(map_of m k = None) = (map_of m' k = None)" for k
      using assms(3) [of k] by (cases "map_of m k"; cases "map_of m' k") auto
    then show ?thesis by (auto simp: dom_def)
  qed
  moreover have "f (the (map_of m k)) = f (the (map_of m' k))" for k
  proof (cases "map_of m k")
    case None
    then show ?thesis using assms(3) [of k] by simp
  next
    case (Some u)
    then obtain v where "map_of m' k = Some v" "g u = g v" using assms(3) [of k] by (cases "map_of m' k") auto
    then show ?thesis using Some assms(4) [of u v] by simp
  qed
  ultimately show ?thesis using assms(1,2) by (simp add: msum_dom)
qed

text \<open>What a client of a Go map relies on.\<close>

locale dict =
  fixes empty :: "'m"
    and lookup :: "'m \<Rightarrow> 'k \<Rightarrow> 'v option"
    and update :: "'k \<Rightarrow> 'v \<Rightarrow> 'm \<Rightarrow> 'm"
    and delete :: "'k \<Rightarrow> 'm \<Rightarrow> 'm"
    and invar :: "'m \<Rightarrow> bool"
  assumes lookup_empty: "lookup empty k = None"
    and lookup_update: "lookup (update k v m) j = (if j = k then Some v else lookup m j)"
    and lookup_delete: "lookup (delete k m) j = (if j = k then None else lookup m j)"
    and invar_empty: "invar empty"
    and invar_update: "invar m \<Longrightarrow> invar (update k v m)"
    and invar_delete: "invar m \<Longrightarrow> invar (delete k m)"
begin

lemma lookup_update_all:
  "lookup (foldl (\<lambda>m k. update k (f k) m) m ks) j
    = (if j \<in> set ks then Some (f j) else lookup m j)"
  by (induction ks arbitrary: m) (auto simp: lookup_update)

lemma lookup_delete_all:
  "lookup (foldl (\<lambda>m k. delete k m) m ks) j = (if j \<in> set ks then None else lookup m j)"
  by (induction ks arbitrary: m) (auto simp: lookup_delete)

lemma invar_update_all: "invar m \<Longrightarrow> invar (foldl (\<lambda>m k. update k (f k) m) m ks)"
  by (induction ks arbitrary: m) (auto simp: invar_update)

lemma invar_delete_all: "invar m \<Longrightarrow> invar (foldl (\<lambda>m k. delete k m) m ks)"
  by (induction ks arbitrary: m) (auto simp: invar_delete)

end

interpretation gm: dict "[]" map_of mput mdel mwf
  by unfold_locales simp_all

section \<open>Runs of a fallible operation\<close>

text \<open>The loop that applies one operation to a list of inputs and stops at the first error.\<close>

fun run :: "('s \<Rightarrow> 'e \<Rightarrow> 'err + 's) \<Rightarrow> 's \<Rightarrow> 'e list \<Rightarrow> 'err + 's" where
  "run f s [] = Inr s"
| "run f s (e # es) = (case f s e of Inl err \<Rightarrow> Inl err | Inr s' \<Rightarrow> run f s' es)"

lemma run_append:
  "run f s (es @ es') = (case run f s es of Inl err \<Rightarrow> Inl err | Inr s' \<Rightarrow> run f s' es')"
  by (induction es arbitrary: s) (auto split: sum.splits)

lemma run_snoc_Inr:
  "run f s (es @ [e]) = Inr s' \<longleftrightarrow> (\<exists>s1. run f s es = Inr s1 \<and> f s1 e = Inr s')"
  by (auto simp: run_append split: sum.splits)

lemma run_Cons_Inr:
  "run f s (e # es) = Inr s' \<longleftrightarrow> (\<exists>s1. f s e = Inr s1 \<and> run f s1 es = Inr s')"
  by (auto split: sum.splits)

text \<open>An invariant of the operation is an invariant of the run.\<close>

lemma run_invariant:
  assumes "run f s es = Inr s'" "P s" "\<And>s e s'. f s e = Inr s' \<Longrightarrow> P s \<Longrightarrow> P s'"
  shows "P s'"
  using assms(1,2) by (induction es arbitrary: s) (auto simp: assms(3) split: sum.splits)

lemma run_rel:
  assumes "run f s es = Inr s'" "\<And>s. R s s" "\<And>s t u. R s t \<Longrightarrow> R t u \<Longrightarrow> R s u"
    "\<And>s e s'. f s e = Inr s' \<Longrightarrow> R s s'"
  shows "R s s'"
  using assms(1) by (induction es arbitrary: s) (auto intro: assms(2-4) split: sum.splits)

section \<open>Machine integers and time\<close>

definition wrap64 :: "int \<Rightarrow> int" where
  "wrap64 x = (x + 2 ^ 63) mod 2 ^ 64 - 2 ^ 63"

lemma wrap64_id: "- (2 ^ 63) \<le> x \<Longrightarrow> x < 2 ^ 63 \<Longrightarrow> wrap64 x = x"
  by (simp add: wrap64_def)

lemma wrap64_range: "- (2 ^ 63) \<le> wrap64 x \<and> wrap64 x < 2 ^ 63"
  using pos_mod_bound [of "2 ^ 64" "x + 2 ^ 63"] pos_mod_sign [of "2 ^ 64" "x + 2 ^ 63"]
  by (simp add: wrap64_def)

definition in64 :: "int \<Rightarrow> bool" where
  "in64 x \<longleftrightarrow> - (2 ^ 63) \<le> x \<and> x < 2 ^ 63"

type_synonym time = int
type_synonym duration = int

definition IsZero :: "time \<Rightarrow> bool" where
  "IsZero t \<longleftrightarrow> t = 0"

abbreviation second_ns :: duration where "second_ns \<equiv> 1000000000"
abbreviation minute_ns :: duration where "minute_ns \<equiv> 60000000000"
abbreviation hour_ns :: duration where "hour_ns \<equiv> 3600000000000"

text \<open>An expiry that is zero never lapses; every freshness test of the code has this shape.\<close>

definition unexpired :: "time \<Rightarrow> time \<Rightarrow> bool" where
  "unexpired expires now \<longleftrightarrow> IsZero expires \<or> now < expires"

lemma unexpired_antimono: "unexpired e t' \<Longrightarrow> t \<le> t' \<Longrightarrow> unexpired e t"
  by (auto simp: unexpired_def)

section \<open>Strings\<close>

definition digit_char :: "nat \<Rightarrow> char" where
  "digit_char n = char_of (48 + n)"

fun utoa :: "nat \<Rightarrow> string" where
  "utoa n = (if n < 10 then [digit_char n] else utoa (n div 10) @ [digit_char (n mod 10)])"

declare utoa.simps [simp del]

definition itoa :: "int \<Rightarrow> string" where
  "itoa i = (if i < 0 then CHR ''-'' # utoa (nat (- i)) else utoa (nat i))"

definition is_digit :: "char \<Rightarrow> bool" where
  "is_digit c \<longleftrightarrow> 48 \<le> (of_char c :: nat) \<and> (of_char c :: nat) \<le> 57"

definition digit_val :: "char \<Rightarrow> nat" where
  "digit_val c = of_char c - 48"

fun parse_digits :: "nat \<Rightarrow> string \<Rightarrow> nat option" where
  "parse_digits acc [] = Some acc"
| "parse_digits acc (c # cs) =
    (if is_digit c then parse_digits (10 * acc + digit_val c) cs else None)"

definition parse_nat :: "string \<Rightarrow> nat option" where
  "parse_nat s = (if s = [] then None else parse_digits 0 s)"

fun atoi :: "string \<Rightarrow> int option" where
  "atoi [] = None"
| "atoi (c # cs) =
    (let r = (if c = CHR ''-'' then map_option (\<lambda>n. - int n) (parse_nat cs)
              else if c = CHR ''+'' then map_option int (parse_nat cs)
              else map_option int (parse_nat (c # cs)))
     in case r of None \<Rightarrow> None | Some i \<Rightarrow> if in64 i then Some i else None)"

definition parse_uint64 :: "string \<Rightarrow> 64 word option" where
  "parse_uint64 s = (case parse_nat s of None \<Rightarrow> None
     | Some n \<Rightarrow> if n < 2 ^ 64 then Some (word_of_nat n) else None)"

definition btoa :: "bool \<Rightarrow> string" where
  "btoa b = (if b then ''true'' else ''false'')"

fun has_prefix :: "string \<Rightarrow> string \<Rightarrow> bool" where
  "has_prefix s [] = True"
| "has_prefix [] (p # ps) = False"
| "has_prefix (c # cs) (p # ps) = (c = p \<and> has_prefix cs ps)"

fun contains :: "string \<Rightarrow> string \<Rightarrow> bool" where
  "contains [] sub = (sub = [])"
| "contains (c # cs) sub = (has_prefix (c # cs) sub \<or> contains cs sub)"

fun join :: "string \<Rightarrow> string list \<Rightarrow> string" where
  "join sep [] = []"
| "join sep [s] = s"
| "join sep (s # t # ss) = s @ sep @ join sep (t # ss)"

fun split_on :: "char \<Rightarrow> string \<Rightarrow> string list" where
  "split_on sep [] = [[]]"
| "split_on sep (c # cs) =
    (if c = sep then [] # split_on sep cs
     else (case split_on sep cs of [] \<Rightarrow> [[c]] | w # ws \<Rightarrow> (c # w) # ws))"

lemma is_digit_digit_char: "n < 10 \<Longrightarrow> is_digit (digit_char n)"
  by (simp add: is_digit_def digit_char_def)

lemma digit_val_digit_char: "n < 10 \<Longrightarrow> digit_val (digit_char n) = n"
  by (simp add: digit_val_def digit_char_def)

lemma parse_digits_append:
  "parse_digits a (s @ t) = (case parse_digits a s of None \<Rightarrow> None | Some b \<Rightarrow> parse_digits b t)"
  by (induction s arbitrary: a) auto

lemma utoa_nonempty [simp]: "utoa n \<noteq> []"
  by (subst utoa.simps) simp

lemma parse_digits_utoa: "\<exists>k. parse_digits a (utoa n) = Some (a * 10 ^ k + n) \<and> k = length (utoa n)"
proof (induction n arbitrary: a rule: utoa.induct)
  case (1 n)
  show ?case
  proof (cases "n < 10")
    case True
    then show ?thesis
      by (subst (1 2) utoa.simps)
        (simp add: is_digit_digit_char digit_val_digit_char)
  next
    case False
    then obtain k where k: "parse_digits a (utoa (n div 10)) = Some (a * 10 ^ k + n div 10)"
      "k = length (utoa (n div 10))" using 1 by blast
    have "10 * (a * 10 ^ k + n div 10) + n mod 10 = a * 10 ^ Suc k + n" by simp
    with False k show ?thesis
      by (subst (1 2) utoa.simps)
        (simp add: parse_digits_append is_digit_digit_char digit_val_digit_char)
  qed
qed

lemma parse_nat_utoa [simp]: "parse_nat (utoa n) = Some n"
  using parse_digits_utoa [of 0 n] by (auto simp: parse_nat_def)

lemma utoa_digits: "c \<in> set (utoa n) \<Longrightarrow> is_digit c"
  by (induction n rule: utoa.induct)
    (subst (asm) (2) utoa.simps, auto split: if_splits simp: is_digit_digit_char)

text \<open>\<open>strconv.Atoi\<close> reads back every decimal that \<open>fmt.Sprint\<close> wrote for an \<open>int\<close>.\<close>

lemma atoi_itoa [simp]: "in64 i \<Longrightarrow> atoi (itoa i) = Some i"
proof (cases "i < 0")
  case False
  then obtain c cs where c: "utoa (nat i) = c # cs" by (cases "utoa (nat i)") auto
  then have "is_digit c" using utoa_digits [of c "nat i"] by simp
  then have "c \<noteq> CHR ''-''" "c \<noteq> CHR ''+''" by (auto simp: is_digit_def)
  moreover assume "in64 i"
  ultimately show ?thesis using False c parse_nat_utoa [of "nat i"] by (simp add: itoa_def)
qed (simp add: itoa_def)

lemma split_join:
  "\<lbrakk>ss \<noteq> []; \<And>s. s \<in> set ss \<Longrightarrow> c \<notin> set s\<rbrakk> \<Longrightarrow> split_on c (join [c] ss) = ss"
proof (induction ss rule: induct_list012)
  case (2 s)
  then show ?case by (induction s) auto
next
  case (3 s t ss)
  have "split_on c (s @ c # rest) = s # split_on c rest" if "c \<notin> set s" for s rest
    using that by (induction s) auto
  then show ?case using 3 by simp
qed simp

end
