(* ===== verification/Control_Types.thy ===== *)
theory Control_Types
  imports Prelude
begin

text \<open>
  The data of \<^verbatim>\<open>src/control/types.go\<close> (with the structs that \<^verbatim>\<open>disruption.go\<close>,
  \<^verbatim>\<open>spread.go\<close>, \<^verbatim>\<open>canary.go\<close>, \<^verbatim>\<open>schedule.go\<close>, \<^verbatim>\<open>netpolicy.go\<close>, \<^verbatim>\<open>provenance.go\<close>,
  \<^verbatim>\<open>resolve.go\<close> and \<^verbatim>\<open>probe.go\<close> contribute to it) and the methods declared there.
  A struct is a record, a string enumeration a datatype, a pointer that may be nil
  an \<open>option\<close>, a \<open>uint64\<close> a 64-bit word.  The Go \<open>int\<close> is \<open>int\<close>; the arithmetic of
  \<open>Resources\<close> and \<open>Budget\<close> wraps at 64 bits as the machine does.
\<close>

section \<open>Resources and budgets\<close>

record Budget =
  Tokens :: int
  CostMillis :: int
  WallSeconds :: int
  ToolCalls :: int

definition Budget_zero :: Budget where
  "Budget_zero = \<lparr>Tokens = 0, CostMillis = 0, WallSeconds = 0, ToolCalls = 0\<rparr>"

definition Budget_Fits :: "Budget \<Rightarrow> Budget \<Rightarrow> bool" where
  "Budget_Fits b ceiling \<longleftrightarrow>
     Tokens b \<le> Tokens ceiling \<and> CostMillis b \<le> CostMillis ceiling \<and>
     WallSeconds b \<le> WallSeconds ceiling \<and> ToolCalls b \<le> ToolCalls ceiling"

definition Budget_Exhausts :: "Budget \<Rightarrow> Budget \<Rightarrow> bool" where
  "Budget_Exhausts b ceiling \<longleftrightarrow>
     Tokens b \<ge> Tokens ceiling \<or> CostMillis b \<ge> CostMillis ceiling \<or>
     WallSeconds b \<ge> WallSeconds ceiling \<or> ToolCalls b \<ge> ToolCalls ceiling"

definition Budget_Add :: "Budget \<Rightarrow> Budget \<Rightarrow> Budget" where
  "Budget_Add b other =
     \<lparr>Tokens = wrap64 (Tokens b + Tokens other),
      CostMillis = wrap64 (CostMillis b + CostMillis other),
      WallSeconds = wrap64 (WallSeconds b + WallSeconds other),
      ToolCalls = wrap64 (ToolCalls b + ToolCalls other)\<rparr>"

definition clamp0 :: "int \<Rightarrow> int" where
  "clamp0 x = (if x < 0 then 0 else x)"

definition Budget_Subtract :: "Budget \<Rightarrow> Budget \<Rightarrow> Budget" where
  "Budget_Subtract b other =
     \<lparr>Tokens = clamp0 (wrap64 (Tokens b - Tokens other)),
      CostMillis = clamp0 (wrap64 (CostMillis b - CostMillis other)),
      WallSeconds = clamp0 (wrap64 (WallSeconds b - WallSeconds other)),
      ToolCalls = clamp0 (wrap64 (ToolCalls b - ToolCalls other))\<rparr>"

definition Budget_IsZero :: "Budget \<Rightarrow> bool" where
  "Budget_IsZero b \<longleftrightarrow> b = Budget_zero"

record Resources =
  CPUMillis :: int
  MemoryMB :: int

definition Resources_Add :: "Resources \<Rightarrow> Resources \<Rightarrow> Resources" where
  "Resources_Add r other =
     \<lparr>CPUMillis = wrap64 (CPUMillis r + CPUMillis other),
      MemoryMB = wrap64 (MemoryMB r + MemoryMB other)\<rparr>"

definition Resources_Subtract :: "Resources \<Rightarrow> Resources \<Rightarrow> Resources" where
  "Resources_Subtract r other =
     \<lparr>CPUMillis = clamp0 (wrap64 (CPUMillis r - CPUMillis other)),
      MemoryMB = clamp0 (wrap64 (MemoryMB r - MemoryMB other))\<rparr>"

definition Resources_Fits :: "Resources \<Rightarrow> Resources \<Rightarrow> bool" where
  "Resources_Fits r capacity \<longleftrightarrow>
     CPUMillis r \<le> CPUMillis capacity \<and> MemoryMB r \<le> MemoryMB capacity"

section \<open>Goals\<close>

record ToolGrant =
  tg_Name :: string
  tg_Scope :: string
  tg_Mutating :: bool

record AgentRuntime =
  rt_Name :: string
  rt_Provider :: string
  rt_Model :: string
  rt_Budget :: Budget
  rt_Tools :: "ToolGrant list"
  rt_Queue :: string

record VolumeRef =
  vr_Name :: string
  vr_MountPath :: string
  vr_ReadOnly :: bool
  vr_Checksum :: string

record SecretRef =
  sr_Name :: string
  sr_Version :: string
  sr_MountPath :: string

record Placement =
  MaxPerDomain :: int

record Canary =
  Steps :: "int list"
  HoldFor :: duration

datatype ConcurrencyPolicy = ConcurrencyUnset | ConcurrencyForbid | ConcurrencyAllow
  | ConcurrencyReplace | ConcurrencyOther string

record Schedule =
  Cron :: string
  Deadline :: duration
  Concurrency :: ConcurrencyPolicy
  Completions :: int
  Retries :: int

record IngressRule =
  FromWorkload :: string
  FromCIDR :: string
  in_Port :: int

record EgressRule =
  ToWorkload :: string
  ToCIDR :: string
  eg_Port :: int

record NetworkPolicy =
  np_Workload :: string
  Ingress :: "IngressRule list"
  Egress :: "EgressRule list"

record SignedAttestation =
  StatementBytes :: string
  sa_KeyID :: string
  sa_Signature :: string

record WorkloadSpec =
  wl_Name :: string
  wl_Image :: string
  wl_Replicas :: int
  wl_Port :: int
  wl_Resources :: Resources
  wl_Privileged :: bool
  wl_Stateful :: bool
  wl_Secrets :: "SecretRef list"
  wl_Volumes :: "VolumeRef list"
  wl_Engine :: string
  wl_Runtime :: "AgentRuntime option"
  wl_Policy :: "NetworkPolicy option"
  wl_Schedule :: "Schedule option"
  wl_Placement :: "Placement option"
  wl_Attestation :: "SignedAttestation option"

definition Scheduled :: "WorkloadSpec \<Rightarrow> bool" where
  "Scheduled w \<longleftrightarrow> wl_Schedule w \<noteq> None"

record RouteSpec =
  rs_Host :: string
  rs_Port :: int
  rs_Exposure :: string

record Constraints =
  RequiredLabels :: "string smap"
  AllowedNodes :: "string list"

record Goal =
  g_APIVersion :: string
  g_ID :: string
  g_Objective :: string
  g_Workload :: WorkloadSpec
  g_Route :: "RouteSpec option"
  g_Constraints :: Constraints
  g_Canary :: "Canary option"

section \<open>The world\<close>

datatype HandoffPhase = HandoffQuiesced | HandoffSnapshotted | HandoffTransferred | HandoffAdopted

record VolumeHandoff =
  ho_From :: string
  ho_To :: string
  ho_Phase :: HandoffPhase
  ho_Snapshot :: string
  ho_Checksum :: string

record Volume =
  v_Name :: string
  v_Node :: string
  v_Owner :: string
  v_Generation :: "64 word"
  v_SizeMB :: int
  v_LastSnapshot :: string
  v_Snapshots :: "string smap"
  v_SnapshotOrder :: "string list"
  v_RestoredFrom :: string
  v_VerifiedAt :: time
  v_VerifiedSnapshot :: string
  v_Handoff :: "VolumeHandoff option"
  v_Backups :: "string smap"

record Approval =
  ap_ID :: string
  ap_GoalID :: string
  ap_Scope :: string
  ap_IssuedBy :: string
  ap_Granted :: bool
  ap_IssuedAt :: time
  ap_ExpiresAt :: time
  ap_Revision :: "64 word"
  ap_Subject :: string
  ap_Rollback :: string
  ap_Reason :: string

record ProviderReach =
  pr_Reachable :: bool
  pr_ObservedAt :: time
  pr_ExpiresAt :: time
  pr_Detail :: string

record Node =
  n_ID :: string
  n_Labels :: "string smap"
  n_Capacity :: Resources
  n_Used :: Resources
  n_Images :: "bool smap"
  n_Healthy :: bool
  n_Domain :: string
  n_Cordoned :: bool
  n_CordonReason :: string
  n_Address :: string
  n_GatewayPort :: int
  n_ZoneFingerprint :: string
  n_PolicyFingerprint :: string
  n_Providers :: "ProviderReach smap"
  n_BudgetCapacity :: Budget
  n_BudgetUsed :: Budget

datatype AllocationPhase = AllocationCreated | AllocationRunning | AllocationStopped

record Allocation =
  al_ID :: string
  al_Workload :: string
  al_Replica :: int
  al_Node :: string
  al_Image :: string
  al_Resources :: Resources
  al_Phase :: AllocationPhase
  al_Ready :: bool
  al_Stateful :: bool
  al_Volumes :: "64 word smap"
  al_Secrets :: "string smap"
  al_Address :: string
  al_ExitCode :: int
  al_Restarts :: int
  al_ReadyExpiresAt :: time
  al_ReadySince :: time
  al_Budget :: Budget
  al_Spent :: Budget
  al_Draining :: bool
  al_Task :: string
  al_Tools :: "ToolGrant list"

record Route =
  r_Host :: string
  r_Workload :: string
  r_Port :: int
  r_Exposure :: string

record Queue =
  q_Name :: string
  q_Workload :: string
  q_Depth :: int
  q_InFlight :: int
  q_MaxWorkers :: int
  q_ObservedAt :: time

text \<open>The evidence kinds of \<^verbatim>\<open>src/control/projection.go\<close>, the only vocabulary that advances the world.\<close>

datatype (plugins only: code size) EvidenceKind =
    EvidenceImagePresent | EvidenceAllocationCreated | EvidenceSecretMounted
  | EvidenceVolumeCreated | EvidenceVolumeAttached | EvidenceVolumeDetached
  | EvidenceVolumeSnapshotted | EvidenceVolumeRestored | EvidenceVolumeBackedUp
  | EvidenceVolumeQuiesced | EvidenceVolumeTransferred | EvidenceVolumeAdopted
  | EvidenceSnapshotsPruned | EvidenceBackupVerified | EvidenceDatabaseBackedUp
  | EvidenceNetworkAttached | EvidenceNetworkDetached | EvidenceAllocationRunning
  | EvidenceAllocationReady | EvidenceNodeCordoned | EvidenceNodeUncordoned
  | EvidenceNodeReachable | EvidenceNodeUnreachable | EvidenceAllocationStopped
  | EvidenceAllocationDeleted | EvidenceAllocationFailed | EvidenceRouteReachable
  | EvidenceRouteRemoved | EvidenceToolsGranted | EvidenceAgentReady | EvidenceAgentSpent
  | EvidenceAgentDraining | EvidenceAllocationDrained | EvidenceQueueObserved
  | EvidenceProviderReachable | EvidencePolicyApplied | EvidenceZonePublished
  | EvidenceImagesCollected | EvidenceApprovalGranted | EvidenceApprovalRevoked
  | EvidenceDiagnosisRecorded | EvidenceOther string

record Disruption =
  d_Target :: string
  d_Workload :: string
  d_Node :: string
  d_Domain :: string
  d_Kind :: EvidenceKind
  d_At :: time

record Backoff =
  b_Failures :: int
  b_Until :: time
  b_LastFailure :: time

record World =
  Revision :: "64 word"
  ObservedAt :: time
  Nodes :: "Node smap"
  Allocations :: "Allocation smap"
  Routes :: "Route smap"
  Volumes :: "Volume smap"
  Queues :: "Queue smap"
  Approvals :: "Approval smap"
  KnownGood :: "string smap"
  Disruptions :: "Disruption list"
  Backoffs :: "Backoff smap"

text \<open>\<open>World.Now\<close> falls back to the wall clock when the snapshot carries no time; the
  wall clock reading is an argument.\<close>

definition World_Now :: "time \<Rightarrow> World \<Rightarrow> time" where
  "World_Now wall w = (if IsZero (ObservedAt w) then wall else ObservedAt w)"

definition Approval_Valid :: "Approval option \<Rightarrow> time \<Rightarrow> bool" where
  "Approval_Valid a now = (case a of None \<Rightarrow> False
     | Some a \<Rightarrow> ap_Granted a \<and> (IsZero (ap_ExpiresAt a) \<or> now < ap_ExpiresAt a))"

definition CanReach :: "Node \<Rightarrow> string \<Rightarrow> time \<Rightarrow> bool" where
  "CanReach n provider now = (case map_of (n_Providers n) provider of
       None \<Rightarrow> False
     | Some reach \<Rightarrow> pr_Reachable reach \<and> (IsZero (pr_ExpiresAt reach) \<or> now < pr_ExpiresAt reach))"

definition Exhausted :: "Allocation \<Rightarrow> bool" where
  "Exhausted a \<longleftrightarrow> \<not> Budget_IsZero (al_Budget a) \<and> Budget_Exhausts (al_Spent a) (al_Budget a)"

definition Drained :: "Allocation \<Rightarrow> bool" where
  "Drained a \<longleftrightarrow> al_Draining a \<and> al_Task a = []"

definition ReadyAt :: "Allocation \<Rightarrow> time \<Rightarrow> bool" where
  "ReadyAt a now \<longleftrightarrow> al_Ready a \<and> (IsZero (al_ReadyExpiresAt a) \<or> now < al_ReadyExpiresAt a)"

definition ReadyFor :: "Allocation \<Rightarrow> time \<Rightarrow> duration" where
  "ReadyFor a now =
     (if \<not> ReadyAt a now \<or> IsZero (al_ReadySince a) \<or> now < al_ReadySince a then 0
      else now - al_ReadySince a)"

definition DesiredWorkers :: "Queue option \<Rightarrow> int \<Rightarrow> int" where
  "DesiredWorkers q running = (case q of None \<Rightarrow> running
     | Some q \<Rightarrow>
        let desired = wrap64 (running + q_Depth q);
            desired = (if desired > q_MaxWorkers q then q_MaxWorkers q else desired)
        in if desired < 0 then 0 else desired)"

end
