(* ===== verification/Control_Actions.thy ===== *)
theory Control_Actions
  imports Control_Types
begin

text \<open>
  The plan vocabulary of \<^verbatim>\<open>src/control/types.go\<close>: action kinds, actions, proposals,
  expected-evidence checks, evidence and the events of the log, together with the
  errors the kernel and the projection report.  A Go \<open>error\<close> is \<open>go_error option\<close>
  (\<open>None\<close> is nil) and \<open>(T, error)\<close> is \<open>go_error + T\<close>; an error names the refusal the
  source formats, without the values interpolated into the message.  \<open>Go_panic\<close> is a
  run-time panic.
\<close>

section \<open>Actions and proposals\<close>

datatype (plugins only: code size) ActionKind =
    ActionPullImage | ActionCreateAllocation | ActionAttachNetwork | ActionMountSecret
  | ActionCreateVolume | ActionAttachVolume | ActionDetachVolume | ActionSnapshotVolume
  | ActionRestoreSnapshot | ActionBackupSnapshot | ActionQuiesceVolume | ActionTransferVolume
  | ActionAdoptVolume | ActionPruneSnapshots | ActionCollectImages | ActionVerifyBackup
  | ActionDatabaseBackup | ActionStartAllocation | ActionStopAllocation | ActionDeleteAllocation
  | ActionPublishRoute | ActionApplyPolicy | ActionPublishZone | ActionGrantTools
  | ActionDrainAllocation | ActionCordonNode | ActionUncordonNode | ActionProbeReadiness
  | ActionOther string

record ResolvedEndpoint =
  re_Address :: string
  re_Port :: int
  re_Allocation :: string
  re_Node :: string
  re_Local :: bool

record ServiceZone =
  zone_Node :: string
  zone_Records :: "ResolvedEndpoint list smap"

record CompiledPolicy =
  cp_Node :: string
  cp_Table :: string
  cp_Rules :: "string list"

record ProbeTarget =
  pt_Allocation :: string
  pt_Kind :: string
  pt_Port :: int
  pt_Path :: string
  pt_Provider :: string
  pt_Address :: string
  pt_Engine :: string
  pt_Node :: string

record Action =
  ac_ID :: string
  ac_Kind :: ActionKind
  ac_Target :: string
  ac_Workload :: string
  ac_Node :: string
  ac_Image :: string
  ac_Replica :: int
  ac_Resources :: Resources
  ac_Port :: int
  ac_Exposure :: string
  ac_Volume :: "VolumeRef option"
  ac_Snapshot :: string
  ac_Engine :: string
  ac_Retain :: int
  ac_DryRun :: bool
  ac_Zone :: "ServiceZone option"
  ac_Policy :: "CompiledPolicy option"
  ac_Protected :: "string list"
  ac_Secret :: "SecretRef option"
  ac_Tools :: "ToolGrant list"
  ac_Budget :: Budget
  ac_Reason :: string
  ac_Probe :: "ProbeTarget option"
  ac_DependsOn :: "string list"

datatype CheckKind = CheckAllocationReady | CheckRouteReachable | CheckAgentReady
  | CheckAllocationDrained | CheckOther string

record Check =
  ck_Kind :: CheckKind
  ck_Target :: string
  ck_Want :: string

record AgentDescriptor =
  ad_ID :: string
  ad_Role :: string
  ad_Capabilities :: "ActionKind list"

record Proposal =
  p_ID :: string
  p_AgentID :: string
  p_GoalID :: string
  p_BasedOnRevision :: "64 word"
  p_Reasoning :: string
  p_Actions :: "Action list"
  p_ExpectedEvidence :: "Check list"

section \<open>Evidence\<close>

record Evidence =
  e_Kind :: EvidenceKind
  e_Target :: string
  e_Source :: string
  e_ObservedAt :: time
  e_ExpiresAt :: time
  e_Observed :: "string smap"

definition Evidence_Fresh :: "Evidence \<Rightarrow> time \<Rightarrow> bool" where
  "Evidence_Fresh e now \<longleftrightarrow> IsZero (e_ExpiresAt e) \<or> now < e_ExpiresAt e"

definition obs :: "Evidence \<Rightarrow> string \<Rightarrow> string" where
  "obs e k = mget_str (e_Observed e) k"

section \<open>Kernel policy\<close>

record Policy =
  MaxActionsPerProposal :: int
  Grants :: "(ActionKind, bool) gomap smap"
  MaxDisruptionsPerWindow :: int
  DisruptionWindow :: duration
  DisruptionCooldown :: duration
  ImageSigners :: "string smap"
  RequireSignedImages :: bool
  ClusterCeiling :: Resources
  MaxAllocations :: int
  ClusterBudget :: Budget

section \<open>Errors\<close>

datatype (plugins only: code size) plan_error =
    Actor_mismatch | Identity_mismatch | Stale_proposal | No_actions | Too_many_actions
  | No_grants | Bad_action_id | Not_granted | Unsatisfied_dependency | Unknown_action_kind
  | Missing_evidence_check | Disruption_budget | Many_domains | Domain_cooldown | In_backoff
  | Attestation_missing | Attestation_refused | Cluster_allocations | Cluster_cpu
  | Cluster_memory | Cluster_agent_budget | Unsupported_action

datatype (plugins only: code size) alloc_error =
    Allocation_exists | Allocation_missing | Wrong_phase | Workload_differs | Image_not_pinned
  | Image_absent | Resources_differ | No_capacity | Replica_out_of_range | Domain_full
  | Placement_violated | Budget_not_agent | Budget_differs | Provider_unreachable
  | No_budget_capacity | Secret_nil | Secret_undeclared | Secret_missing | Tool_undeclared
  | Not_an_agent | No_address | No_tool_grant | No_budget | Budget_exhausted | Must_drain
  | Task_held | Availability_floor | Volumes_held

datatype (plugins only: code size) volume_error =
    Volume_nil | Volume_undeclared | Volume_elsewhere | Volume_missing | Volume_owned
  | Volume_moving | Volume_not_colocated | Volume_not_owner | Volume_writer_running
  | Volume_is_database | Volume_attached | Volume_same_node | No_handoff | Handoff_phase
  | Handoff_target | Label_missing | Not_a_database | Volume_unattached | Snapshot_id_missing
  | Snapshot_unknown | Retain_too_small | Volume_fenced | Volume_not_held
  | Checksum_missing | Checksum_mismatch | Location_missing

datatype (plugins only: code size) node_error =
    Node_unavailable | Node_cordoned | Node_required | Node_missing | Policy_nil
  | Policy_wrong_node | Policy_wrong_table | Policy_empty | Zone_nil | Zone_wrong_node
  | Node_unhealthy | Image_unprotected | Route_not_requested | Route_differs | Not_ready

datatype (plugins only: code size) evidence_error =
    Unknown_evidence_kind | No_image_observed | Target_missing | Resources_not_positive
  | Unknown_node | Unknown_volume | Unknown_allocation | Unknown_queue
  | Allocation_unobserved | Secret_unobserved | Address_missing | Goal_or_scope_missing | Ungated_scope

datatype go_error =
    Plan plan_error
  | Alloc alloc_error
  | Vol volume_error
  | Nod node_error
  | Approval_required string
  | Ev evidence_error
  | Go_panic

end
