(* ===== verification/Control_Placement.thy ===== *)
theory Control_Placement
  imports Control_Actions
begin

text \<open>
  Where allocations may go and how much the cluster may hold: \<^verbatim>\<open>src/control/spread.go\<close>
  (failure domains and the per-domain ceiling), \<^verbatim>\<open>src/control/node_lifecycle.go\<close>
  (cordons and evacuation), \<^verbatim>\<open>src/control/clusterbudget.go\<close> (cluster-wide ceilings)
  and the placement helpers of \<^verbatim>\<open>src/control/policy.go\<close>.
\<close>

section \<open>Spread across failure domains\<close>

definition AllocationID :: "string \<Rightarrow> int \<Rightarrow> string" where
  "AllocationID workload replica = workload @ ''-'' @ itoa replica"

definition Placement_Validate :: "Placement option \<Rightarrow> bool" where
  "Placement_Validate p = (case p of None \<Rightarrow> True | Some p \<Rightarrow> \<not> MaxPerDomain p < 0)"

definition Goal_MaxPerDomain :: "Goal \<Rightarrow> int" where
  "Goal_MaxPerDomain g = (case wl_Placement (g_Workload g) of None \<Rightarrow> 0 | Some p \<Rightarrow> MaxPerDomain p)"

definition FailureDomain :: "Node option \<Rightarrow> string" where
  "FailureDomain n = (case n of None \<Rightarrow> []
     | Some n \<Rightarrow> if n_Domain n \<noteq> [] then n_Domain n else n_ID n)"

definition Schedulable :: "Node \<Rightarrow> bool" where
  "Schedulable n \<longleftrightarrow> n_Healthy n \<and> \<not> n_Cordoned n"

definition count_domain :: "World \<Rightarrow> string \<Rightarrow> int smap \<Rightarrow> Allocation \<Rightarrow> int smap" where
  "count_domain w workload counts a =
     (if al_Workload a \<noteq> workload \<or> al_Phase a = AllocationStopped then counts
      else case map_of (Nodes w) (al_Node a) of
             None \<Rightarrow> counts
           | Some n \<Rightarrow> let d = FailureDomain (Some n) in mput d (mget_int counts d + 1) counts)"

definition DomainOccupancy :: "World \<Rightarrow> string \<Rightarrow> int smap" where
  "DomainOccupancy w workload = foldl (count_domain w workload) [] (mvals (Allocations w))"

definition FailureDomains :: "World \<Rightarrow> string list" where
  "FailureDomains w =
     sort (remdups (map (\<lambda>n. FailureDomain (Some n)) (filter Schedulable (mvals (Nodes w)))))"

definition checkSpread :: "Goal \<Rightarrow> World \<Rightarrow> Action \<Rightarrow> go_error option" where
  "checkSpread goal w a =
     (let ceiling = Goal_MaxPerDomain goal in
      if ceiling \<le> 0 then None
      else case map_of (Nodes w) (ac_Node a) of
             None \<Rightarrow> None
           | Some n \<Rightarrow>
               if mget_int (DomainOccupancy w (wl_Name (g_Workload goal))) (FailureDomain (Some n)) \<ge> ceiling
               then Some (Alloc Domain_full) else None)"

definition validateSpread :: "Goal \<Rightarrow> World \<Rightarrow> bool" where
  "validateSpread goal w =
     (Placement_Validate (wl_Placement (g_Workload goal)) \<and>
      (let ceiling = Goal_MaxPerDomain goal in
       ceiling \<le> 0 \<or>
       \<not> wrap64 (int (length (FailureDomains w)) * ceiling) < wl_Replicas (g_Workload goal)))"

text \<open>What the occupancy loop computes: the live allocations of the workload whose node the
  world knows and places in the domain.\<close>

definition in_domain :: "World \<Rightarrow> string \<Rightarrow> string \<Rightarrow> Allocation \<Rightarrow> bool" where
  "in_domain w workload d a \<longleftrightarrow>
     al_Workload a = workload \<and> al_Phase a \<noteq> AllocationStopped \<and>
     (\<exists>n. map_of (Nodes w) (al_Node a) = Some n \<and> FailureDomain (Some n) = d)"

lemma foldl_count_domain:
  "mget_int (foldl (count_domain w wl) m as) d
    = mget_int m d + int (length (filter (in_domain w wl d) as))"
proof (induction as arbitrary: m)
  case (Cons a as)
  have "mget_int (count_domain w wl m a) d = mget_int m d + (if in_domain w wl d a then 1 else 0)"
    by (auto simp: count_domain_def in_domain_def mget_int_def Let_def split: option.splits)
  then show ?case using Cons [of "count_domain w wl m a"] by simp
qed simp

lemma DomainOccupancy_count:
  "mget_int (DomainOccupancy w wl) d
    = int (length (filter (in_domain w wl d) (mvals (Allocations w))))"
  by (simp add: DomainOccupancy_def foldl_count_domain mget_int_def [of "[]"])

lemma checkSpread_None:
  assumes "checkSpread goal w a = None" "Goal_MaxPerDomain goal > 0"
    "map_of (Nodes w) (ac_Node a) = Some n"
  shows "int (length (filter (in_domain w (wl_Name (g_Workload goal)) (FailureDomain (Some n)))
           (mvals (Allocations w)))) < Goal_MaxPerDomain goal"
  using assms by (simp add: checkSpread_def DomainOccupancy_count split: if_splits)

section \<open>Placement helpers\<close>

definition nodeAllowed :: "Constraints \<Rightarrow> Node \<Rightarrow> bool" where
  "nodeAllowed c n \<longleftrightarrow>
     (AllowedNodes c \<noteq> [] \<longrightarrow> list_ex (\<lambda>i. n_ID n = i) (AllowedNodes c)) \<and>
     list_all (\<lambda>(k, v). mget_str (n_Labels n) k = v) (RequiredLabels c)"

definition authorizedReplicas :: "Goal \<Rightarrow> World \<Rightarrow> int" where
  "authorizedReplicas goal w =
     (case wl_Runtime (g_Workload goal) of
        None \<Rightarrow> wl_Replicas (g_Workload goal)
      | Some rt \<Rightarrow>
          if rt_Queue rt = [] then wl_Replicas (g_Workload goal)
          else case map_of (Queues w) (rt_Queue rt) of
                 None \<Rightarrow> wl_Replicas (g_Workload goal)
               | Some q \<Rightarrow>
                   if q_Workload q \<noteq> wl_Name (g_Workload goal) then wl_Replicas (g_Workload goal)
                   else if q_MaxWorkers q > wl_Replicas (g_Workload goal) then q_MaxWorkers q
                   else wl_Replicas (g_Workload goal))"

section \<open>Node lifecycle\<close>

definition ControlPlaneLocal :: "ActionKind \<Rightarrow> bool" where
  "ControlPlaneLocal k = (case k of ActionCordonNode \<Rightarrow> True | ActionUncordonNode \<Rightarrow> True | _ \<Rightarrow> False)"

definition CordonEvidence :: "Action \<Rightarrow> go_error + Evidence" where
  "CordonEvidence a =
     (if ac_Target a = [] then Inl (Nod Node_required)
      else Inr \<lparr>e_Kind = (if ac_Kind a = ActionUncordonNode then EvidenceNodeUncordoned
                          else EvidenceNodeCordoned),
                e_Target = ac_Target a, e_Source = [], e_ObservedAt = 0, e_ExpiresAt = 0,
                e_Observed = [(''node'', ac_Target a), (''reason'', ac_Reason a)]\<rparr>)"

definition validateCordonNode :: "Goal \<Rightarrow> World \<Rightarrow> Action \<Rightarrow> go_error option" where
  "validateCordonNode goal w a =
     (if ac_Target a = [] then Some (Nod Node_required)
      else if map_of (Nodes w) (ac_Target a) = None then Some (Nod Node_missing)
      else None)"

definition validateUncordonNode :: "Goal \<Rightarrow> World \<Rightarrow> Action \<Rightarrow> go_error option" where
  "validateUncordonNode goal w a =
     (if ac_Target a = [] then Some (Nod Node_required)
      else if map_of (Nodes w) (ac_Target a) = None then Some (Nod Node_missing)
      else None)"

record NodeEvacuation =
  ne_Node :: string
  ne_Allocations :: "string list"
  ne_Stateful :: "string list"

definition PlanEvacuation :: "World \<Rightarrow> string \<Rightarrow> NodeEvacuation" where
  "PlanEvacuation w node =
     (let live = filter (\<lambda>a. al_Node a = node \<and> al_Phase a \<noteq> AllocationStopped) (mvals (Allocations w))
      in \<lparr>ne_Node = node, ne_Allocations = sort (map al_ID live),
          ne_Stateful = sort (map al_ID (filter al_Stateful live))\<rparr>)"

definition UnhealthyNodes :: "World \<Rightarrow> string list" where
  "UnhealthyNodes w =
     sort (map fst (filter (\<lambda>(i, n). \<not> n_Healthy n \<and> \<not> n_Cordoned n) (Nodes w)))"

section \<open>Cluster ceilings\<close>

record ClusterCommitment =
  cc_Allocations :: int
  cc_Resources :: Resources
  cc_Budget :: Budget

definition no_commitment :: ClusterCommitment where
  "no_commitment = \<lparr>cc_Allocations = 0, cc_Resources = \<lparr>CPUMillis = 0, MemoryMB = 0\<rparr>,
                    cc_Budget = Budget_zero\<rparr>"

definition commit :: "ClusterCommitment \<Rightarrow> Resources \<Rightarrow> Budget \<Rightarrow> ClusterCommitment" where
  "commit c r b = \<lparr>cc_Allocations = cc_Allocations c + 1,
                   cc_Resources = Resources_Add (cc_Resources c) r,
                   cc_Budget = Budget_Add (cc_Budget c) b\<rparr>"

definition Commitment :: "World \<Rightarrow> ClusterCommitment" where
  "Commitment w =
     foldl (\<lambda>c a. if al_Phase a = AllocationStopped then c else commit c (al_Resources a) (al_Budget a))
       no_commitment (mvals (Allocations w))"

definition exceeds :: "int \<Rightarrow> int \<Rightarrow> bool" where
  "exceeds tot ceil \<longleftrightarrow> ceil > 0 \<and> tot > ceil"

definition proposal_adding :: "Proposal \<Rightarrow> ClusterCommitment" where
  "proposal_adding p =
     foldl (\<lambda>c a. if ac_Kind a \<noteq> ActionCreateAllocation then c else commit c (ac_Resources a) (ac_Budget a))
       no_commitment (p_Actions p)"

definition checkClusterBudget :: "Policy \<Rightarrow> World \<Rightarrow> Proposal \<Rightarrow> go_error option" where
  "checkClusterBudget pol w p =
     (let adding = proposal_adding p in
      if cc_Allocations adding = 0 then None
      else let held = Commitment w;
               tot = Resources_Add (cc_Resources held) (cc_Resources adding);
               committed = Budget_Add (cc_Budget held) (cc_Budget adding);
               ceiling = ClusterCeiling pol; spend = ClusterBudget pol
           in if exceeds (cc_Allocations held + cc_Allocations adding) (MaxAllocations pol)
                then Some (Plan Cluster_allocations)
              else if exceeds (CPUMillis tot) (CPUMillis ceiling) then Some (Plan Cluster_cpu)
              else if exceeds (MemoryMB tot) (MemoryMB ceiling) then Some (Plan Cluster_memory)
              else if list_ex (\<lambda>(t, c). exceeds t c)
                        [(Tokens committed, Tokens spend), (CostMillis committed, CostMillis spend),
                         (WallSeconds committed, WallSeconds spend), (ToolCalls committed, ToolCalls spend)]
                then Some (Plan Cluster_agent_budget)
              else None)"

lemma foldl_commit_allocations:
  "cc_Allocations (foldl (\<lambda>c x. if P x then c else commit c (r x) (b x)) c xs)
    = cc_Allocations c + int (length (filter (\<lambda>x. \<not> P x) xs))"
  by (induction xs arbitrary: c) (auto simp: commit_def)

lemma Commitment_Allocations:
  "cc_Allocations (Commitment w)
    = int (length (filter (\<lambda>a. al_Phase a \<noteq> AllocationStopped) (mvals (Allocations w))))"
  by (simp add: Commitment_def foldl_commit_allocations no_commitment_def)

lemma proposal_adding_Allocations:
  "cc_Allocations (proposal_adding p)
    = int (length (filter (\<lambda>a. ac_Kind a = ActionCreateAllocation) (p_Actions p)))"
  using foldl_commit_allocations [of "\<lambda>a. ac_Kind a \<noteq> ActionCreateAllocation"
      ac_Resources ac_Budget no_commitment "p_Actions p"]
  by (simp add: proposal_adding_def no_commitment_def)

end
