(* ===== verification/Control_Policy.thy ===== *)
theory Control_Policy
  imports Control_Placement
begin

text \<open>
  The action validators of \<^verbatim>\<open>src/control/policy.go\<close>: one definition per action kind,
  each the complete argument for why the kernel lets that action through, and the
  dispatch \<open>validateAction\<close>.  \<open>wall\<close> is the wall clock that \<open>World.Now\<close> falls back to.
\<close>

section \<open>Helpers\<close>

definition hasApproval :: "time \<Rightarrow> World \<Rightarrow> string \<Rightarrow> string \<Rightarrow> bool" where
  "hasApproval wall w goal_id scope =
     list_ex (\<lambda>ap. ap_GoalID ap = goal_id \<and> ap_Scope ap = scope
                   \<and> Approval_Valid (Some ap) (World_Now wall w)) (mvals (Approvals w))"

definition disruptionFloor :: "Goal \<Rightarrow> int" where
  "disruptionFloor goal =
     (if wl_Replicas (g_Workload goal) \<le> 1 then 0 else wl_Replicas (g_Workload goal) - 1)"

definition servingAllocations :: "time \<Rightarrow> Goal \<Rightarrow> World \<Rightarrow> int" where
  "servingAllocations wall goal w =
     msum (\<lambda>a. if al_Workload a = wl_Name (g_Workload goal) \<and> ReadyAt a (World_Now wall w)
               then 1 else 0) (Allocations w)"

definition matching_ready :: "time \<Rightarrow> Goal \<Rightarrow> World \<Rightarrow> Allocation \<Rightarrow> bool" where
  "matching_ready now goal w a = (case map_of (Nodes w) (al_Node a) of
       None \<Rightarrow> False
     | Some n \<Rightarrow> ReadyAt a now \<and> al_Workload a = wl_Name (g_Workload goal) \<and>
         al_Image a = wl_Image (g_Workload goal) \<and> al_Resources a = wl_Resources (g_Workload goal) \<and>
         nodeAllowed (g_Constraints goal) n \<and> \<not> (al_Draining a \<or> Exhausted a))"

definition matchingReadyAllocations :: "time \<Rightarrow> Goal \<Rightarrow> World \<Rightarrow> int" where
  "matchingReadyAllocations wall goal w =
     msum (\<lambda>a. if matching_ready (World_Now wall w) goal w a then 1 else 0) (Allocations w)"

definition goalDeclaresSecret :: "Goal \<Rightarrow> SecretRef \<Rightarrow> bool" where
  "goalDeclaresSecret goal ref = list_ex (\<lambda>d. d = ref) (wl_Secrets (g_Workload goal))"

definition goalDeclaresTool :: "Goal \<Rightarrow> ToolGrant \<Rightarrow> bool" where
  "goalDeclaresTool goal grant = (case wl_Runtime (g_Workload goal) of
     None \<Rightarrow> False | Some rt \<Rightarrow> list_ex (\<lambda>d. d = grant) (rt_Tools rt))"

definition actionGrantsMutatingTool :: "Action \<Rightarrow> bool" where
  "actionGrantsMutatingTool a = list_ex tg_Mutating (ac_Tools a)"

definition workloadDeclaresVolume :: "Goal \<Rightarrow> string \<Rightarrow> bool" where
  "workloadDeclaresVolume goal name = list_ex (\<lambda>r. vr_Name r = name) (wl_Volumes (g_Workload goal))"

definition ProtectedImages :: "World \<Rightarrow> string list" where
  "ProtectedImages w =
     sort (remdups (map al_Image (filter (\<lambda>a. al_Image a \<noteq> []) (mvals (Allocations w)))))"

definition validateAgentPlacement :: "Goal \<Rightarrow> Node \<Rightarrow> Action \<Rightarrow> time \<Rightarrow> go_error option" where
  "validateAgentPlacement goal n a now = (case wl_Runtime (g_Workload goal) of
       None \<Rightarrow> if \<not> Budget_IsZero (ac_Budget a) then Some (Alloc Budget_not_agent) else None
     | Some rt \<Rightarrow>
         if ac_Budget a \<noteq> rt_Budget rt then Some (Alloc Budget_differs)
         else if \<not> CanReach n (rt_Provider rt) now then Some (Alloc Provider_unreachable)
         else if \<not> Budget_Fits (Budget_Add (n_BudgetUsed n) (ac_Budget a)) (n_BudgetCapacity n)
           then Some (Alloc No_budget_capacity)
         else None)"

section \<open>Images and allocations\<close>

definition validatePullImage :: "Goal \<Rightarrow> World \<Rightarrow> Action \<Rightarrow> go_error option" where
  "validatePullImage goal w a = (case map_of (Nodes w) (ac_Node a) of
       None \<Rightarrow> Some (Nod Node_unavailable)
     | Some n \<Rightarrow>
         if \<not> n_Healthy n then Some (Nod Node_unavailable)
         else if ac_Image a \<noteq> wl_Image (g_Workload goal) \<or> \<not> contains (ac_Image a) ''@sha256:''
           then Some (Alloc Image_not_pinned)
         else None)"

definition validateCreateAllocation :: "time \<Rightarrow> Goal \<Rightarrow> World \<Rightarrow> Action \<Rightarrow> go_error option" where
  "validateCreateAllocation wall goal w a =
     (if mhas (Allocations w) (ac_Target a) then Some (Alloc Allocation_exists)
      else case map_of (Nodes w) (ac_Node a) of
        None \<Rightarrow> Some (Nod Node_unavailable)
      | Some n \<Rightarrow>
          if \<not> n_Healthy n then Some (Nod Node_unavailable)
          else if n_Cordoned n then Some (Nod Node_cordoned)
          else if \<not> nodeAllowed (g_Constraints goal) n then Some (Alloc Placement_violated)
          else if ac_Workload a \<noteq> wl_Name (g_Workload goal) then Some (Alloc Workload_differs)
          else if ac_Image a \<noteq> wl_Image (g_Workload goal) \<or> \<not> mget_bool (n_Images n) (ac_Image a)
            then Some (Alloc Image_absent)
          else if ac_Resources a \<noteq> wl_Resources (g_Workload goal) then Some (Alloc Resources_differ)
          else if \<not> Resources_Fits (Resources_Add (n_Used n) (ac_Resources a)) (n_Capacity n)
            then Some (Alloc No_capacity)
          else if ac_Replica a < 0 \<or> ac_Replica a \<ge> authorizedReplicas goal w
            then Some (Alloc Replica_out_of_range)
          else case checkSpread goal w a of
                 Some err \<Rightarrow> Some err
               | None \<Rightarrow> validateAgentPlacement goal n a (World_Now wall w))"

definition validateMountSecret :: "Goal \<Rightarrow> World \<Rightarrow> Action \<Rightarrow> go_error option" where
  "validateMountSecret goal w a = (case map_of (Allocations w) (ac_Target a) of
       None \<Rightarrow> Some (Alloc Allocation_missing)
     | Some al \<Rightarrow>
         if al_Phase al \<noteq> AllocationCreated then Some (Alloc Wrong_phase)
         else case ac_Secret a of
                None \<Rightarrow> Some (Alloc Secret_nil)
              | Some s \<Rightarrow> if \<not> goalDeclaresSecret goal s then Some (Alloc Secret_undeclared) else None)"

definition validateGrantTools :: "time \<Rightarrow> Goal \<Rightarrow> World \<Rightarrow> Action \<Rightarrow> go_error option" where
  "validateGrantTools wall goal w a = (case map_of (Allocations w) (ac_Target a) of
       None \<Rightarrow> Some (Alloc Allocation_missing)
     | Some al \<Rightarrow>
         if al_Phase al \<noteq> AllocationCreated then Some (Alloc Wrong_phase)
         else if wl_Runtime (g_Workload goal) = None then Some (Alloc Not_an_agent)
         else if list_ex (\<lambda>g. \<not> goalDeclaresTool goal g) (ac_Tools a) then Some (Alloc Tool_undeclared)
         else if actionGrantsMutatingTool a \<and> \<not> hasApproval wall w (g_ID goal) ''agent-mutating-tools''
           then Some (Approval_required ''agent-mutating-tools'')
         else None)"

definition validateDrainAllocation :: "Goal \<Rightarrow> World \<Rightarrow> Action \<Rightarrow> go_error option" where
  "validateDrainAllocation goal w a = (case map_of (Allocations w) (ac_Target a) of
       None \<Rightarrow> Some (Alloc Allocation_missing)
     | Some al \<Rightarrow>
         if al_Phase al \<noteq> AllocationRunning then Some (Alloc Wrong_phase)
         else if wl_Runtime (g_Workload goal) = None then Some (Alloc Not_an_agent)
         else if ac_Workload a \<noteq> al_Workload al then Some (Alloc Workload_differs)
         else None)"

definition validateAttachNetwork :: "Goal \<Rightarrow> World \<Rightarrow> Action \<Rightarrow> go_error option" where
  "validateAttachNetwork goal w a = (case map_of (Allocations w) (ac_Target a) of
       None \<Rightarrow> Some (Alloc Allocation_missing)
     | Some al \<Rightarrow>
         if al_Phase al \<noteq> AllocationCreated then Some (Alloc Wrong_phase)
         else if ac_Workload a \<noteq> al_Workload al then Some (Alloc Workload_differs)
         else None)"

fun start_volumes :: "World \<Rightarrow> Allocation \<Rightarrow> string \<Rightarrow> VolumeRef list \<Rightarrow> go_error option" where
  "start_volumes w al target [] = None"
| "start_volumes w al target (ref # refs) = (case map_of (Volumes w) (vr_Name ref) of
       None \<Rightarrow> Some (Vol Volume_missing)
     | Some v \<Rightarrow> (case map_of (al_Volumes al) (vr_Name ref) of
           None \<Rightarrow> Some (Vol Volume_not_held)
         | Some attached \<Rightarrow>
             if attached \<noteq> v_Generation v then Some (Vol Volume_fenced)
             else if v_Owner v \<noteq> target then Some (Vol Volume_not_owner)
             else start_volumes w al target refs))"

definition start_runtime :: "Goal \<Rightarrow> Allocation \<Rightarrow> go_error option" where
  "start_runtime goal al = (case wl_Runtime (g_Workload goal) of
       None \<Rightarrow> None
     | Some rt \<Rightarrow>
         if rt_Tools rt \<noteq> [] \<and> al_Tools al = [] then Some (Alloc No_tool_grant)
         else if Budget_IsZero (al_Budget al) then Some (Alloc No_budget)
         else if Exhausted al then Some (Alloc Budget_exhausted)
         else None)"

definition validateStartAllocation :: "Goal \<Rightarrow> World \<Rightarrow> Action \<Rightarrow> go_error option" where
  "validateStartAllocation goal w a = (case map_of (Allocations w) (ac_Target a) of
       None \<Rightarrow> Some (Alloc Wrong_phase)
     | Some al \<Rightarrow>
         if al_Phase al \<noteq> AllocationCreated then Some (Alloc Wrong_phase)
         else if ac_Workload a \<noteq> wl_Name (g_Workload goal) \<or> al_Workload al \<noteq> ac_Workload a
           then Some (Alloc Workload_differs)
         else case start_volumes w al (ac_Target a) (wl_Volumes (g_Workload goal)) of
                Some err \<Rightarrow> Some err
              | None \<Rightarrow>
                  if list_ex (\<lambda>r. mget_str (al_Secrets al) (sr_Name r) \<noteq> sr_Version r)
                       (wl_Secrets (g_Workload goal)) then Some (Alloc Secret_missing)
                  else if wl_Port (g_Workload goal) > 0 \<and> al_Address al = [] then Some (Alloc No_address)
                  else start_runtime goal al)"

definition validateStopAllocation :: "time \<Rightarrow> Goal \<Rightarrow> World \<Rightarrow> Action \<Rightarrow> go_error option" where
  "validateStopAllocation wall goal w a = (case map_of (Allocations w) (ac_Target a) of
       None \<Rightarrow> Some (Alloc Allocation_missing)
     | Some al \<Rightarrow>
         if al_Phase al \<noteq> AllocationRunning then Some (Alloc Wrong_phase)
         else if ac_Workload a \<noteq> al_Workload al then Some (Alloc Workload_differs)
         else if wl_Runtime (g_Workload goal) \<noteq> None \<and> al_Task al \<noteq> [] \<and> \<not> Exhausted al
           then (if \<not> al_Draining al then Some (Alloc Must_drain) else Some (Alloc Task_held))
         else if ReadyAt al (World_Now wall w)
                 \<and> servingAllocations wall goal w - 1 < disruptionFloor goal
           then Some (Alloc Availability_floor)
         else None)"

definition validateDeleteAllocation :: "time \<Rightarrow> Goal \<Rightarrow> World \<Rightarrow> Action \<Rightarrow> go_error option" where
  "validateDeleteAllocation wall goal w a = (case map_of (Allocations w) (ac_Target a) of
       None \<Rightarrow> Some (Alloc Allocation_missing)
     | Some al \<Rightarrow>
         if al_Phase al = AllocationRunning then Some (Alloc Wrong_phase)
         else if ac_Workload a \<noteq> al_Workload al then Some (Alloc Workload_differs)
         else if al_Volumes al \<noteq> [] then Some (Alloc Volumes_held)
         else if al_Stateful al \<and> \<not> hasApproval wall w (g_ID goal) ''destroy-stateful''
           then Some (Approval_required ''destroy-stateful'')
         else None)"

section \<open>Volumes\<close>

definition validateCreateVolume :: "Goal \<Rightarrow> World \<Rightarrow> Action \<Rightarrow> go_error option" where
  "validateCreateVolume goal w a = (case ac_Volume a of
       None \<Rightarrow> Some (Vol Volume_nil)
     | Some ref \<Rightarrow>
         if \<not> workloadDeclaresVolume goal (vr_Name ref) then Some (Vol Volume_undeclared)
         else case map_of (Nodes w) (ac_Node a) of
             None \<Rightarrow> Some (Nod Node_unavailable)
           | Some n \<Rightarrow>
               if \<not> n_Healthy n then Some (Nod Node_unavailable)
               else if n_Cordoned n then Some (Nod Node_cordoned)
               else case map_of (Volumes w) (vr_Name ref) of
                      Some v \<Rightarrow> if v_Node v \<noteq> ac_Node a then Some (Vol Volume_elsewhere) else None
                    | None \<Rightarrow> None)"

definition validateAttachVolume :: "Goal \<Rightarrow> World \<Rightarrow> Action \<Rightarrow> go_error option" where
  "validateAttachVolume goal w a = (case ac_Volume a of
       None \<Rightarrow> Some (Vol Volume_nil)
     | Some ref \<Rightarrow> (case map_of (Allocations w) (ac_Target a) of
         None \<Rightarrow> Some (Alloc Allocation_missing)
       | Some al \<Rightarrow>
           if al_Phase al \<noteq> AllocationCreated then Some (Alloc Wrong_phase)
           else case map_of (Volumes w) (vr_Name ref) of
               None \<Rightarrow> Some (Vol Volume_missing)
             | Some v \<Rightarrow>
                 if \<not> workloadDeclaresVolume goal (vr_Name ref) then Some (Vol Volume_undeclared)
                 else if v_Owner v \<noteq> [] \<and> v_Owner v \<noteq> ac_Target a then Some (Vol Volume_owned)
                 else if v_Handoff v \<noteq> None then Some (Vol Volume_moving)
                 else if v_Node v \<noteq> al_Node al then Some (Vol Volume_not_colocated)
                 else None))"

definition validateDetachVolume :: "Goal \<Rightarrow> World \<Rightarrow> Action \<Rightarrow> go_error option" where
  "validateDetachVolume goal w a = (case ac_Volume a of
       None \<Rightarrow> Some (Vol Volume_nil)
     | Some ref \<Rightarrow> (case map_of (Volumes w) (vr_Name ref) of
         None \<Rightarrow> Some (Vol Volume_missing)
       | Some v \<Rightarrow>
           if v_Owner v \<noteq> [] \<and> v_Owner v \<noteq> ac_Target a then Some (Vol Volume_not_owner)
           else case map_of (Allocations w) (ac_Target a) of
                  Some al \<Rightarrow> if al_Phase al = AllocationRunning then Some (Vol Volume_writer_running)
                             else None
                | None \<Rightarrow> None))"

definition validateSnapshotVolume :: "Goal \<Rightarrow> World \<Rightarrow> Action \<Rightarrow> go_error option" where
  "validateSnapshotVolume goal w a = (case ac_Volume a of
       None \<Rightarrow> Some (Vol Volume_nil)
     | Some ref \<Rightarrow> (case map_of (Volumes w) (vr_Name ref) of
         None \<Rightarrow> Some (Vol Volume_missing)
       | Some v \<Rightarrow>
           if wl_Engine (g_Workload goal) \<noteq> [] then Some (Vol Volume_is_database)
           else if v_Owner v \<noteq> [] then Some (Vol Volume_attached)
           else None))"

definition validateQuiesceVolume :: "time \<Rightarrow> Goal \<Rightarrow> World \<Rightarrow> Action \<Rightarrow> go_error option" where
  "validateQuiesceVolume wall goal w a = (case ac_Volume a of
       None \<Rightarrow> Some (Vol Volume_nil)
     | Some ref \<Rightarrow> (case map_of (Volumes w) (vr_Name ref) of
         None \<Rightarrow> Some (Vol Volume_missing)
       | Some v \<Rightarrow>
           if v_Owner v \<noteq> [] then Some (Vol Volume_attached)
           else case map_of (Nodes w) (ac_Node a) of
               None \<Rightarrow> Some (Nod Node_unavailable)
             | Some n \<Rightarrow>
                 if \<not> n_Healthy n then Some (Nod Node_unavailable)
                 else if n_Cordoned n then Some (Nod Node_cordoned)
                 else if ac_Node a = v_Node v then Some (Vol Volume_same_node)
                 else if \<not> hasApproval wall w (g_ID goal) ''move-volume''
                   then Some (Approval_required ''move-volume'')
                 else None))"

definition validateTransferVolume :: "Goal \<Rightarrow> World \<Rightarrow> Action \<Rightarrow> go_error option" where
  "validateTransferVolume goal w a = (case ac_Volume a of
       None \<Rightarrow> Some (Vol Volume_nil)
     | Some ref \<Rightarrow> (case map_of (Volumes w) (vr_Name ref) of
         None \<Rightarrow> Some (Vol Volume_missing)
       | Some v \<Rightarrow> (case v_Handoff v of
             None \<Rightarrow> Some (Vol No_handoff)
           | Some h \<Rightarrow>
               if ho_Phase h \<noteq> HandoffSnapshotted then Some (Vol Handoff_phase)
               else if ac_Node a \<noteq> ho_To h then Some (Vol Handoff_target)
               else None)))"

definition validateAdoptVolume :: "Goal \<Rightarrow> World \<Rightarrow> Action \<Rightarrow> go_error option" where
  "validateAdoptVolume goal w a = (case ac_Volume a of
       None \<Rightarrow> Some (Vol Volume_nil)
     | Some ref \<Rightarrow> (case map_of (Volumes w) (vr_Name ref) of
         None \<Rightarrow> Some (Vol Volume_missing)
       | Some v \<Rightarrow> (case v_Handoff v of
             None \<Rightarrow> Some (Vol No_handoff)
           | Some h \<Rightarrow>
               if ho_Phase h \<noteq> HandoffTransferred then Some (Vol Handoff_phase)
               else if ac_Node a \<noteq> ho_To h then Some (Vol Handoff_target)
               else None)))"

definition validateDatabaseBackup :: "Goal \<Rightarrow> World \<Rightarrow> Action \<Rightarrow> go_error option" where
  "validateDatabaseBackup goal w a = (case ac_Volume a of
       None \<Rightarrow> Some (Vol Volume_nil)
     | Some ref \<Rightarrow>
         if ac_Snapshot a = [] then Some (Vol Label_missing)
         else if wl_Engine (g_Workload goal) = [] then Some (Vol Not_a_database)
         else case map_of (Volumes w) (vr_Name ref) of
             None \<Rightarrow> Some (Vol Volume_missing)
           | Some v \<Rightarrow> if v_Owner v = [] then Some (Vol Volume_unattached) else None)"

definition validateVerifyBackup :: "Goal \<Rightarrow> World \<Rightarrow> Action \<Rightarrow> go_error option" where
  "validateVerifyBackup goal w a = (case ac_Volume a of
       None \<Rightarrow> Some (Vol Volume_nil)
     | Some ref \<Rightarrow>
         if ac_Snapshot a = [] then Some (Vol Snapshot_id_missing)
         else case map_of (Volumes w) (vr_Name ref) of
             None \<Rightarrow> Some (Vol Volume_missing)
           | Some v \<Rightarrow> if \<not> mhas (v_Snapshots v) (ac_Snapshot a) then Some (Vol Snapshot_unknown)
                       else None)"

definition validatePruneSnapshots :: "Goal \<Rightarrow> World \<Rightarrow> Action \<Rightarrow> go_error option" where
  "validatePruneSnapshots goal w a = (case ac_Volume a of
       None \<Rightarrow> Some (Vol Volume_nil)
     | Some ref \<Rightarrow> (case map_of (Volumes w) (vr_Name ref) of
         None \<Rightarrow> Some (Vol Volume_missing)
       | Some v \<Rightarrow> if ac_Retain a < 1 then Some (Vol Retain_too_small)
                   else if v_Handoff v \<noteq> None then Some (Vol Volume_moving)
                   else None))"

definition validateBackupSnapshot :: "Goal \<Rightarrow> World \<Rightarrow> Action \<Rightarrow> go_error option" where
  "validateBackupSnapshot goal w a = (case ac_Volume a of
       None \<Rightarrow> Some (Vol Volume_nil)
     | Some ref \<Rightarrow>
         if ac_Snapshot a = [] then Some (Vol Snapshot_id_missing)
         else case map_of (Volumes w) (vr_Name ref) of
             None \<Rightarrow> Some (Vol Volume_missing)
           | Some v \<Rightarrow> if \<not> mhas (v_Snapshots v) (ac_Snapshot a) then Some (Vol Snapshot_unknown)
                       else None)"

definition validateRestoreSnapshot :: "time \<Rightarrow> Goal \<Rightarrow> World \<Rightarrow> Action \<Rightarrow> go_error option" where
  "validateRestoreSnapshot wall goal w a = (case ac_Volume a of
       None \<Rightarrow> Some (Vol Volume_nil)
     | Some ref \<Rightarrow>
         if ac_Snapshot a = [] then Some (Vol Snapshot_id_missing)
         else case map_of (Volumes w) (vr_Name ref) of
             None \<Rightarrow> Some (Vol Volume_missing)
           | Some v \<Rightarrow>
               if \<not> mhas (v_Snapshots v) (ac_Snapshot a) then Some (Vol Snapshot_unknown)
               else if v_Owner v \<noteq> [] then Some (Vol Volume_attached)
               else if \<not> hasApproval wall w (g_ID goal) ''restore-volume''
                 then Some (Approval_required ''restore-volume'')
               else None)"

section \<open>Network and nodes\<close>

definition PolicyTable :: string where
  "PolicyTable = ''a4s''"

definition validateApplyPolicy :: "Goal \<Rightarrow> World \<Rightarrow> Action \<Rightarrow> go_error option" where
  "validateApplyPolicy goal w a =
     (if ac_Node a = [] then Some (Nod Node_required)
      else if \<not> mhas (Nodes w) (ac_Node a) then Some (Nod Node_missing)
      else case ac_Policy a of
          None \<Rightarrow> Some (Nod Policy_nil)
        | Some cp \<Rightarrow>
            if cp_Node cp \<noteq> ac_Node a then Some (Nod Policy_wrong_node)
            else if cp_Table cp \<noteq> PolicyTable then Some (Nod Policy_wrong_table)
            else if cp_Rules cp = [] then Some (Nod Policy_empty)
            else None)"

definition validatePublishZone :: "Goal \<Rightarrow> World \<Rightarrow> Action \<Rightarrow> go_error option" where
  "validatePublishZone goal w a =
     (if ac_Node a = [] then Some (Nod Node_required)
      else if \<not> mhas (Nodes w) (ac_Node a) then Some (Nod Node_missing)
      else case ac_Zone a of
          None \<Rightarrow> Some (Nod Zone_nil)
        | Some z \<Rightarrow> if zone_Node z \<noteq> ac_Node a then Some (Nod Zone_wrong_node) else None)"

definition validateCollectImages :: "Goal \<Rightarrow> World \<Rightarrow> Action \<Rightarrow> go_error option" where
  "validateCollectImages goal w a =
     (if ac_Node a = [] then Some (Nod Node_required)
      else case map_of (Nodes w) (ac_Node a) of
          None \<Rightarrow> Some (Nod Node_unhealthy)
        | Some n \<Rightarrow>
            if \<not> n_Healthy n then Some (Nod Node_unhealthy)
            else if list_ex (\<lambda>i. i \<notin> set (ac_Protected a)) (ProtectedImages w)
              then Some (Nod Image_unprotected)
            else None)"

definition validatePublishRoute :: "time \<Rightarrow> Goal \<Rightarrow> World \<Rightarrow> Action \<Rightarrow> go_error option" where
  "validatePublishRoute wall goal w a = (case g_Route goal of
       None \<Rightarrow> Some (Nod Route_not_requested)
     | Some r \<Rightarrow>
         if ac_Target a \<noteq> rs_Host r \<or> ac_Port a \<noteq> rs_Port r \<or> ac_Exposure a \<noteq> rs_Exposure r
           then Some (Nod Route_differs)
         else if ac_Workload a \<noteq> wl_Name (g_Workload goal) then Some (Alloc Workload_differs)
         else if ac_Exposure a = ''public'' \<and> \<not> hasApproval wall w (g_ID goal) ''public-route''
           then Some (Approval_required ''public-route'')
         else if matchingReadyAllocations wall goal w < wl_Replicas (g_Workload goal)
           then Some (Nod Not_ready)
         else None)"

section \<open>Dispatch\<close>

definition validateAction :: "time \<Rightarrow> Goal \<Rightarrow> World \<Rightarrow> Action \<Rightarrow> go_error option" where
  "validateAction wall goal w a = (case ac_Kind a of
       ActionPullImage \<Rightarrow> validatePullImage goal w a
     | ActionCreateAllocation \<Rightarrow> validateCreateAllocation wall goal w a
     | ActionCreateVolume \<Rightarrow> validateCreateVolume goal w a
     | ActionAttachVolume \<Rightarrow> validateAttachVolume goal w a
     | ActionDetachVolume \<Rightarrow> validateDetachVolume goal w a
     | ActionSnapshotVolume \<Rightarrow> validateSnapshotVolume goal w a
     | ActionQuiesceVolume \<Rightarrow> validateQuiesceVolume wall goal w a
     | ActionTransferVolume \<Rightarrow> validateTransferVolume goal w a
     | ActionAdoptVolume \<Rightarrow> validateAdoptVolume goal w a
     | ActionDatabaseBackup \<Rightarrow> validateDatabaseBackup goal w a
     | ActionVerifyBackup \<Rightarrow> validateVerifyBackup goal w a
     | ActionPruneSnapshots \<Rightarrow> validatePruneSnapshots goal w a
     | ActionCollectImages \<Rightarrow> validateCollectImages goal w a
     | ActionPublishZone \<Rightarrow> validatePublishZone goal w a
     | ActionApplyPolicy \<Rightarrow> validateApplyPolicy goal w a
     | ActionBackupSnapshot \<Rightarrow> validateBackupSnapshot goal w a
     | ActionRestoreSnapshot \<Rightarrow> validateRestoreSnapshot wall goal w a
     | ActionMountSecret \<Rightarrow> validateMountSecret goal w a
     | ActionGrantTools \<Rightarrow> validateGrantTools wall goal w a
     | ActionDrainAllocation \<Rightarrow> validateDrainAllocation goal w a
     | ActionAttachNetwork \<Rightarrow> validateAttachNetwork goal w a
     | ActionStartAllocation \<Rightarrow> validateStartAllocation goal w a
     | ActionStopAllocation \<Rightarrow> validateStopAllocation wall goal w a
     | ActionDeleteAllocation \<Rightarrow> validateDeleteAllocation wall goal w a
     | ActionPublishRoute \<Rightarrow> validatePublishRoute wall goal w a
     | ActionCordonNode \<Rightarrow> validateCordonNode goal w a
     | ActionUncordonNode \<Rightarrow> validateUncordonNode goal w a
     | _ \<Rightarrow> Some (Plan Unknown_action_kind))"

section \<open>What an accepted action establishes\<close>

lemma validateCreateAllocation_None [go_dest]:
  assumes "validateCreateAllocation wall goal w a = None"
  obtains n where "map_of (Nodes w) (ac_Node a) = Some n" "n_Healthy n" "\<not> n_Cordoned n"
    "nodeAllowed (g_Constraints goal) n" "map_of (Allocations w) (ac_Target a) = None"
    "ac_Workload a = wl_Name (g_Workload goal)" "ac_Image a = wl_Image (g_Workload goal)"
    "mget_bool (n_Images n) (ac_Image a)" "ac_Resources a = wl_Resources (g_Workload goal)"
    "Resources_Fits (Resources_Add (n_Used n) (ac_Resources a)) (n_Capacity n)"
    "0 \<le> ac_Replica a" "ac_Replica a < authorizedReplicas goal w"
    "checkSpread goal w a = None"
    "validateAgentPlacement goal n a (World_Now wall w) = None"
  using assms that unfolding validateCreateAllocation_def mhas_def
  by (auto split: if_splits option.splits)

lemma validateAgentPlacement_budget:
  assumes "validateAgentPlacement goal n a now = None"
  shows "Budget_IsZero (ac_Budget a) \<or>
         Budget_Fits (Budget_Add (n_BudgetUsed n) (ac_Budget a)) (n_BudgetCapacity n)"
  using assms by (auto simp: validateAgentPlacement_def split: option.splits if_splits)

lemma validateAttachVolume_None [go_dest]:
  assumes "validateAttachVolume goal w a = None"
  obtains ref al v where "ac_Volume a = Some ref" "map_of (Allocations w) (ac_Target a) = Some al"
    "al_Phase al = AllocationCreated" "map_of (Volumes w) (vr_Name ref) = Some v"
    "workloadDeclaresVolume goal (vr_Name ref)" "v_Owner v = [] \<or> v_Owner v = ac_Target a"
    "v_Handoff v = None" "v_Node v = al_Node al"
  using assms that unfolding validateAttachVolume_def
  by (auto split: if_splits option.splits)

lemma validateStopAllocation_None [go_dest]:
  assumes "validateStopAllocation wall goal w a = None"
  obtains al where "map_of (Allocations w) (ac_Target a) = Some al" "al_Phase al = AllocationRunning"
    "ac_Workload a = al_Workload al"
    "wl_Runtime (g_Workload goal) = None \<or> al_Task al = [] \<or> Exhausted al"
    "ReadyAt al (World_Now wall w) \<Longrightarrow> disruptionFloor goal \<le> servingAllocations wall goal w - 1"
  using assms that unfolding validateStopAllocation_def
  by (auto split: if_splits option.splits)

lemma validateDeleteAllocation_None [go_dest]:
  assumes "validateDeleteAllocation wall goal w a = None"
  obtains al where "map_of (Allocations w) (ac_Target a) = Some al" "al_Phase al \<noteq> AllocationRunning"
    "ac_Workload a = al_Workload al" "al_Volumes al = []"
    "al_Stateful al \<Longrightarrow> hasApproval wall w (g_ID goal) ''destroy-stateful''"
  using assms that unfolding validateDeleteAllocation_def
  by (auto split: if_splits option.splits)

lemma start_volumes_None:
  "start_volumes w al target refs = None \<Longrightarrow> ref \<in> set refs \<Longrightarrow>
    \<exists>v. map_of (Volumes w) (vr_Name ref) = Some v \<and> v_Owner v = target \<and>
        map_of (al_Volumes al) (vr_Name ref) = Some (v_Generation v)"
  by (induction refs) (auto split: option.splits if_splits)

end
