(* ===== verification/Control_Simulate.thy ===== *)
theory Control_Simulate
  imports Control_Policy
begin

text \<open>
  The kernel's plan simulation: \<open>simulateAction\<close> of \<^verbatim>\<open>src/control/executor.go\<close>, one
  definition per case of its switch, with \<open>cloneWorld\<close> of \<^verbatim>\<open>src/control/policy.go\<close> and the
  snapshot retention of \<^verbatim>\<open>src/control/projection.go\<close>.  Worlds are values here, so the deep
  copy that protects the observed world from the simulation is the identity
  (\<open>cloneWorld_eq\<close>): no field is left behind.
\<close>

section \<open>Cloning and updating\<close>

definition cloneWorld :: "World \<Rightarrow> World" where
  "cloneWorld w =
     \<lparr>Revision = Revision w, ObservedAt = ObservedAt w,
      Nodes = map (\<lambda>(i, n). (i, n\<lparr>n_Labels := map (\<lambda>p. p) (n_Labels n),
                n_Images := map (\<lambda>p. p) (n_Images n), n_Providers := map (\<lambda>p. p) (n_Providers n)\<rparr>)) (Nodes w),
      Allocations = map (\<lambda>(i, a). (i, a\<lparr>al_Volumes := map (\<lambda>p. p) (al_Volumes a),
                al_Secrets := map (\<lambda>p. p) (al_Secrets a), al_Tools := [] @ al_Tools a\<rparr>)) (Allocations w),
      Routes = map (\<lambda>p. p) (Routes w),
      Volumes = map (\<lambda>(i, v). (i, v\<lparr>v_Snapshots := map (\<lambda>p. p) (v_Snapshots v),
                v_SnapshotOrder := [] @ v_SnapshotOrder v, v_Backups := map (\<lambda>p. p) (v_Backups v)\<rparr>)) (Volumes w),
      Queues = map (\<lambda>p. p) (Queues w), Approvals = map (\<lambda>p. p) (Approvals w),
      KnownGood = map (\<lambda>p. p) (KnownGood w), Disruptions = [] @ Disruptions w,
      Backoffs = map (\<lambda>p. p) (Backoffs w)\<rparr>"

lemma cloneWorld_eq [simp]: "cloneWorld w = w"
  by (simp add: cloneWorld_def)

abbreviation set_node :: "string \<Rightarrow> Node \<Rightarrow> World \<Rightarrow> World" where
  "set_node i n w \<equiv> w\<lparr>Nodes := mput i n (Nodes w)\<rparr>"

abbreviation set_alloc :: "string \<Rightarrow> Allocation \<Rightarrow> World \<Rightarrow> World" where
  "set_alloc i a w \<equiv> w\<lparr>Allocations := mput i a (Allocations w)\<rparr>"

abbreviation set_vol :: "string \<Rightarrow> Volume \<Rightarrow> World \<Rightarrow> World" where
  "set_vol i v w \<equiv> w\<lparr>Volumes := mput i v (Volumes w)\<rparr>"

definition Allocation_zero :: Allocation where
  "Allocation_zero = \<lparr>al_ID = [], al_Workload = [], al_Replica = 0, al_Node = [], al_Image = [],
     al_Resources = \<lparr>CPUMillis = 0, MemoryMB = 0\<rparr>, al_Phase = AllocationCreated, al_Ready = False,
     al_Stateful = False, al_Volumes = [], al_Secrets = [], al_Address = [], al_ExitCode = 0,
     al_Restarts = 0, al_ReadyExpiresAt = 0, al_ReadySince = 0, al_Budget = Budget_zero,
     al_Spent = Budget_zero, al_Draining = False, al_Task = [], al_Tools = []\<rparr>"

definition Volume_zero :: Volume where
  "Volume_zero = \<lparr>v_Name = [], v_Node = [], v_Owner = [], v_Generation = 0, v_SizeMB = 0,
     v_LastSnapshot = [], v_Snapshots = [], v_SnapshotOrder = [], v_RestoredFrom = [],
     v_VerifiedAt = 0, v_VerifiedSnapshot = [], v_Handoff = None, v_Backups = []\<rparr>"

text \<open>Taking ownership bumps the generation unless the volume is already held by the claimant;
  releasing drops the volume from the allocation recorded as its owner.  The simulation and
  the projection share both steps.\<close>

definition claim_volume :: "Volume \<Rightarrow> string \<Rightarrow> Volume" where
  "claim_volume v i =
     (if v_Owner v \<noteq> i then v\<lparr>v_Owner := i, v_Generation := v_Generation v + 1\<rparr> else v)"

definition release_holding :: "World \<Rightarrow> string \<Rightarrow> string \<Rightarrow> World" where
  "release_holding w owner name = (case map_of (Allocations w) owner of
       None \<Rightarrow> w
     | Some al \<Rightarrow> set_alloc owner (al\<lparr>al_Volumes := mdel name (al_Volumes al)\<rparr>) w)"

section \<open>Snapshot retention\<close>

definition protected_snapshots :: "Volume \<Rightarrow> int \<Rightarrow> string list" where
  "protected_snapshots v retain =
     (if v_LastSnapshot v \<noteq> [] then [v_LastSnapshot v] else []) @ mkeys (v_Backups v)
       @ take (nat retain) (rev (v_SnapshotOrder v))"

definition prunableSnapshots :: "Volume \<Rightarrow> int \<Rightarrow> string list" where
  "prunableSnapshots v retain =
     (let retain = (if retain < 1 then 1 else retain)
      in filter (\<lambda>i. i \<notin> set (protected_snapshots v retain)) (v_SnapshotOrder v))"

definition drop_snapshot :: "Volume \<Rightarrow> string \<Rightarrow> Volume" where
  "drop_snapshot v i = v\<lparr>v_Snapshots := mdel i (v_Snapshots v), v_Backups := mdel i (v_Backups v),
                         v_SnapshotOrder := remove1 i (v_SnapshotOrder v)\<rparr>"

section \<open>One definition per simulated action\<close>

definition simulate_PullImage :: "World \<Rightarrow> Action \<Rightarrow> go_error + World" where
  "simulate_PullImage w a = (case map_of (Nodes w) (ac_Node a) of
       None \<Rightarrow> Inl (Nod Node_missing)
     | Some n \<Rightarrow> Inr (set_node (ac_Node a) (n\<lparr>n_Images := mput (ac_Image a) True (n_Images n)\<rparr>) w))"

definition simulate_CreateAllocation :: "World \<Rightarrow> Action \<Rightarrow> go_error + World" where
  "simulate_CreateAllocation w a = (case map_of (Nodes w) (ac_Node a) of
       None \<Rightarrow> Inl (Nod Node_missing)
     | Some n \<Rightarrow>
         let w1 = set_alloc (ac_Target a) (Allocation_zero
                    \<lparr>al_ID := ac_Target a, al_Workload := ac_Workload a, al_Replica := ac_Replica a,
                     al_Node := ac_Node a, al_Image := ac_Image a, al_Resources := ac_Resources a,
                     al_Phase := AllocationCreated, al_Budget := ac_Budget a\<rparr>) w
         in Inr (set_node (ac_Node a)
                   (n\<lparr>n_Used := Resources_Add (n_Used n) (ac_Resources a),
                      n_BudgetUsed := Budget_Add (n_BudgetUsed n) (ac_Budget a)\<rparr>) w1))"

definition simulate_CreateVolume :: "World \<Rightarrow> Action \<Rightarrow> go_error + World" where
  "simulate_CreateVolume w a = (case ac_Volume a of
       None \<Rightarrow> Inl (Vol Volume_nil)
     | Some ref \<Rightarrow>
         if mhas (Volumes w) (vr_Name ref) then Inr w
         else Inr (set_vol (vr_Name ref)
                    (Volume_zero\<lparr>v_Name := vr_Name ref, v_Node := ac_Node a\<rparr>) w))"

definition simulate_AttachVolume :: "World \<Rightarrow> Action \<Rightarrow> go_error + World" where
  "simulate_AttachVolume w a = (case ac_Volume a of
       None \<Rightarrow> Inl (Vol Volume_nil)
     | Some ref \<Rightarrow> (case map_of (Volumes w) (vr_Name ref) of
         None \<Rightarrow> Inl (Vol Volume_missing)
       | Some v \<Rightarrow> (case map_of (Allocations w) (ac_Target a) of
           None \<Rightarrow> Inl (Alloc Allocation_missing)
         | Some al \<Rightarrow>
             let v' = claim_volume v (ac_Target a)
             in Inr (set_alloc (ac_Target a)
                      (al\<lparr>al_Volumes := mput (vr_Name ref) (v_Generation v') (al_Volumes al)\<rparr>)
                      (set_vol (vr_Name ref) v' w)))))"

definition simulate_CordonNode :: "World \<Rightarrow> Action \<Rightarrow> go_error + World" where
  "simulate_CordonNode w a = (case map_of (Nodes w) (ac_Target a) of
       None \<Rightarrow> Inl (Nod Node_missing)
     | Some n \<Rightarrow> Inr (set_node (ac_Target a) (n\<lparr>n_Cordoned := True, n_CordonReason := ac_Reason a\<rparr>) w))"

definition simulate_UncordonNode :: "World \<Rightarrow> Action \<Rightarrow> go_error + World" where
  "simulate_UncordonNode w a = (case map_of (Nodes w) (ac_Target a) of
       None \<Rightarrow> Inl (Nod Node_missing)
     | Some n \<Rightarrow> Inr (set_node (ac_Target a) (n\<lparr>n_Cordoned := False, n_CordonReason := []\<rparr>) w))"

definition simulate_DetachVolume :: "World \<Rightarrow> Action \<Rightarrow> go_error + World" where
  "simulate_DetachVolume w a = (case ac_Volume a of
       None \<Rightarrow> Inl (Vol Volume_nil)
     | Some ref \<Rightarrow> (case map_of (Volumes w) (vr_Name ref) of
         None \<Rightarrow> Inr w
       | Some v \<Rightarrow>
           Inr (set_vol (vr_Name ref) (v\<lparr>v_Owner := [], v_Generation := v_Generation v + 1\<rparr>)
                  (release_holding w (v_Owner v) (vr_Name ref)))))"

definition simulate_SnapshotVolume :: "World \<Rightarrow> Action \<Rightarrow> go_error + World" where
  "simulate_SnapshotVolume w a = (case ac_Volume a of
       None \<Rightarrow> Inl (Vol Volume_nil)
     | Some ref \<Rightarrow> (case map_of (Volumes w) (vr_Name ref) of
         None \<Rightarrow> Inr w
       | Some v \<Rightarrow> Inr (set_vol (vr_Name ref)
           (v\<lparr>v_Snapshots := mput ''simulated'' ''simulated'' (v_Snapshots v),
              v_LastSnapshot := ''simulated''\<rparr>) w)))"

definition simulate_QuiesceVolume :: "World \<Rightarrow> Action \<Rightarrow> go_error + World" where
  "simulate_QuiesceVolume w a = (case ac_Volume a of
       None \<Rightarrow> Inl (Vol Volume_nil)
     | Some ref \<Rightarrow> (case map_of (Volumes w) (vr_Name ref) of
         None \<Rightarrow> Inr w
       | Some v \<Rightarrow> Inr (set_vol (vr_Name ref)
           (v\<lparr>v_Handoff := Some \<lparr>ho_From = v_Node v, ho_To = ac_Node a, ho_Phase = HandoffQuiesced,
                                 ho_Snapshot = [], ho_Checksum = []\<rparr>\<rparr>) w)))"

definition simulate_TransferVolume :: "World \<Rightarrow> Action \<Rightarrow> go_error + World" where
  "simulate_TransferVolume w a = (case ac_Volume a of
       None \<Rightarrow> Inl (Vol Volume_nil)
     | Some ref \<Rightarrow> (case map_of (Volumes w) (vr_Name ref) of
         None \<Rightarrow> Inr w
       | Some v \<Rightarrow> (case v_Handoff v of
           None \<Rightarrow> Inr w
         | Some h \<Rightarrow> Inr (set_vol (vr_Name ref)
             (v\<lparr>v_Handoff := Some (h\<lparr>ho_Phase := HandoffTransferred\<rparr>)\<rparr>) w))))"

definition simulate_AdoptVolume :: "World \<Rightarrow> Action \<Rightarrow> go_error + World" where
  "simulate_AdoptVolume w a = (case ac_Volume a of
       None \<Rightarrow> Inl (Vol Volume_nil)
     | Some ref \<Rightarrow> (case map_of (Volumes w) (vr_Name ref) of
         None \<Rightarrow> Inr w
       | Some v \<Rightarrow> (case v_Handoff v of
           None \<Rightarrow> Inr w
         | Some h \<Rightarrow> Inr (set_vol (vr_Name ref)
             (v\<lparr>v_Node := ho_To h, v_Generation := v_Generation v + 1, v_Handoff := None\<rparr>) w))))"

definition simulate_DatabaseBackup :: "World \<Rightarrow> Action \<Rightarrow> go_error + World" where
  "simulate_DatabaseBackup w a = (case ac_Volume a of
       None \<Rightarrow> Inl (Vol Volume_nil)
     | Some ref \<Rightarrow>
         if ac_Snapshot a = [] then Inl (Vol Volume_nil)
         else case map_of (Volumes w) (vr_Name ref) of
             None \<Rightarrow> Inr w
           | Some v \<Rightarrow> Inr (set_vol (vr_Name ref)
               (v\<lparr>v_SnapshotOrder := (if mhas (v_Snapshots v) (ac_Snapshot a) then v_SnapshotOrder v
                                      else v_SnapshotOrder v @ [ac_Snapshot a]),
                  v_Snapshots := mput (ac_Snapshot a) ''simulated'' (v_Snapshots v),
                  v_LastSnapshot := ac_Snapshot a\<rparr>) w))"

definition simulate_VerifyBackup :: "World \<Rightarrow> Action \<Rightarrow> go_error + World" where
  "simulate_VerifyBackup w a =
     (if ac_Volume a = None \<or> ac_Snapshot a = [] then Inl (Vol Volume_nil) else Inr w)"

definition simulate_PruneSnapshots :: "World \<Rightarrow> Action \<Rightarrow> go_error + World" where
  "simulate_PruneSnapshots w a = (case ac_Volume a of
       None \<Rightarrow> Inl (Vol Volume_nil)
     | Some ref \<Rightarrow> (case map_of (Volumes w) (vr_Name ref) of
         None \<Rightarrow> Inr w
       | Some v \<Rightarrow>
           if ac_DryRun a then Inr w
           else Inr (set_vol (vr_Name ref)
                      (foldl drop_snapshot v (prunableSnapshots v (ac_Retain a))) w)))"

definition simulate_BackupSnapshot :: "World \<Rightarrow> Action \<Rightarrow> go_error + World" where
  "simulate_BackupSnapshot w a = (case ac_Volume a of
       None \<Rightarrow> Inl (Vol Volume_nil)
     | Some ref \<Rightarrow>
         if ac_Snapshot a = [] then Inl (Vol Volume_nil)
         else case map_of (Volumes w) (vr_Name ref) of
             None \<Rightarrow> Inr w
           | Some v \<Rightarrow> Inr (set_vol (vr_Name ref)
               (v\<lparr>v_Backups := mput (ac_Snapshot a) ''simulated'' (v_Backups v)\<rparr>) w))"

definition simulate_RestoreSnapshot :: "World \<Rightarrow> Action \<Rightarrow> go_error + World" where
  "simulate_RestoreSnapshot w a = (case ac_Volume a of
       None \<Rightarrow> Inl (Vol Volume_nil)
     | Some ref \<Rightarrow>
         if ac_Snapshot a = [] then Inl (Vol Volume_nil)
         else case map_of (Volumes w) (vr_Name ref) of
             None \<Rightarrow> Inr w
           | Some v \<Rightarrow> Inr (set_vol (vr_Name ref) (v\<lparr>v_RestoredFrom := ac_Snapshot a\<rparr>) w))"

definition simulate_MountSecret :: "World \<Rightarrow> Action \<Rightarrow> go_error + World" where
  "simulate_MountSecret w a = (case map_of (Allocations w) (ac_Target a) of
       None \<Rightarrow> Inl (Alloc Allocation_missing)
     | Some al \<Rightarrow> (case ac_Secret a of
         None \<Rightarrow> Inl (Alloc Secret_nil)
       | Some s \<Rightarrow> Inr (set_alloc (ac_Target a)
           (al\<lparr>al_Secrets := mput (sr_Name s) (sr_Version s) (al_Secrets al)\<rparr>) w)))"

definition simulate_AttachNetwork :: "World \<Rightarrow> Action \<Rightarrow> go_error + World" where
  "simulate_AttachNetwork w a = (case map_of (Allocations w) (ac_Target a) of
       None \<Rightarrow> Inl (Alloc Allocation_missing)
     | Some al \<Rightarrow> Inr (set_alloc (ac_Target a) (al\<lparr>al_Address := ''simulated''\<rparr>) w))"

definition simulate_StartAllocation :: "World \<Rightarrow> Action \<Rightarrow> go_error + World" where
  "simulate_StartAllocation w a = (case map_of (Allocations w) (ac_Target a) of
       None \<Rightarrow> Inl (Alloc Allocation_missing)
     | Some al \<Rightarrow> Inr (set_alloc (ac_Target a)
         (al\<lparr>al_Phase := AllocationRunning, al_Ready := True\<rparr>) w))"

definition simulate_StopAllocation :: "World \<Rightarrow> Action \<Rightarrow> go_error + World" where
  "simulate_StopAllocation w a = (case map_of (Allocations w) (ac_Target a) of
       None \<Rightarrow> Inl (Alloc Allocation_missing)
     | Some al \<Rightarrow> Inr (set_alloc (ac_Target a)
         (al\<lparr>al_Phase := AllocationStopped, al_Ready := False\<rparr>) w))"

definition simulate_DeleteAllocation :: "World \<Rightarrow> Action \<Rightarrow> go_error + World" where
  "simulate_DeleteAllocation w a = (case map_of (Allocations w) (ac_Target a) of
       None \<Rightarrow> Inl (Alloc Allocation_missing)
     | Some al \<Rightarrow>
         let w1 = (case map_of (Nodes w) (al_Node al) of
                     None \<Rightarrow> w
                   | Some n \<Rightarrow> set_node (al_Node al)
                       (n\<lparr>n_Used := Resources_Subtract (n_Used n) (al_Resources al),
                          n_BudgetUsed := Budget_Subtract (n_BudgetUsed n) (al_Budget al)\<rparr>) w)
         in Inr (w1\<lparr>Allocations := mdel (ac_Target a) (Allocations w1)\<rparr>))"

definition simulate_GrantTools :: "World \<Rightarrow> Action \<Rightarrow> go_error + World" where
  "simulate_GrantTools w a = (case map_of (Allocations w) (ac_Target a) of
       None \<Rightarrow> Inl (Alloc Allocation_missing)
     | Some al \<Rightarrow> Inr (set_alloc (ac_Target a) (al\<lparr>al_Tools := ac_Tools a\<rparr>) w))"

definition simulate_DrainAllocation :: "World \<Rightarrow> Action \<Rightarrow> go_error + World" where
  "simulate_DrainAllocation w a = (case map_of (Allocations w) (ac_Target a) of
       None \<Rightarrow> Inl (Alloc Allocation_missing)
     | Some al \<Rightarrow> Inr (set_alloc (ac_Target a) (al\<lparr>al_Draining := True, al_Task := []\<rparr>) w))"

definition simulate_PublishRoute :: "World \<Rightarrow> Action \<Rightarrow> go_error + World" where
  "simulate_PublishRoute w a =
     Inr (w\<lparr>Routes := mput (ac_Target a) \<lparr>r_Host = ac_Target a, r_Workload = ac_Workload a,
                       r_Port = ac_Port a, r_Exposure = ac_Exposure a\<rparr> (Routes w)\<rparr>)"

definition simulateAction :: "World \<Rightarrow> Action \<Rightarrow> go_error + World" where
  "simulateAction w a = (case ac_Kind a of
       ActionPullImage \<Rightarrow> simulate_PullImage w a
     | ActionCreateAllocation \<Rightarrow> simulate_CreateAllocation w a
     | ActionCreateVolume \<Rightarrow> simulate_CreateVolume w a
     | ActionAttachVolume \<Rightarrow> simulate_AttachVolume w a
     | ActionCordonNode \<Rightarrow> simulate_CordonNode w a
     | ActionUncordonNode \<Rightarrow> simulate_UncordonNode w a
     | ActionDetachVolume \<Rightarrow> simulate_DetachVolume w a
     | ActionSnapshotVolume \<Rightarrow> simulate_SnapshotVolume w a
     | ActionQuiesceVolume \<Rightarrow> simulate_QuiesceVolume w a
     | ActionTransferVolume \<Rightarrow> simulate_TransferVolume w a
     | ActionAdoptVolume \<Rightarrow> simulate_AdoptVolume w a
     | ActionDatabaseBackup \<Rightarrow> simulate_DatabaseBackup w a
     | ActionVerifyBackup \<Rightarrow> simulate_VerifyBackup w a
     | ActionApplyPolicy \<Rightarrow> Inr w
     | ActionPublishZone \<Rightarrow> Inr w
     | ActionCollectImages \<Rightarrow> Inr w
     | ActionPruneSnapshots \<Rightarrow> simulate_PruneSnapshots w a
     | ActionBackupSnapshot \<Rightarrow> simulate_BackupSnapshot w a
     | ActionRestoreSnapshot \<Rightarrow> simulate_RestoreSnapshot w a
     | ActionMountSecret \<Rightarrow> simulate_MountSecret w a
     | ActionAttachNetwork \<Rightarrow> simulate_AttachNetwork w a
     | ActionStartAllocation \<Rightarrow> simulate_StartAllocation w a
     | ActionStopAllocation \<Rightarrow> simulate_StopAllocation w a
     | ActionDeleteAllocation \<Rightarrow> simulate_DeleteAllocation w a
     | ActionGrantTools \<Rightarrow> simulate_GrantTools w a
     | ActionDrainAllocation \<Rightarrow> simulate_DrainAllocation w a
     | ActionPublishRoute \<Rightarrow> simulate_PublishRoute w a
     | _ \<Rightarrow> Inl (Plan Unsupported_action))"

lemmas simulate_defs =
  simulate_PullImage_def simulate_CreateAllocation_def simulate_CreateVolume_def
  simulate_AttachVolume_def simulate_CordonNode_def simulate_UncordonNode_def
  simulate_DetachVolume_def simulate_SnapshotVolume_def simulate_QuiesceVolume_def
  simulate_TransferVolume_def simulate_AdoptVolume_def simulate_DatabaseBackup_def
  simulate_VerifyBackup_def simulate_PruneSnapshots_def simulate_BackupSnapshot_def
  simulate_RestoreSnapshot_def simulate_MountSecret_def simulate_AttachNetwork_def
  simulate_StartAllocation_def simulate_StopAllocation_def simulate_DeleteAllocation_def
  simulate_GrantTools_def simulate_DrainAllocation_def simulate_PublishRoute_def

end
