(* ===== verification/Control_Disruption.thy ===== *)
theory Control_Disruption
  imports Control_Placement
begin

text \<open>
  The disruption governor of \<^verbatim>\<open>src/control/disruption.go\<close>: the failure backoff, the
  disruption ledger, the cluster-wide budget with its one-domain rule, and the report
  of what a goal is waiting on.  \<open>sort.Slice\<close> promises no order among disruptions
  recorded at the same instant; the model keeps them in ledger order.
\<close>

section \<open>Constants and ledger\<close>

definition DefaultDisruptionWindow :: duration where "DefaultDisruptionWindow = 10 * minute_ns"
definition DefaultMaxDisruptions :: int where "DefaultMaxDisruptions = 12"
definition DefaultDisruptionCooldown :: duration where "DefaultDisruptionCooldown = 30 * second_ns"
definition DisruptionRetention :: duration where "DisruptionRetention = hour_ns"
definition BaseBackoff :: duration where "BaseBackoff = 15 * second_ns"
definition MaxBackoff :: duration where "MaxBackoff = 10 * minute_ns"

definition Backoff_Active :: "Backoff option \<Rightarrow> time \<Rightarrow> bool" where
  "Backoff_Active b now = (case b of None \<Rightarrow> False
     | Some b \<Rightarrow> \<not> IsZero (b_Until b) \<and> now < b_Until b)"

fun backoff_loop :: "nat \<Rightarrow> duration \<Rightarrow> duration" where
  "backoff_loop 0 delay = delay"
| "backoff_loop (Suc n) delay =
    (if delay * 2 \<ge> MaxBackoff then MaxBackoff else backoff_loop n (delay * 2))"

definition backoffFor :: "int \<Rightarrow> duration" where
  "backoffFor failures =
     (if failures \<le> 1 then BaseBackoff else backoff_loop (nat (failures - 1)) BaseBackoff)"

definition disruptiveKinds :: "ActionKind \<Rightarrow> bool" where
  "disruptiveKinds k = (case k of ActionStopAllocation \<Rightarrow> True | ActionDeleteAllocation \<Rightarrow> True
     | ActionDrainAllocation \<Rightarrow> True | _ \<Rightarrow> False)"

definition recordDisruption :: "World \<Rightarrow> Allocation \<Rightarrow> EvidenceKind \<Rightarrow> time \<Rightarrow> World" where
  "recordDisruption w a kind at =
     (if IsZero at \<or> al_Phase a = AllocationStopped then w
      else let domain = (case map_of (Nodes w) (al_Node a) of None \<Rightarrow> []
                         | Some n \<Rightarrow> FailureDomain (Some n));
               ds = Disruptions w @ [\<lparr>d_Target = al_ID a, d_Workload = al_Workload a,
                       d_Node = al_Node a, d_Domain = domain, d_Kind = kind, d_At = at\<rparr>];
               cutoff = at - DisruptionRetention
           in w\<lparr>Disruptions := filter (\<lambda>d. d_At d > cutoff) ds\<rparr>)"

definition recordFailure :: "World \<Rightarrow> string \<Rightarrow> time \<Rightarrow> World" where
  "recordFailure w target at =
     (let state = (case map_of (Backoffs w) target of
                     None \<Rightarrow> \<lparr>b_Failures = 0, b_Until = 0, b_LastFailure = 0\<rparr> | Some b \<Rightarrow> b);
          n = b_Failures state + 1
      in w\<lparr>Backoffs := mput target
            \<lparr>b_Failures = n, b_Until = at + backoffFor n, b_LastFailure = at\<rparr> (Backoffs w)\<rparr>)"

definition clearBackoff :: "World \<Rightarrow> string \<Rightarrow> World" where
  "clearBackoff w target = w\<lparr>Backoffs := mdel target (Backoffs w)\<rparr>"

definition RecentDisruptions :: "World \<Rightarrow> time \<Rightarrow> duration \<Rightarrow> Disruption list" where
  "RecentDisruptions w now window =
     (if window \<le> 0 then []
      else sort_key d_At (filter (\<lambda>d. d_At d > now - window) (Disruptions w)))"

definition disruptedDomains :: "World \<Rightarrow> time \<Rightarrow> duration \<Rightarrow> string list" where
  "disruptedDomains w now cooldown =
     remdups (filter (\<lambda>d. d \<noteq> []) (map d_Domain (RecentDisruptions w now cooldown)))"

definition actionDomain :: "World \<Rightarrow> Action \<Rightarrow> string" where
  "actionDomain w a =
     (let node = (case map_of (Allocations w) (ac_Target a) of
                    Some al \<Rightarrow> if al_Node al \<noteq> [] then al_Node al else ac_Node a
                  | None \<Rightarrow> ac_Node a)
      in FailureDomain (map_of (Nodes w) node))"

section \<open>The governor\<close>

definition disruptive_actions :: "Proposal \<Rightarrow> Action list" where
  "disruptive_actions p = filter (\<lambda>a. disruptiveKinds (ac_Kind a)) (p_Actions p)"

definition effective_window :: "Policy \<Rightarrow> duration" where
  "effective_window pol =
     (if DisruptionWindow pol \<le> 0 then DefaultDisruptionWindow else DisruptionWindow pol)"

definition proposed_domains :: "World \<Rightarrow> Proposal \<Rightarrow> string list" where
  "proposed_domains w p = remdups (filter (\<lambda>d. d \<noteq> []) (map (actionDomain w) (disruptive_actions p)))"

definition checkDisruptionBudget :: "time \<Rightarrow> Policy \<Rightarrow> World \<Rightarrow> Proposal \<Rightarrow> go_error option" where
  "checkDisruptionBudget wall pol w p =
     (let disruptive = disruptive_actions p; now = World_Now wall w in
      if disruptive = [] then None
      else if MaxDisruptionsPerWindow pol > 0 \<and>
              int (length (RecentDisruptions w now (effective_window pol)))
                + int (length disruptive) > MaxDisruptionsPerWindow pol
        then Some (Plan Disruption_budget)
      else if DisruptionCooldown pol > 0 then
        (let proposed = proposed_domains w p;
             active = disruptedDomains w now (DisruptionCooldown pol)
         in if length proposed > 1 then Some (Plan Many_domains)
            else if list_ex (\<lambda>d. list_ex (\<lambda>other. other \<noteq> d) active) proposed
              then Some (Plan Domain_cooldown)
            else None)
      else None)"

fun checkBackoff_actions :: "time \<Rightarrow> World \<Rightarrow> Action list \<Rightarrow> go_error option" where
  "checkBackoff_actions now w [] = None"
| "checkBackoff_actions now w (a # as) =
    (if (ac_Kind a = ActionCreateAllocation \<or> ac_Kind a = ActionStartAllocation)
        \<and> Backoff_Active (map_of (Backoffs w) (ac_Target a)) now
     then Some (Plan In_backoff) else checkBackoff_actions now w as)"

definition checkBackoff :: "time \<Rightarrow> World \<Rightarrow> Proposal \<Rightarrow> go_error option" where
  "checkBackoff wall w p = checkBackoff_actions (World_Now wall w) w (p_Actions p)"

section \<open>Pacing\<close>

datatype pace_reason = Backoff_of string int | Cooldown_of string | Budget_full nat duration

record Pacing =
  pc_Reason :: "pace_reason option"
  pc_Until :: time

definition replicaSlots :: "Goal \<Rightarrow> World \<Rightarrow> string list" where
  "replicaSlots goal w =
     (let named = map (\<lambda>r. AllocationID (wl_Name (g_Workload goal)) (int r))
                    [0..<nat (authorizedReplicas goal w)];
          rest = map fst (filter (\<lambda>(i, a). al_Workload a = wl_Name (g_Workload goal) \<and> i \<notin> set named)
                   (Allocations w))
      in sort (named @ rest))"

definition earlier :: "Pacing \<Rightarrow> pace_reason \<Rightarrow> time \<Rightarrow> Pacing" where
  "earlier p reason until =
     (if IsZero (pc_Until p) \<or> until < pc_Until p
      then \<lparr>pc_Reason = Some reason, pc_Until = until\<rparr> else p)"

definition pace_backoff :: "World \<Rightarrow> time \<Rightarrow> Pacing \<Rightarrow> string \<Rightarrow> Pacing" where
  "pace_backoff w now p i = (case map_of (Backoffs w) i of
       None \<Rightarrow> p
     | Some b \<Rightarrow> if \<not> Backoff_Active (Some b) now then p
                 else earlier p (Backoff_of i (b_Failures b)) (b_Until b))"

definition pace_cooldown :: "Policy \<Rightarrow> World \<Rightarrow> time \<Rightarrow> Pacing \<Rightarrow> Pacing" where
  "pace_cooldown pol w now p =
     (if DisruptionCooldown pol > 0
      then foldl (\<lambda>p d. earlier p (Cooldown_of (d_Domain d)) (d_At d + DisruptionCooldown pol)) p
             (RecentDisruptions w now (DisruptionCooldown pol))
      else p)"

definition pace_budget :: "Policy \<Rightarrow> World \<Rightarrow> time \<Rightarrow> Pacing \<Rightarrow> Pacing" where
  "pace_budget pol w now p =
     (if MaxDisruptionsPerWindow pol > 0 then
        (let window = effective_window pol; recent = RecentDisruptions w now window in
         if int (length recent) \<ge> MaxDisruptionsPerWindow pol
         then (case recent of [] \<Rightarrow> p
               | d # _ \<Rightarrow> earlier p (Budget_full (length recent) window) (d_At d + window))
         else p)
      else p)"

definition Paced :: "time \<Rightarrow> Policy \<Rightarrow> Goal \<Rightarrow> World \<Rightarrow> Pacing \<times> bool" where
  "Paced wall pol goal w =
     (let now = World_Now wall w;
          p = foldl (pace_backoff w now) \<lparr>pc_Reason = None, pc_Until = 0\<rparr> (replicaSlots goal w);
          p = pace_cooldown pol w now p;
          p = pace_budget pol w now p
      in (p, \<not> IsZero (pc_Until p)))"

section \<open>Lemmas\<close>

lemmas backoff_consts = BaseBackoff_def MaxBackoff_def

lemma backoff_loop_closed:
  "0 < d \<Longrightarrow> d < MaxBackoff \<Longrightarrow> backoff_loop n d = min MaxBackoff (d * 2 ^ n)"
proof (induction n arbitrary: d)
  case (Suc n)
  show ?case
  proof (cases "d * 2 \<ge> MaxBackoff")
    case True
    have "d * 2 * 1 \<le> d * 2 * 2 ^ n" by (rule mult_left_mono) (use Suc.prems in auto)
    then have "MaxBackoff \<le> d * 2 ^ Suc n" using True by simp
    then show ?thesis using True by (simp add: min_def)
  next
    case False
    then show ?thesis using Suc.IH [of "d * 2"] Suc.prems by (simp add: mult.assoc)
  qed
qed simp

lemma backoffFor_closed:
  "backoffFor f = min MaxBackoff (BaseBackoff * 2 ^ nat (f - 1))"
  by (cases "f \<le> 1") (simp_all add: backoffFor_def backoff_loop_closed backoff_consts)

lemma backoffFor_bounds: "BaseBackoff \<le> backoffFor f \<and> backoffFor f \<le> MaxBackoff"
  by (simp add: backoffFor_closed backoff_consts)

lemma backoffFor_mono: "f \<le> g \<Longrightarrow> backoffFor f \<le> backoffFor g"
proof -
  assume "f \<le> g"
  then have "(2::int) ^ nat (f - 1) \<le> 2 ^ nat (g - 1)" by (intro power_increasing) auto
  then have "BaseBackoff * 2 ^ nat (f - 1) \<le> BaseBackoff * 2 ^ nat (g - 1)"
    by (rule mult_left_mono) (simp add: BaseBackoff_def)
  then show ?thesis unfolding backoffFor_closed by (rule min.mono [OF order_refl])
qed

lemma set_RecentDisruptions:
  "set (RecentDisruptions w now window)
    = (if window \<le> 0 then {} else {d \<in> set (Disruptions w). d_At d > now - window})"
  by (auto simp: RecentDisruptions_def)

lemma length_RecentDisruptions:
  "length (RecentDisruptions w now window)
    = (if window \<le> 0 then 0 else length (filter (\<lambda>d. d_At d > now - window) (Disruptions w)))"
  by (simp add: RecentDisruptions_def)

lemma length_filter_le_conj: "length (filter P (filter Q xs)) \<le> length (filter P xs)"
  by (induction xs) auto

lemma recordDisruption_recent:
  "length (filter P (Disruptions (recordDisruption w a k at))) \<le> Suc (length (filter P (Disruptions w)))"
  using length_filter_le_conj [of P "\<lambda>d. d_At d > at - DisruptionRetention" "Disruptions w"]
  by (auto simp: recordDisruption_def Let_def)

lemma record_all_recent:
  "length (filter P (Disruptions (foldl (\<lambda>w (a, k, at). recordDisruption w a k at) w rs)))
    \<le> length rs + length (filter P (Disruptions w))"
proof (induction rs arbitrary: w)
  case (Cons r rs)
  obtain a k at where "r = (a, k, at)" by (cases r)
  then show ?case
    using Cons [of "recordDisruption w a k at"] recordDisruption_recent [of P w a k at] by simp
qed simp

lemma length_filter_mono: "(\<And>x. P x \<Longrightarrow> Q x) \<Longrightarrow> length (filter P xs) \<le> length (filter Q xs)"
  by (induction xs) auto

lemma checkDisruptionBudget_count:
  assumes "checkDisruptionBudget wall pol w p = None" "MaxDisruptionsPerWindow pol > 0"
    "disruptive_actions p \<noteq> []"
  shows "int (length (RecentDisruptions w (World_Now wall w) (effective_window pol)))
           + int (length (disruptive_actions p)) \<le> MaxDisruptionsPerWindow pol"
  using assms by (auto simp: checkDisruptionBudget_def Let_def split: if_splits)

lemma effective_window_pos [simp]: "0 < effective_window pol"
  by (simp add: effective_window_def DefaultDisruptionWindow_def)

lemma distinct_two: "distinct xs \<Longrightarrow> length xs \<le> 1 \<Longrightarrow> x \<in> set xs \<Longrightarrow> y \<in> set xs \<Longrightarrow> x = y"
  by (cases xs) auto

lemma checkBackoff_actions_None:
  "checkBackoff_actions now w as = None \<Longrightarrow> a \<in> set as \<Longrightarrow>
    ac_Kind a = ActionCreateAllocation \<or> ac_Kind a = ActionStartAllocation \<Longrightarrow>
    \<not> Backoff_Active (map_of (Backoffs w) (ac_Target a)) now"
  by (induction as) (auto split: if_splits)

definition pace_ok :: "time \<Rightarrow> Pacing \<Rightarrow> bool" where
  "pace_ok now p \<longleftrightarrow> (IsZero (pc_Until p) \<and> pc_Reason p = None) \<or>
                      (now < pc_Until p \<and> pc_Reason p \<noteq> None)"

lemma earlier_ok: "pace_ok now p \<Longrightarrow> now < until \<Longrightarrow> pace_ok now (earlier p r until)"
  by (auto simp: earlier_def pace_ok_def)

lemma foldl_pace_backoff_ok:
  "pace_ok now p \<Longrightarrow> pace_ok now (foldl (pace_backoff w now) p slots)"
  by (induction slots arbitrary: p)
    (auto simp: pace_backoff_def Backoff_Active_def earlier_ok split: option.splits)

lemma foldl_cooldown_ok:
  "pace_ok now p \<Longrightarrow> (\<And>d. d \<in> set ds \<Longrightarrow> now - c < d_At d) \<Longrightarrow>
    pace_ok now (foldl (\<lambda>p d. earlier p (Cooldown_of (d_Domain d)) (d_At d + c)) p ds)"
proof (induction ds arbitrary: p)
  case (Cons d ds)
  have "pace_ok now (earlier p (Cooldown_of (d_Domain d)) (d_At d + c))"
    using Cons.prems by (intro earlier_ok) (auto simp: algebra_simps)
  then show ?case using Cons by simp
qed simp

lemma pace_cooldown_ok: "pace_ok now p \<Longrightarrow> pace_ok now (pace_cooldown pol w now p)"
  by (auto simp: pace_cooldown_def set_RecentDisruptions intro!: foldl_cooldown_ok)

lemma pace_budget_ok: "pace_ok now p \<Longrightarrow> pace_ok now (pace_budget pol w now p)"
proof -
  assume ok: "pace_ok now p"
  have "now < d_At d + effective_window pol"
    if "RecentDisruptions w now (effective_window pol) = d # ds" for d ds
  proof -
    have "d \<in> set (RecentDisruptions w now (effective_window pol))" using that by simp
    then show ?thesis by (simp add: set_RecentDisruptions split: if_splits)
  qed
  then show ?thesis using ok
    by (auto simp: pace_budget_def Let_def earlier_ok split: list.splits)
qed

end
