(* ===== verification/Control_Patterns.thy ===== *)
theory Control_Patterns
  imports Prelude
begin

text \<open>
  The regular expressions of \<^verbatim>\<open>src/control/validate.go\<close> as recognisers, and the string
  predicates (\<open>strings.TrimSpace\<close>, \<open>strings.HasPrefix\<close>, \<open>strings.ContainsAny\<close>) the
  validators apply to identifiers.
\<close>

definition is_lower :: "char \<Rightarrow> bool" where
  "is_lower c \<longleftrightarrow> 97 \<le> (of_char c :: nat) \<and> (of_char c :: nat) \<le> 122"

definition is_lower_hex :: "char \<Rightarrow> bool" where
  "is_lower_hex c \<longleftrightarrow> is_digit c \<or> 97 \<le> (of_char c :: nat) \<and> (of_char c :: nat) \<le> 102"

definition is_alnum :: "char \<Rightarrow> bool" where
  "is_alnum c \<longleftrightarrow> is_lower c \<or> is_digit c"

text \<open>A handle: \<open>^[a-z0-9](?:[inner]{0,61}[a-z0-9])?$\<close>.\<close>

definition handle :: "(char \<Rightarrow> bool) \<Rightarrow> string \<Rightarrow> bool" where
  "handle inner s \<longleftrightarrow> s \<noteq> [] \<and> length s \<le> 63 \<and> is_alnum (hd s) \<and> is_alnum (last s) \<and> list_all inner s"

definition namePattern :: "string \<Rightarrow> bool" where
  "namePattern = handle (\<lambda>c. is_alnum c \<or> c = CHR ''-'')"

definition secretNamePattern :: "string \<Rightarrow> bool" where
  "secretNamePattern = handle (\<lambda>c. is_alnum c \<or> c = CHR ''.'' \<or> c = CHR ''_'' \<or> c = CHR ''-'')"

definition toolNamePattern :: "string \<Rightarrow> bool" where
  "toolNamePattern = handle (\<lambda>c. is_alnum c \<or> c = CHR ''.'' \<or> c = CHR ''_'' \<or> c = CHR ''-'')"

definition digestPattern :: "string \<Rightarrow> bool" where
  "digestPattern s \<longleftrightarrow> 72 \<le> length s \<and>
     (let t = drop (length s - 72) s in take 8 t = ''@sha256:'' \<and> list_all is_lower_hex (drop 8 t))"

definition is_space :: "char \<Rightarrow> bool" where
  "is_space c \<longleftrightarrow> of_char c \<in> {9, 10, 11, 12, 13, 32 :: nat}"

definition blank :: "string \<Rightarrow> bool" where
  "blank s \<longleftrightarrow> list_all is_space s"

lemma has_prefix_append: "has_prefix (p @ s) p"
  by (induction p) auto

lemma has_prefix_take: "take (length p) s = p \<Longrightarrow> has_prefix s p"
  by (metis append_take_drop_id has_prefix_append)

lemma contains_suffix: "contains t p \<Longrightarrow> contains (s @ t) p"
  by (induction s) auto

lemma has_prefix_contains: "has_prefix s p \<Longrightarrow> contains s p"
  by (cases s; cases p) auto

text \<open>A reference that ends in a digest is one the image validators accept as pinned.\<close>

lemma digestPattern_pinned: "digestPattern s \<Longrightarrow> contains s ''@sha256:''"
proof -
  assume d: "digestPattern s"
  let ?t = "drop (length s - 72) s"
  have len: "length ''@sha256:'' = 8" by simp
  have "take (length ''@sha256:'') ?t = ''@sha256:''"
    unfolding len using d by (simp add: digestPattern_def Let_def)
  then have "has_prefix ?t ''@sha256:''" by (rule has_prefix_take)
  then have "contains ?t ''@sha256:''" by (rule has_prefix_contains)
  then have "contains (take (length s - 72) s @ ?t) ''@sha256:''" by (rule contains_suffix)
  then show ?thesis by simp
qed

lemma namePattern_nonempty: "namePattern s \<Longrightarrow> s \<noteq> []"
  by (simp add: namePattern_def handle_def)

end
