(* ===== verification/Control_Provenance.thy ===== *)
theory Control_Provenance
  imports Control_Placement Control_Patterns
begin

text \<open>
  Image provenance (\<^verbatim>\<open>src/control/provenance.go\<close>).  Ed25519, base64 and the JSON codec of the
  statement are parameters, collected in \<open>Signing\<close>; a theorem that relies on what they
  promise says so in its hypotheses.
\<close>

definition AttestationVersion :: int where "AttestationVersion = 1"

record ImageStatement =
  is_Version :: int
  is_Image :: string
  is_Builder :: string
  is_KeyID :: string
  is_BuiltAt :: time
  is_ExpiresAt :: time

text \<open>\<open>st_decode\<close> yields the statement and whether the decoder found trailing content.\<close>

record Signing =
  ed_verify :: "string \<Rightarrow> string \<Rightarrow> string \<Rightarrow> bool"
  ed_sign :: "string \<Rightarrow> string \<Rightarrow> string"
  b64_decode :: "string \<Rightarrow> string option"
  b64_encode :: "string \<Rightarrow> string"
  st_decode :: "string \<Rightarrow> (ImageStatement \<times> bool) option"
  st_encode :: "ImageStatement \<Rightarrow> string"

datatype attest_error = No_signers | No_statement | Untrusted | Malformed_signature
  | Malformed_statement | Trailing_content | Bad_version | Not_pinned | No_builder | No_build_time
  | Expiry_before_build | Key_mismatch | Wrong_image | Attestation_expired | Bad_signing_key

definition validateStatement :: "ImageStatement \<Rightarrow> attest_error option" where
  "validateStatement st =
     (if is_Version st \<noteq> AttestationVersion then Some Bad_version
      else if \<not> digestPattern (is_Image st) then Some Not_pinned
      else if is_Builder st = [] then Some No_builder
      else if IsZero (is_BuiltAt st) then Some No_build_time
      else if \<not> IsZero (is_ExpiresAt st) \<and> \<not> is_ExpiresAt st > is_BuiltAt st
        then Some Expiry_before_build
      else None)"

definition SignImageAttestation ::
  "Signing \<Rightarrow> ImageStatement \<Rightarrow> string \<Rightarrow> string \<Rightarrow> attest_error + SignedAttestation" where
  "SignImageAttestation sg st key_id key =
     (if key_id = [] \<or> length key \<noteq> 64 then Inl Bad_signing_key
      else let st = st\<lparr>is_Version := AttestationVersion, is_KeyID := key_id\<rparr> in
        case validateStatement st of
          Some err \<Rightarrow> Inl err
        | None \<Rightarrow>
            let payload = st_encode sg st
            in Inr \<lparr>StatementBytes = payload, sa_KeyID = key_id,
                    sa_Signature = b64_encode sg (ed_sign sg key payload)\<rparr>)"

definition check_statement :: "ImageStatement \<Rightarrow> string \<Rightarrow> string \<Rightarrow> time \<Rightarrow> attest_error option" where
  "check_statement st key_id img now =
     (case validateStatement st of
        Some err \<Rightarrow> Some err
      | None \<Rightarrow>
          if is_KeyID st \<noteq> key_id then Some Key_mismatch
          else if is_Image st \<noteq> img then Some Wrong_image
          else if \<not> IsZero (is_ExpiresAt st) \<and> \<not> now < is_ExpiresAt st then Some Attestation_expired
          else None)"

definition VerifyImageAttestation ::
  "Signing \<Rightarrow> SignedAttestation \<Rightarrow> string \<Rightarrow> string smap \<Rightarrow> time \<Rightarrow> attest_error + ImageStatement" where
  "VerifyImageAttestation sg sa img signers now =
     (if signers = [] then Inl No_signers
      else if StatementBytes sa = [] then Inl No_statement
      else case map_of signers (sa_KeyID sa) of
          None \<Rightarrow> Inl Untrusted
        | Some public \<Rightarrow>
            if length public \<noteq> 32 then Inl Untrusted
            else case b64_decode sg (sa_Signature sa) of
                None \<Rightarrow> Inl Malformed_signature
              | Some signature \<Rightarrow>
                  if \<not> ed_verify sg public (StatementBytes sa) signature then Inl Untrusted
                  else case st_decode sg (StatementBytes sa) of
                      None \<Rightarrow> Inl Malformed_statement
                    | Some (st, trailing) \<Rightarrow>
                        if trailing then Inl Trailing_content
                        else case check_statement st (sa_KeyID sa) img now of
                               Some err \<Rightarrow> Inl err
                             | None \<Rightarrow> Inr st)"

definition runs_image :: "Proposal \<Rightarrow> bool" where
  "runs_image p = list_ex (\<lambda>a. ac_Kind a = ActionPullImage \<or> ac_Kind a = ActionCreateAllocation
                               \<or> ac_Kind a = ActionStartAllocation) (p_Actions p)"

definition checkImageProvenance ::
  "Signing \<Rightarrow> time \<Rightarrow> Policy \<Rightarrow> Goal \<Rightarrow> World \<Rightarrow> Proposal \<Rightarrow> go_error option" where
  "checkImageProvenance sg wall pol goal w p =
     (if \<not> runs_image p then None
      else case wl_Attestation (g_Workload goal) of
          None \<Rightarrow> if RequireSignedImages pol then Some (Plan Attestation_missing) else None
        | Some at \<Rightarrow>
            (case VerifyImageAttestation sg at (wl_Image (g_Workload goal)) (ImageSigners pol)
                    (World_Now wall w) of
               Inl err \<Rightarrow> Some (Plan Attestation_refused)
             | Inr st \<Rightarrow> None))"

text \<open>What a verified attestation establishes.\<close>

definition attested :: "Signing \<Rightarrow> SignedAttestation \<Rightarrow> string \<Rightarrow> string smap \<Rightarrow> time \<Rightarrow> bool" where
  "attested sg sa img signers now \<longleftrightarrow>
     (\<exists>public signature st. map_of signers (sa_KeyID sa) = Some public \<and>
        b64_decode sg (sa_Signature sa) = Some signature \<and>
        ed_verify sg public (StatementBytes sa) signature \<and>
        st_decode sg (StatementBytes sa) = Some (st, False) \<and>
        is_Image st = img \<and> is_KeyID st = sa_KeyID sa \<and> digestPattern img \<and>
        (is_ExpiresAt st = 0 \<or> now < is_ExpiresAt st))"

lemma validateStatement_pinned: "validateStatement st = None \<Longrightarrow> digestPattern (is_Image st)"
  by (simp add: validateStatement_def split: if_splits)

lemma VerifyImageAttestation_attested:
  "VerifyImageAttestation sg sa img signers now = Inr st \<Longrightarrow> attested sg sa img signers now"
  by (auto simp: VerifyImageAttestation_def check_statement_def attested_def IsZero_def
           dest: validateStatement_pinned split: if_splits option.splits)

lemma checkImageProvenance_attested:
  assumes "checkImageProvenance sg wall pol goal w p = None" "runs_image p"
  shows "case wl_Attestation (g_Workload goal) of
           None \<Rightarrow> \<not> RequireSignedImages pol
         | Some at \<Rightarrow> attested sg at (wl_Image (g_Workload goal)) (ImageSigners pol) (World_Now wall w)"
  using assms
  by (auto simp: checkImageProvenance_def VerifyImageAttestation_attested split: option.splits sum.splits if_splits)

lemma Sign_Verify:
  assumes sign: "SignImageAttestation sg st key_id key = Inr sa"
    and scheme: "\<And>m. ed_verify sg public m (ed_sign sg key m)" "\<And>s. b64_decode sg (b64_encode sg s) = Some s"
      "\<And>st. st_encode sg st \<noteq> [] \<and> st_decode sg (st_encode sg st) = Some (st, False)"
    and trusted: "map_of signers key_id = Some public" "length public = 32"
    and fresh: "is_ExpiresAt st = 0 \<or> now < is_ExpiresAt st"
  shows "VerifyImageAttestation sg sa (is_Image st) signers now
           = Inr (st\<lparr>is_Version := AttestationVersion, is_KeyID := key_id\<rparr>)"
proof -
  let ?st = "st\<lparr>is_Version := AttestationVersion, is_KeyID := key_id\<rparr>"
  have v: "validateStatement ?st = None" and s: "sa = \<lparr>StatementBytes = st_encode sg ?st,
      sa_KeyID = key_id, sa_Signature = b64_encode sg (ed_sign sg key (st_encode sg ?st))\<rparr>"
    using sign by (auto simp: SignImageAttestation_def Let_def split: if_splits option.splits)
  have "signers \<noteq> []" using trusted(1) by auto
  then show ?thesis using v s scheme trusted fresh
    by (auto simp: VerifyImageAttestation_def check_statement_def IsZero_def)
qed

end
