(* ===== verification/Control_Kernel.thy ===== *)
theory Control_Kernel
  imports Control_Simulate Control_Disruption Control_Provenance
begin

text \<open>
  The kernel of \<^verbatim>\<open>src/control/policy.go\<close>: the default capability grants, the evidence
  checks a plan must declare, and \<open>Authorize\<close>, which validates a whole proposal against a
  simulated world before any of it may run.
\<close>

section \<open>The default policy\<close>

definition granted_kinds :: "ActionKind list \<Rightarrow> (ActionKind, bool) gomap" where
  "granted_kinds ks = map (\<lambda>k. (k, True)) ks"

definition DefaultPolicy :: Policy where
  "DefaultPolicy =
     \<lparr>MaxActionsPerProposal = 8,
      Grants =
        [(''placement-agent'', granted_kinds
            [ActionPullImage, ActionCreateAllocation, ActionAttachNetwork, ActionMountSecret,
             ActionCreateVolume, ActionAttachVolume, ActionStartAllocation, ActionGrantTools]),
         (''network-agent'', granted_kinds [ActionPublishRoute, ActionApplyPolicy, ActionPublishZone]),
         (''remediation-agent'', granted_kinds
            [ActionCordonNode, ActionStopAllocation, ActionDeleteAllocation]),
         (''rollout-agent'', granted_kinds
            [ActionStopAllocation, ActionDeleteAllocation, ActionDrainAllocation, ActionDetachVolume]),
         (''storage-agent'', granted_kinds
            [ActionSnapshotVolume, ActionDatabaseBackup, ActionBackupSnapshot, ActionRestoreSnapshot,
             ActionQuiesceVolume, ActionTransferVolume, ActionAdoptVolume, ActionPruneSnapshots,
             ActionCollectImages, ActionVerifyBackup])],
      MaxDisruptionsPerWindow = DefaultMaxDisruptions,
      DisruptionWindow = DefaultDisruptionWindow,
      DisruptionCooldown = DefaultDisruptionCooldown,
      ImageSigners = [], RequireSignedImages = False,
      ClusterCeiling = \<lparr>CPUMillis = 0, MemoryMB = 0\<rparr>, MaxAllocations = 0,
      ClusterBudget = Budget_zero\<rparr>"

section \<open>Authorization\<close>

definition required_check :: "Goal \<Rightarrow> Action \<Rightarrow> CheckKind option" where
  "required_check goal a = (case ac_Kind a of
       ActionStartAllocation \<Rightarrow>
         if wl_Runtime (g_Workload goal) \<noteq> None then Some CheckAgentReady else Some CheckAllocationReady
     | ActionPublishRoute \<Rightarrow> Some CheckRouteReachable
     | ActionDrainAllocation \<Rightarrow> Some CheckAllocationDrained
     | _ \<Rightarrow> None)"

definition declares_check :: "Proposal \<Rightarrow> CheckKind \<Rightarrow> string \<Rightarrow> bool" where
  "declares_check p k target =
     list_ex (\<lambda>c. ck_Kind c = k \<and> ck_Target c = target \<and> ck_Want c = ''true'') (p_ExpectedEvidence p)"

definition requireEvidenceChecks :: "Goal \<Rightarrow> Proposal \<Rightarrow> go_error option" where
  "requireEvidenceChecks goal p =
     (if list_ex (\<lambda>a. case required_check goal a of
                        None \<Rightarrow> False | Some k \<Rightarrow> \<not> declares_check p k (ac_Target a)) (p_Actions p)
      then Some (Plan Missing_evidence_check) else None)"

fun authorize_actions :: "time \<Rightarrow> Goal \<Rightarrow> (ActionKind, bool) gomap \<Rightarrow> World \<Rightarrow> string list \<Rightarrow>
    Action list \<Rightarrow> go_error + World" where
  "authorize_actions wall goal grants sim completed [] = Inr sim"
| "authorize_actions wall goal grants sim completed (a # as) =
    (if ac_ID a = [] \<or> ac_ID a \<in> set completed then Inl (Plan Bad_action_id)
     else if \<not> mget_bool grants (ac_Kind a) then Inl (Plan Not_granted)
     else if list_ex (\<lambda>d. d \<notin> set completed) (ac_DependsOn a) then Inl (Plan Unsatisfied_dependency)
     else case validateAction wall goal sim a of
         Some err \<Rightarrow> Inl err
       | None \<Rightarrow> (case simulateAction sim a of
             Inl err \<Rightarrow> Inl err
           | Inr sim' \<Rightarrow> authorize_actions wall goal grants sim' (completed @ [ac_ID a]) as))"

definition agent_grants :: "Policy \<Rightarrow> string \<Rightarrow> (ActionKind, bool) gomap" where
  "agent_grants pol agent = (case map_of (Grants pol) agent of None \<Rightarrow> [] | Some g \<Rightarrow> g)"

definition cluster_checks :: "Signing \<Rightarrow> time \<Rightarrow> Policy \<Rightarrow> Goal \<Rightarrow> World \<Rightarrow> Proposal \<Rightarrow> go_error option" where
  "cluster_checks sg wall pol goal w p = (case requireEvidenceChecks goal p of Some err \<Rightarrow> Some err
     | None \<Rightarrow> (case checkDisruptionBudget wall pol w p of Some err \<Rightarrow> Some err
     | None \<Rightarrow> (case checkBackoff wall w p of Some err \<Rightarrow> Some err
     | None \<Rightarrow> (case checkImageProvenance sg wall pol goal w p of Some err \<Rightarrow> Some err
     | None \<Rightarrow> checkClusterBudget pol w p))))"

definition Authorize ::
  "Signing \<Rightarrow> time \<Rightarrow> Policy \<Rightarrow> AgentDescriptor \<Rightarrow> Goal \<Rightarrow> World \<Rightarrow> Proposal \<Rightarrow> go_error option" where
  "Authorize sg wall pol actor goal w p =
     (if p_AgentID p \<noteq> ad_ID actor then Some (Plan Actor_mismatch)
      else if p_AgentID p = [] \<or> p_GoalID p \<noteq> g_ID goal then Some (Plan Identity_mismatch)
      else if p_BasedOnRevision p \<noteq> Revision w then Some (Plan Stale_proposal)
      else if p_Actions p = [] then Some (Plan No_actions)
      else if int (length (p_Actions p)) > MaxActionsPerProposal pol then Some (Plan Too_many_actions)
      else if agent_grants pol (p_AgentID p) = [] then Some (Plan No_grants)
      else case authorize_actions wall goal (agent_grants pol (p_AgentID p)) (cloneWorld w) [] (p_Actions p) of
          Inl err \<Rightarrow> Some err
        | Inr sim \<Rightarrow> cluster_checks sg wall pol goal w p)"

section \<open>What an authorized plan is\<close>

definition checked_step :: "time \<Rightarrow> Goal \<Rightarrow> World \<Rightarrow> Action \<Rightarrow> go_error + World" where
  "checked_step wall goal w a = (case validateAction wall goal w a of
     Some err \<Rightarrow> Inl err | None \<Rightarrow> simulateAction w a)"

text \<open>Dependencies are satisfied by actions that come earlier in the plan.\<close>

fun deps_ordered :: "string list \<Rightarrow> Action list \<Rightarrow> bool" where
  "deps_ordered done [] = True"
| "deps_ordered done (a # as) = (set (ac_DependsOn a) \<subseteq> set done \<and> deps_ordered (done @ [ac_ID a]) as)"

definition plan_ok :: "time \<Rightarrow> Goal \<Rightarrow> (ActionKind, bool) gomap \<Rightarrow> World \<Rightarrow> string list \<Rightarrow> Action list \<Rightarrow> World \<Rightarrow> bool" where
  "plan_ok wall goal grants w done as w' \<longleftrightarrow>
     run (checked_step wall goal) w as = Inr w' \<and>
     distinct (map ac_ID as) \<and> (\<forall>a \<in> set as. ac_ID a \<noteq> [] \<and> ac_ID a \<notin> set done) \<and>
     (\<forall>a \<in> set as. mget_bool grants (ac_Kind a)) \<and> deps_ordered done as"

lemma authorize_actions_iff:
  "authorize_actions wall goal grants w done as = Inr w' \<longleftrightarrow> plan_ok wall goal grants w done as w'"
proof (induction as arbitrary: w "done")
  case (Cons a as)
  have deps: "list_ex (\<lambda>d. d \<notin> set done) (ac_DependsOn a) \<longleftrightarrow> \<not> set (ac_DependsOn a) \<subseteq> set done"
    by (auto simp: list_ex_iff)
  show ?case
  proof (cases "checked_step wall goal w a")
    case (Inl err)
    then show ?thesis
      by (auto simp: plan_ok_def checked_step_def split: option.splits sum.splits)
  next
    case (Inr w1)
    then have "validateAction wall goal w a = None" "simulateAction w a = Inr w1"
      by (auto simp: checked_step_def split: option.splits)
    then show ?thesis using Inr
      by (auto simp: Cons.IH plan_ok_def deps) (metis imageI)
  qed
qed (simp add: plan_ok_def)

lemma Authorize_None_iff:
  "Authorize sg wall pol actor goal w p = None \<longleftrightarrow>
     p_AgentID p = ad_ID actor \<and> p_AgentID p \<noteq> [] \<and> p_GoalID p = g_ID goal \<and>
     p_BasedOnRevision p = Revision w \<and> p_Actions p \<noteq> [] \<and>
     int (length (p_Actions p)) \<le> MaxActionsPerProposal pol \<and>
     (\<exists>w'. plan_ok wall goal (agent_grants pol (p_AgentID p)) w [] (p_Actions p) w') \<and>
     cluster_checks sg wall pol goal w p = None"
proof -
  have grants: "agent_grants pol (p_AgentID p) \<noteq> []"
    if "plan_ok wall goal (agent_grants pol (p_AgentID p)) w [] (p_Actions p) w'" "p_Actions p \<noteq> []" for w'
    using that by (cases "p_Actions p") (auto simp: plan_ok_def mget_bool_def)
  have ok: "authorize_actions wall goal g w [] as = Inr w' \<longleftrightarrow> plan_ok wall goal g w [] as w'" for g as w'
    by (rule authorize_actions_iff)
  show ?thesis using grants
    by (auto simp: Authorize_def ok [symmetric] split: if_splits sum.splits)
qed

lemma Authorize_plan:
  assumes "Authorize sg wall pol actor goal w p = None"
  obtains w' where "run (checked_step wall goal) w (p_Actions p) = Inr w'"
    "distinct (map ac_ID (p_Actions p))"
    "\<forall>a \<in> set (p_Actions p). mget_bool (agent_grants pol (ad_ID actor)) (ac_Kind a)"
    "deps_ordered [] (p_Actions p)"
  using assms that by (auto simp: Authorize_None_iff plan_ok_def)

lemma Authorize_granted:
  assumes "Authorize sg wall pol actor goal w p = None" "a \<in> set (p_Actions p)"
  shows "mget_bool (agent_grants pol (ad_ID actor)) (ac_Kind a)"
  using assms by (auto elim: Authorize_plan)

lemma Authorize_cluster:
  assumes "Authorize sg wall pol actor goal w p = None"
  shows "requireEvidenceChecks goal p = None" "checkDisruptionBudget wall pol w p = None"
    "checkBackoff wall w p = None" "checkImageProvenance sg wall pol goal w p = None"
    "checkClusterBudget pol w p = None"
  using assms by (auto simp: Authorize_None_iff cluster_checks_def split: option.splits)

text \<open>Every action of an authorized plan was validated in the world its predecessors produce.\<close>

lemma checked_run_nth:
  assumes "run (checked_step wall goal) w as = Inr w'" "k < length as"
  shows "\<exists>wk. run (checked_step wall goal) w (take k as) = Inr wk \<and>
              validateAction wall goal wk (as ! k) = None"
  using assms
proof (induction as arbitrary: w k)
  case (Cons a as)
  then obtain w1 where w1: "checked_step wall goal w a = Inr w1" "run (checked_step wall goal) w1 as = Inr w'"
    by (auto split: sum.splits)
  show ?case
  proof (cases k)
    case 0
    then show ?thesis using w1(1) by (auto simp: checked_step_def split: option.splits)
  next
    case (Suc j)
    then show ?thesis using Cons.IH [OF w1(2), of j] Cons.prems(2) w1(1) by auto
  qed
qed simp

section \<open>Simulation frames\<close>

lemma simulate_frame:
  assumes "simulateAction w a = Inr w'"
  shows "Approvals w' = Approvals w \<and> ObservedAt w' = ObservedAt w \<and> Revision w' = Revision w
    \<and> Queues w' = Queues w \<and> Backoffs w' = Backoffs w \<and> Disruptions w' = Disruptions w"
  using assms
  by (cases "ac_Kind a")
    (auto simp: simulateAction_def simulate_defs release_holding_def Let_def split: option.splits if_splits)

lemma checked_frame:
  assumes "checked_step wall goal w a = Inr w'"
  shows "Approvals w' = Approvals w \<and> ObservedAt w' = ObservedAt w \<and> Revision w' = Revision w
    \<and> Queues w' = Queues w \<and> Backoffs w' = Backoffs w \<and> Disruptions w' = Disruptions w"
  using assms simulate_frame by (auto simp: checked_step_def split: option.splits)

lemma checked_run_frame:
  assumes "run (checked_step wall goal) w as = Inr w'"
  shows "Approvals w' = Approvals w \<and> ObservedAt w' = ObservedAt w \<and> Revision w' = Revision w"
  by (rule run_rel [OF assms, where R = "\<lambda>w w'. Approvals w' = Approvals w \<and> ObservedAt w' = ObservedAt w
        \<and> Revision w' = Revision w"]) (auto dest: checked_frame)

lemma hasApproval_run:
  assumes "run (checked_step wall goal) w as = Inr w'"
  shows "hasApproval wall w' g scope = hasApproval wall w g scope"
  using checked_run_frame [OF assms] by (simp add: hasApproval_def World_Now_def)

end
