(* ===== verification/Control_Projection.thy ===== *)
theory Control_Projection
  imports Control_Simulate Control_Disruption
begin

text \<open>
  The world projection of \<^verbatim>\<open>src/control/projection.go\<close>: \<open>Project\<close> applies one piece of
  evidence to the world, with one definition per case of \<open>projectInto\<close>.  Go mutates a
  clone and discards it on an error; here a case returns the error or the new world.
\<close>

section \<open>Reading observed values\<close>

text \<open>\<open>fmt.Sscanf(s, "%d", &v)\<close>: leading blanks are skipped, a newline is an error, then an
  optional sign and the longest run of digits, which must denote a 64-bit integer.
  What follows the digits is ignored.\<close>

definition is_blank :: "char \<Rightarrow> bool" where
  "is_blank c \<longleftrightarrow> of_char c \<in> {9, 11, 12, 13, 32 :: nat}"

fun sscanf_d :: "string \<Rightarrow> int option" where
  "sscanf_d [] = None"
| "sscanf_d (c # cs) =
    (if is_blank c then sscanf_d cs
     else let (sgn, ds) = (if c = CHR ''-'' then (- 1, cs) else if c = CHR ''+'' then (1, cs)
                           else (1, c # cs))
          in case parse_nat (takeWhile is_digit ds) of
               None \<Rightarrow> None
             | Some n \<Rightarrow> if in64 (sgn * int n) then Some (sgn * int n) else None)"

definition observedInt :: "Evidence \<Rightarrow> string \<Rightarrow> int" where
  "observedInt e key = (case sscanf_d (obs e key) of None \<Rightarrow> 0 | Some v \<Rightarrow> v)"

definition observedResources :: "Evidence \<Rightarrow> go_error + Resources" where
  "observedResources e =
     (let r = \<lparr>CPUMillis = observedInt e ''cpu_millis'', MemoryMB = observedInt e ''memory_mb''\<rparr>
      in if CPUMillis r < 1 \<or> MemoryMB r < 1 then Inl (Ev Resources_not_positive) else Inr r)"

definition observedBudget :: "Evidence \<Rightarrow> Budget" where
  "observedBudget e =
     \<lparr>Tokens = observedInt e ''tokens'', CostMillis = observedInt e ''cost_millis'',
      WallSeconds = observedInt e ''wall_seconds'', ToolCalls = observedInt e ''tool_calls''\<rparr>"

definition splitLines :: "string \<Rightarrow> string list" where
  "splitLines value =
     (if value = [] then [] else filter (\<lambda>l. l \<noteq> []) (split_on (CHR 0x0A) value))"

definition observesNothing :: "EvidenceKind \<Rightarrow> bool" where
  "observesNothing k \<longleftrightarrow> k = EvidenceDiagnosisRecorded"

definition ApprovalScopes :: "string list" where
  "ApprovalScopes = [''public-route'', ''destroy-stateful'', ''restore-volume'', ''move-volume'',
                     ''agent-mutating-tools'', ''rollback'']"

definition ready_alloc :: "Allocation \<Rightarrow> Evidence \<Rightarrow> Allocation" where
  "ready_alloc al e =
     (let ready = (obs e ''ready'' = ''true'');
          lapsed = (\<not> al_Ready al \<or>
                    (\<not> IsZero (al_ReadyExpiresAt al) \<and> \<not> e_ObservedAt e < al_ReadyExpiresAt al))
      in al\<lparr>al_ReadySince := (if \<not> ready then 0
                              else if lapsed \<or> IsZero (al_ReadySince al) then e_ObservedAt e
                              else al_ReadySince al),
            al_Ready := ready, al_ReadyExpiresAt := e_ExpiresAt e\<rparr>)"

definition applyReadiness :: "World \<Rightarrow> string \<Rightarrow> Allocation \<Rightarrow> Evidence \<Rightarrow> World" where
  "applyReadiness w i al e =
     (let w1 = set_alloc i (ready_alloc al e) w in
      if obs e ''ready'' = ''true''
      then (clearBackoff w1 (al_ID al))\<lparr>KnownGood := mput (al_Workload al) (al_Image al) (KnownGood w1)\<rparr>
      else w1)"

section \<open>Images, nodes and routes\<close>

definition project_ImagePresent :: "World \<Rightarrow> Evidence \<Rightarrow> go_error + World" where
  "project_ImagePresent w e = (case map_of (Nodes w) (obs e ''node'') of
       None \<Rightarrow> Inl (Ev Unknown_node)
     | Some n \<Rightarrow>
         if obs e ''image'' = [] then Inl (Ev No_image_observed)
         else Inr (set_node (obs e ''node'') (n\<lparr>n_Images := mput (obs e ''image'') True (n_Images n)\<rparr>) w))"

definition project_PolicyApplied :: "World \<Rightarrow> Evidence \<Rightarrow> go_error + World" where
  "project_PolicyApplied w e = (case map_of (Nodes w) (e_Target e) of
       None \<Rightarrow> Inl (Ev Unknown_node)
     | Some n \<Rightarrow> Inr (set_node (e_Target e) (n\<lparr>n_PolicyFingerprint := obs e ''fingerprint''\<rparr>) w))"

definition project_ZonePublished :: "World \<Rightarrow> Evidence \<Rightarrow> go_error + World" where
  "project_ZonePublished w e = (case map_of (Nodes w) (e_Target e) of
       None \<Rightarrow> Inl (Ev Unknown_node)
     | Some n \<Rightarrow> Inr (set_node (e_Target e) (n\<lparr>n_ZoneFingerprint := obs e ''fingerprint''\<rparr>) w))"

definition project_ImagesCollected :: "World \<Rightarrow> Evidence \<Rightarrow> go_error + World" where
  "project_ImagesCollected w e = (case map_of (Nodes w) (e_Target e) of
       None \<Rightarrow> Inl (Ev Unknown_node)
     | Some n \<Rightarrow> Inr (set_node (e_Target e)
         (n\<lparr>n_Images := foldl (\<lambda>m i. mdel i m) (n_Images n) (splitLines (obs e ''reclaimed''))\<rparr>) w))"

definition project_NodeCordoned :: "World \<Rightarrow> Evidence \<Rightarrow> go_error + World" where
  "project_NodeCordoned w e = (case map_of (Nodes w) (e_Target e) of
       None \<Rightarrow> Inl (Ev Unknown_node)
     | Some n \<Rightarrow> Inr (set_node (e_Target e)
         (n\<lparr>n_Cordoned := True, n_CordonReason := obs e ''reason''\<rparr>) w))"

definition project_NodeUncordoned :: "World \<Rightarrow> Evidence \<Rightarrow> go_error + World" where
  "project_NodeUncordoned w e = (case map_of (Nodes w) (e_Target e) of
       None \<Rightarrow> Inl (Ev Unknown_node)
     | Some n \<Rightarrow> Inr (set_node (e_Target e) (n\<lparr>n_Cordoned := False, n_CordonReason := []\<rparr>) w))"

definition project_NodeReachability :: "World \<Rightarrow> Evidence \<Rightarrow> go_error + World" where
  "project_NodeReachability w e = (case map_of (Nodes w) (e_Target e) of
       None \<Rightarrow> Inl (Ev Unknown_node)
     | Some n \<Rightarrow> Inr (set_node (e_Target e)
         (n\<lparr>n_Healthy := (e_Kind e = EvidenceNodeReachable)\<rparr>) w))"

definition project_ProviderReachable :: "World \<Rightarrow> Evidence \<Rightarrow> go_error + World" where
  "project_ProviderReachable w e = (case map_of (Nodes w) (obs e ''node'') of
       None \<Rightarrow> Inl (Ev Unknown_node)
     | Some n \<Rightarrow>
         if e_Target e = [] then Inl (Ev Target_missing)
         else if (case map_of (n_Providers n) (e_Target e) of
                    None \<Rightarrow> False
                  | Some r \<Rightarrow> \<not> IsZero (pr_ObservedAt r) \<and> e_ObservedAt e < pr_ObservedAt r)
           then Inr w
         else Inr (set_node (obs e ''node'')
           (n\<lparr>n_Providers := mput (e_Target e)
               \<lparr>pr_Reachable = (obs e ''reachable'' = ''true''), pr_ObservedAt = e_ObservedAt e,
                pr_ExpiresAt = e_ExpiresAt e, pr_Detail = obs e ''detail''\<rparr> (n_Providers n)\<rparr>) w))"

definition project_RouteReachable :: "World \<Rightarrow> Evidence \<Rightarrow> go_error + World" where
  "project_RouteReachable w e =
     (if e_Target e = [] then Inl (Ev Target_missing)
      else Inr (w\<lparr>Routes := mput (e_Target e)
             \<lparr>r_Host = e_Target e, r_Workload = obs e ''workload'', r_Port = observedInt e ''port'',
              r_Exposure = obs e ''exposure''\<rparr> (Routes w)\<rparr>))"

definition project_RouteRemoved :: "World \<Rightarrow> Evidence \<Rightarrow> go_error + World" where
  "project_RouteRemoved w e = Inr (w\<lparr>Routes := mdel (e_Target e) (Routes w)\<rparr>)"

definition project_QueueObserved :: "World \<Rightarrow> Evidence \<Rightarrow> go_error + World" where
  "project_QueueObserved w e =
     (if e_Target e = [] then Inl (Ev Target_missing)
      else case map_of (Queues w) (e_Target e) of
          None \<Rightarrow> Inl (Ev Unknown_queue)
        | Some q \<Rightarrow> Inr (w\<lparr>Queues := mput (e_Target e)
            (q\<lparr>q_Depth := observedInt e ''depth'', q_InFlight := observedInt e ''in_flight'',
               q_ObservedAt := e_ObservedAt e\<rparr>) (Queues w)\<rparr>))"

definition project_ApprovalGranted :: "World \<Rightarrow> Evidence \<Rightarrow> go_error + World" where
  "project_ApprovalGranted w e =
     (if e_Target e = [] then Inl (Ev Target_missing)
      else if obs e ''goal'' = [] \<or> obs e ''scope'' = [] then Inl (Ev Goal_or_scope_missing)
      else if obs e ''scope'' \<notin> set ApprovalScopes then Inl (Ev Ungated_scope)
      else Inr (w\<lparr>Approvals := mput (e_Target e)
             \<lparr>ap_ID = e_Target e, ap_GoalID = obs e ''goal'', ap_Scope = obs e ''scope'',
              ap_IssuedBy = obs e ''issued_by'', ap_Granted = True,
              ap_IssuedAt = e_ObservedAt e, ap_ExpiresAt = e_ExpiresAt e,
              ap_Revision = word_of_int (observedInt e ''revision''),
              ap_Subject = obs e ''subject'', ap_Rollback = obs e ''rollback'',
              ap_Reason = obs e ''reason''\<rparr> (Approvals w)\<rparr>))"

definition project_ApprovalRevoked :: "World \<Rightarrow> Evidence \<Rightarrow> go_error + World" where
  "project_ApprovalRevoked w e = (case map_of (Approvals w) (e_Target e) of
       None \<Rightarrow> Inr w
     | Some ap \<Rightarrow> Inr (w\<lparr>Approvals := mput (e_Target e) (ap\<lparr>ap_Granted := False\<rparr>) (Approvals w)\<rparr>))"

section \<open>Allocations\<close>

definition project_AllocationCreated :: "World \<Rightarrow> Evidence \<Rightarrow> go_error + World" where
  "project_AllocationCreated w e = (case map_of (Nodes w) (obs e ''node'') of
       None \<Rightarrow> Inl (Ev Unknown_node)
     | Some n \<Rightarrow>
         if e_Target e = [] then Inl (Ev Target_missing)
         else if mhas (Allocations w) (e_Target e) then Inr w
         else case observedResources e of
             Inl err \<Rightarrow> Inl err
           | Inr r \<Rightarrow>
               let b = observedBudget e;
                   w1 = set_alloc (e_Target e) (Allocation_zero
                          \<lparr>al_ID := e_Target e, al_Workload := obs e ''workload'',
                           al_Replica := observedInt e ''replica'', al_Node := n_ID n,
                           al_Image := obs e ''image'', al_Resources := r,
                           al_Phase := AllocationCreated, al_Budget := b\<rparr>) w
               in Inr (set_node (obs e ''node'')
                    (n\<lparr>n_Used := Resources_Add (n_Used n) r,
                       n_BudgetUsed := Budget_Add (n_BudgetUsed n) b\<rparr>) w1))"

definition project_SecretMounted :: "World \<Rightarrow> Evidence \<Rightarrow> go_error + World" where
  "project_SecretMounted w e = (case map_of (Allocations w) (e_Target e) of
       None \<Rightarrow> Inl (Ev Unknown_allocation)
     | Some al \<Rightarrow>
         if obs e ''secret'' = [] \<or> obs e ''version'' = [] then Inl (Ev Secret_unobserved)
         else Inr (set_alloc (e_Target e)
           (al\<lparr>al_Secrets := mput (obs e ''secret'') (obs e ''version'') (al_Secrets al)\<rparr>) w))"

definition project_NetworkAttached :: "World \<Rightarrow> Evidence \<Rightarrow> go_error + World" where
  "project_NetworkAttached w e = (case map_of (Allocations w) (e_Target e) of
       None \<Rightarrow> Inl (Ev Unknown_allocation)
     | Some al \<Rightarrow>
         if obs e ''address'' = [] then Inl (Ev Address_missing)
         else Inr (set_alloc (e_Target e) (al\<lparr>al_Address := obs e ''address''\<rparr>) w))"

definition project_NetworkDetached :: "World \<Rightarrow> Evidence \<Rightarrow> go_error + World" where
  "project_NetworkDetached w e = (case map_of (Allocations w) (e_Target e) of
       None \<Rightarrow> Inr w
     | Some al \<Rightarrow> Inr (set_alloc (e_Target e) (al\<lparr>al_Address := []\<rparr>) w))"

definition project_AllocationRunning :: "World \<Rightarrow> Evidence \<Rightarrow> go_error + World" where
  "project_AllocationRunning w e = (case map_of (Allocations w) (e_Target e) of
       None \<Rightarrow> Inl (Ev Unknown_allocation)
     | Some al \<Rightarrow> Inr (set_alloc (e_Target e) (al\<lparr>al_Phase := AllocationRunning\<rparr>) w))"

definition project_Ready :: "World \<Rightarrow> Evidence \<Rightarrow> go_error + World" where
  "project_Ready w e = (case map_of (Allocations w) (e_Target e) of
       None \<Rightarrow> Inl (Ev Unknown_allocation)
     | Some al \<Rightarrow>
         if al_Phase al \<noteq> AllocationRunning then Inl (Alloc Wrong_phase)
         else Inr (applyReadiness w (e_Target e) al e))"

definition project_AllocationStopped :: "World \<Rightarrow> Evidence \<Rightarrow> go_error + World" where
  "project_AllocationStopped w e = (case map_of (Allocations w) (e_Target e) of
       None \<Rightarrow> Inl (Ev Unknown_allocation)
     | Some al \<Rightarrow>
         let w1 = recordDisruption w al (e_Kind e) (e_ObservedAt e)
         in Inr (set_alloc (e_Target e)
              (al\<lparr>al_Phase := AllocationStopped, al_Ready := False, al_ReadySince := 0\<rparr>) w1))"

definition project_AllocationFailed :: "World \<Rightarrow> Evidence \<Rightarrow> go_error + World" where
  "project_AllocationFailed w e = (case map_of (Allocations w) (e_Target e) of
       None \<Rightarrow> Inl (Ev Unknown_allocation)
     | Some al \<Rightarrow>
         let w1 = set_alloc (e_Target e)
               (al\<lparr>al_Phase := AllocationStopped, al_Ready := False, al_ReadySince := 0,
                   al_ExitCode := observedInt e ''exit_code'',
                   al_Restarts := observedInt e ''restarts''\<rparr>) w
         in Inr (recordFailure w1 (e_Target e) (e_ObservedAt e)))"

definition project_AllocationDeleted :: "World \<Rightarrow> Evidence \<Rightarrow> go_error + World" where
  "project_AllocationDeleted w e = (case map_of (Allocations w) (e_Target e) of
       None \<Rightarrow> Inr w
     | Some al \<Rightarrow>
         let w1 = (case map_of (Nodes w) (al_Node al) of
                     None \<Rightarrow> w
                   | Some n \<Rightarrow> set_node (al_Node al)
                       (n\<lparr>n_Used := Resources_Subtract (n_Used n) (al_Resources al)\<rparr>) w);
             w2 = recordDisruption w1 al (e_Kind e) (e_ObservedAt e)
         in Inr (w2\<lparr>Allocations := mdel (e_Target e) (Allocations w2)\<rparr>))"

definition project_ToolsGranted :: "World \<Rightarrow> Evidence \<Rightarrow> go_error + World" where
  "project_ToolsGranted w e = (case map_of (Allocations w) (e_Target e) of
       None \<Rightarrow> Inl (Ev Unknown_allocation)
     | Some al \<Rightarrow>
         if al_Phase al \<noteq> AllocationCreated then Inl (Alloc Wrong_phase)
         else if observedInt e ''count'' < 0 then Inl Go_panic
         else Inr (set_alloc (e_Target e)
           (al\<lparr>al_Tools := replicate (nat (observedInt e ''count''))
                 \<lparr>tg_Name = [], tg_Scope = [], tg_Mutating = False\<rparr>\<rparr>) w))"

definition project_AgentSpent :: "World \<Rightarrow> Evidence \<Rightarrow> go_error + World" where
  "project_AgentSpent w e = (case map_of (Allocations w) (e_Target e) of
       None \<Rightarrow> Inl (Ev Unknown_allocation)
     | Some al \<Rightarrow>
         let spent = observedBudget e in
         if Tokens spent < Tokens (al_Spent al) \<or> CostMillis spent < CostMillis (al_Spent al)
           then Inr w
         else let al1 = al\<lparr>al_Spent := spent\<rparr>
              in Inr (set_alloc (e_Target e)
                   (if Exhausted al1 then al1\<lparr>al_Ready := False\<rparr> else al1) w))"

definition project_AgentDraining :: "World \<Rightarrow> Evidence \<Rightarrow> go_error + World" where
  "project_AgentDraining w e = (case map_of (Allocations w) (e_Target e) of
       None \<Rightarrow> Inl (Ev Unknown_allocation)
     | Some al \<Rightarrow> Inr (set_alloc (e_Target e)
         (al\<lparr>al_Draining := True,
             al_Task := (case map_of (e_Observed e) ''task'' of None \<Rightarrow> al_Task al | Some t \<Rightarrow> t)\<rparr>) w))"

definition project_AllocationDrained :: "World \<Rightarrow> Evidence \<Rightarrow> go_error + World" where
  "project_AllocationDrained w e = (case map_of (Allocations w) (e_Target e) of
       None \<Rightarrow> Inl (Ev Unknown_allocation)
     | Some al \<Rightarrow>
         let al1 = al\<lparr>al_Draining := True, al_Task := [], al_Ready := False, al_ReadySince := 0\<rparr>
         in Inr (recordDisruption (set_alloc (e_Target e) al1 w) al1 (e_Kind e) (e_ObservedAt e)))"

section \<open>Volumes\<close>

definition project_VolumeCreated :: "World \<Rightarrow> Evidence \<Rightarrow> go_error + World" where
  "project_VolumeCreated w e =
     (if e_Target e = [] then Inl (Ev Target_missing)
      else if \<not> mhas (Nodes w) (obs e ''node'') then Inl (Ev Unknown_node)
      else if mhas (Volumes w) (e_Target e) then Inr w
      else Inr (set_vol (e_Target e)
             (Volume_zero\<lparr>v_Name := e_Target e, v_Node := obs e ''node'',
                          v_SizeMB := observedInt e ''size_mb''\<rparr>) w))"

definition project_VolumeAttached :: "World \<Rightarrow> Evidence \<Rightarrow> go_error + World" where
  "project_VolumeAttached w e = (case map_of (Volumes w) (e_Target e) of
       None \<Rightarrow> Inl (Ev Unknown_volume)
     | Some v \<Rightarrow>
         let owner = obs e ''allocation'' in
         if owner = [] then Inl (Ev Allocation_unobserved)
         else case map_of (Allocations w) owner of
             None \<Rightarrow> Inl (Ev Unknown_allocation)
           | Some al \<Rightarrow>
               if v_Owner v \<noteq> [] \<and> v_Owner v \<noteq> owner then Inl (Vol Volume_owned)
               else let v' = claim_volume v owner
                    in Inr (set_alloc owner
                         (al\<lparr>al_Volumes := mput (e_Target e) (v_Generation v') (al_Volumes al)\<rparr>)
                         (set_vol (e_Target e) v' w)))"

definition project_VolumeDetached :: "World \<Rightarrow> Evidence \<Rightarrow> go_error + World" where
  "project_VolumeDetached w e = (case map_of (Volumes w) (e_Target e) of
       None \<Rightarrow> Inr w
     | Some v \<Rightarrow>
         let owner = obs e ''allocation'' in
         if v_Owner v \<noteq> [] \<and> owner \<noteq> [] \<and> v_Owner v \<noteq> owner then Inr w
         else Inr (set_vol (e_Target e) (v\<lparr>v_Owner := [], v_Generation := v_Generation v + 1\<rparr>)
                     (release_holding w (v_Owner v) (e_Target e))))"

definition project_VolumeSnapshotted :: "World \<Rightarrow> Evidence \<Rightarrow> go_error + World" where
  "project_VolumeSnapshotted w e = (case map_of (Volumes w) (e_Target e) of
       None \<Rightarrow> Inl (Ev Unknown_volume)
     | Some v \<Rightarrow>
         let snapshot = obs e ''snapshot''; checksum = obs e ''checksum'' in
         if snapshot = [] \<or> checksum = [] then Inl (Vol Checksum_missing)
         else if (case map_of (v_Snapshots v) snapshot of None \<Rightarrow> False | Some c \<Rightarrow> c \<noteq> checksum)
           then Inl (Vol Checksum_mismatch)
         else Inr (set_vol (e_Target e)
           (v\<lparr>v_SnapshotOrder := (if mhas (v_Snapshots v) snapshot then v_SnapshotOrder v
                                  else v_SnapshotOrder v @ [snapshot]),
              v_Snapshots := mput snapshot checksum (v_Snapshots v),
              v_LastSnapshot := snapshot,
              v_Handoff := (case v_Handoff v of
                   Some h \<Rightarrow> if ho_Phase h = HandoffQuiesced
                              then Some (h\<lparr>ho_Phase := HandoffSnapshotted, ho_Snapshot := snapshot,
                                           ho_Checksum := checksum\<rparr>)
                              else Some h
                 | None \<Rightarrow> None)\<rparr>) w))"

definition project_VolumeBackedUp :: "World \<Rightarrow> Evidence \<Rightarrow> go_error + World" where
  "project_VolumeBackedUp w e = (case map_of (Volumes w) (e_Target e) of
       None \<Rightarrow> Inl (Ev Unknown_volume)
     | Some v \<Rightarrow>
         let snapshot = obs e ''snapshot''; location = obs e ''location''; checksum = obs e ''checksum'' in
         if snapshot = [] \<or> location = [] then Inl (Vol Location_missing)
         else case map_of (v_Snapshots v) snapshot of
             None \<Rightarrow> Inl (Vol Snapshot_unknown)
           | Some recorded \<Rightarrow>
               if checksum \<noteq> [] \<and> checksum \<noteq> recorded then Inl (Vol Checksum_mismatch)
               else Inr (set_vol (e_Target e) (v\<lparr>v_Backups := mput snapshot location (v_Backups v)\<rparr>) w))"

definition project_VolumeQuiesced :: "World \<Rightarrow> Evidence \<Rightarrow> go_error + World" where
  "project_VolumeQuiesced w e = (case map_of (Volumes w) (e_Target e) of
       None \<Rightarrow> Inl (Ev Unknown_volume)
     | Some v \<Rightarrow>
         let target = obs e ''to'' in
         if target = [] then Inl (Ev Target_missing)
         else if \<not> mhas (Nodes w) target then Inl (Ev Unknown_node)
         else if v_Owner v \<noteq> [] then Inl (Vol Volume_attached)
         else Inr (set_vol (e_Target e)
           (v\<lparr>v_Handoff := Some \<lparr>ho_From = v_Node v, ho_To = target, ho_Phase = HandoffQuiesced,
                                 ho_Snapshot = [], ho_Checksum = []\<rparr>\<rparr>) w))"

definition project_VolumeTransferred :: "World \<Rightarrow> Evidence \<Rightarrow> go_error + World" where
  "project_VolumeTransferred w e = (case map_of (Volumes w) (e_Target e) of
       None \<Rightarrow> Inl (Ev Unknown_volume)
     | Some v \<Rightarrow> (case v_Handoff v of
         None \<Rightarrow> Inl (Vol No_handoff)
       | Some h \<Rightarrow>
           if ho_Phase h \<noteq> HandoffSnapshotted then Inl (Vol Handoff_phase)
           else if obs e ''checksum'' = [] then Inl (Vol Checksum_missing)
           else if obs e ''checksum'' \<noteq> ho_Checksum h then Inl (Vol Checksum_mismatch)
           else Inr (set_vol (e_Target e)
             (v\<lparr>v_Handoff := Some (h\<lparr>ho_Phase := HandoffTransferred\<rparr>)\<rparr>) w)))"

definition project_VolumeAdopted :: "World \<Rightarrow> Evidence \<Rightarrow> go_error + World" where
  "project_VolumeAdopted w e = (case map_of (Volumes w) (e_Target e) of
       None \<Rightarrow> Inl (Ev Unknown_volume)
     | Some v \<Rightarrow> (case v_Handoff v of
         None \<Rightarrow> Inl (Vol No_handoff)
       | Some h \<Rightarrow>
           if ho_Phase h \<noteq> HandoffTransferred then Inl (Vol Handoff_phase)
           else if obs e ''node'' \<noteq> ho_To h then Inl (Vol Handoff_target)
           else Inr (set_vol (e_Target e)
             (v\<lparr>v_Node := ho_To h, v_Generation := v_Generation v + 1, v_Handoff := None\<rparr>) w)))"

definition project_SnapshotsPruned :: "World \<Rightarrow> Evidence \<Rightarrow> go_error + World" where
  "project_SnapshotsPruned w e = (case map_of (Volumes w) (e_Target e) of
       None \<Rightarrow> Inl (Ev Unknown_volume)
     | Some v \<Rightarrow>
         let v1 = foldl drop_snapshot v (splitLines (obs e ''removed''));
             v2 = (if mhas (v_Snapshots v1) (v_LastSnapshot v1) then v1
                   else v1\<lparr>v_LastSnapshot := (if v_SnapshotOrder v1 = [] then []
                                               else last (v_SnapshotOrder v1))\<rparr>)
         in Inr (set_vol (e_Target e) v2 w))"

definition project_DatabaseBackedUp :: "World \<Rightarrow> Evidence \<Rightarrow> go_error + World" where
  "project_DatabaseBackedUp w e = (case map_of (Volumes w) (e_Target e) of
       None \<Rightarrow> Inl (Ev Unknown_volume)
     | Some v \<Rightarrow>
         let label = obs e ''label''; checksum = obs e ''checksum'' in
         if label = [] \<or> checksum = [] then Inl (Vol Checksum_missing)
         else Inr (set_vol (e_Target e)
           (v\<lparr>v_SnapshotOrder := (if mhas (v_Snapshots v) label then v_SnapshotOrder v
                                  else v_SnapshotOrder v @ [label]),
              v_Snapshots := mput label checksum (v_Snapshots v),
              v_LastSnapshot := label\<rparr>) w))"

definition project_BackupVerified :: "World \<Rightarrow> Evidence \<Rightarrow> go_error + World" where
  "project_BackupVerified w e = (case map_of (Volumes w) (e_Target e) of
       None \<Rightarrow> Inl (Ev Unknown_volume)
     | Some v \<Rightarrow>
         let snapshot = obs e ''snapshot'' in
         if snapshot = [] then Inl (Vol Snapshot_id_missing)
         else if obs e ''verified'' \<noteq> ''true'' then Inr w
         else if \<not> mhas (v_Snapshots v) snapshot then Inl (Vol Snapshot_unknown)
         else Inr (set_vol (e_Target e)
           (v\<lparr>v_VerifiedSnapshot := snapshot,
              v_VerifiedAt := (if IsZero (e_ObservedAt e) then v_VerifiedAt v else e_ObservedAt e)\<rparr>) w))"

definition project_VolumeRestored :: "World \<Rightarrow> Evidence \<Rightarrow> go_error + World" where
  "project_VolumeRestored w e = (case map_of (Volumes w) (e_Target e) of
       None \<Rightarrow> Inl (Ev Unknown_volume)
     | Some v \<Rightarrow>
         let snapshot = obs e ''snapshot'' in
         if snapshot = [] then Inl (Vol Snapshot_id_missing)
         else if \<not> mhas (v_Snapshots v) snapshot then Inl (Vol Snapshot_unknown)
         else Inr (set_vol (e_Target e) (v\<lparr>v_RestoredFrom := snapshot\<rparr>) w))"

section \<open>The projection\<close>

definition projectInto :: "World \<Rightarrow> Evidence \<Rightarrow> go_error + World" where
  "projectInto w e = (case e_Kind e of
       EvidenceImagePresent \<Rightarrow> project_ImagePresent w e
     | EvidenceAllocationCreated \<Rightarrow> project_AllocationCreated w e
     | EvidenceVolumeCreated \<Rightarrow> project_VolumeCreated w e
     | EvidenceVolumeAttached \<Rightarrow> project_VolumeAttached w e
     | EvidenceVolumeDetached \<Rightarrow> project_VolumeDetached w e
     | EvidenceVolumeSnapshotted \<Rightarrow> project_VolumeSnapshotted w e
     | EvidenceVolumeBackedUp \<Rightarrow> project_VolumeBackedUp w e
     | EvidenceVolumeQuiesced \<Rightarrow> project_VolumeQuiesced w e
     | EvidenceVolumeTransferred \<Rightarrow> project_VolumeTransferred w e
     | EvidenceVolumeAdopted \<Rightarrow> project_VolumeAdopted w e
     | EvidencePolicyApplied \<Rightarrow> project_PolicyApplied w e
     | EvidenceZonePublished \<Rightarrow> project_ZonePublished w e
     | EvidenceImagesCollected \<Rightarrow> project_ImagesCollected w e
     | EvidenceSnapshotsPruned \<Rightarrow> project_SnapshotsPruned w e
     | EvidenceDatabaseBackedUp \<Rightarrow> project_DatabaseBackedUp w e
     | EvidenceBackupVerified \<Rightarrow> project_BackupVerified w e
     | EvidenceVolumeRestored \<Rightarrow> project_VolumeRestored w e
     | EvidenceSecretMounted \<Rightarrow> project_SecretMounted w e
     | EvidenceNetworkAttached \<Rightarrow> project_NetworkAttached w e
     | EvidenceNetworkDetached \<Rightarrow> project_NetworkDetached w e
     | EvidenceAllocationRunning \<Rightarrow> project_AllocationRunning w e
     | EvidenceAllocationReady \<Rightarrow> project_Ready w e
     | EvidenceNodeCordoned \<Rightarrow> project_NodeCordoned w e
     | EvidenceNodeUncordoned \<Rightarrow> project_NodeUncordoned w e
     | EvidenceNodeReachable \<Rightarrow> project_NodeReachability w e
     | EvidenceNodeUnreachable \<Rightarrow> project_NodeReachability w e
     | EvidenceAllocationStopped \<Rightarrow> project_AllocationStopped w e
     | EvidenceAllocationFailed \<Rightarrow> project_AllocationFailed w e
     | EvidenceAllocationDeleted \<Rightarrow> project_AllocationDeleted w e
     | EvidenceRouteReachable \<Rightarrow> project_RouteReachable w e
     | EvidenceRouteRemoved \<Rightarrow> project_RouteRemoved w e
     | EvidenceToolsGranted \<Rightarrow> project_ToolsGranted w e
     | EvidenceAgentReady \<Rightarrow> project_Ready w e
     | EvidenceAgentSpent \<Rightarrow> project_AgentSpent w e
     | EvidenceAgentDraining \<Rightarrow> project_AgentDraining w e
     | EvidenceAllocationDrained \<Rightarrow> project_AllocationDrained w e
     | EvidenceProviderReachable \<Rightarrow> project_ProviderReachable w e
     | EvidenceApprovalGranted \<Rightarrow> project_ApprovalGranted w e
     | EvidenceApprovalRevoked \<Rightarrow> project_ApprovalRevoked w e
     | EvidenceDiagnosisRecorded \<Rightarrow> Inr w
     | EvidenceQueueObserved \<Rightarrow> project_QueueObserved w e
     | EvidenceOther k \<Rightarrow> Inl (Ev Unknown_evidence_kind))"

definition Project :: "World \<Rightarrow> Evidence \<Rightarrow> go_error + World" where
  "Project w e = (case projectInto (cloneWorld w) e of
       Inl err \<Rightarrow> Inl err
     | Inr next \<Rightarrow>
         if observesNothing (e_Kind e) then Inr next
         else Inr (next\<lparr>Revision := Revision w + 1,
                        ObservedAt := (if \<not> IsZero (e_ObservedAt e) \<and> ObservedAt next < e_ObservedAt e
                                       then e_ObservedAt e else ObservedAt next)\<rparr>))"

lemmas project_defs =
  project_ImagePresent_def project_PolicyApplied_def project_ZonePublished_def
  project_ImagesCollected_def project_NodeCordoned_def project_NodeUncordoned_def
  project_NodeReachability_def project_ProviderReachable_def project_RouteReachable_def
  project_RouteRemoved_def project_QueueObserved_def project_ApprovalGranted_def
  project_ApprovalRevoked_def project_AllocationCreated_def project_SecretMounted_def
  project_NetworkAttached_def project_NetworkDetached_def project_AllocationRunning_def
  project_Ready_def project_AllocationStopped_def project_AllocationFailed_def
  project_AllocationDeleted_def project_ToolsGranted_def project_AgentSpent_def
  project_AgentDraining_def project_AllocationDrained_def
lemmas project_volume_defs =
  project_VolumeCreated_def project_VolumeAttached_def project_VolumeDetached_def
  project_VolumeSnapshotted_def project_VolumeBackedUp_def project_VolumeQuiesced_def
  project_VolumeTransferred_def project_VolumeAdopted_def project_SnapshotsPruned_def
  project_DatabaseBackedUp_def project_BackupVerified_def project_VolumeRestored_def

end
