(* ===== verification/Projection_Facts.thy ===== *)
theory Projection_Facts
  imports Control_Projection
begin

text \<open>
  What one piece of evidence may change: frame lemmas for every case of \<open>projectInto\<close>,
  the revision and observation time, readiness, and the well-formedness of the world's maps.
\<close>

section \<open>Frames\<close>

lemma recordDisruption_frame [simp]:
  "Revision (recordDisruption w a k t) = Revision w" "ObservedAt (recordDisruption w a k t) = ObservedAt w"
  "Nodes (recordDisruption w a k t) = Nodes w" "Allocations (recordDisruption w a k t) = Allocations w"
  "Routes (recordDisruption w a k t) = Routes w" "Volumes (recordDisruption w a k t) = Volumes w"
  "Queues (recordDisruption w a k t) = Queues w" "Approvals (recordDisruption w a k t) = Approvals w"
  "KnownGood (recordDisruption w a k t) = KnownGood w" "Backoffs (recordDisruption w a k t) = Backoffs w"
  by (simp_all add: recordDisruption_def Let_def)

lemma recordFailure_frame [simp]:
  "Revision (recordFailure w i t) = Revision w" "ObservedAt (recordFailure w i t) = ObservedAt w"
  "Nodes (recordFailure w i t) = Nodes w" "Allocations (recordFailure w i t) = Allocations w"
  "Routes (recordFailure w i t) = Routes w" "Volumes (recordFailure w i t) = Volumes w"
  "Queues (recordFailure w i t) = Queues w" "Approvals (recordFailure w i t) = Approvals w"
  "KnownGood (recordFailure w i t) = KnownGood w" "Disruptions (recordFailure w i t) = Disruptions w"
  by (simp_all add: recordFailure_def Let_def)

lemma applyReadiness_frame [simp]:
  "Revision (applyReadiness w i al e) = Revision w" "ObservedAt (applyReadiness w i al e) = ObservedAt w"
  "Nodes (applyReadiness w i al e) = Nodes w" "Routes (applyReadiness w i al e) = Routes w"
  "Volumes (applyReadiness w i al e) = Volumes w" "Queues (applyReadiness w i al e) = Queues w"
  "Approvals (applyReadiness w i al e) = Approvals w"
  "Disruptions (applyReadiness w i al e) = Disruptions w"
  by (simp_all add: applyReadiness_def clearBackoff_def Let_def)

lemma applyReadiness_Allocations [simp]:
  "Allocations (applyReadiness w i al e) = mput i (ready_alloc al e) (Allocations w)"
  by (simp add: applyReadiness_def clearBackoff_def Let_def)

lemma ready_alloc_frame [simp]:
  "al_ID (ready_alloc al e) = al_ID al" "al_Workload (ready_alloc al e) = al_Workload al"
  "al_Node (ready_alloc al e) = al_Node al" "al_Image (ready_alloc al e) = al_Image al"
  "al_Resources (ready_alloc al e) = al_Resources al" "al_Phase (ready_alloc al e) = al_Phase al"
  "al_Volumes (ready_alloc al e) = al_Volumes al" "al_Budget (ready_alloc al e) = al_Budget al"
  "al_Ready (ready_alloc al e) = (obs e ''ready'' = ''true'')"
  by (simp_all add: ready_alloc_def Let_def)

lemma release_holding_frame [simp]:
  "Revision (release_holding w i n) = Revision w" "ObservedAt (release_holding w i n) = ObservedAt w"
  "Nodes (release_holding w i n) = Nodes w" "Volumes (release_holding w i n) = Volumes w"
  by (simp_all add: release_holding_def split: option.splits)

lemma claim_volume_frame [simp]:
  "v_Node (claim_volume v i) = v_Node v" "v_Handoff (claim_volume v i) = v_Handoff v"
  "v_Owner (claim_volume v i) = i"
  "v_Generation (claim_volume v i) = (if v_Owner v = i then v_Generation v else v_Generation v + 1)"
  by (simp_all add: claim_volume_def)

definition volume_kind :: "EvidenceKind \<Rightarrow> bool" where
  "volume_kind k \<longleftrightarrow> k \<in> {EvidenceVolumeCreated, EvidenceVolumeAttached, EvidenceVolumeDetached,
     EvidenceVolumeSnapshotted, EvidenceVolumeBackedUp, EvidenceVolumeQuiesced,
     EvidenceVolumeTransferred, EvidenceVolumeAdopted, EvidenceSnapshotsPruned,
     EvidenceDatabaseBackedUp, EvidenceBackupVerified, EvidenceVolumeRestored}"

lemma projectInto_time:
  assumes "projectInto w e = Inr w'"
  shows "Revision w' = Revision w \<and> ObservedAt w' = ObservedAt w"
  using assms
  by (cases "e_Kind e")
    (auto simp: projectInto_def project_defs project_volume_defs Let_def
          split: option.splits if_splits sum.splits)

lemma projectInto_Volumes:
  assumes "projectInto w e = Inr w'" "\<not> volume_kind (e_Kind e)"
  shows "Volumes w' = Volumes w"
  using assms
  by (cases "e_Kind e")
    (auto simp: projectInto_def project_defs Let_def volume_kind_def
          split: option.splits if_splits sum.splits)

lemma projectInto_Nodes_volume:
  assumes "projectInto w e = Inr w'" "volume_kind (e_Kind e)"
  shows "Nodes w' = Nodes w"
  using assms
  by (cases "e_Kind e")
    (auto simp: projectInto_def project_volume_defs Let_def volume_kind_def
          split: option.splits if_splits sum.splits)

end
