(* ===== verification/Kernel_Capacity.thy ===== *)
theory Kernel_Capacity
  imports Control_Kernel Projection_Facts
begin

text \<open>
  Capacity accounting.  A node's \<open>Used\<close> is the total of the allocations placed on it, and
  it fits the node's capacity; the kernel's plan simulation keeps both, and the projection of
  evidence keeps the accounting exact.
\<close>

section \<open>Accounting\<close>

definition node_total :: "(Resources \<Rightarrow> int) \<Rightarrow> World \<Rightarrow> string \<Rightarrow> int" where
  "node_total f w k = msum (\<lambda>a. if al_Node a = k then f (al_Resources a) else 0) (Allocations w)"

definition accounted :: "World \<Rightarrow> bool" where
  "accounted w \<longleftrightarrow> mwf (Allocations w) \<and>
     (\<forall>i a. map_of (Allocations w) i = Some a \<longrightarrow> 0 \<le> CPUMillis (al_Resources a) \<and> 0 \<le> MemoryMB (al_Resources a)) \<and>
     (\<forall>k n. map_of (Nodes w) k = Some n \<longrightarrow>
        CPUMillis (n_Used n) = node_total CPUMillis w k \<and> MemoryMB (n_Used n) = node_total MemoryMB w k)"

definition within_capacity :: "World \<Rightarrow> bool" where
  "within_capacity w \<longleftrightarrow> (\<forall>k n. map_of (Nodes w) k = Some n \<longrightarrow>
     Resources_Fits (n_Used n) (n_Capacity n) \<and> CPUMillis (n_Capacity n) < 2 ^ 62 \<and> MemoryMB (n_Capacity n) < 2 ^ 62)"

definition small :: "Resources \<Rightarrow> bool" where
  "small r \<longleftrightarrow> 0 \<le> CPUMillis r \<and> CPUMillis r < 2 ^ 62 \<and> 0 \<le> MemoryMB r \<and> MemoryMB r < 2 ^ 62"

definition alloc_view :: "World \<Rightarrow> string \<Rightarrow> (string \<times> Resources) option" where
  "alloc_view w i = map_option (\<lambda>a. (al_Node a, al_Resources a)) (map_of (Allocations w) i)"

definition node_view :: "World \<Rightarrow> string \<Rightarrow> (Resources \<times> Resources) option" where
  "node_view w k = map_option (\<lambda>n. (n_Used n, n_Capacity n)) (map_of (Nodes w) k)"

lemma node_total_view:
  assumes "mwf (Allocations w)" "mwf (Allocations w')" "alloc_view w' = alloc_view w"
  shows "node_total f w' k = node_total f w k"
  unfolding node_total_def
  by (rule msum_view [where g = "\<lambda>a. (al_Node a, al_Resources a)"])
     (use assms in \<open>auto simp: alloc_view_def fun_eq_iff\<close>)

lemma accounted_view:
  assumes "accounted w" "mwf (Allocations w')" "alloc_view w' = alloc_view w" "node_view w' = node_view w"
  shows "accounted w'"
proof -
  have wf: "mwf (Allocations w)" using assms(1) by (simp add: accounted_def)
  have "\<exists>a0. map_of (Allocations w) i = Some a0 \<and> al_Resources a0 = al_Resources a"
    if "map_of (Allocations w') i = Some a" for i a
    using that assms(3) by (auto simp: alloc_view_def fun_eq_iff dest!: spec [of _ i])
  moreover have "\<exists>n0. map_of (Nodes w) k = Some n0 \<and> n_Used n0 = n_Used n"
    if "map_of (Nodes w') k = Some n" for k n
    using that assms(4) by (auto simp: node_view_def fun_eq_iff dest!: spec [of _ k])
  ultimately show ?thesis
    using assms(1,2) node_total_view [OF wf assms(2,3)] unfolding accounted_def by metis
qed

lemma within_capacity_view:
  assumes "within_capacity w" "node_view w' = node_view w"
  shows "within_capacity w'"
proof -
  have "\<exists>n0. map_of (Nodes w) k = Some n0 \<and> n_Used n0 = n_Used n \<and> n_Capacity n0 = n_Capacity n"
    if "map_of (Nodes w') k = Some n" for k n
    using that assms(2) by (auto simp: node_view_def fun_eq_iff dest!: spec [of _ k])
  then show ?thesis using assms(1) unfolding within_capacity_def by metis
qed

lemma node_total_put_new:
  assumes "mwf m" "map_of m i = None"
  shows "msum (\<lambda>a. if al_Node a = k then f (al_Resources a) else 0) (mput i al m)
    = msum (\<lambda>a. if al_Node a = k then f (al_Resources a) else 0) m
      + (if al_Node al = k then f (al_Resources al) else 0)"
  using assms by (simp add: msum_mput)

lemma node_total_del:
  assumes "mwf m" "map_of m i = Some al"
  shows "msum (\<lambda>a. if al_Node a = k then f (al_Resources a) else 0) (mdel i m)
    = msum (\<lambda>a. if al_Node a = k then f (al_Resources a) else 0) m
      - (if al_Node al = k then f (al_Resources al) else 0)"
  using assms by (simp add: msum_mdel)

lemma accounted_nonneg:
  "accounted w \<Longrightarrow> a \<in> set (mvals (Allocations w)) \<Longrightarrow>
    0 \<le> CPUMillis (al_Resources a) \<and> 0 \<le> MemoryMB (al_Resources a)"
  using mwf_vals [of "Allocations w" a] unfolding accounted_def by blast

lemma node_total_nonneg:
  assumes "accounted w"
  shows "0 \<le> node_total CPUMillis w k \<and> 0 \<le> node_total MemoryMB w k"
  unfolding node_total_def using accounted_nonneg [OF assms]
  by (intro conjI msum_nonneg) (simp_all del: list.set_map)

text \<open>Releasing what an allocation holds never clamps: its share is part of the total.\<close>

lemma accounted_share:
  assumes "accounted w" "map_of (Allocations w) i = Some al"
  shows "CPUMillis (al_Resources al) \<le> node_total CPUMillis w (al_Node al)"
    "MemoryMB (al_Resources al) \<le> node_total MemoryMB w (al_Node al)"
proof -
  note nonneg = accounted_nonneg [OF assms(1)]
  show "CPUMillis (al_Resources al) \<le> node_total CPUMillis w (al_Node al)"
    using msum_ge_member [OF assms(2), of "\<lambda>a. if al_Node a = al_Node al then CPUMillis (al_Resources a) else 0"]
      nonneg by (simp add: node_total_def del: list.set_map)
  show "MemoryMB (al_Resources al) \<le> node_total MemoryMB w (al_Node al)"
    using msum_ge_member [OF assms(2), of "\<lambda>a. if al_Node a = al_Node al then MemoryMB (al_Resources a) else 0"]
      nonneg by (simp add: node_total_def del: list.set_map)
qed

section \<open>Adding and removing an allocation\<close>

lemma accounted_add:
  assumes acc: "accounted w" and new: "map_of (Allocations w) i = None"
    and n: "map_of (Nodes w) k = Some n" and al: "al_Node al = k" "al_Resources al = r"
    and r: "0 \<le> CPUMillis r" "0 \<le> MemoryMB r"
    and fits: "CPUMillis (n_Used n) + CPUMillis r < 2 ^ 63" "MemoryMB (n_Used n) + MemoryMB r < 2 ^ 63"
    and w': "Allocations w' = mput i al (Allocations w)" "Nodes w' = mput k n' (Nodes w)"
      "n_Used n' = Resources_Add (n_Used n) r"
  shows "accounted w'"
proof -
  have wf: "mwf (Allocations w)" using acc by (simp add: accounted_def)
  have tot: "node_total f w' j = node_total f w j + (if k = j then f r else 0)" for f j
    using node_total_put_new [OF wf new, of j f al] al by (simp add: node_total_def w')
  have used: "CPUMillis (n_Used n) = node_total CPUMillis w k" "MemoryMB (n_Used n) = node_total MemoryMB w k"
    using acc n by (auto simp: accounted_def)
  have nonneg: "0 \<le> node_total CPUMillis w k" "0 \<le> node_total MemoryMB w k"
    using node_total_nonneg [OF acc] by auto
  have "CPUMillis (n_Used n') = node_total CPUMillis w k + CPUMillis r"
    "MemoryMB (n_Used n') = node_total MemoryMB w k + MemoryMB r"
    using used nonneg fits r by (auto simp: w' Resources_Add_def intro!: wrap64_id)
  then show ?thesis using acc tot r al wf
    by (auto simp: accounted_def w' split: if_splits)
qed

lemma accounted_remove:
  assumes acc: "accounted w" and al: "map_of (Allocations w) i = Some al"
    and range: "\<And>n. map_of (Nodes w) (al_Node al) = Some n \<Longrightarrow>
       CPUMillis (n_Used n) < 2 ^ 63 \<and> MemoryMB (n_Used n) < 2 ^ 63"
    and w': "Allocations w' = mdel i (Allocations w)"
    and nodes: "\<And>k n'. map_of (Nodes w') k = Some n' \<Longrightarrow> \<exists>n. map_of (Nodes w) k = Some n \<and>
       n_Used n' = (if k = al_Node al then Resources_Subtract (n_Used n) (al_Resources al) else n_Used n)"
  shows "accounted w'"
proof -
  have wf: "mwf (Allocations w)" using acc by (simp add: accounted_def)
  have tot: "node_total f w' j = node_total f w j - (if al_Node al = j then f (al_Resources al) else 0)" for f j
    using node_total_del [OF wf al, of j f] by (simp add: node_total_def w')
  have r: "0 \<le> CPUMillis (al_Resources al)" "0 \<le> MemoryMB (al_Resources al)"
    using acc al by (auto simp: accounted_def)
  have "CPUMillis (n_Used n') = node_total CPUMillis w' k \<and> MemoryMB (n_Used n') = node_total MemoryMB w' k"
    if n': "map_of (Nodes w') k = Some n'" for k n'
  proof -
    obtain n where n: "map_of (Nodes w) k = Some n"
      "n_Used n' = (if k = al_Node al then Resources_Subtract (n_Used n) (al_Resources al) else n_Used n)"
      using nodes [OF n'] by blast
    have used: "CPUMillis (n_Used n) = node_total CPUMillis w k" "MemoryMB (n_Used n) = node_total MemoryMB w k"
      using acc n(1) by (auto simp: accounted_def)
    show ?thesis
    proof (cases "k = al_Node al")
      case True
      have "wrap64 (CPUMillis (n_Used n) - CPUMillis (al_Resources al)) = CPUMillis (n_Used n) - CPUMillis (al_Resources al)"
        "wrap64 (MemoryMB (n_Used n) - MemoryMB (al_Resources al)) = MemoryMB (n_Used n) - MemoryMB (al_Resources al)"
        using range [of n] n(1) True r used accounted_share [OF acc al] by (auto intro!: wrap64_id)
      then show ?thesis using True n(2) used tot accounted_share [OF acc al]
        by (simp add: Resources_Subtract_def clamp0_def)
    qed (use n used tot in auto)
  qed
  then show ?thesis using acc wf by (auto simp: accounted_def w' split: if_splits)
qed

section \<open>The plan simulation\<close>

lemma simulate_keeps_views:
  assumes "simulateAction w a = Inr w'" "ac_Kind a \<noteq> ActionCreateAllocation"
    "ac_Kind a \<noteq> ActionDeleteAllocation"
  shows "alloc_view w' = alloc_view w \<and> node_view w' = node_view w \<and>
         (mwf (Allocations w) \<longrightarrow> mwf (Allocations w'))"
  using assms
  by (cases "ac_Kind a")
    (auto simp: simulateAction_def simulate_defs release_holding_def Let_def alloc_view_def node_view_def fun_eq_iff
          split: option.splits if_splits)

definition capacity_inv :: "World \<Rightarrow> bool" where
  "capacity_inv w \<longleftrightarrow> accounted w \<and> within_capacity w"

lemma checked_create_capacity:
  assumes valid: "validateCreateAllocation wall goal w a = None" and sim: "simulate_CreateAllocation w a = Inr w'"
    and inv: "capacity_inv w" and small: "small (wl_Resources (g_Workload goal))"
  shows "capacity_inv w'"
proof -
  obtain n where n: "map_of (Nodes w) (ac_Node a) = Some n" "map_of (Allocations w) (ac_Target a) = None"
    "ac_Resources a = wl_Resources (g_Workload goal)"
    "Resources_Fits (Resources_Add (n_Used n) (ac_Resources a)) (n_Capacity n)"
    using valid by (rule validateCreateAllocation_None) blast
  define n' where "n' = n\<lparr>n_Used := Resources_Add (n_Used n) (ac_Resources a),
                          n_BudgetUsed := Budget_Add (n_BudgetUsed n) (ac_Budget a)\<rparr>"
  define al where "al = Allocation_zero
     \<lparr>al_ID := ac_Target a, al_Workload := ac_Workload a, al_Replica := ac_Replica a,
      al_Node := ac_Node a, al_Image := ac_Image a, al_Resources := ac_Resources a,
      al_Phase := AllocationCreated, al_Budget := ac_Budget a\<rparr>"
  have w': "Allocations w' = mput (ac_Target a) al (Allocations w)" "Nodes w' = mput (ac_Node a) n' (Nodes w)"
    using sim n(1) by (auto simp: simulate_CreateAllocation_def Let_def n'_def al_def)
  have acc: "accounted w" "within_capacity w" using inv by (auto simp: capacity_inv_def)
  have cap: "CPUMillis (n_Used n) < 2 ^ 62" "MemoryMB (n_Used n) < 2 ^ 62"
    using acc(2) n(1) by (fastforce simp: within_capacity_def Resources_Fits_def)+
  have "accounted w'"
    by (rule accounted_add [OF acc(1) n(2) n(1) _ _ _ _ _ _ w'])
       (use small n cap in \<open>auto simp: small_def al_def n'_def\<close>)
  moreover have "within_capacity w'"
    using acc(2) n w'(2) by (auto simp: within_capacity_def n'_def)
  ultimately show ?thesis by (simp add: capacity_inv_def)
qed

lemma Resources_Subtract_fits:
  assumes "0 \<le> CPUMillis r" "0 \<le> MemoryMB r" "CPUMillis r \<le> CPUMillis u" "MemoryMB r \<le> MemoryMB u"
    "Resources_Fits u c" "CPUMillis c < 2 ^ 62" "MemoryMB c < 2 ^ 62"
  shows "Resources_Fits (Resources_Subtract u r) c"
proof -
  have "wrap64 (CPUMillis u - CPUMillis r) = CPUMillis u - CPUMillis r"
    "wrap64 (MemoryMB u - MemoryMB r) = MemoryMB u - MemoryMB r"
    using assms by (auto simp: Resources_Fits_def intro!: wrap64_id)
  then show ?thesis using assms by (auto simp: Resources_Fits_def Resources_Subtract_def clamp0_def)
qed

lemma checked_delete_capacity:
  assumes sim: "simulate_DeleteAllocation w a = Inr w'" and inv: "capacity_inv w"
  shows "capacity_inv w'"
proof -
  obtain al where al: "map_of (Allocations w) (ac_Target a) = Some al"
    using sim by (auto simp: simulate_DeleteAllocation_def split: option.splits)
  have acc: "accounted w" "within_capacity w" using inv by (auto simp: capacity_inv_def)
  have w': "Allocations w' = mdel (ac_Target a) (Allocations w)"
    using sim al by (auto simp: simulate_DeleteAllocation_def Let_def split: option.splits)
  have nodes: "\<exists>n. map_of (Nodes w) k = Some n \<and> n_Capacity n' = n_Capacity n \<and>
      n_Used n' = (if k = al_Node al then Resources_Subtract (n_Used n) (al_Resources al) else n_Used n)"
    if "map_of (Nodes w') k = Some n'" for k n'
    using that sim al by (auto simp: simulate_DeleteAllocation_def Let_def split: option.splits if_splits)
  have "accounted w'"
  proof (rule accounted_remove [OF acc(1) al _ w'])
    fix n assume "map_of (Nodes w) (al_Node al) = Some n"
    then show "CPUMillis (n_Used n) < 2 ^ 63 \<and> MemoryMB (n_Used n) < 2 ^ 63"
      using acc(2) by (fastforce simp: within_capacity_def Resources_Fits_def)
  qed (use nodes in blast)
  moreover have "within_capacity w'"
    unfolding within_capacity_def
  proof (intro allI impI)
    fix k n' assume "map_of (Nodes w') k = Some n'"
    then obtain n where n: "map_of (Nodes w) k = Some n" "n_Capacity n' = n_Capacity n"
      "n_Used n' = (if k = al_Node al then Resources_Subtract (n_Used n) (al_Resources al) else n_Used n)"
      using nodes by blast
    have c: "Resources_Fits (n_Used n) (n_Capacity n)" "CPUMillis (n_Capacity n) < 2 ^ 62"
      "MemoryMB (n_Capacity n) < 2 ^ 62"
      using acc(2) n(1) by (auto simp: within_capacity_def)
    have "Resources_Fits (Resources_Subtract (n_Used n) (al_Resources al)) (n_Capacity n)" if "k = al_Node al"
      using accounted_share [OF acc(1) al] acc(1) n(1) al that c
      by (intro Resources_Subtract_fits) (auto simp: accounted_def)
    then show "Resources_Fits (n_Used n') (n_Capacity n') \<and> CPUMillis (n_Capacity n') < 2 ^ 62 \<and>
        MemoryMB (n_Capacity n') < 2 ^ 62"
      using n c by auto
  qed
  ultimately show ?thesis by (simp add: capacity_inv_def)
qed

lemma checked_step_capacity:
  assumes step: "checked_step wall goal w a = Inr w'" and inv: "capacity_inv w"
    and small: "small (wl_Resources (g_Workload goal))"
  shows "capacity_inv w'"
proof -
  have v: "validateAction wall goal w a = None" and s: "simulateAction w a = Inr w'"
    using step by (auto simp: checked_step_def split: option.splits)
  consider "ac_Kind a = ActionCreateAllocation" | "ac_Kind a = ActionDeleteAllocation"
    | "ac_Kind a \<noteq> ActionCreateAllocation" "ac_Kind a \<noteq> ActionDeleteAllocation" by blast
  then show ?thesis
  proof cases
    case 1
    then show ?thesis using v s checked_create_capacity [OF _ _ inv small]
      by (simp add: validateAction_def simulateAction_def)
  next
    case 2
    then show ?thesis using s checked_delete_capacity [OF _ inv] by (simp add: simulateAction_def)
  next
    case 3
    then show ?thesis using simulate_keeps_views [OF s] inv accounted_view within_capacity_view
      by (metis capacity_inv_def accounted_def)
  qed
qed

lemma checked_run_capacity:
  assumes "run (checked_step wall goal) w as = Inr w'" "capacity_inv w"
    "small (wl_Resources (g_Workload goal))"
  shows "capacity_inv w'"
  by (rule run_invariant [where P = capacity_inv, OF assms(1,2)]) (rule checked_step_capacity [OF _ _ assms(3)])

section \<open>The projection\<close>

definition node_ids :: "World \<Rightarrow> bool" where
  "node_ids w \<longleftrightarrow> (\<forall>k n. map_of (Nodes w) k = Some n \<longrightarrow> n_ID n = k)"

definition observed_small :: "int \<Rightarrow> Evidence \<Rightarrow> bool" where
  "observed_small M e \<longleftrightarrow> observedInt e ''cpu_millis'' \<le> M \<and> observedInt e ''memory_mb'' \<le> M"

definition totals_below :: "int \<Rightarrow> World \<Rightarrow> bool" where
  "totals_below B w \<longleftrightarrow> (\<forall>k. node_total CPUMillis w k \<le> B \<and> node_total MemoryMB w k \<le> B)"

lemma totals_below_mono: "totals_below B w \<Longrightarrow> B \<le> B' \<Longrightarrow> totals_below B' w"
  unfolding totals_below_def by (meson order_trans)

lemma used_below:
  "accounted w \<Longrightarrow> totals_below B w \<Longrightarrow> map_of (Nodes w) k = Some n \<Longrightarrow>
    CPUMillis (n_Used n) \<le> B \<and> MemoryMB (n_Used n) \<le> B"
  by (auto simp: accounted_def totals_below_def)

lemma projectInto_keeps_views:
  assumes "projectInto w e = Inr w'" "e_Kind e \<noteq> EvidenceAllocationCreated"
    "e_Kind e \<noteq> EvidenceAllocationDeleted"
  shows "alloc_view w' = alloc_view w \<and> node_view w' = node_view w \<and>
         (mwf (Allocations w) \<longrightarrow> mwf (Allocations w')) \<and> (node_ids w \<longrightarrow> node_ids w')"
proof (cases "volume_kind (e_Kind e)")
  case True
  then show ?thesis using assms(1)
    by (cases "e_Kind e")
      (auto simp: projectInto_def project_volume_defs release_holding_def volume_kind_def Let_def alloc_view_def
                  node_view_def node_ids_def fun_eq_iff
            split: option.splits if_splits)
next
  case False
  then show ?thesis using assms
    by (cases "e_Kind e")
      (auto simp: projectInto_def project_defs volume_kind_def Let_def alloc_view_def node_view_def node_ids_def
                  fun_eq_iff
            split: option.splits if_splits)
qed

lemma project_created_accounted:
  assumes p: "project_AllocationCreated w e = Inr w'" and acc: "accounted w" and ids: "node_ids w"
    and small: "observed_small M e" and below: "totals_below B w" and room: "0 \<le> M" "B + M < 2 ^ 63"
  shows "accounted w' \<and> node_ids w' \<and> totals_below (B + M) w'"
proof -
  obtain n where n: "map_of (Nodes w) (obs e ''node'') = Some n"
    using p by (auto simp: project_AllocationCreated_def split: option.splits)
  show ?thesis
  proof (cases "mhas (Allocations w) (e_Target e)")
    case True
    then have "w' = w" using p n by (auto simp: project_AllocationCreated_def split: if_splits)
    then show ?thesis using acc ids totals_below_mono [OF below] room(1) by simp
  next
    case False
    then have new: "map_of (Allocations w) (e_Target e) = None" by (simp add: mhas_def)
    obtain r where r: "observedResources e = Inr r"
      using p n False by (auto simp: project_AllocationCreated_def split: if_splits sum.splits)
    have rv: "1 \<le> CPUMillis r" "1 \<le> MemoryMB r" "CPUMillis r \<le> M" "MemoryMB r \<le> M"
      using r small by (auto simp: observedResources_def observed_small_def Let_def split: if_splits)
    define al where "al = Allocation_zero
       \<lparr>al_ID := e_Target e, al_Workload := obs e ''workload'', al_Replica := observedInt e ''replica'',
        al_Node := n_ID n, al_Image := obs e ''image'', al_Resources := r,
        al_Phase := AllocationCreated, al_Budget := observedBudget e\<rparr>"
    define n' where "n' = n\<lparr>n_Used := Resources_Add (n_Used n) r,
                            n_BudgetUsed := Budget_Add (n_BudgetUsed n) (observedBudget e)\<rparr>"
    have w': "Allocations w' = mput (e_Target e) al (Allocations w)"
        "Nodes w' = mput (obs e ''node'') n' (Nodes w)"
      using p n False r by (auto simp: project_AllocationCreated_def Let_def al_def n'_def split: if_splits)
    have id: "n_ID n = obs e ''node''" using ids n by (auto simp: node_ids_def)
    have used: "CPUMillis (n_Used n) \<le> B" "MemoryMB (n_Used n) \<le> B"
      using used_below [OF acc below n] by auto
    have "accounted w'"
      by (rule accounted_add [OF acc new n _ _ _ _ _ _ w'])
         (use rv used room id in \<open>auto simp: al_def n'_def\<close>)
    moreover have "node_ids w'" using ids w'(2) id by (auto simp: node_ids_def n'_def)
    moreover have "totals_below (B + M) w'"
    proof -
      have "mwf (Allocations w)" using acc by (simp add: accounted_def)
      then have tot: "node_total f w' k = node_total f w k + (if al_Node al = k then f r else 0)" for f k
        using node_total_put_new [of "Allocations w" "e_Target e" k f al] new
        by (simp add: node_total_def w' al_def)
      have "node_total CPUMillis w' k \<le> B + M \<and> node_total MemoryMB w' k \<le> B + M" for k
        using below [unfolded totals_below_def, rule_format, of k] rv room(1) by (simp add: tot)
      then show ?thesis by (simp add: totals_below_def)
    qed
    ultimately show ?thesis by blast
  qed
qed

lemma project_deleted_accounted:
  assumes p: "project_AllocationDeleted w e = Inr w'" and acc: "accounted w" and ids: "node_ids w"
    and below: "totals_below B w" and room: "B < 2 ^ 63"
  shows "accounted w' \<and> node_ids w' \<and> totals_below B w'"
proof (cases "map_of (Allocations w) (e_Target e)")
  case None
  then show ?thesis using assms by (auto simp: project_AllocationDeleted_def)
next
  case (Some al)
  have w': "Allocations w' = mdel (e_Target e) (Allocations w)"
    using p Some by (auto simp: project_AllocationDeleted_def Let_def split: option.splits)
  have nodes: "\<exists>n. map_of (Nodes w) k = Some n \<and> n_ID n' = n_ID n \<and>
      n_Used n' = (if k = al_Node al then Resources_Subtract (n_Used n) (al_Resources al) else n_Used n)"
    if "map_of (Nodes w') k = Some n'" for k n'
    using that p Some by (auto simp: project_AllocationDeleted_def Let_def split: option.splits if_splits)
  have "accounted w'"
  proof (rule accounted_remove [OF acc Some _ w'])
    fix n assume "map_of (Nodes w) (al_Node al) = Some n"
    then show "CPUMillis (n_Used n) < 2 ^ 63 \<and> MemoryMB (n_Used n) < 2 ^ 63"
      using used_below [OF acc below] room by fastforce
  qed (use nodes in blast)
  moreover have "node_ids w'" using ids nodes unfolding node_ids_def by metis
  moreover have "totals_below B w'"
  proof -
    have "mwf (Allocations w)" using acc by (simp add: accounted_def)
    then have tot: "node_total f w' k = node_total f w k - (if al_Node al = k then f (al_Resources al) else 0)" for f k
      using node_total_del [OF _ Some, of k f] by (simp add: node_total_def w')
    have "0 \<le> CPUMillis (al_Resources al)" "0 \<le> MemoryMB (al_Resources al)"
      using acc Some by (auto simp: accounted_def)
    then have "node_total CPUMillis w' k \<le> B \<and> node_total MemoryMB w' k \<le> B" for k
      using below [unfolded totals_below_def, rule_format, of k] by (simp add: tot)
    then show ?thesis by (simp add: totals_below_def)
  qed
  ultimately show ?thesis by blast
qed

lemma accounted_time [simp]:
  "accounted (w\<lparr>Revision := r\<rparr>) = accounted w" "accounted (w\<lparr>ObservedAt := t\<rparr>) = accounted w"
  "node_ids (w\<lparr>Revision := r\<rparr>) = node_ids w" "node_ids (w\<lparr>ObservedAt := t\<rparr>) = node_ids w"
  "totals_below B (w\<lparr>Revision := r\<rparr>) = totals_below B w" "totals_below B (w\<lparr>ObservedAt := t\<rparr>) = totals_below B w"
  by (simp_all add: accounted_def node_ids_def totals_below_def node_total_def)

lemma Project_accounted:
  assumes p: "Project w e = Inr w'" and acc: "accounted w" "node_ids w" "totals_below B w"
    and small: "observed_small M e" and room: "0 \<le> M" "B + M < 2 ^ 63"
  shows "accounted w' \<and> node_ids w' \<and> totals_below (B + M) w'"
proof -
  obtain w1 where w1: "projectInto w e = Inr w1"
      "accounted w' = accounted w1" "node_ids w' = node_ids w1" "totals_below (B + M) w' = totals_below (B + M) w1"
    using p by (auto simp: Project_def split: sum.splits if_splits)
  have mono: "totals_below (B + M) w1" if "totals_below B w1"
    using totals_below_mono [OF that] room(1) by simp
  consider "e_Kind e = EvidenceAllocationCreated" | "e_Kind e = EvidenceAllocationDeleted"
    | "e_Kind e \<noteq> EvidenceAllocationCreated" "e_Kind e \<noteq> EvidenceAllocationDeleted" by blast
  then show ?thesis
  proof cases
    case 1
    then show ?thesis using project_created_accounted [OF _ acc(1,2) small acc(3) room] w1
      by (simp add: projectInto_def)
  next
    case 2
    then show ?thesis using project_deleted_accounted [OF _ acc, of e w1] w1 room mono
      by (simp add: projectInto_def)
  next
    case 3
    note v = projectInto_keeps_views [OF w1(1) 3]
    have wf: "mwf (Allocations w)" using acc(1) by (simp add: accounted_def)
    have "totals_below B w1"
      using node_total_view [OF wf, of w1] v wf acc(3) by (simp add: totals_below_def)
    moreover have "accounted w1" using accounted_view [OF acc(1)] v wf by blast
    ultimately show ?thesis using v acc(2) w1 mono by blast
  qed
qed

lemma run_accounted:
  assumes "run Project w es = Inr w'" "accounted w" "node_ids w" "totals_below B w"
    "\<forall>e \<in> set es. observed_small M e" "0 \<le> M" "B + int (length es) * M < 2 ^ 63"
  shows "accounted w'"
  using assms
proof (induction es arbitrary: w B)
  case (Cons e es)
  then obtain w1 where w1: "Project w e = Inr w1" "run Project w1 es = Inr w'" by (auto split: sum.splits)
  have pos: "0 \<le> int (length es) * M" using Cons.prems(6) by simp
  have room: "B + M + int (length es) * M < 2 ^ 63" using Cons.prems(7) by (simp add: algebra_simps)
  have "B + M < 2 ^ 63" using pos room by linarith
  then have "accounted w1 \<and> node_ids w1 \<and> totals_below (B + M) w1"
    using Project_accounted [OF w1(1) Cons.prems(2-4), of M] Cons.prems(5,6) by simp
  then show ?case using Cons.IH [OF w1(2), of "B + M"] Cons.prems(5,6) room by simp
qed simp

end
