(* ===== verification/Kernel_Safety.thy ===== *)
theory Kernel_Safety
  imports Control_Kernel Projection_Facts
begin

text \<open>
  Safety of authorized plans beyond capacity: the availability floor, the spread ceiling and
  the operator approvals behind destructive or exposing actions.  Each is an invariant of
  the checked simulation, hence of every plan \<open>Authorize\<close> accepts.
\<close>

section \<open>Readiness and availability\<close>

definition ready_running :: "World \<Rightarrow> bool" where
  "ready_running w \<longleftrightarrow> mwf (Allocations w) \<and>
     (\<forall>i a. map_of (Allocations w) i = Some a \<longrightarrow> al_Ready a \<longrightarrow> al_Phase a = AllocationRunning)"

definition ready_view :: "World \<Rightarrow> string \<Rightarrow> (string \<times> bool \<times> time \<times> AllocationPhase) option" where
  "ready_view w i = map_option (\<lambda>a. (al_Workload a, al_Ready a, al_ReadyExpiresAt a, al_Phase a))
     (map_of (Allocations w) i)"

lemma ready_running_view:
  assumes "ready_running w" "mwf (Allocations w')" "ready_view w' = ready_view w"
  shows "ready_running w'"
proof -
  have "\<exists>a0. map_of (Allocations w) i = Some a0 \<and> al_Ready a0 = al_Ready a \<and> al_Phase a0 = al_Phase a"
    if "map_of (Allocations w') i = Some a" for i a
    using that assms(3) by (auto simp: ready_view_def fun_eq_iff dest!: spec [of _ i])
  then show ?thesis using assms(1,2) unfolding ready_running_def by metis
qed

definition serves :: "time \<Rightarrow> string \<Rightarrow> Allocation \<Rightarrow> int" where
  "serves now workload a = (if al_Workload a = workload \<and> ReadyAt a now then 1 else 0)"

lemma serving_serves:
  "servingAllocations wall goal w = msum (serves (World_Now wall w) (wl_Name (g_Workload goal))) (Allocations w)"
  by (simp add: servingAllocations_def serves_def [abs_def])

lemma serves_bounds: "0 \<le> serves now wl a" "serves now wl a \<le> 1"
  by (simp_all add: serves_def)

lemma serving_view:
  assumes "mwf (Allocations w)" "mwf (Allocations w')" "ready_view w' = ready_view w"
    "ObservedAt w' = ObservedAt w"
  shows "servingAllocations wall goal w' = servingAllocations wall goal w"
  unfolding serving_serves World_Now_def assms(4)
  by (rule msum_view [where g = "\<lambda>a. (al_Workload a, al_Ready a, al_ReadyExpiresAt a, al_Phase a)"])
     (use assms in \<open>auto simp: ready_view_def fun_eq_iff serves_def ReadyAt_def\<close>)

lemma simulate_keeps_ready:
  assumes "simulateAction w a = Inr w'"
    "ac_Kind a \<notin> {ActionCreateAllocation, ActionStartAllocation, ActionStopAllocation, ActionDeleteAllocation}"
  shows "ready_view w' = ready_view w \<and> (mwf (Allocations w) \<longrightarrow> mwf (Allocations w'))"
  using assms
  by (cases "ac_Kind a")
    (auto simp: simulateAction_def simulate_defs release_holding_def Let_def ready_view_def fun_eq_iff
          split: option.splits if_splits)

lemma ready_running_put:
  assumes "ready_running w" "Allocations w' = mput i al (Allocations w)"
    "al_Ready al \<Longrightarrow> al_Phase al = AllocationRunning"
  shows "ready_running w'"
  using assms by (auto simp: ready_running_def)

lemma ready_running_del:
  assumes "ready_running w" "Allocations w' = mdel i (Allocations w)"
  shows "ready_running w'"
  using assms by (auto simp: ready_running_def split: if_splits)

lemma serving_put:
  assumes "mwf (Allocations w)" "Allocations w' = mput i al (Allocations w)" "ObservedAt w' = ObservedAt w"
  shows "servingAllocations wall goal w' = servingAllocations wall goal w
    + serves (World_Now wall w) (wl_Name (g_Workload goal)) al
    - (case map_of (Allocations w) i of None \<Rightarrow> 0
       | Some a \<Rightarrow> serves (World_Now wall w) (wl_Name (g_Workload goal)) a)"
  using assms by (simp add: serving_serves msum_mput World_Now_def split: option.splits)

lemma serving_del:
  assumes "mwf (Allocations w)" "Allocations w' = mdel i (Allocations w)" "ObservedAt w' = ObservedAt w"
  shows "servingAllocations wall goal w' = servingAllocations wall goal w
    - (case map_of (Allocations w) i of None \<Rightarrow> 0
       | Some a \<Rightarrow> serves (World_Now wall w) (wl_Name (g_Workload goal)) a)"
  using assms by (simp add: serving_serves msum_mdel World_Now_def split: option.splits)

definition floor_kept :: "time \<Rightarrow> Goal \<Rightarrow> World \<Rightarrow> World \<Rightarrow> bool" where
  "floor_kept wall goal w w' \<longleftrightarrow>
     min (disruptionFloor goal) (servingAllocations wall goal w) \<le> servingAllocations wall goal w'"

lemma stop_floor:
  assumes v: "validateStopAllocation wall goal w a = None" and s: "simulate_StopAllocation w a = Inr w'"
    and rr: "ready_running w"
  shows "ready_running w' \<and> floor_kept wall goal w w'"
proof -
  obtain al where al: "map_of (Allocations w) (ac_Target a) = Some al"
    "ReadyAt al (World_Now wall w) \<Longrightarrow> disruptionFloor goal \<le> servingAllocations wall goal w - 1"
    using v by (rule validateStopAllocation_None) blast
  let ?al = "al\<lparr>al_Phase := AllocationStopped, al_Ready := False\<rparr>"
  have w': "Allocations w' = mput (ac_Target a) ?al (Allocations w)" "ObservedAt w' = ObservedAt w"
    using s al by (auto simp: simulate_StopAllocation_def)
  have wf: "mwf (Allocations w)" using rr by (simp add: ready_running_def)
  have "servingAllocations wall goal w' = servingAllocations wall goal w
      - serves (World_Now wall w) (wl_Name (g_Workload goal)) al"
    using serving_put [OF wf w'] al(1) by (simp add: serves_def ReadyAt_def)
  then have "floor_kept wall goal w w'"
    using al(2) by (auto simp: floor_kept_def serves_def split: if_splits)
  moreover have "ready_running w'" by (rule ready_running_put [OF rr w'(1)]) simp
  ultimately show ?thesis by blast
qed

lemma start_floor:
  assumes s: "simulate_StartAllocation w a = Inr w'" and rr: "ready_running w"
  shows "ready_running w' \<and> floor_kept wall goal w w'"
proof -
  obtain al where al: "map_of (Allocations w) (ac_Target a) = Some al"
    using s by (auto simp: simulate_StartAllocation_def split: option.splits)
  let ?al = "al\<lparr>al_Phase := AllocationRunning, al_Ready := True\<rparr>"
  have w': "Allocations w' = mput (ac_Target a) ?al (Allocations w)" "ObservedAt w' = ObservedAt w"
    using s al by (auto simp: simulate_StartAllocation_def)
  have wf: "mwf (Allocations w)" using rr by (simp add: ready_running_def)
  have "servingAllocations wall goal w \<le> servingAllocations wall goal w'"
    using serving_put [OF wf w', of wall goal] al by (auto simp: serves_def ReadyAt_def)
  then show ?thesis using ready_running_put [OF rr w'(1)] by (simp add: floor_kept_def)
qed

lemma create_floor:
  assumes v: "validateCreateAllocation wall goal w a = None" and s: "simulate_CreateAllocation w a = Inr w'"
    and rr: "ready_running w"
  shows "ready_running w' \<and> floor_kept wall goal w w'"
proof -
  obtain n where n: "map_of (Nodes w) (ac_Node a) = Some n" "map_of (Allocations w) (ac_Target a) = None"
    using v by (rule validateCreateAllocation_None) blast
  obtain al where w': "Allocations w' = mput (ac_Target a) al (Allocations w)" "ObservedAt w' = ObservedAt w"
      and al: "\<not> al_Ready al"
    using s n(1) by (auto simp: simulate_CreateAllocation_def Let_def Allocation_zero_def)
  have wf: "mwf (Allocations w)" using rr by (simp add: ready_running_def)
  have "servingAllocations wall goal w' = servingAllocations wall goal w"
    using serving_put [OF wf w', of wall goal] n(2) al by (simp add: serves_def ReadyAt_def)
  then show ?thesis using ready_running_put [OF rr w'(1)] al by (simp add: floor_kept_def)
qed

lemma delete_floor:
  assumes v: "validateDeleteAllocation wall goal w a = None" and s: "simulate_DeleteAllocation w a = Inr w'"
    and rr: "ready_running w"
  shows "ready_running w' \<and> floor_kept wall goal w w'"
proof -
  obtain al where al: "map_of (Allocations w) (ac_Target a) = Some al" "al_Phase al \<noteq> AllocationRunning"
    using v by (rule validateDeleteAllocation_None) blast
  have w': "Allocations w' = mdel (ac_Target a) (Allocations w)" "ObservedAt w' = ObservedAt w"
    using s al by (auto simp: simulate_DeleteAllocation_def Let_def split: option.splits)
  have wf: "mwf (Allocations w)" and "\<not> al_Ready al" using rr al by (auto simp: ready_running_def)
  then have "servingAllocations wall goal w' = servingAllocations wall goal w"
    using serving_del [OF wf w', of wall goal] al by (simp add: serves_def ReadyAt_def)
  then show ?thesis using ready_running_del [OF rr w'(1)] by (simp add: floor_kept_def)
qed

lemma checked_step_floor:
  assumes step: "checked_step wall goal w a = Inr w'" and rr: "ready_running w"
  shows "ready_running w' \<and> floor_kept wall goal w w'"
proof -
  have v: "validateAction wall goal w a = None" and s: "simulateAction w a = Inr w'"
    using step by (auto simp: checked_step_def split: option.splits)
  consider "ac_Kind a = ActionCreateAllocation" | "ac_Kind a = ActionStartAllocation"
    | "ac_Kind a = ActionStopAllocation" | "ac_Kind a = ActionDeleteAllocation"
    | "ac_Kind a \<notin> {ActionCreateAllocation, ActionStartAllocation, ActionStopAllocation, ActionDeleteAllocation}"
    by blast
  then show ?thesis
  proof cases
    case 1
    show ?thesis by (rule create_floor [OF _ _ rr]) (use v s 1 in \<open>simp_all add: validateAction_def simulateAction_def\<close>)
  next
    case 2
    show ?thesis by (rule start_floor [OF _ rr]) (use s 2 in \<open>simp add: simulateAction_def\<close>)
  next
    case 3
    show ?thesis by (rule stop_floor [OF _ _ rr]) (use v s 3 in \<open>simp_all add: validateAction_def simulateAction_def\<close>)
  next
    case 4
    show ?thesis by (rule delete_floor [OF _ _ rr]) (use v s 4 in \<open>simp_all add: validateAction_def simulateAction_def\<close>)
  next
    case 5
    have wf: "mwf (Allocations w)" using rr by (simp add: ready_running_def)
    note k = simulate_keeps_ready [OF s 5]
    have wf': "mwf (Allocations w')" and view: "ready_view w' = ready_view w" using k wf by auto
    have t: "ObservedAt w' = ObservedAt w" using simulate_frame [OF s] by simp
    show ?thesis
      using ready_running_view [OF rr wf' view] serving_view [OF wf wf' view t, of wall goal]
      by (simp add: floor_kept_def)
  qed
qed

lemma floor_kept_trans: "floor_kept wall goal a b \<Longrightarrow> floor_kept wall goal b c \<Longrightarrow> floor_kept wall goal a c"
  by (auto simp: floor_kept_def min_def split: if_splits)

lemma checked_run_floor:
  assumes "run (checked_step wall goal) w as = Inr w'" "ready_running w"
  shows "floor_kept wall goal w w'"
  using assms
proof (induction as arbitrary: w)
  case (Cons a as)
  then obtain w1 where w1: "checked_step wall goal w a = Inr w1" "run (checked_step wall goal) w1 as = Inr w'"
    by (auto split: sum.splits)
  then show ?case using checked_step_floor [OF w1(1) Cons.prems(2)] Cons.IH [OF w1(2)] floor_kept_trans by blast
qed (simp add: floor_kept_def)

text \<open>The projection establishes the invariant the floor relies on: only a running allocation is ready.\<close>

lemma projectInto_ready_running:
  assumes "projectInto w e = Inr w'" "ready_running w"
  shows "ready_running w'"
proof (cases "volume_kind (e_Kind e)")
  case True
  then show ?thesis using assms
    by (cases "e_Kind e")
      (auto simp: projectInto_def project_volume_defs release_holding_def volume_kind_def Let_def ready_running_def
            split: option.splits if_splits)
next
  case False
  then show ?thesis using assms
    by (cases "e_Kind e")
      (auto simp: projectInto_def project_defs volume_kind_def Let_def ready_running_def Allocation_zero_def
            split: option.splits if_splits sum.splits)
qed

lemma Project_ready_running:
  assumes "Project w e = Inr w'" "ready_running w"
  shows "ready_running w'"
proof -
  obtain w1 where "projectInto w e = Inr w1" "Allocations w' = Allocations w1"
    using assms(1) by (auto simp: Project_def split: sum.splits if_splits)
  then show ?thesis using projectInto_ready_running [OF _ assms(2)] by (simp add: ready_running_def)
qed

text \<open>Readiness comes from probes alone.\<close>

lemma projectInto_ready_source:
  assumes "projectInto w e = Inr w'" "map_of (Allocations w') i = Some a'" "al_Ready a'"
    "\<not> (\<exists>a. map_of (Allocations w) i = Some a \<and> al_Ready a)"
  shows "e_Kind e \<in> {EvidenceAllocationReady, EvidenceAgentReady} \<and> e_Target e = i \<and> obs e ''ready'' = ''true''"
proof (cases "volume_kind (e_Kind e)")
  case True
  then show ?thesis using assms
    by (cases "e_Kind e")
      (auto simp: projectInto_def project_volume_defs release_holding_def volume_kind_def Let_def
            split: option.splits if_splits)
next
  case False
  then show ?thesis using assms
    by (cases "e_Kind e")
      (auto simp: projectInto_def project_defs volume_kind_def Let_def Allocation_zero_def
            split: option.splits if_splits sum.splits)
qed

section \<open>Spread\<close>

definition domain_count :: "World \<Rightarrow> string \<Rightarrow> string \<Rightarrow> int" where
  "domain_count w wl d = msum (\<lambda>a. if in_domain w wl d a then 1 else 0) (Allocations w)"

lemma domain_count_filter:
  "domain_count w wl d = int (length (filter (in_domain w wl d) (mvals (Allocations w))))"
proof -
  have "sum_list (map (\<lambda>a. if P a then 1 else 0) xs) = int (length (filter P xs))"
    for P and xs :: "Allocation list"
    by (induction xs) auto
  then show ?thesis by (simp only: domain_count_def msum_def)
qed

definition domain_view :: "World \<Rightarrow> string \<Rightarrow> string option" where
  "domain_view w k = map_option (\<lambda>n. FailureDomain (Some n)) (map_of (Nodes w) k)"

definition live_view :: "World \<Rightarrow> string \<Rightarrow> (string \<times> bool \<times> string) option" where
  "live_view w i = map_option (\<lambda>a. (al_Workload a, al_Phase a = AllocationStopped, al_Node a))
     (map_of (Allocations w) i)"

lemma in_domain_view:
  "in_domain w wl d a \<longleftrightarrow>
     al_Workload a = wl \<and> al_Phase a \<noteq> AllocationStopped \<and> domain_view w (al_Node a) = Some d"
  by (auto simp: in_domain_def domain_view_def)

lemma in_domain_cong: "domain_view w' = domain_view w \<Longrightarrow> in_domain w' wl d = in_domain w wl d"
  by (simp add: in_domain_view fun_eq_iff)

lemma domain_count_put:
  assumes "mwf (Allocations w)" "Allocations w' = mput i al (Allocations w)" "domain_view w' = domain_view w"
  shows "domain_count w' wl d = domain_count w wl d + (if in_domain w wl d al then 1 else 0)
    - (case map_of (Allocations w) i of None \<Rightarrow> 0 | Some a \<Rightarrow> if in_domain w wl d a then 1 else 0)"
  using assms(1,2) by (simp add: domain_count_def in_domain_cong [OF assms(3)] msum_mput split: option.splits)

lemma domain_count_del:
  assumes "mwf (Allocations w)" "Allocations w' = mdel i (Allocations w)" "domain_view w' = domain_view w"
  shows "domain_count w' wl d \<le> domain_count w wl d"
  using assms(1,2) by (simp add: domain_count_def in_domain_cong [OF assms(3)] msum_mdel split: option.splits)

lemma domain_count_view:
  assumes "mwf (Allocations w)" "mwf (Allocations w')" "live_view w' = live_view w" "domain_view w' = domain_view w"
  shows "domain_count w' wl d = domain_count w wl d"
  unfolding domain_count_def in_domain_cong [OF assms(4)]
  by (rule msum_view [where g = "\<lambda>a. (al_Workload a, al_Phase a = AllocationStopped, al_Node a)"])
     (use assms in \<open>auto simp: live_view_def fun_eq_iff in_domain_view\<close>)

lemma simulate_domain_view:
  assumes "simulateAction w a = Inr w'"
  shows "domain_view w' = domain_view w \<and> (mwf (Allocations w) \<longrightarrow> mwf (Allocations w'))"
  using assms
  by (cases "ac_Kind a")
    (auto simp: simulateAction_def simulate_defs release_holding_def Let_def domain_view_def FailureDomain_def
                fun_eq_iff
          split: option.splits if_splits)

lemma simulate_keeps_live:
  assumes "simulateAction w a = Inr w'"
    "ac_Kind a \<notin> {ActionCreateAllocation, ActionStartAllocation, ActionStopAllocation, ActionDeleteAllocation}"
  shows "live_view w' = live_view w"
  using assms
  by (cases "ac_Kind a")
    (auto simp: simulateAction_def simulate_defs release_holding_def Let_def live_view_def fun_eq_iff
          split: option.splits if_splits)

definition spread_ok :: "Goal \<Rightarrow> World \<Rightarrow> bool" where
  "spread_ok goal w \<longleftrightarrow> mwf (Allocations w) \<and>
     (\<forall>d. domain_count w (wl_Name (g_Workload goal)) d \<le> Goal_MaxPerDomain goal)"

lemma spread_create:
  assumes v: "validateCreateAllocation wall goal w a = None" and s: "simulate_CreateAllocation w a = Inr w'"
    and ok: "spread_ok goal w" and dv: "domain_view w' = domain_view w" and pos: "Goal_MaxPerDomain goal > 0"
  shows "domain_count w' (wl_Name (g_Workload goal)) d \<le> Goal_MaxPerDomain goal"
proof -
  let ?wl = "wl_Name (g_Workload goal)"
  obtain n where n: "map_of (Nodes w) (ac_Node a) = Some n" "map_of (Allocations w) (ac_Target a) = None"
      "checkSpread goal w a = None"
    using v by (rule validateCreateAllocation_None) blast
  obtain al where w': "Allocations w' = mput (ac_Target a) al (Allocations w)" and al: "al_Node al = ac_Node a"
    using s n(1) by (auto simp: simulate_CreateAllocation_def Let_def)
  have wf: "mwf (Allocations w)" and bound: "domain_count w ?wl d \<le> Goal_MaxPerDomain goal"
    using ok by (auto simp: spread_ok_def)
  have "domain_count w ?wl d < Goal_MaxPerDomain goal" if "in_domain w ?wl d al"
  proof -
    have "d = FailureDomain (Some n)" using that al n(1) by (simp add: in_domain_view domain_view_def)
    then show ?thesis using checkSpread_None [OF n(3) pos n(1)] by (simp add: domain_count_filter)
  qed
  then show ?thesis using domain_count_put [OF wf w' dv, of ?wl d] n(2) bound by auto
qed

lemma spread_start:
  assumes v: "validateStartAllocation goal w a = None" and s: "simulate_StartAllocation w a = Inr w'"
    and wf: "mwf (Allocations w)" and dv: "domain_view w' = domain_view w"
  shows "domain_count w' wl d \<le> domain_count w wl d"
proof -
  obtain al where al: "map_of (Allocations w) (ac_Target a) = Some al" "al_Phase al = AllocationCreated"
    using v by (auto simp: validateStartAllocation_def split: option.splits if_splits)
  have w': "Allocations w' = mput (ac_Target a) (al\<lparr>al_Phase := AllocationRunning, al_Ready := True\<rparr>) (Allocations w)"
    using s al by (auto simp: simulate_StartAllocation_def)
  show ?thesis using domain_count_put [OF wf w' dv, of wl d] al by (simp add: in_domain_view)
qed

lemma spread_stop:
  assumes s: "simulate_StopAllocation w a = Inr w'" and wf: "mwf (Allocations w)"
    and dv: "domain_view w' = domain_view w"
  shows "domain_count w' wl d \<le> domain_count w wl d"
proof -
  obtain al where al: "map_of (Allocations w) (ac_Target a) = Some al"
    using s by (auto simp: simulate_StopAllocation_def split: option.splits)
  have w': "Allocations w' = mput (ac_Target a) (al\<lparr>al_Phase := AllocationStopped, al_Ready := False\<rparr>) (Allocations w)"
    using s al by (auto simp: simulate_StopAllocation_def)
  show ?thesis using domain_count_put [OF wf w' dv, of wl d] al by (simp add: in_domain_view)
qed

lemma spread_delete:
  assumes s: "simulate_DeleteAllocation w a = Inr w'" and wf: "mwf (Allocations w)"
    and dv: "domain_view w' = domain_view w"
  shows "domain_count w' wl d \<le> domain_count w wl d"
proof -
  have "Allocations w' = mdel (ac_Target a) (Allocations w)"
    using s by (auto simp: simulate_DeleteAllocation_def Let_def split: option.splits)
  then show ?thesis by (rule domain_count_del [OF wf _ dv])
qed

lemma checked_step_spread:
  assumes step: "checked_step wall goal w a = Inr w'" and ok: "spread_ok goal w"
    and pos: "Goal_MaxPerDomain goal > 0"
  shows "spread_ok goal w'"
proof -
  have v: "validateAction wall goal w a = None" and s: "simulateAction w a = Inr w'"
    using step by (auto simp: checked_step_def split: option.splits)
  have wf: "mwf (Allocations w)" using ok by (simp add: spread_ok_def)
  have dv: "domain_view w' = domain_view w" and wf': "mwf (Allocations w')"
    using simulate_domain_view [OF s] wf by auto
  have bound: "domain_count w (wl_Name (g_Workload goal)) d \<le> Goal_MaxPerDomain goal" for d
    using ok by (simp add: spread_ok_def)
  have "domain_count w' (wl_Name (g_Workload goal)) d \<le> Goal_MaxPerDomain goal" for d
  proof -
    consider "ac_Kind a = ActionCreateAllocation" | "ac_Kind a = ActionStartAllocation"
      | "ac_Kind a = ActionStopAllocation" | "ac_Kind a = ActionDeleteAllocation"
      | "ac_Kind a \<notin> {ActionCreateAllocation, ActionStartAllocation, ActionStopAllocation, ActionDeleteAllocation}"
      by blast
    then show ?thesis
    proof cases
      case 1
      show ?thesis
        by (rule spread_create [OF _ _ ok dv pos]) (use v s 1 in \<open>simp_all add: validateAction_def simulateAction_def\<close>)
    next
      case 2
      show ?thesis
        by (rule order_trans [OF spread_start [OF _ _ wf dv] bound])
          (use v s 2 in \<open>simp_all add: validateAction_def simulateAction_def\<close>)
    next
      case 3
      show ?thesis
        by (rule order_trans [OF spread_stop [OF _ wf dv] bound]) (use s 3 in \<open>simp add: simulateAction_def\<close>)
    next
      case 4
      show ?thesis
        by (rule order_trans [OF spread_delete [OF _ wf dv] bound]) (use s 4 in \<open>simp add: simulateAction_def\<close>)
    next
      case 5
      show ?thesis using domain_count_view [OF wf wf' simulate_keeps_live [OF s 5] dv] bound by simp
    qed
  qed
  then show ?thesis using wf' by (simp add: spread_ok_def)
qed

lemma checked_run_spread:
  assumes "run (checked_step wall goal) w as = Inr w'" "spread_ok goal w" "Goal_MaxPerDomain goal > 0"
  shows "spread_ok goal w'"
  by (rule run_invariant [where P = "spread_ok goal", OF assms(1,2)]) (rule checked_step_spread [OF _ _ assms(3)])

section \<open>Approvals\<close>

definition approval_scope :: "World \<Rightarrow> Action \<Rightarrow> string option" where
  "approval_scope w a = (case ac_Kind a of
       ActionPublishRoute \<Rightarrow> if ac_Exposure a = ''public'' then Some ''public-route'' else None
     | ActionRestoreSnapshot \<Rightarrow> Some ''restore-volume''
     | ActionQuiesceVolume \<Rightarrow> Some ''move-volume''
     | ActionGrantTools \<Rightarrow> if actionGrantsMutatingTool a then Some ''agent-mutating-tools'' else None
     | ActionDeleteAllocation \<Rightarrow> (case map_of (Allocations w) (ac_Target a) of
           Some al \<Rightarrow> if al_Stateful al then Some ''destroy-stateful'' else None | None \<Rightarrow> None)
     | _ \<Rightarrow> None)"

lemma validated_approval:
  assumes "validateAction wall goal w a = None" "approval_scope w a = Some scope"
  shows "hasApproval wall w (g_ID goal) scope"
  using assms
  by (cases "ac_Kind a")
    (auto simp: validateAction_def approval_scope_def validatePublishRoute_def validateRestoreSnapshot_def
                validateQuiesceVolume_def validateGrantTools_def validateDeleteAllocation_def
          split: option.splits if_splits)

lemma checked_run_approval:
  assumes "run (checked_step wall goal) w as = Inr w'" "k < length as"
  shows "\<exists>wk. run (checked_step wall goal) w (take k as) = Inr wk \<and>
     (\<forall>scope. approval_scope wk (as ! k) = Some scope \<longrightarrow> hasApproval wall w (g_ID goal) scope)"
proof -
  obtain wk where wk: "run (checked_step wall goal) w (take k as) = Inr wk"
      "validateAction wall goal wk (as ! k) = None"
    using checked_run_nth [OF assms] by blast
  then show ?thesis using validated_approval [OF wk(2)] hasApproval_run [OF wk(1)] by blast
qed

end
