(* ===== verification/Volume_Fencing.thy ===== *)
theory Volume_Fencing
  imports Projection_Facts Control_Kernel
begin

text \<open>
  Single-writer volumes.  An abstract fencing machine keeps, per allocation, the generation
  at which it holds each volume, and per volume its owner and current generation.  The
  projection of evidence (\<^verbatim>\<open>src/control/projection.go\<close>) and the kernel's simulation of
  validated actions (\<^verbatim>\<open>src/control/executor.go\<close>) both refine it, so what the machine
  guarantees holds of both: at most one allocation holds the current generation.
\<close>

section \<open>The abstract machine\<close>

type_synonym holdings = "string \<Rightarrow> string \<Rightarrow> 64 word option"
type_synonym owners = "string \<Rightarrow> (string \<times> 64 word) option"

inductive fence_step :: "holdings \<times> owners \<Rightarrow> holdings \<times> owners \<Rightarrow> bool" where
  forget: "(\<And>i n. H' i n = H i n \<or> H' i n = None) \<Longrightarrow> fence_step (H, V) (H', V)"
| create: "V n = None \<Longrightarrow> fence_step (H, V) (H, V(n \<mapsto> ([], 0)))"
| attach: "V n = Some (ow, g) \<Longrightarrow> ow = [] \<or> ow = i \<Longrightarrow> g' = (if ow = i then g else g + 1) \<Longrightarrow>
    fence_step (H, V) (H(i := (H i)(n \<mapsto> g')), V(n \<mapsto> (i, g')))"
| detach: "V n = Some (ow, g) \<Longrightarrow>
    fence_step (H, V) (H(ow := (H ow)(n := None)), V(n \<mapsto> ([], g + 1)))"
| adopt: "V n = Some (ow, g) \<Longrightarrow> fence_step (H, V) (H, V(n \<mapsto> (ow, g + 1)))"

inductive_cases fence_stepE: "fence_step (H, V) (H', V')"

definition fence_ok :: "holdings \<times> owners \<Rightarrow> bool" where
  "fence_ok s \<longleftrightarrow> (\<forall>i n g. fst s i n = Some g \<longrightarrow>
     (\<exists>ow gen. snd s n = Some (ow, gen) \<and> unat g \<le> unat gen \<and> (g = gen \<longrightarrow> ow = i)))"

definition gen_below :: "nat \<Rightarrow> holdings \<times> owners \<Rightarrow> bool" where
  "gen_below b s \<longleftrightarrow> (\<forall>n ow g. snd s n = Some (ow, g) \<longrightarrow> unat g \<le> b)"

lemma fence_okD:
  "fence_ok (H, V) \<Longrightarrow> H i n = Some g \<Longrightarrow>
    \<exists>ow gen. V n = Some (ow, gen) \<and> unat g \<le> unat gen \<and> (g = gen \<longrightarrow> ow = i)"
  by (simp add: fence_ok_def)

lemma unat_succ: "unat (g :: 64 word) + 1 < 2 ^ 64 \<Longrightarrow> unat (g + 1) = unat g + 1"
  by (simp add: unat_word_ariths)

lemma fence_step_ok:
  assumes step: "fence_step (H, V) (H', V')" and ok: "fence_ok (H, V)"
    and below: "gen_below b (H, V)" and room: "b + 1 < 2 ^ 64"
  shows "fence_ok (H', V')"
proof -
  have succ: "unat (g + 1) = unat g + 1" if "V n = Some (ow, g)" for n ow g
  proof (rule unat_succ)
    show "unat g + 1 < 2 ^ 64" using that below room by (fastforce simp: gen_below_def)
  qed
  show ?thesis using step
  proof cases
    case forget
    show ?thesis unfolding fence_ok_def
    proof (intro allI impI)
      fix i n g assume "fst (H', V') i n = Some g"
      then have "H i n = Some g" using forget(2) [of i n] by auto
      then show "\<exists>ow gen. snd (H', V') n = Some (ow, gen) \<and> unat g \<le> unat gen \<and> (g = gen \<longrightarrow> ow = i)"
        using fence_okD [OF ok] forget(1) by auto
    qed
  next
    case (create n)
    then show ?thesis using ok by (fastforce simp: fence_ok_def)
  next
    case (attach n ow g i g')
    then show ?thesis using fence_okD [OF ok] succ [OF attach(3)]
      by (fastforce simp: fence_ok_def split: if_splits)
  next
    case (detach n ow g)
    then show ?thesis using fence_okD [OF ok] succ [OF detach(3)]
      by (fastforce simp: fence_ok_def split: if_splits)
  next
    case (adopt n ow g)
    then show ?thesis using fence_okD [OF ok] succ [OF adopt(3)]
      by (fastforce simp: fence_ok_def split: if_splits)
  qed
qed

lemma fence_step_below:
  assumes "fence_step (H, V) (H', V')" "gen_below b (H, V)" "b + 1 < 2 ^ 64"
  shows "gen_below (b + 1) (H', V')"
proof -
  have "unat (g + 1) \<le> b + 1" if "V n = Some (ow, g)" for n ow g
    using that assms(2,3) unat_succ [of g] by (fastforce simp: gen_below_def)
  moreover have "unat g \<le> b" if "V n = Some (ow, g)" for n ow g
    using that assms(2) by (fastforce simp: gen_below_def)
  ultimately show ?thesis using assms(1)
    by (cases rule: fence_stepE) (fastforce simp: gen_below_def split: if_splits)+
qed

text \<open>The generation of a volume never falls, and it rises whenever the owner changes.\<close>

lemma fence_step_generation:
  assumes "fence_step (H, V) (H', V')" "gen_below b (H, V)" "b + 1 < 2 ^ 64"
    "V n = Some (ow, g)"
  shows "\<exists>ow' g'. V' n = Some (ow', g') \<and> unat g \<le> unat g' \<and> (ow' \<noteq> ow \<longrightarrow> unat g < unat g')"
proof -
  have "unat g + 1 < 2 ^ 64" using assms(2-4) by (fastforce simp: gen_below_def)
  then show ?thesis using assms(1,4) unat_succ [of g]
    by (cases rule: fence_stepE) (auto split: if_splits)
qed

lemma single_writer:
  "fence_ok (H, V) \<Longrightarrow> V n = Some (ow, g) \<Longrightarrow> H i n = Some g \<Longrightarrow> i = ow"
  by (auto dest!: fence_okD)

section \<open>Systems that refine the machine\<close>

locale fencing =
  fixes step :: "'s \<Rightarrow> 'e \<Rightarrow> 'err + 's" and view :: "'s \<Rightarrow> holdings \<times> owners"
  assumes refines: "step s e = Inr s' \<Longrightarrow> fence_step (view s) (view s')"
begin

lemma step_ok:
  assumes "step s e = Inr s'" "fence_ok (view s)" "gen_below b (view s)" "b + 1 < 2 ^ 64"
  shows "fence_ok (view s') \<and> gen_below (b + 1) (view s')"
proof -
  obtain H V H' V' where v: "view s = (H, V)" "view s' = (H', V')" by (cases "view s", cases "view s'")
  then have "fence_step (H, V) (H', V')" using refines [OF assms(1)] by simp
  then show ?thesis
    using fence_step_ok [of H V H' V' b] fence_step_below [of H V H' V' b] assms(2-4) v by simp
qed

lemma run_ok:
  assumes "run step s es = Inr s'" "fence_ok (view s)" "gen_below b (view s)" "b + length es < 2 ^ 64"
  shows "fence_ok (view s') \<and> gen_below (b + length es) (view s')"
  using assms
proof (induction es arbitrary: s b)
  case (Cons e es)
  then obtain s1 where s1: "step s e = Inr s1" "run step s1 es = Inr s'" by (auto split: sum.splits)
  have "fence_ok (view s1) \<and> gen_below (b + 1) (view s1)"
    using step_ok [OF s1(1)] Cons.prems by simp
  then show ?case using Cons.IH [OF s1(2)] Cons.prems(4) by fastforce
qed simp

lemma run_generation:
  assumes "run step s es = Inr s'" "gen_below b (view s)" "b + length es < 2 ^ 64"
    "snd (view s) n = Some (ow, g)"
  shows "\<exists>ow' g'. snd (view s') n = Some (ow', g') \<and> unat g \<le> unat g' \<and>
                  (ow' \<noteq> ow \<longrightarrow> unat g < unat g')"
  using assms
proof (induction es arbitrary: s b ow g)
  case (Cons e es)
  then obtain s1 where s1: "step s e = Inr s1" "run step s1 es = Inr s'" by (auto split: sum.splits)
  obtain H V where v: "view s = (H, V)" by (cases "view s")
  obtain H1 V1 where v1: "view s1 = (H1, V1)" by (cases "view s1")
  have st: "fence_step (H, V) (H1, V1)" using refines [OF s1(1)] v v1 by simp
  have b: "gen_below b (H, V)" "b + 1 < 2 ^ 64" using Cons.prems v by auto
  obtain ow1 g1 where g1: "V1 n = Some (ow1, g1)" "unat g \<le> unat g1" "ow1 \<noteq> ow \<longrightarrow> unat g < unat g1"
    using fence_step_generation [OF st b, of n ow g] Cons.prems(4) v by auto
  have "gen_below (b + 1) (view s1)" using fence_step_below [OF st b] v1 by simp
  then obtain ow' g' where "snd (view s') n = Some (ow', g')" "unat g1 \<le> unat g'"
      "ow' \<noteq> ow1 \<longrightarrow> unat g1 < unat g'"
    using Cons.IH [OF s1(2), of "b + 1"] Cons.prems(3) g1(1) v1 by fastforce
  then show ?case using g1 by fastforce
qed simp

end

section \<open>The world's view\<close>

definition world_holdings :: "World \<Rightarrow> holdings" where
  "world_holdings w i n = (case map_of (Allocations w) i of
     None \<Rightarrow> None | Some al \<Rightarrow> map_of (al_Volumes al) n)"

definition world_owners :: "World \<Rightarrow> owners" where
  "world_owners w n = map_option (\<lambda>v. (v_Owner v, v_Generation v)) (map_of (Volumes w) n)"

definition volume_view :: "World \<Rightarrow> holdings \<times> owners" where
  "volume_view w = (world_holdings w, world_owners w)"

lemma world_holdings_put:
  "map_of (Allocations w') = (map_of (Allocations w))(i \<mapsto> al) \<Longrightarrow>
    world_holdings w' = (world_holdings w)(i := map_of (al_Volumes al))"
  by (auto simp: world_holdings_def fun_eq_iff)

lemma world_owners_put:
  "map_of (Volumes w') = (map_of (Volumes w))(n \<mapsto> v) \<Longrightarrow>
    world_owners w' = (world_owners w)(n \<mapsto> (v_Owner v, v_Generation v))"
  by (auto simp: world_owners_def fun_eq_iff)

lemma world_owners_same: "Volumes w' = Volumes w \<Longrightarrow> world_owners w' = world_owners w"
  by (simp add: world_owners_def fun_eq_iff)

lemma world_holdings_same: "Allocations w' = Allocations w \<Longrightarrow> world_holdings w' = world_holdings w"
  by (simp add: world_holdings_def fun_eq_iff)

lemma fence_refl: "fence_step s s"
  by (cases s) (auto intro: fence_step.forget)

lemma fence_forget:
  "world_owners w' = world_owners w \<Longrightarrow>
   (\<And>i n. world_holdings w' i n = world_holdings w i n \<or> world_holdings w' i n = None) \<Longrightarrow>
   fence_step (volume_view w) (volume_view w')"
  using fence_step.forget [of "world_holdings w'" "world_holdings w" "world_owners w"]
  by (simp add: volume_view_def)

lemma volume_view_time [simp]:
  "volume_view (w\<lparr>Revision := r\<rparr>) = volume_view w" "volume_view (w\<lparr>ObservedAt := t\<rparr>) = volume_view w"
  by (simp_all add: volume_view_def world_holdings_def world_owners_def fun_eq_iff)

lemma projectInto_forget:
  assumes "projectInto w e = Inr w'" "\<not> volume_kind (e_Kind e)"
  shows "world_holdings w' i n = world_holdings w i n \<or> world_holdings w' i n = None"
  using assms
  by (cases "e_Kind e")
    (auto simp: projectInto_def project_defs Let_def volume_kind_def world_holdings_def Allocation_zero_def
          split: option.splits if_splits sum.splits)

section \<open>The projection refines the machine\<close>

lemma fence_attach:
  assumes "map_of (Volumes w) n = Some v" "map_of (Allocations w) i = Some al"
    "v_Owner v = [] \<or> v_Owner v = i" "v' = claim_volume v i"
  shows "fence_step (volume_view w) (volume_view (w\<lparr>Volumes := mput n v' (Volumes w),
           Allocations := mput i (al\<lparr>al_Volumes := mput n (v_Generation v') (al_Volumes al)\<rparr>)
                            (Allocations w)\<rparr>))" (is "fence_step _ (volume_view ?w)")
proof -
  have "world_holdings ?w = (world_holdings w)(i := (world_holdings w i)(n \<mapsto> v_Generation v'))"
    using assms(2) by (auto simp: world_holdings_def fun_eq_iff)
  moreover have "world_owners ?w = (world_owners w)(n \<mapsto> (i, v_Generation v'))"
    using assms(3,4) by (auto simp: world_owners_def fun_eq_iff)
  moreover have "world_owners w n = Some (v_Owner v, v_Generation v)"
    using assms(1) by (simp add: world_owners_def)
  ultimately show ?thesis
    using fence_step.attach [of "world_owners w" n "v_Owner v" "v_Generation v" i "v_Generation v'"
        "world_holdings w"] assms(3,4)
    by (auto simp: volume_view_def)
qed

lemma fence_detach:
  assumes "map_of (Volumes w) n = Some v"
  shows "fence_step (volume_view w) (volume_view (set_vol n
           (v\<lparr>v_Owner := [], v_Generation := v_Generation v + 1\<rparr>) (release_holding w (v_Owner v) n)))"
    (is "fence_step _ (volume_view ?w)")
proof -
  have "world_holdings ?w = (world_holdings w)(v_Owner v := (world_holdings w (v_Owner v))(n := None))"
    by (auto simp: world_holdings_def release_holding_def fun_eq_iff split: option.splits)
  moreover have "world_owners ?w = (world_owners w)(n \<mapsto> ([], v_Generation v + 1))"
    by (auto simp: world_owners_def fun_eq_iff)
  moreover have "world_owners w n = Some (v_Owner v, v_Generation v)"
    using assms by (simp add: world_owners_def)
  ultimately show ?thesis
    using fence_step.detach [of "world_owners w" n "v_Owner v" "v_Generation v" "world_holdings w"]
    by (simp add: volume_view_def)
qed

lemma fence_volume_keep:
  assumes "map_of (Volumes w) n = Some v" "v_Owner v' = v_Owner v" "v_Generation v' = v_Generation v"
  shows "fence_step (volume_view w) (volume_view (set_vol n v' w))"
proof (rule fence_forget)
  show "world_owners (set_vol n v' w) = world_owners w"
    using assms by (auto simp: world_owners_def fun_eq_iff)
qed (simp add: world_holdings_def)

lemma fence_volume_bump:
  assumes "map_of (Volumes w) n = Some v" "v_Owner v' = v_Owner v" "v_Generation v' = v_Generation v + 1"
  shows "fence_step (volume_view w) (volume_view (set_vol n v' w))"
proof -
  have "world_owners (set_vol n v' w) = (world_owners w)(n \<mapsto> (v_Owner v, v_Generation v + 1))"
    using assms by (auto simp: world_owners_def fun_eq_iff)
  moreover have "world_owners w n = Some (v_Owner v, v_Generation v)"
    using assms by (simp add: world_owners_def)
  moreover have "world_holdings (set_vol n v' w) = world_holdings w"
    by (simp add: world_holdings_def fun_eq_iff)
  ultimately show ?thesis
    using fence_step.adopt [of "world_owners w" n "v_Owner v" "v_Generation v" "world_holdings w"]
    by (simp add: volume_view_def)
qed

lemma fence_volume_create:
  assumes "map_of (Volumes w) n = None" "v_Owner v = []" "v_Generation v = 0"
  shows "fence_step (volume_view w) (volume_view (set_vol n v w))"
proof -
  have "world_owners (set_vol n v w) = (world_owners w)(n \<mapsto> ([], 0))"
    using assms by (auto simp: world_owners_def fun_eq_iff)
  moreover have "world_owners w n = None" using assms by (simp add: world_owners_def)
  moreover have "world_holdings (set_vol n v w) = world_holdings w"
    by (simp add: world_holdings_def fun_eq_iff)
  ultimately show ?thesis
    using fence_step.create [of "world_owners w" n "world_holdings w"] by (simp add: volume_view_def)
qed

lemma drop_snapshot_frame [simp]:
  "v_Owner (drop_snapshot v i) = v_Owner v" "v_Generation (drop_snapshot v i) = v_Generation v"
  "v_Node (drop_snapshot v i) = v_Node v" "v_Handoff (drop_snapshot v i) = v_Handoff v"
  "v_LastSnapshot (drop_snapshot v i) = v_LastSnapshot v"
  by (simp_all add: drop_snapshot_def)

lemma foldl_drop_snapshot_frame [simp]:
  "v_Owner (foldl drop_snapshot v is) = v_Owner v"
  "v_Generation (foldl drop_snapshot v is) = v_Generation v"
  "v_Node (foldl drop_snapshot v is) = v_Node v"
  "v_Handoff (foldl drop_snapshot v is) = v_Handoff v"
  "v_LastSnapshot (foldl drop_snapshot v is) = v_LastSnapshot v"
  by (induction "is" arbitrary: v) simp_all

lemma fence_set_vol:
  "(case map_of (Volumes w) n of
      None \<Rightarrow> v_Owner v' = [] \<and> v_Generation v' = 0
    | Some v \<Rightarrow> v_Owner v' = v_Owner v \<and>
        (v_Generation v' = v_Generation v \<or> v_Generation v' = v_Generation v + 1)) \<Longrightarrow>
   fence_step (volume_view w) (volume_view (set_vol n v' w))"
  by (auto split: option.splits intro: fence_volume_create dest: fence_volume_keep fence_volume_bump)

lemmas fence_volume_rules = fence_set_vol fence_attach fence_detach fence_refl

lemma projectInto_fence:
  assumes "projectInto w e = Inr w'"
  shows "fence_step (volume_view w) (volume_view w')"
proof (cases "volume_kind (e_Kind e)")
  case False
  then show ?thesis
    using fence_forget [of w' w] projectInto_forget [OF assms False]
      world_owners_same [OF projectInto_Volumes [OF assms False]] by blast
next
  case True
  then show ?thesis using assms
    by (cases "e_Kind e")
      (auto simp: projectInto_def project_volume_defs volume_kind_def Let_def mhas_def Volume_zero_def
            simp del: release_holding_frame claim_volume_frame
            intro!: fence_volume_rules split: option.splits if_splits)
qed

lemma Project_fence: "Project w e = Inr w' \<Longrightarrow> fence_step (volume_view w) (volume_view w')"
  by (auto simp: Project_def split: sum.splits if_splits dest: projectInto_fence)

interpretation proj_fence: fencing Project volume_view
  by unfold_locales (rule Project_fence)

section \<open>The simulation of validated actions refines the machine\<close>

definition volume_action :: "ActionKind \<Rightarrow> bool" where
  "volume_action k \<longleftrightarrow> k \<in> {ActionCreateVolume, ActionAttachVolume, ActionDetachVolume,
     ActionSnapshotVolume, ActionQuiesceVolume, ActionTransferVolume, ActionAdoptVolume,
     ActionDatabaseBackup, ActionVerifyBackup, ActionPruneSnapshots, ActionBackupSnapshot,
     ActionRestoreSnapshot}"

lemma simulate_Volumes:
  assumes "simulateAction w a = Inr w'" "\<not> volume_action (ac_Kind a)"
  shows "Volumes w' = Volumes w"
  using assms
  by (cases "ac_Kind a")
    (auto simp: simulateAction_def simulate_defs Let_def volume_action_def split: option.splits)

lemma simulate_forget:
  assumes "simulateAction w a = Inr w'" "\<not> volume_action (ac_Kind a)"
  shows "world_holdings w' i n = world_holdings w i n \<or> world_holdings w' i n = None"
  using assms
  by (cases "ac_Kind a")
    (auto simp: simulateAction_def simulate_defs Let_def volume_action_def world_holdings_def
                Allocation_zero_def
          split: option.splits if_splits)

lemma simulate_volume_fence:
  assumes "simulateAction w a = Inr w'" "volume_action (ac_Kind a)" "ac_Kind a \<noteq> ActionAttachVolume"
  shows "fence_step (volume_view w) (volume_view w')"
  using assms
  by (cases "ac_Kind a")
    (auto simp: simulateAction_def simulate_defs mhas_def Volume_zero_def volume_action_def
          simp del: release_holding_frame
          intro!: fence_set_vol fence_detach fence_refl split: option.splits if_splits)

lemma simulate_fence:
  assumes valid: "validateAction wall goal w a = None" and sim: "simulateAction w a = Inr w'"
  shows "fence_step (volume_view w) (volume_view w')"
proof (cases "ac_Kind a = ActionAttachVolume")
  case True
  then obtain ref al v where "ac_Volume a = Some ref" "map_of (Allocations w) (ac_Target a) = Some al"
      "map_of (Volumes w) (vr_Name ref) = Some v" "v_Owner v = [] \<or> v_Owner v = ac_Target a"
    using valid by (auto simp: validateAction_def elim: validateAttachVolume_None)
  then show ?thesis using sim True
    by (auto simp: simulateAction_def simulate_AttachVolume_def Let_def simp del: claim_volume_frame
             intro!: fence_attach)
next
  case notattach: False
  show ?thesis
  proof (cases "volume_action (ac_Kind a)")
    case True
    then show ?thesis using simulate_volume_fence [OF sim] notattach by simp
  next
    case False
    then show ?thesis
      using fence_forget [OF world_owners_same [OF simulate_Volumes [OF sim]]] simulate_forget [OF sim]
      by simp
  qed
qed

interpretation sim_fence: fencing "checked_step wall goal" volume_view for wall goal
  by unfold_locales (auto simp: checked_step_def split: option.splits intro: simulate_fence)

end
