(* ===== verification/Sample_Cluster.thy ===== *)
theory Sample_Cluster
  imports Control_Kernel Control_Projection
begin

text \<open>
  Concrete clusters, goals, plans and logs on which the properties are instantiated: two nodes
  in two failure domains, a two-replica service, a worker pool volume and the plans the
  agents of the default policy make for them.  The signature scheme of the samples is a
  concrete one in which a signature is the key followed by the message.
\<close>

section \<open>Values\<close>

definition sample_image :: string where
  "sample_image = ''reg/web@sha256:'' @ replicate 64 (CHR ''a'')"

definition sample_resources :: Resources where
  "sample_resources = \<lparr>CPUMillis = 500, MemoryMB = 256\<rparr>"

definition sample_workload :: WorkloadSpec where
  "sample_workload = \<lparr>wl_Name = ''web'', wl_Image = sample_image, wl_Replicas = 2, wl_Port = 0,
     wl_Resources = sample_resources, wl_Privileged = False, wl_Stateful = False, wl_Secrets = [],
     wl_Volumes = [], wl_Engine = [], wl_Runtime = None, wl_Policy = None, wl_Schedule = None,
     wl_Placement = Some \<lparr>MaxPerDomain = 1\<rparr>, wl_Attestation = None\<rparr>"

definition sample_goal :: Goal where
  "sample_goal = \<lparr>g_APIVersion = ''a4s.io/v1alpha1'', g_ID = ''g1'', g_Objective = ''serve'',
     g_Workload = sample_workload,
     g_Route = Some \<lparr>rs_Host = ''web.test'', rs_Port = 80, rs_Exposure = ''public''\<rparr>,
     g_Constraints = \<lparr>RequiredLabels = [], AllowedNodes = []\<rparr>, g_Canary = None\<rparr>"

definition sample_node :: "string \<Rightarrow> string \<Rightarrow> int \<Rightarrow> Node" where
  "sample_node i d k = \<lparr>n_ID = i, n_Labels = [], n_Capacity = \<lparr>CPUMillis = 4000, MemoryMB = 4096\<rparr>,
     n_Used = \<lparr>CPUMillis = 500 * k, MemoryMB = 256 * k\<rparr>, n_Images = [(sample_image, True)],
     n_Healthy = True, n_Domain = d, n_Cordoned = False, n_CordonReason = [], n_Address = [],
     n_GatewayPort = 0, n_ZoneFingerprint = [], n_PolicyFingerprint = [], n_Providers = [],
     n_BudgetCapacity = Budget_zero, n_BudgetUsed = Budget_zero\<rparr>"

definition sample_alloc :: "string \<Rightarrow> int \<Rightarrow> string \<Rightarrow> AllocationPhase \<Rightarrow> Allocation" where
  "sample_alloc i r k ph = Allocation_zero\<lparr>al_ID := i, al_Workload := ''web'', al_Replica := r,
     al_Node := k, al_Image := sample_image, al_Resources := sample_resources, al_Phase := ph,
     al_Ready := (ph = AllocationRunning)\<rparr>"

definition sample_empty :: World where
  "sample_empty = \<lparr>Revision = 7, ObservedAt = 1000,
     Nodes = [(''n1'', sample_node ''n1'' ''east'' 0), (''n2'', sample_node ''n2'' ''west'' 0)],
     Allocations = [], Routes = [], Volumes = [], Queues = [], Approvals = [], KnownGood = [],
     Disruptions = [], Backoffs = []\<rparr>"

definition sample_running :: World where
  "sample_running = sample_empty
     \<lparr>Nodes := [(''n1'', sample_node ''n1'' ''east'' 1), (''n2'', sample_node ''n2'' ''west'' 1)],
      Allocations := [(''web-0'', sample_alloc ''web-0'' 0 ''n1'' AllocationRunning),
                      (''web-1'', sample_alloc ''web-1'' 1 ''n2'' AllocationRunning)]\<rparr>"

section \<open>Plans\<close>

definition sample_action :: "string \<Rightarrow> ActionKind \<Rightarrow> string \<Rightarrow> Action" where
  "sample_action i k t = \<lparr>ac_ID = i, ac_Kind = k, ac_Target = t, ac_Workload = ''web'', ac_Node = [],
     ac_Image = [], ac_Replica = 0, ac_Resources = \<lparr>CPUMillis = 0, MemoryMB = 0\<rparr>, ac_Port = 0,
     ac_Exposure = [], ac_Volume = None, ac_Snapshot = [], ac_Engine = [], ac_Retain = 0,
     ac_DryRun = False, ac_Zone = None, ac_Policy = None, ac_Protected = [], ac_Secret = None,
     ac_Tools = [], ac_Budget = Budget_zero, ac_Reason = [], ac_Probe = None, ac_DependsOn = []\<rparr>"

definition sample_create :: "string \<Rightarrow> int \<Rightarrow> string \<Rightarrow> Action" where
  "sample_create t r k = (sample_action (''create-'' @ t) ActionCreateAllocation t)
     \<lparr>ac_Node := k, ac_Image := sample_image, ac_Replica := r, ac_Resources := sample_resources\<rparr>"

definition sample_start :: "string \<Rightarrow> Action" where
  "sample_start t = (sample_action (''start-'' @ t) ActionStartAllocation t)
     \<lparr>ac_DependsOn := [''create-'' @ t]\<rparr>"

definition sample_proposal :: "string \<Rightarrow> Action list \<Rightarrow> Check list \<Rightarrow> Proposal" where
  "sample_proposal agent as cs = \<lparr>p_ID = ''p1'', p_AgentID = agent, p_GoalID = ''g1'',
     p_BasedOnRevision = 7, p_Reasoning = [], p_Actions = as, p_ExpectedEvidence = cs\<rparr>"

definition sample_agent :: "string \<Rightarrow> AgentDescriptor" where
  "sample_agent i = \<lparr>ad_ID = i, ad_Role = i, ad_Capabilities = []\<rparr>"

definition ready_check :: "string \<Rightarrow> Check" where
  "ready_check t = \<lparr>ck_Kind = CheckAllocationReady, ck_Target = t, ck_Want = ''true''\<rparr>"

definition place_plan :: Proposal where
  "place_plan = sample_proposal ''placement-agent''
     [sample_create ''web-0'' 0 ''n1'', sample_create ''web-1'' 1 ''n2'',
      sample_start ''web-0'', sample_start ''web-1''] [ready_check ''web-0'', ready_check ''web-1'']"

definition stop_plan :: Proposal where
  "stop_plan = sample_proposal ''rollout-agent''
     [sample_action ''stop-web-0'' ActionStopAllocation ''web-0''] []"

section \<open>A signature scheme\<close>

text \<open>A statement is written field by field; in a field every character is preceded by \<open>0\<close> and
  the field ends with \<open>1\<close>.\<close>

fun put_field :: "string \<Rightarrow> string" where
  "put_field [] = ''1''"
| "put_field (c # cs) = CHR ''0'' # c # put_field cs"

fun get_field :: "string \<Rightarrow> (string \<times> string) option" where
  "get_field (m # cs) = (if m = CHR ''1'' then Some ([], cs)
     else case cs of [] \<Rightarrow> None
        | c # rest \<Rightarrow> map_option (\<lambda>(f, r). (c # f, r)) (get_field rest))"
| "get_field [] = None"

lemma get_put_field: "get_field (put_field f @ rest) = Some (f, rest)"
  by (induction f) auto

fun get_fields :: "nat \<Rightarrow> string \<Rightarrow> (string list \<times> string) option" where
  "get_fields 0 s = Some ([], s)"
| "get_fields (Suc n) s = (case get_field s of None \<Rightarrow> None
     | Some (f, r) \<Rightarrow> map_option (\<lambda>(fs, t). (f # fs, t)) (get_fields n r))"

definition put_fields :: "string list \<Rightarrow> string" where
  "put_fields fs = concat (map put_field fs)"

lemma get_put_fields: "get_fields (length fs) (put_fields fs @ rest) = Some (fs, rest)"
  by (induction fs) (auto simp: put_fields_def get_put_field)

definition read_int :: "string \<Rightarrow> int" where
  "read_int s = (case s of [] \<Rightarrow> 0
     | c # cs \<Rightarrow> if c = CHR ''-'' then - int (the (parse_nat cs)) else int (the (parse_nat s)))"

lemma read_int_itoa: "read_int (itoa i) = i"
proof (cases "i < 0")
  case False
  then obtain c cs where c: "utoa (nat i) = c # cs" by (cases "utoa (nat i)") auto
  then have "is_digit c" using utoa_digits [of c "nat i"] by simp
  then have "c \<noteq> CHR ''-''" by (auto simp: is_digit_def)
  then show ?thesis using False c parse_nat_utoa [of "nat i"] by (simp add: itoa_def read_int_def)
qed (simp add: itoa_def read_int_def)

definition plain_encode :: "ImageStatement \<Rightarrow> string" where
  "plain_encode st = put_fields [itoa (is_Version st), is_Image st, is_Builder st, is_KeyID st,
     itoa (is_BuiltAt st), itoa (is_ExpiresAt st)]"

definition plain_decode :: "string \<Rightarrow> (ImageStatement \<times> bool) option" where
  "plain_decode s = (case get_fields 6 s of
       Some ([v, img, builder, key, built, expires], rest) \<Rightarrow>
         Some (\<lparr>is_Version = read_int v, is_Image = img, is_Builder = builder, is_KeyID = key,
               is_BuiltAt = read_int built, is_ExpiresAt = read_int expires\<rparr>, rest \<noteq> [])
     | _ \<Rightarrow> None)"

lemma plain_decode_encode: "plain_decode (plain_encode st) = Some (st, False)"
proof -
  let ?fs = "[itoa (is_Version st), is_Image st, is_Builder st, is_KeyID st, itoa (is_BuiltAt st), itoa (is_ExpiresAt st)]"
  have "get_fields (length ?fs) (put_fields ?fs @ []) = Some (?fs, [])" by (rule get_put_fields)
  moreover have "length ?fs = 6" by simp
  ultimately have "get_fields 6 (plain_encode st) = Some (?fs, [])"
    by (simp only: plain_encode_def append_Nil2)
  then show ?thesis by (simp add: plain_decode_def read_int_itoa)
qed

lemma plain_encode_nonempty: "plain_encode st \<noteq> []"
  by (cases "itoa (is_Version st)") (simp_all add: plain_encode_def put_fields_def)

definition plain_signing :: Signing where
  "plain_signing = \<lparr>ed_verify = (\<lambda>public m s. s = public @ m),
     ed_sign = (\<lambda>key m. take 32 key @ m), b64_decode = Some, b64_encode = (\<lambda>s. s),
     st_decode = plain_decode, st_encode = plain_encode\<rparr>"

lemmas sample_world_defs = sample_empty_def sample_running_def sample_node_def sample_alloc_def
  sample_resources_def Allocation_zero_def
lemmas sample_plan_defs = place_plan_def stop_plan_def sample_proposal_def sample_create_def
  sample_start_def sample_action_def sample_agent_def ready_check_def
lemmas sample_goal_defs = sample_goal_def sample_workload_def

text \<open>For goals without attestations no signature is ever examined.\<close>

definition no_signing :: Signing where
  "no_signing = \<lparr>ed_verify = (\<lambda>public m s. False), ed_sign = (\<lambda>key m. []), b64_decode = Some,
     b64_encode = (\<lambda>s. s), st_decode = (\<lambda>s. None), st_encode = (\<lambda>st. ''s'')\<rparr>"

lemma place_plan_authorized:
  "Authorize no_signing 0 DefaultPolicy (sample_agent ''placement-agent'') sample_goal sample_empty place_plan = None"
  by code_simp

lemma stop_plan_authorized:
  "Authorize no_signing 0 DefaultPolicy (sample_agent ''rollout-agent'') sample_goal sample_running stop_plan = None"
  by code_simp

end
