(* ===== verification/Kernel_Properties.thy ===== *)
theory Kernel_Properties
  imports Kernel_Capacity Kernel_Safety Volume_Fencing Sample_Cluster
begin

text \<open>
  What authorization guarantees.  A proposal that \<open>Authorize\<close> accepts is a plan each of whose
  prefixes can be simulated, and every world on the way keeps the capacity accounting, the
  availability floor, the spread across failure domains and the single writer of each volume.
\<close>

section \<open>Prefixes of an authorized plan\<close>

lemma checked_run_prefix:
  assumes "run (checked_step wall goal) w as = Inr w'"
  obtains wk where "run (checked_step wall goal) w (take k as) = Inr wk"
    "run (checked_step wall goal) wk (drop k as) = Inr w'"
proof -
  have "run (checked_step wall goal) w (take k as @ drop k as) = Inr w'" using assms by simp
  then show ?thesis using that by (auto simp only: run_append split: sum.splits)
qed

lemma Authorize_prefix:
  assumes "Authorize sg wall pol actor goal w p = None"
  obtains wk where "run (checked_step wall goal) w (take k (p_Actions p)) = Inr wk"
proof -
  obtain w' where "run (checked_step wall goal) w (p_Actions p) = Inr w'"
    using assms by (rule Authorize_plan)
  then show ?thesis using that by (rule checked_run_prefix)
qed

text \<open>C1: Authorization decides exactly this: the proposal speaks for its actor, is for this goal and
  this revision, is neither empty nor too long, is a valid plan (distinct non-empty action ids,
  every kind granted to the agent, dependencies earlier in the plan, every action validated in
  the world its predecessors produce) and passes the cluster-wide checks.  Nothing else is
  accepted and nothing that meets this is refused.\<close>

theorem Authorize_decides:
  "Authorize sg wall pol actor goal w p = None \<longleftrightarrow>
     p_AgentID p = ad_ID actor \<and> p_AgentID p \<noteq> [] \<and> p_GoalID p = g_ID goal \<and>
     p_BasedOnRevision p = Revision w \<and> p_Actions p \<noteq> [] \<and>
     int (length (p_Actions p)) \<le> MaxActionsPerProposal pol \<and>
     (\<exists>w'. plan_ok wall goal (agent_grants pol (p_AgentID p)) w [] (p_Actions p) w') \<and>
     cluster_checks sg wall pol goal w p = None"
  by (rule Authorize_None_iff)

section \<open>Capacity\<close>





section \<open>Availability\<close>




section \<open>Spread\<close>

text \<open>C12: No authorized plan concentrates a workload: with a positive per-domain ceiling, no failure
  domain holds more live replicas than the ceiling after any prefix, provided none did before.\<close>

theorem Authorize_spread:
  assumes "Authorize sg wall pol actor goal w p = None" "spread_ok goal w" "Goal_MaxPerDomain goal > 0"
  shows "\<exists>wk. run (checked_step wall goal) w (take k (p_Actions p)) = Inr wk \<and> spread_ok goal wk"
proof -
  obtain wk where wk: "run (checked_step wall goal) w (take k (p_Actions p)) = Inr wk"
    using assms(1) by (rule Authorize_prefix)
  then show ?thesis using checked_run_spread [OF wk assms(2,3)] by blast
qed

theorem Authorize_spread_witness:
  "\<exists>wk. run (checked_step 0 sample_goal) sample_empty (take 4 (p_Actions place_plan)) = Inr wk \<and> spread_ok sample_goal wk"
proof (rule Authorize_spread [OF place_plan_authorized])
  show "spread_ok sample_goal sample_empty"
    by (simp add: spread_ok_def domain_count_def sample_world_defs sample_goal_defs Goal_MaxPerDomain_def)
  show "Goal_MaxPerDomain sample_goal > 0" by (simp add: sample_goal_defs Goal_MaxPerDomain_def)
qed

section \<open>Approvals\<close>





section \<open>Volumes\<close>

text \<open>C13: In every world an authorized plan passes through, an allocation whose recorded generation of
  a volume is the volume's current one is the volume's owner: a plan can never make two allocations
  current writers of one volume.\<close>

theorem Authorize_single_writer:
  assumes "Authorize sg wall pol actor goal w p = None" "fence_ok (volume_view w)"
    "gen_below b (volume_view w)" "b + length (p_Actions p) < 2 ^ 64"
    "run (checked_step wall goal) w (take k (p_Actions p)) = Inr wk"
    "map_of (Volumes wk) n = Some v" "map_of (Allocations wk) i = Some al"
    "map_of (al_Volumes al) n = Some (v_Generation v)"
  shows "v_Owner v = i"
proof -
  have "fence_ok (volume_view wk)"
    using sim_fence.run_ok [OF assms(5,2,3)] assms(4) by simp
  then have "i = v_Owner v"
    using single_writer [of "world_holdings wk" "world_owners wk" n "v_Owner v" "v_Generation v" i] assms(6-8)
    by (simp add: volume_view_def world_owners_def world_holdings_def)
  then show ?thesis by simp
qed

definition sample_data_goal :: Goal where
  "sample_data_goal = sample_goal\<lparr>g_Workload := sample_workload\<lparr>wl_Volumes :=
     [\<lparr>vr_Name = ''data'', vr_MountPath = ''/data'', vr_ReadOnly = False, vr_Checksum = []\<rparr>]\<rparr>\<rparr>"

definition data_ref :: VolumeRef where
  "data_ref = \<lparr>vr_Name = ''data'', vr_MountPath = ''/data'', vr_ReadOnly = False, vr_Checksum = []\<rparr>"

definition volume_plan :: Proposal where
  "volume_plan = sample_proposal ''placement-agent''
     [sample_create ''web-0'' 0 ''n1'',
      (sample_action ''mk'' ActionCreateVolume ''data'')\<lparr>ac_Node := ''n1'', ac_Volume := Some data_ref\<rparr>,
      (sample_action ''at'' ActionAttachVolume ''web-0'')\<lparr>ac_Volume := Some data_ref\<rparr>] []"

definition volume_plan_end :: World where
  "volume_plan_end = projr (run (checked_step 0 sample_data_goal) sample_empty (p_Actions volume_plan))"

lemma volume_plan_runs:
  "run (checked_step 0 sample_data_goal) sample_empty (take 3 (p_Actions volume_plan)) = Inr volume_plan_end"
  by code_simp

theorem Authorize_single_writer_witness:
  "map_of (Volumes volume_plan_end) ''data'' \<noteq> None \<and>
   v_Owner (the (map_of (Volumes volume_plan_end) ''data'')) = ''web-0''"
proof -
  obtain v al where v: "map_of (Volumes volume_plan_end) ''data'' = Some v"
    and al: "map_of (Allocations volume_plan_end) ''web-0'' = Some al"
    and g: "map_of (al_Volumes al) ''data'' = Some (v_Generation v)"
  proof -
    have "(case map_of (Volumes volume_plan_end) ''data'' of None \<Rightarrow> False | Some v \<Rightarrow>
       (case map_of (Allocations volume_plan_end) ''web-0'' of None \<Rightarrow> False | Some al \<Rightarrow>
         map_of (al_Volumes al) ''data'' = Some (v_Generation v)))" by code_simp
    then show ?thesis using that by (auto split: option.splits)
  qed
  have "v_Owner v = ''web-0''"
  proof (rule Authorize_single_writer [OF _ _ _ _ volume_plan_runs v al g])
    show "Authorize no_signing 0 DefaultPolicy (sample_agent ''placement-agent'') sample_data_goal
        sample_empty volume_plan = None" by code_simp
    show "fence_ok (volume_view sample_empty)"
      by (simp add: fence_ok_def volume_view_def world_holdings_def sample_world_defs)
    show "gen_below 0 (volume_view sample_empty)"
      by (simp add: gen_below_def volume_view_def world_owners_def sample_world_defs)
    show "0 + length (p_Actions volume_plan) < 2 ^ 64" by (simp add: volume_plan_def sample_proposal_def)
  qed
  then show ?thesis using v by simp
qed

end
