(* ===== verification/Governor_Properties.thy ===== *)
theory Governor_Properties
  imports Kernel_Properties Projection_Facts
begin

text \<open>
  The cluster-wide side of authorization: the disruption governor, the failure backoff, the
  cluster ceilings, image provenance, the evidence a plan must promise and the division of
  capabilities between the agents of the default policy.
\<close>

section \<open>Disruptions\<close>

definition disruption_evidence :: "EvidenceKind \<Rightarrow> bool" where
  "disruption_evidence k \<longleftrightarrow>
     k \<in> {EvidenceAllocationStopped, EvidenceAllocationDeleted, EvidenceAllocationDrained}"

lemma applyReadiness_Disruptions [simp]: "Disruptions (applyReadiness w i al e) = Disruptions w"
  by (simp add: applyReadiness_def clearBackoff_def Let_def)

lemma projectInto_no_disruption:
  assumes "projectInto w e = Inr w'" "\<not> disruption_evidence (e_Kind e)"
  shows "Disruptions w' = Disruptions w"
  using assms
  by (cases "e_Kind e")
    (auto simp: projectInto_def project_defs project_volume_defs disruption_evidence_def Let_def
                recordFailure_def release_holding_def
          split: option.splits if_splits sum.splits)

lemma projectInto_disruption:
  assumes "projectInto w e = Inr w'" "disruption_evidence (e_Kind e)"
  shows "length (filter P (Disruptions w')) \<le> Suc (length (filter P (Disruptions w)))"
proof -
  have "Disruptions w' = Disruptions w \<or>
      (\<exists>w1 al. Disruptions w' = Disruptions (recordDisruption w1 al (e_Kind e) (e_ObservedAt e)) \<and>
               Disruptions w1 = Disruptions w)"
    using assms
    by (auto simp: disruption_evidence_def projectInto_def project_AllocationStopped_def
          project_AllocationDeleted_def project_AllocationDrained_def Let_def split: option.splits)
      fastforce+
  then show ?thesis
  proof
    assume "\<exists>w1 al. Disruptions w' = Disruptions (recordDisruption w1 al (e_Kind e) (e_ObservedAt e)) \<and>
               Disruptions w1 = Disruptions w"
    then obtain w1 al where d: "Disruptions w' = Disruptions (recordDisruption w1 al (e_Kind e) (e_ObservedAt e))"
      "Disruptions w1 = Disruptions w" by blast
    show ?thesis using recordDisruption_recent [of P w1 al "e_Kind e" "e_ObservedAt e"] d by simp
  qed simp
qed

lemma Project_Disruptions: "Project w e = Inr w' \<Longrightarrow> \<exists>w1. projectInto w e = Inr w1 \<and> Disruptions w' = Disruptions w1"
  by (auto simp: Project_def split: sum.splits if_splits)

lemma run_disruptions:
  "run Project w es = Inr w' \<Longrightarrow>
    length (filter P (Disruptions w'))
      \<le> length (filter P (Disruptions w)) + length (filter (\<lambda>e. disruption_evidence (e_Kind e)) es)"
proof (induction es arbitrary: w)
  case (Cons e es)
  obtain w1 where w1: "Project w e = Inr w1" "run Project w1 es = Inr w'"
    using Cons.prems unfolding run_Cons_Inr by blast
  have "length (filter P (Disruptions w1))
      \<le> length (filter P (Disruptions w)) + (if disruption_evidence (e_Kind e) then 1 else 0)"
  proof -
    obtain w2 where w2: "projectInto w e = Inr w2" "Disruptions w1 = Disruptions w2"
      using Project_Disruptions [OF w1(1)] by blast
    show ?thesis
    proof (cases "disruption_evidence (e_Kind e)")
      case True
      then show ?thesis using projectInto_disruption [OF w2(1) True, of P] w2(2) by simp
    next
      case False
      then show ?thesis using projectInto_no_disruption [OF w2(1) False] w2(2) by simp
    qed
  qed
  then show ?case using Cons.IH [OF w1(2)] by auto
qed simp

text \<open>C7: The disruption budget is a cap on what the ledger can show.  After a plan is authorized and
  a log is replayed in which at most as many disruptions are observed as the plan proposed, the
  disruptions within the window, at that moment or at any later one, stay within the policy's maximum.\<close>

theorem disruption_budget_caps_ledger:
  assumes auth: "Authorize sg wall pol actor goal w p = None" and cap: "MaxDisruptionsPerWindow pol > 0"
    and some: "disruptive_actions p \<noteq> []" and replay: "run Project w es = Inr w'"
    and few: "length (filter (\<lambda>e. disruption_evidence (e_Kind e)) es) \<le> length (disruptive_actions p)"
    and later: "World_Now wall w \<le> t"
  shows "int (length (RecentDisruptions w' t (effective_window pol))) \<le> MaxDisruptionsPerWindow pol"
proof -
  let ?P = "\<lambda>d. d_At d > t - effective_window pol"
  have recent: "length (RecentDisruptions v s (effective_window pol))
      = length (filter (\<lambda>d. d_At d > s - effective_window pol) (Disruptions v))" for v s
    using effective_window_pos [of pol] by (simp add: length_RecentDisruptions not_le [symmetric])
  have "length (filter ?P (Disruptions w)) \<le> length (RecentDisruptions w (World_Now wall w) (effective_window pol))"
    unfolding recent by (rule length_filter_mono) (use later in simp)
  moreover have "int (length (RecentDisruptions w (World_Now wall w) (effective_window pol)))
      + int (length (disruptive_actions p)) \<le> MaxDisruptionsPerWindow pol"
    by (rule checkDisruptionBudget_count [OF Authorize_cluster(2) [OF auth] cap some])
  ultimately show ?thesis
    using run_disruptions [OF replay, of ?P] few unfolding recent by linarith
qed

definition sample_evidence :: "EvidenceKind \<Rightarrow> string \<Rightarrow> time \<Rightarrow> string smap \<Rightarrow> Evidence" where
  "sample_evidence k t at m = \<lparr>e_Kind = k, e_Target = t, e_Source = ''node'', e_ObservedAt = at,
     e_ExpiresAt = 0, e_Observed = m\<rparr>"

definition stopped_log :: "Evidence list" where
  "stopped_log = [sample_evidence EvidenceAllocationStopped ''web-0'' 1100 []]"

definition sample_stopped :: World where
  "sample_stopped = projr (run Project sample_running stopped_log)"

theorem disruption_budget_caps_ledger_witness:
  "int (length (RecentDisruptions sample_stopped 1200 (effective_window DefaultPolicy))) \<le> 12"
proof -
  have "int (length (RecentDisruptions sample_stopped 1200 (effective_window DefaultPolicy)))
      \<le> MaxDisruptionsPerWindow DefaultPolicy"
  proof (rule disruption_budget_caps_ledger [OF stop_plan_authorized])
    show "MaxDisruptionsPerWindow DefaultPolicy > 0" by code_simp
    show "disruptive_actions stop_plan \<noteq> []" by code_simp
    show "run Project sample_running stopped_log = Inr sample_stopped" by code_simp
    show "length (filter (\<lambda>e. disruption_evidence (e_Kind e)) stopped_log) \<le> length (disruptive_actions stop_plan)"
      by code_simp
    show "World_Now 0 sample_running \<le> 1200" by code_simp
  qed
  then show ?thesis by (simp add: DefaultPolicy_def DefaultMaxDisruptions_def)
qed

text \<open>C8: With a cooldown in force, an authorized plan disrupts at most one failure domain, and only a
  domain that is itself the one still cooling down if any is: two domains are never degraded
  together.\<close>

theorem one_domain_at_a_time:
  assumes "Authorize sg wall pol actor goal w p = None" "DisruptionCooldown pol > 0"
    "a \<in> set (disruptive_actions p)" "actionDomain w a \<noteq> []"
  shows "(\<forall>b \<in> set (disruptive_actions p). actionDomain w b \<in> {[], actionDomain w a}) \<and>
         (\<forall>d \<in> set (Disruptions w). d_At d > World_Now wall w - DisruptionCooldown pol \<longrightarrow>
            d_Domain d \<in> {[], actionDomain w a})"
proof -
  have ne: "disruptive_actions p \<noteq> []" using assms(3) by auto
  have chk: "checkDisruptionBudget wall pol w p = None" by (rule Authorize_cluster(2) [OF assms(1)])
  have few: "length (proposed_domains w p) \<le> 1"
    using chk ne assms(2) by (simp add: checkDisruptionBudget_def Let_def split: if_split_asm)
  have cool: "\<not> list_ex (\<lambda>d. list_ex (\<lambda>other. other \<noteq> d) (disruptedDomains w (World_Now wall w) (DisruptionCooldown pol)))
        (proposed_domains w p)"
    using chk ne assms(2) by (simp add: checkDisruptionBudget_def Let_def split: if_split_asm)
  have mem: "actionDomain w a \<in> set (proposed_domains w p)" using assms(3,4) by (auto simp: proposed_domains_def)
  have "actionDomain w b = actionDomain w a" if "b \<in> set (disruptive_actions p)" "actionDomain w b \<noteq> []" for b
  proof -
    have "actionDomain w b \<in> set (proposed_domains w p)" using that by (auto simp: proposed_domains_def)
    then show ?thesis using mem by (rule distinct_two [OF _ few, rotated]) (simp add: proposed_domains_def)
  qed
  moreover have "d_Domain d = actionDomain w a" if "d \<in> set (Disruptions w)"
      "d_At d > World_Now wall w - DisruptionCooldown pol" "d_Domain d \<noteq> []" for d
  proof -
    have "d_Domain d \<in> set (disruptedDomains w (World_Now wall w) (DisruptionCooldown pol))"
      using that assms(2) by (auto simp: disruptedDomains_def set_RecentDisruptions)
    then show ?thesis using cool mem unfolding list_ex_iff by blast
  qed
  ultimately show ?thesis by blast
qed

definition east_disruption :: Disruption where
  "east_disruption = \<lparr>d_Target = ''web-2'', d_Workload = ''web'', d_Node = ''n1'', d_Domain = ''east'',
     d_Kind = EvidenceAllocationStopped, d_At = 999\<rparr>"

definition sample_cooling :: World where
  "sample_cooling = sample_running\<lparr>Disruptions := [east_disruption]\<rparr>"

theorem one_domain_at_a_time_witness:
  "actionDomain sample_cooling (sample_action ''stop-web-0'' ActionStopAllocation ''web-0'') = ''east'' \<and>
   d_Domain east_disruption \<in> {[], ''east''}"
proof -
  let ?a = "sample_action ''stop-web-0'' ActionStopAllocation ''web-0''"
  have dom: "actionDomain sample_cooling ?a = ''east''" by code_simp
  have "Authorize no_signing 0 DefaultPolicy (sample_agent ''rollout-agent'') sample_goal sample_cooling stop_plan = None"
    by code_simp
  then have "\<forall>d \<in> set (Disruptions sample_cooling).
      d_At d > World_Now 0 sample_cooling - DisruptionCooldown DefaultPolicy \<longrightarrow> d_Domain d \<in> {[], actionDomain sample_cooling ?a}"
  proof -
    have "DisruptionCooldown DefaultPolicy > 0" by code_simp
    moreover have "?a \<in> set (disruptive_actions stop_plan)"
      by (simp add: disruptive_actions_def stop_plan_def sample_proposal_def disruptiveKinds_def)
        (simp add: sample_action_def)
    ultimately show ?thesis
      using one_domain_at_a_time [OF \<open>Authorize _ _ _ _ _ _ _ = None\<close>, of ?a] dom by simp
  qed
  moreover have "d_At east_disruption > World_Now 0 sample_cooling - DisruptionCooldown DefaultPolicy" by code_simp
  ultimately show ?thesis using dom by (simp add: sample_cooling_def)
qed

section \<open>Backoff\<close>





section \<open>Pacing\<close>










section \<open>Cluster ceilings\<close>

definition live_count :: "World \<Rightarrow> int" where
  "live_count w = msum (\<lambda>a. if al_Phase a = AllocationStopped then 0 else 1) (Allocations w)"

lemma Commitment_live: "cc_Allocations (Commitment w) = live_count w"
proof -
  have "int (length (filter (\<lambda>a. al_Phase a \<noteq> AllocationStopped) xs))
      = sum_list (map (\<lambda>a. if al_Phase a = AllocationStopped then 0 else 1) xs)" for xs
    by (induction xs) auto
  then show ?thesis by (simp only: Commitment_Allocations live_count_def msum_def)
qed

lemma live_count_view:
  assumes "mwf (Allocations w)" "mwf (Allocations w')" "live_view w' = live_view w"
  shows "live_count w' = live_count w"
  unfolding live_count_def
  by (rule msum_view [where g = "\<lambda>a. (al_Workload a, al_Phase a = AllocationStopped, al_Node a)"])
     (use assms in \<open>auto simp: live_view_def fun_eq_iff\<close>)

lemma live_count_step:
  assumes step: "checked_step wall goal w a = Inr w'" and wf: "mwf (Allocations w)"
  shows "mwf (Allocations w') \<and>
    live_count w' \<le> live_count w + (if ac_Kind a = ActionCreateAllocation then 1 else 0)"
proof -
  have v: "validateAction wall goal w a = None" and s: "simulateAction w a = Inr w'"
    using step by (auto simp: checked_step_def split: option.splits)
  have wf': "mwf (Allocations w')" using simulate_domain_view [OF s] wf by simp
  consider "ac_Kind a \<in> {ActionCreateAllocation, ActionStartAllocation}"
    | "ac_Kind a = ActionStopAllocation" | "ac_Kind a = ActionDeleteAllocation"
    | "ac_Kind a \<notin> {ActionCreateAllocation, ActionStartAllocation, ActionStopAllocation, ActionDeleteAllocation}"
    by blast
  then show ?thesis
  proof cases
    case 1
    then show ?thesis using v s wf wf'
      by (auto simp: validateAction_def simulateAction_def simulate_CreateAllocation_def simulate_StartAllocation_def
            validateStartAllocation_def live_count_def msum_mput Let_def split: option.splits if_splits)
  next
    case 2
    then show ?thesis using s wf wf'
      by (auto simp: simulateAction_def simulate_StopAllocation_def live_count_def msum_mput split: option.splits)
  next
    case 3
    then show ?thesis using s wf wf'
      by (auto simp: simulateAction_def simulate_DeleteAllocation_def live_count_def msum_mdel Let_def split: option.splits)
  next
    case 4
    then show ?thesis using live_count_view [OF wf wf' simulate_keeps_live [OF s 4]] wf' by simp
  qed
qed

lemma live_count_run:
  "run (checked_step wall goal) w as = Inr w' \<Longrightarrow> mwf (Allocations w) \<Longrightarrow>
    live_count w' \<le> live_count w + int (length (filter (\<lambda>a. ac_Kind a = ActionCreateAllocation) as))"
proof (induction as arbitrary: w)
  case (Cons a as)
  obtain w1 where w1: "checked_step wall goal w a = Inr w1" "run (checked_step wall goal) w1 as = Inr w'"
    using Cons.prems(1) unfolding run_Cons_Inr by blast
  show ?case using live_count_step [OF w1(1) Cons.prems(2)] Cons.IH [OF w1(2)] by auto
qed simp

text \<open>C16: The cluster ceiling on allocations is a ceiling on the world the whole plan leads to, not on
  each action taken alone: a plan that creates anything ends with at most \<open>MaxAllocations\<close> live
  allocations, counted as the governor counts its commitment.\<close>

theorem cluster_ceiling_holds_at_end:
  assumes "Authorize sg wall pol actor goal w p = None" "mwf (Allocations w)" "MaxAllocations pol > 0"
    "a \<in> set (p_Actions p)" "ac_Kind a = ActionCreateAllocation"
    "run (checked_step wall goal) w (p_Actions p) = Inr w'"
  shows "cc_Allocations (Commitment w') \<le> MaxAllocations pol"
proof -
  have chk: "checkClusterBudget pol w p = None" by (rule Authorize_cluster(5) [OF assms(1)])
  have "filter (\<lambda>a. ac_Kind a = ActionCreateAllocation) (p_Actions p) \<noteq> []"
    using assms(4,5) by (auto simp: filter_empty_conv)
  then have "cc_Allocations (proposal_adding p) \<noteq> 0" by (simp add: proposal_adding_Allocations)
  then have "\<not> exceeds (cc_Allocations (Commitment w) + cc_Allocations (proposal_adding p)) (MaxAllocations pol)"
    using chk by (simp add: checkClusterBudget_def Let_def split: if_split_asm)
  then show ?thesis using live_count_run [OF assms(6,2)] assms(3)
    by (simp add: exceeds_def Commitment_live proposal_adding_Allocations)
qed

definition capped_policy :: Policy where
  "capped_policy = DefaultPolicy\<lparr>MaxAllocations := 2\<rparr>"

definition placed_world :: World where
  "placed_world = projr (run (checked_step 0 sample_goal) sample_empty (p_Actions place_plan))"

theorem cluster_ceiling_holds_at_end_witness:
  "cc_Allocations (Commitment placed_world) \<le> 2"
proof -
  have "cc_Allocations (Commitment placed_world) \<le> MaxAllocations capped_policy"
  proof (rule cluster_ceiling_holds_at_end)
    show "Authorize no_signing 0 capped_policy (sample_agent ''placement-agent'') sample_goal sample_empty
        place_plan = None" by code_simp
    show "mwf (Allocations sample_empty)" by (simp add: sample_world_defs)
    show "MaxAllocations capped_policy > 0" by (simp add: capped_policy_def)
    show "sample_create ''web-0'' 0 ''n1'' \<in> set (p_Actions place_plan)" by (simp add: place_plan_def sample_proposal_def)
    show "ac_Kind (sample_create ''web-0'' 0 ''n1'') = ActionCreateAllocation" by (simp add: sample_create_def sample_action_def)
    show "run (checked_step 0 sample_goal) sample_empty (p_Actions place_plan) = Inr placed_world" by code_simp
  qed
  then show ?thesis by (simp add: capped_policy_def)
qed

section \<open>Provenance\<close>

text \<open>C17: Where the policy requires signed images, a plan that pulls, creates or starts anything is only
  authorized for a digest-pinned image covered by an attestation whose exact bytes verify under
  the key the policy trusts for its key id, that names this image and key and has not expired.\<close>

theorem Authorize_signed_images:
  assumes "Authorize sg wall pol actor goal w p = None" "RequireSignedImages pol" "runs_image p"
  shows "\<exists>at. wl_Attestation (g_Workload goal) = Some at \<and>
     attested sg at (wl_Image (g_Workload goal)) (ImageSigners pol) (World_Now wall w)"
  using checkImageProvenance_attested [OF Authorize_cluster(4) [OF assms(1)] assms(3)] assms(2)
  by (auto split: option.splits)

definition sample_public :: string where "sample_public = replicate 32 (CHR ''k'')"

definition sample_statement :: ImageStatement where
  "sample_statement = \<lparr>is_Version = 1, is_Image = sample_image, is_Builder = ''ci'', is_KeyID = ''k1'',
     is_BuiltAt = 500, is_ExpiresAt = 5000\<rparr>"

definition sample_signing :: Signing where
  "sample_signing = \<lparr>ed_verify = (\<lambda>public m s. s = public @ m), ed_sign = (\<lambda>key m. take 32 key @ m),
     b64_decode = Some, b64_encode = (\<lambda>s. s),
     st_decode = (\<lambda>s. if s = ''s'' then Some (sample_statement, False) else None), st_encode = (\<lambda>st. ''s'')\<rparr>"

definition signed_policy :: Policy where
  "signed_policy = DefaultPolicy\<lparr>RequireSignedImages := True, ImageSigners := [(''k1'', sample_public)]\<rparr>"

definition signed_goal :: Goal where
  "signed_goal = sample_goal\<lparr>g_Workload := sample_workload\<lparr>wl_Attestation := Some
     \<lparr>StatementBytes = ''s'', sa_KeyID = ''k1'', sa_Signature = sample_public @ ''s''\<rparr>\<rparr>\<rparr>"

theorem Authorize_signed_images_witness:
  "\<exists>at. wl_Attestation (g_Workload signed_goal) = Some at \<and>
     attested sample_signing at (wl_Image (g_Workload signed_goal)) (ImageSigners signed_policy) (World_Now 0 sample_empty)"
proof (rule Authorize_signed_images)
  show "Authorize sample_signing 0 signed_policy (sample_agent ''placement-agent'') signed_goal sample_empty place_plan = None"
    by code_simp
  show "RequireSignedImages signed_policy" by (simp add: signed_policy_def)
  show "runs_image place_plan" by code_simp
qed



section \<open>Evidence and capabilities\<close>

text \<open>C22: A plan cannot omit its own proof: every start, route publication and drain of an authorized
  plan is matched by a declared check of the right kind on the same target that wants the value true.\<close>

theorem Authorize_declares_evidence:
  assumes "Authorize sg wall pol actor goal w p = None" "a \<in> set (p_Actions p)"
    "ac_Kind a \<in> {ActionStartAllocation, ActionPublishRoute, ActionDrainAllocation}"
  shows "\<exists>c \<in> set (p_ExpectedEvidence p). ck_Target c = ac_Target a \<and> ck_Want c = ''true'' \<and>
     ck_Kind c = (if ac_Kind a = ActionPublishRoute then CheckRouteReachable
                  else if ac_Kind a = ActionDrainAllocation then CheckAllocationDrained
                  else if wl_Runtime (g_Workload goal) = None then CheckAllocationReady else CheckAgentReady)"
proof -
  obtain k where k: "required_check goal a = Some k"
    and kk: "k = (if ac_Kind a = ActionPublishRoute then CheckRouteReachable
                  else if ac_Kind a = ActionDrainAllocation then CheckAllocationDrained
                  else if wl_Runtime (g_Workload goal) = None then CheckAllocationReady else CheckAgentReady)"
    using assms(3) by (auto simp: required_check_def)
  have "\<not> list_ex (\<lambda>a. case required_check goal a of None \<Rightarrow> False
      | Some k \<Rightarrow> \<not> declares_check p k (ac_Target a)) (p_Actions p)"
    using Authorize_cluster(1) [OF assms(1)] by (simp add: requireEvidenceChecks_def split: if_split_asm)
  then have "declares_check p k (ac_Target a)" using assms(2) k by (auto simp: list_ex_iff)
  then show ?thesis using kk by (auto simp: declares_check_def list_ex_iff)
qed

theorem Authorize_declares_evidence_witness:
  "\<exists>c \<in> set (p_ExpectedEvidence place_plan). ck_Target c = ''web-0'' \<and> ck_Want c = ''true'' \<and>
     ck_Kind c = CheckAllocationReady"
proof -
  have "sample_start ''web-0'' \<in> set (p_Actions place_plan)"
    "ac_Kind (sample_start ''web-0'') \<in> {ActionStartAllocation, ActionPublishRoute, ActionDrainAllocation}"
    by (simp_all add: place_plan_def sample_proposal_def) (simp add: sample_start_def sample_action_def)
  from Authorize_declares_evidence [OF place_plan_authorized this]
  show ?thesis by (simp add: sample_start_def sample_action_def sample_goal_defs)
qed

text \<open>C21: The default policy divides the dangerous actions: in a plan it authorizes, allocations are
  created and started only by the placement agent, stopped and deleted only by the rollout and
  remediation agents, volumes restored, moved and pruned only by the storage agent, routes published
  only by the network agent, nodes cordoned only by the remediation agent, and no agent at all can
  uncordon a node.\<close>

theorem default_policy_separates_duties:
  assumes "Authorize sg wall DefaultPolicy actor goal w p = None" "a \<in> set (p_Actions p)"
  shows "(ac_Kind a \<in> {ActionCreateAllocation, ActionStartAllocation, ActionGrantTools, ActionAttachVolume}
            \<longrightarrow> ad_ID actor = ''placement-agent'') \<and>
         (ac_Kind a \<in> {ActionStopAllocation, ActionDeleteAllocation}
            \<longrightarrow> ad_ID actor \<in> {''rollout-agent'', ''remediation-agent''}) \<and>
         (ac_Kind a \<in> {ActionRestoreSnapshot, ActionQuiesceVolume, ActionTransferVolume, ActionAdoptVolume,
                        ActionPruneSnapshots, ActionCollectImages} \<longrightarrow> ad_ID actor = ''storage-agent'') \<and>
         (ac_Kind a \<in> {ActionPublishRoute, ActionApplyPolicy, ActionPublishZone} \<longrightarrow> ad_ID actor = ''network-agent'') \<and>
         (ac_Kind a = ActionCordonNode \<longrightarrow> ad_ID actor = ''remediation-agent'') \<and>
         ac_Kind a \<noteq> ActionUncordonNode"
  using Authorize_granted [OF assms]
  by (auto simp: agent_grants_def DefaultPolicy_def granted_kinds_def mget_bool_def split: if_splits option.splits)

theorem default_policy_separates_duties_witness:
  "ad_ID (sample_agent ''placement-agent'') = ''placement-agent'' \<and> ac_Kind (sample_start ''web-0'') \<noteq> ActionUncordonNode"
proof -
  have a: "sample_start ''web-0'' \<in> set (p_Actions place_plan)" by (simp add: place_plan_def sample_proposal_def)
  have "ac_Kind (sample_start ''web-0'') = ActionStartAllocation" by (simp add: sample_start_def sample_action_def)
  then show ?thesis using default_policy_separates_duties [OF place_plan_authorized a] by simp
qed

end
