(* ===== verification/Volume_Handoff.thy ===== *)
theory Volume_Handoff
  imports Projection_Facts "HOL-Library.Sublist"
begin

text \<open>
  Moving a volume between nodes (\<open>HandoffPhase\<close> of \<^verbatim>\<open>src/control/types.go\<close>, the
  \<open>volume.quiesced\<close>, \<open>volume.snapshotted\<close>, \<open>volume.transferred\<close> and \<open>volume.adopted\<close> cases of
  \<^verbatim>\<open>src/control/projection.go\<close>) as a state machine, the proof that the projection of any
  evidence stays inside it, and what a completed move therefore proves about the log.
\<close>

section \<open>The state machine\<close>

inductive handoff_step :: "string \<Rightarrow> Evidence \<Rightarrow> Volume \<Rightarrow> Volume \<Rightarrow> bool" for n e where
  stay: "v_Node v' = v_Node v \<Longrightarrow> v_Handoff v' = v_Handoff v \<Longrightarrow> handoff_step n e v v'"
| quiesce: "e_Kind e = EvidenceVolumeQuiesced \<Longrightarrow> e_Target e = n \<Longrightarrow> v_Owner v = [] \<Longrightarrow>
    v_Node v' = v_Node v \<Longrightarrow> v_Handoff v' = Some \<lparr>ho_From = v_Node v, ho_To = obs e ''to'',
      ho_Phase = HandoffQuiesced, ho_Snapshot = [], ho_Checksum = []\<rparr> \<Longrightarrow> handoff_step n e v v'"
| snapshot: "e_Kind e = EvidenceVolumeSnapshotted \<Longrightarrow> e_Target e = n \<Longrightarrow>
    v_Handoff v = Some h \<Longrightarrow> ho_Phase h = HandoffQuiesced \<Longrightarrow> obs e ''checksum'' \<noteq> [] \<Longrightarrow>
    v_Node v' = v_Node v \<Longrightarrow> v_Handoff v' = Some (h\<lparr>ho_Phase := HandoffSnapshotted,
      ho_Snapshot := obs e ''snapshot'', ho_Checksum := obs e ''checksum''\<rparr>) \<Longrightarrow> handoff_step n e v v'"
| transfer: "e_Kind e = EvidenceVolumeTransferred \<Longrightarrow> e_Target e = n \<Longrightarrow>
    v_Handoff v = Some h \<Longrightarrow> ho_Phase h = HandoffSnapshotted \<Longrightarrow> obs e ''checksum'' = ho_Checksum h \<Longrightarrow>
    v_Node v' = v_Node v \<Longrightarrow> v_Handoff v' = Some (h\<lparr>ho_Phase := HandoffTransferred\<rparr>) \<Longrightarrow>
    handoff_step n e v v'"
| adopt: "e_Kind e = EvidenceVolumeAdopted \<Longrightarrow> e_Target e = n \<Longrightarrow>
    v_Handoff v = Some h \<Longrightarrow> ho_Phase h = HandoffTransferred \<Longrightarrow> obs e ''node'' = ho_To h \<Longrightarrow>
    v_Node v' = ho_To h \<Longrightarrow> v_Handoff v' = None \<Longrightarrow> handoff_step n e v v'"

lemma Project_Volumes: "Project w e = Inr w' \<Longrightarrow> \<exists>w1. projectInto w e = Inr w1 \<and> Volumes w' = Volumes w1"
  by (auto simp: Project_def split: sum.splits if_splits)

lemma drop_snapshots_handoff [simp]:
  "v_Node (foldl drop_snapshot v is) = v_Node v" "v_Handoff (foldl drop_snapshot v is) = v_Handoff v"
  by (induction "is" arbitrary: v) (simp_all add: drop_snapshot_def)

lemma projectInto_handoff:
  assumes "projectInto w e = Inr w'" "map_of (Volumes w) n = Some v"
  shows "\<exists>v'. map_of (Volumes w') n = Some v' \<and> handoff_step n e v v'"
proof (cases "volume_kind (e_Kind e)")
  case False
  then show ?thesis using projectInto_Volumes [OF assms(1)] assms(2) by (auto intro: stay)
next
  case True
  then show ?thesis using assms
    by (cases "e_Kind e")
      (auto simp: projectInto_def project_volume_defs volume_kind_def Let_def mhas_def handoff_step.simps
            split: option.splits if_splits)
qed

lemma Project_handoff:
  assumes "Project w e = Inr w'" "map_of (Volumes w) n = Some v"
  shows "\<exists>v'. map_of (Volumes w') n = Some v' \<and> handoff_step n e v v'"
  using Project_Volumes [OF assms(1)] projectInto_handoff [OF _ assms(2)] by fastforce

section \<open>What the log proves about a move\<close>

definition is_quiesced :: "string \<Rightarrow> string \<Rightarrow> Evidence \<Rightarrow> bool" where
  "is_quiesced n t e \<longleftrightarrow> e_Kind e = EvidenceVolumeQuiesced \<and> e_Target e = n \<and> obs e ''to'' = t"

definition is_snapshotted :: "string \<Rightarrow> string \<Rightarrow> Evidence \<Rightarrow> bool" where
  "is_snapshotted n c e \<longleftrightarrow>
     e_Kind e = EvidenceVolumeSnapshotted \<and> e_Target e = n \<and> obs e ''checksum'' = c \<and> c \<noteq> []"

definition is_transferred :: "string \<Rightarrow> string \<Rightarrow> Evidence \<Rightarrow> bool" where
  "is_transferred n c e \<longleftrightarrow>
     e_Kind e = EvidenceVolumeTransferred \<and> e_Target e = n \<and> obs e ''checksum'' = c"

definition is_adopted :: "string \<Rightarrow> string \<Rightarrow> Evidence \<Rightarrow> bool" where
  "is_adopted n t e \<longleftrightarrow> e_Kind e = EvidenceVolumeAdopted \<and> e_Target e = n \<and> obs e ''node'' = t"

definition moved_to :: "Evidence list \<Rightarrow> string \<Rightarrow> string \<Rightarrow> bool" where
  "moved_to es n t \<longleftrightarrow> (\<exists>e1 e2 e3 e4 c. subseq [e1, e2, e3, e4] es \<and> is_quiesced n t e1 \<and>
     is_snapshotted n c e2 \<and> is_transferred n c e3 \<and> is_adopted n t e4)"

definition handoff_logged :: "Evidence list \<Rightarrow> string \<Rightarrow> VolumeHandoff \<Rightarrow> bool" where
  "handoff_logged es n h = (case ho_Phase h of
       HandoffQuiesced \<Rightarrow> \<exists>e1. subseq [e1] es \<and> is_quiesced n (ho_To h) e1
     | HandoffSnapshotted \<Rightarrow> \<exists>e1 e2. subseq [e1, e2] es \<and> is_quiesced n (ho_To h) e1 \<and>
          is_snapshotted n (ho_Checksum h) e2
     | HandoffTransferred \<Rightarrow> \<exists>e1 e2 e3. subseq [e1, e2, e3] es \<and> is_quiesced n (ho_To h) e1 \<and>
          is_snapshotted n (ho_Checksum h) e2 \<and> is_transferred n (ho_Checksum h) e3
     | HandoffAdopted \<Rightarrow> False)"

definition move_logged :: "string \<Rightarrow> Evidence list \<Rightarrow> string \<Rightarrow> Volume \<Rightarrow> bool" where
  "move_logged home es n v \<longleftrightarrow>
     (v_Node v = home \<or> moved_to es n (v_Node v)) \<and>
     (case v_Handoff v of None \<Rightarrow> True | Some h \<Rightarrow> handoff_logged es n h)"

lemma subseq_snoc: "subseq xs ys \<Longrightarrow> subseq xs (ys @ [e])"
  using list_emb_append_mono [of "(=)" xs ys "[]" "[e]"] by simp

lemma subseq_snoc2: "subseq xs ys \<Longrightarrow> subseq (xs @ [e]) (ys @ [e])"
  by (rule list_emb_append_mono) auto

lemma moved_to_snoc: "moved_to es n t \<Longrightarrow> moved_to (es @ [e]) n t"
  unfolding moved_to_def by (blast intro: subseq_snoc)

lemma handoff_logged_snoc: "handoff_logged es n h \<Longrightarrow> handoff_logged (es @ [e]) n h"
  by (auto simp: handoff_logged_def split: HandoffPhase.splits intro: subseq_snoc)

lemma move_logged_step:
  assumes "handoff_step n e v v'" "move_logged home es n v"
  shows "move_logged home (es @ [e]) n v'"
  using assms
proof cases
  case stay
  then show ?thesis using assms(2)
    by (auto simp: move_logged_def moved_to_snoc handoff_logged_snoc split: option.splits)
next
  case quiesce
  then have "is_quiesced n (obs e ''to'') e" by (simp add: is_quiesced_def)
  then show ?thesis using quiesce assms(2) subseq_snoc2 [of "[]" es e]
    by (auto simp: move_logged_def moved_to_snoc handoff_logged_def)
next
  case (snapshot h)
  then obtain e1 where "subseq [e1] es" "is_quiesced n (ho_To h) e1"
    using assms(2) by (auto simp: move_logged_def handoff_logged_def)
  moreover have "is_snapshotted n (obs e ''checksum'') e" using snapshot by (simp add: is_snapshotted_def)
  ultimately show ?thesis using snapshot assms(2) subseq_snoc2 [of "[e1]" es e]
    by (auto simp: move_logged_def moved_to_snoc handoff_logged_def)
next
  case (transfer h)
  then obtain e1 e2 where "subseq [e1, e2] es" "is_quiesced n (ho_To h) e1" "is_snapshotted n (ho_Checksum h) e2"
    using assms(2) by (auto simp: move_logged_def handoff_logged_def)
  moreover have "is_transferred n (ho_Checksum h) e" using transfer by (simp add: is_transferred_def)
  ultimately show ?thesis using transfer assms(2) subseq_snoc2 [of "[e1, e2]" es e]
    by (auto simp: move_logged_def moved_to_snoc handoff_logged_def)
next
  case (adopt h)
  then obtain e1 e2 e3 where "subseq [e1, e2, e3] es" "is_quiesced n (ho_To h) e1"
      "is_snapshotted n (ho_Checksum h) e2" "is_transferred n (ho_Checksum h) e3"
    using assms(2) by (auto simp: move_logged_def handoff_logged_def)
  moreover have "is_adopted n (ho_To h) e" using adopt by (simp add: is_adopted_def)
  ultimately have "moved_to (es @ [e]) n (ho_To h)"
    using subseq_snoc2 [of "[e1, e2, e3]" es e] unfolding moved_to_def append_Cons append_Nil by blast
  then show ?thesis using adopt by (simp add: move_logged_def)
qed

lemma run_move_logged:
  assumes "map_of (Volumes w0) n = Some v0" "v_Handoff v0 = None"
  shows "run Project w0 es = Inr w \<Longrightarrow>
    \<exists>v. map_of (Volumes w) n = Some v \<and> move_logged (v_Node v0) es n v"
proof (induction es arbitrary: w rule: rev_induct)
  case Nil
  then show ?case using assms by (auto simp: move_logged_def)
next
  case (snoc e es)
  then obtain w1 where w1: "run Project w0 es = Inr w1" "Project w1 e = Inr w"
    by (auto simp: run_snoc_Inr)
  then obtain v where v: "map_of (Volumes w1) n = Some v" "move_logged (v_Node v0) es n v"
    using snoc.IH by blast
  then show ?case using Project_handoff [OF w1(2) v(1)] move_logged_step by blast
qed

end
