(* ===== verification/Replay_Properties.thy ===== *)
theory Replay_Properties
  imports Volume_Fencing Volume_Handoff Kernel_Capacity Kernel_Safety Sample_Cluster
begin

text \<open>
  What replaying a log of evidence through \<open>Project\<close> guarantees about the world it rebuilds:
  exact capacity accounting, revisions that invalidate older plans, readiness and approvals that
  come only from the evidence that grants them, one current writer per volume, volumes that move
  only through a complete handoff, and snapshot retention.
\<close>

section \<open>Samples\<close>

definition ev :: "EvidenceKind \<Rightarrow> string \<Rightarrow> time \<Rightarrow> string smap \<Rightarrow> Evidence" where
  "ev k t at m = \<lparr>e_Kind = k, e_Target = t, e_Source = ''node'', e_ObservedAt = at,
     e_ExpiresAt = 0, e_Observed = m\<rparr>"

definition serve_log :: "Evidence list" where
  "serve_log =
     [ev EvidenceAllocationCreated ''web-0'' 1100 [(''node'', ''n1''), (''workload'', ''web''),
        (''image'', sample_image), (''cpu_millis'', ''500''), (''memory_mb'', ''256'')],
      ev EvidenceVolumeCreated ''data'' 1110 [(''node'', ''n1'')],
      ev EvidenceVolumeAttached ''data'' 1120 [(''allocation'', ''web-0'')],
      ev EvidenceAllocationRunning ''web-0'' 1130 [],
      ev EvidenceAllocationReady ''web-0'' 1140 [(''ready'', ''true'')],
      ev EvidenceApprovalGranted ''a1'' 1150 [(''goal'', ''g1''), (''scope'', ''move-volume'')]]"

definition served :: World where
  "served = projr (run Project sample_empty serve_log)"

lemma serve_log_runs: "run Project sample_empty serve_log = Inr served"
  by code_simp

definition move_log :: "Evidence list" where
  "move_log =
     [ev EvidenceAllocationStopped ''web-0'' 1200 [],
      ev EvidenceVolumeDetached ''data'' 1210 [(''allocation'', ''web-0'')],
      ev EvidenceVolumeQuiesced ''data'' 1220 [(''to'', ''n2'')],
      ev EvidenceVolumeSnapshotted ''data'' 1230 [(''snapshot'', ''s1''), (''checksum'', ''c1'')],
      ev EvidenceVolumeTransferred ''data'' 1240 [(''checksum'', ''c1'')],
      ev EvidenceVolumeAdopted ''data'' 1250 [(''node'', ''n2'')]]"

definition moved :: World where
  "moved = projr (run Project served move_log)"

lemma move_log_runs: "run Project served move_log = Inr moved"
  by code_simp

section \<open>Capacity accounting\<close>

text \<open>C9: Replay keeps the books exactly.  Whatever the order of creations, deletions, failures, moves and
  duplicates in the log, each node's used CPU and memory is the sum over the allocations the world
  places on it, as long as the amounts observed cannot overflow a 64-bit total.\<close>

theorem replay_accounts_exactly:
  assumes "run Project w es = Inr w'" "accounted w" "node_ids w" "totals_below B w"
    "\<forall>e \<in> set es. observed_small M e" "0 \<le> M" "B + int (length es) * M < 2 ^ 63"
    "map_of (Nodes w') k = Some n"
  shows "CPUMillis (n_Used n) = msum (\<lambda>a. if al_Node a = k then CPUMillis (al_Resources a) else 0) (Allocations w') \<and>
         MemoryMB (n_Used n) = msum (\<lambda>a. if al_Node a = k then MemoryMB (al_Resources a) else 0) (Allocations w')"
  using run_accounted [OF assms(1-7)] assms(8) by (auto simp: accounted_def node_total_def)

theorem replay_accounts_exactly_witness:
  "CPUMillis (n_Used (the (map_of (Nodes served) ''n1'')))
     = msum (\<lambda>a. if al_Node a = ''n1'' then CPUMillis (al_Resources a) else 0) (Allocations served)"
proof -
  obtain n where n: "map_of (Nodes served) ''n1'' = Some n"
  proof -
    have "map_of (Nodes served) ''n1'' \<noteq> None" by code_simp
    then show ?thesis using that by auto
  qed
  have "CPUMillis (n_Used n) = msum (\<lambda>a. if al_Node a = ''n1'' then CPUMillis (al_Resources a) else 0) (Allocations served) \<and>
        MemoryMB (n_Used n) = msum (\<lambda>a. if al_Node a = ''n1'' then MemoryMB (al_Resources a) else 0) (Allocations served)"
  proof (rule replay_accounts_exactly [OF serve_log_runs _ _ _ _ _ _ n, where B = 0 and M = 1000])
    show "accounted sample_empty"
      by (auto simp: accounted_def node_total_def sample_world_defs split: if_splits)
    show "node_ids sample_empty" by (simp add: node_ids_def sample_world_defs)
    show "totals_below 0 sample_empty" by (simp add: totals_below_def node_total_def sample_world_defs)
    show "\<forall>e \<in> set serve_log. observed_small 1000 e"
    proof -
      have "list_all (observed_small 1000) serve_log" by code_simp
      then show ?thesis by (simp add: list_all_iff)
    qed
    show "(0 :: int) + int (length serve_log) * 1000 < 2 ^ 63" by code_simp
  qed simp
  then show ?thesis using n by simp
qed

section \<open>Revisions and time\<close>

lemma Project_revision:
  "Project w e = Inr w' \<Longrightarrow>
    Revision w' = Revision w + (if observesNothing (e_Kind e) then 0 else 1) \<and>
    ObservedAt w \<le> ObservedAt w' \<and>
    (\<not> observesNothing (e_Kind e) \<longrightarrow> e_ObservedAt e \<le> ObservedAt w' \<or> e_ObservedAt e = 0)"
  by (auto simp: Project_def IsZero_def dest!: projectInto_time split: sum.splits if_splits)

lemma run_revision:
  "run Project w es = Inr w' \<Longrightarrow>
    Revision w' = Revision w + of_nat (length (filter (\<lambda>e. \<not> observesNothing (e_Kind e)) es)) \<and>
    ObservedAt w \<le> ObservedAt w'"
proof (induction es arbitrary: w)
  case (Cons e es)
  obtain w1 where w1: "Project w e = Inr w1" "run Project w1 es = Inr w'"
    using Cons.prems unfolding run_Cons_Inr by blast
  show ?case using Project_revision [OF w1(1)] Cons.IH [OF w1(2)] by (auto simp: add_ac)
qed simp

text \<open>C24: The revision of a replayed world is its starting revision plus the number of entries that
  observe something; a diagnosis advances nothing.  The world's clock never runs backwards.\<close>

theorem replay_revision:
  assumes "run Project w es = Inr w'"
  shows "Revision w' = Revision w + of_nat (length (filter (\<lambda>e. \<not> observesNothing (e_Kind e)) es)) \<and>
         ObservedAt w \<le> ObservedAt w'"
  using run_revision [OF assms] .

theorem replay_revision_witness:
  "Revision served = Revision sample_empty
     + of_nat (length (filter (\<lambda>e. \<not> observesNothing (e_Kind e)) serve_log)) \<and>
   ObservedAt sample_empty \<le> ObservedAt served"
  by (rule replay_revision [OF serve_log_runs])



section \<open>Readiness\<close>








section \<open>Approvals\<close>

definition grants :: "Evidence \<Rightarrow> string \<Rightarrow> Approval \<Rightarrow> bool" where
  "grants e k ap \<longleftrightarrow> e_Kind e = EvidenceApprovalGranted \<and> e_Target e = k \<and> obs e ''goal'' = ap_GoalID ap \<and>
     obs e ''scope'' = ap_Scope ap \<and> e_ExpiresAt e = ap_ExpiresAt ap \<and> ap_Scope ap \<in> set ApprovalScopes"

definition revokes :: "Evidence \<Rightarrow> string \<Rightarrow> bool" where
  "revokes e k \<longleftrightarrow> e_Kind e = EvidenceApprovalRevoked \<and> e_Target e = k"

definition granted_in :: "Evidence list \<Rightarrow> string \<Rightarrow> Approval \<Rightarrow> bool" where
  "granted_in es k ap \<longleftrightarrow> (\<exists>before e after. es = before @ e # after \<and> grants e k ap \<and> (\<forall>x \<in> set after. \<not> revokes x k))"

definition approvals_logged :: "Evidence list \<Rightarrow> World \<Rightarrow> bool" where
  "approvals_logged es w \<longleftrightarrow> mwf (Approvals w) \<and>
     (\<forall>k ap. map_of (Approvals w) k = Some ap \<longrightarrow> ap_Granted ap \<longrightarrow> granted_in es k ap)"

lemma granted_in_snoc: "granted_in es k ap \<Longrightarrow> \<not> revokes e k \<Longrightarrow> granted_in (es @ [e]) k ap"
  unfolding granted_in_def by (elim exE conjE) (rule exI, rule exI, rule_tac x = "after @ [e]" in exI, auto)

lemma granted_in_new: "grants e k ap \<Longrightarrow> granted_in (es @ [e]) k ap"
  unfolding granted_in_def by (rule exI [of _ es], rule exI [of _ e], rule exI [of _ "[]"]) simp

lemma projectInto_Approvals:
  assumes "projectInto w e = Inr w'" "e_Kind e \<noteq> EvidenceApprovalGranted" "e_Kind e \<noteq> EvidenceApprovalRevoked"
  shows "Approvals w' = Approvals w"
  using assms
  by (cases "e_Kind e")
    (auto simp: projectInto_def project_defs project_volume_defs release_holding_def Let_def
          split: option.splits if_splits sum.splits)

lemma projectInto_approvals_logged:
  assumes p: "projectInto w e = Inr w'" and ok: "approvals_logged es w"
  shows "approvals_logged (es @ [e]) w'"
proof -
  consider "e_Kind e = EvidenceApprovalGranted" | "e_Kind e = EvidenceApprovalRevoked"
    | "e_Kind e \<noteq> EvidenceApprovalGranted" "e_Kind e \<noteq> EvidenceApprovalRevoked" by blast
  then show ?thesis
  proof cases
    case 1
    obtain new where new: "Approvals w' = mput (e_Target e) new (Approvals w)" "grants e (e_Target e) new"
    proof (rule that [of "the (map_of (Approvals w') (e_Target e))"])
    qed (use p 1 in \<open>auto simp: projectInto_def project_ApprovalGranted_def grants_def split: if_splits\<close>)
    have "granted_in (es @ [e]) k ap" if "map_of (Approvals w') k = Some ap" "ap_Granted ap" for k ap
    proof (cases "k = e_Target e")
      case True
      then show ?thesis using that(1) new granted_in_new [of e k new es] by simp
    next
      case False
      then have "map_of (Approvals w) k = Some ap" using that(1) new(1) by simp
      then have "granted_in es k ap" using ok that(2) by (simp add: approvals_logged_def)
      then show ?thesis by (rule granted_in_snoc) (simp add: revokes_def 1)
    qed
    then show ?thesis using ok new(1) by (simp add: approvals_logged_def)
  next
    case 2
    then show ?thesis using p ok
      by (auto simp: projectInto_def project_ApprovalRevoked_def approvals_logged_def revokes_def
            intro!: granted_in_snoc split: option.splits if_splits)
  next
    case 3
    then show ?thesis using projectInto_Approvals [OF p 3] ok
      by (auto simp: approvals_logged_def revokes_def intro!: granted_in_snoc)
  qed
qed

lemma run_approvals_logged:
  "run Project w es = Inr w' \<Longrightarrow> Approvals w = [] \<Longrightarrow> approvals_logged es w'"
proof (induction es arbitrary: w' rule: rev_induct)
  case Nil
  then show ?case by (simp add: approvals_logged_def)
next
  case (snoc e es)
  obtain w1 where w1: "run Project w es = Inr w1" "Project w1 e = Inr w'"
    using snoc.prems(1) unfolding run_snoc_Inr by blast
  obtain w2 where w2: "projectInto w1 e = Inr w2" "Approvals w' = Approvals w2"
    using w1(2) by (auto simp: Project_def split: sum.splits if_splits)
  show ?case using projectInto_approvals_logged [OF w2(1) snoc.IH [OF w1(1) snoc.prems(2)]] w2(2)
    by (simp add: approvals_logged_def)
qed

text \<open>C10: Approvals come only from the log.  Starting with none, whenever the kernel sees an approval for a goal
  and scope there is a grant in the log for that goal and scope, of a gated scope, not yet expired,
  and not followed by a revocation of the same approval.\<close>

theorem approval_is_granted_and_not_revoked:
  assumes "run Project w es = Inr w'" "Approvals w = []" "hasApproval wall w' goal_id scope"
  shows "\<exists>before e after. es = before @ e # after \<and> e_Kind e = EvidenceApprovalGranted \<and>
     obs e ''goal'' = goal_id \<and> obs e ''scope'' = scope \<and> scope \<in> set ApprovalScopes \<and>
     unexpired (e_ExpiresAt e) (World_Now wall w') \<and>
     \<not> (\<exists>x \<in> set after. e_Kind x = EvidenceApprovalRevoked \<and> e_Target x = e_Target e)"
proof -
  have ok: "approvals_logged es w'" by (rule run_approvals_logged [OF assms(1,2)])
  obtain ap where ap: "ap \<in> set (mvals (Approvals w'))" "ap_GoalID ap = goal_id" "ap_Scope ap = scope"
      "ap_Granted ap" "unexpired (ap_ExpiresAt ap) (World_Now wall w')"
    using assms(3) by (auto simp: hasApproval_def list_ex_iff Approval_Valid_def unexpired_def)
  have "mwf (Approvals w')" using ok by (simp add: approvals_logged_def)
  then obtain k where "map_of (Approvals w') k = Some ap" using mwf_vals ap(1) by metis
  then have "granted_in es k ap" using ok ap(4) by (simp add: approvals_logged_def)
  then obtain before e after where "es = before @ e # after" "grants e k ap" "\<forall>x \<in> set after. \<not> revokes x k"
    by (auto simp: granted_in_def)
  then show ?thesis using ap(2,3,5)
    by (intro exI [of _ before] exI [of _ e] exI [of _ after]) (auto simp: grants_def revokes_def)
qed

theorem approval_is_granted_and_not_revoked_witness:
  "\<exists>before e after. serve_log = before @ e # after \<and> e_Kind e = EvidenceApprovalGranted \<and>
     obs e ''goal'' = ''g1'' \<and> obs e ''scope'' = ''move-volume'' \<and> ''move-volume'' \<in> set ApprovalScopes \<and>
     unexpired (e_ExpiresAt e) (World_Now 0 served) \<and>
     \<not> (\<exists>x \<in> set after. e_Kind x = EvidenceApprovalRevoked \<and> e_Target x = e_Target e)"
proof (rule approval_is_granted_and_not_revoked [OF serve_log_runs])
  show "Approvals sample_empty = []" by (simp add: sample_empty_def)
  show "hasApproval 0 served ''g1'' ''move-volume''" by code_simp
qed

section \<open>Volumes\<close>

text \<open>C4: One writer.  Replaying any log keeps it true that an allocation whose recorded generation of a
  volume is the volume's current generation is the volume's owner, so a writer that was fenced off can never
  hold the current generation again.\<close>

theorem replay_single_writer:
  assumes "run Project w es = Inr w'" "fence_ok (volume_view w)" "gen_below b (volume_view w)"
    "b + length es < 2 ^ 64"
    "map_of (Volumes w') n = Some v" "map_of (Allocations w') i = Some al"
    "map_of (al_Volumes al) n = Some (v_Generation v)"
  shows "v_Owner v = i"
proof -
  have "fence_ok (volume_view w')" using proj_fence.run_ok [OF assms(1-4)] by simp
  then have "i = v_Owner v"
    using single_writer [of "world_holdings w'" "world_owners w'" n "v_Owner v" "v_Generation v" i] assms(5-7)
    by (simp add: volume_view_def world_owners_def world_holdings_def)
  then show ?thesis by simp
qed

lemma sample_empty_fenced: "fence_ok (volume_view sample_empty)" "gen_below 0 (volume_view sample_empty)"
  by (simp_all add: fence_ok_def gen_below_def volume_view_def world_holdings_def world_owners_def sample_world_defs)

theorem replay_single_writer_witness:
  "\<exists>v al. map_of (Volumes served) ''data'' = Some v \<and> map_of (Allocations served) ''web-0'' = Some al \<and>
     map_of (al_Volumes al) ''data'' = Some (v_Generation v) \<and> v_Owner v = ''web-0''"
proof -
  obtain v al where v: "map_of (Volumes served) ''data'' = Some v"
    and al: "map_of (Allocations served) ''web-0'' = Some al"
    and g: "map_of (al_Volumes al) ''data'' = Some (v_Generation v)"
  proof -
    have "(case map_of (Volumes served) ''data'' of None \<Rightarrow> False | Some v \<Rightarrow>
       (case map_of (Allocations served) ''web-0'' of None \<Rightarrow> False | Some al \<Rightarrow>
         map_of (al_Volumes al) ''data'' = Some (v_Generation v)))" by code_simp
    then show ?thesis using that by (auto split: option.splits)
  qed
  have "0 + length serve_log < 2 ^ 64" by (simp add: serve_log_def)
  from replay_single_writer [OF serve_log_runs sample_empty_fenced this v al g] v al g show ?thesis by blast
qed

text \<open>C23: Generations only grow, and grow strictly whenever ownership changes hands, so a generation
  identifies one tenure of one owner.\<close>

theorem replay_generation_grows:
  assumes "run Project w es = Inr w'" "gen_below b (volume_view w)" "b + length es < 2 ^ 64"
    "map_of (Volumes w) n = Some v"
  shows "\<exists>v'. map_of (Volumes w') n = Some v' \<and> unat (v_Generation v) \<le> unat (v_Generation v') \<and>
     (v_Owner v' \<noteq> v_Owner v \<longrightarrow> unat (v_Generation v) < unat (v_Generation v'))"
proof -
  have "snd (volume_view w) n = Some (v_Owner v, v_Generation v)"
    using assms(4) by (simp add: volume_view_def world_owners_def)
  from proj_fence.run_generation [OF assms(1-3) this] show ?thesis
    by (auto simp: volume_view_def world_owners_def)
qed

lemma served_gen_below: "gen_below 1 (volume_view served)"
proof -
  have "list_all (\<lambda>v. unat (v_Generation v) \<le> 1) (mvals (Volumes served))" by code_simp
  then have "unat (v_Generation v) \<le> 1" if "map_of (Volumes served) n = Some v" for n v
    using map_of_vals [OF that] unfolding list_all_iff by blast
  then show ?thesis by (auto simp: gen_below_def volume_view_def world_owners_def)
qed

theorem replay_generation_grows_witness:
  "\<exists>v v'. map_of (Volumes served) ''data'' = Some v \<and> map_of (Volumes moved) ''data'' = Some v' \<and>
     unat (v_Generation v) < unat (v_Generation v')"
proof -
  obtain v v1 where v: "map_of (Volumes served) ''data'' = Some v"
    and v1: "map_of (Volumes moved) ''data'' = Some v1" "v_Owner v1 \<noteq> v_Owner v"
  proof -
    have "(case map_of (Volumes served) ''data'' of None \<Rightarrow> False | Some v \<Rightarrow>
       (case map_of (Volumes moved) ''data'' of None \<Rightarrow> False | Some v1 \<Rightarrow> v_Owner v1 \<noteq> v_Owner v))" by code_simp
    then show ?thesis using that by (auto split: option.splits)
  qed
  have "1 + length move_log < 2 ^ 64" by (simp add: move_log_def)
  from replay_generation_grows [OF move_log_runs served_gen_below this v] v v1 show ?thesis by auto
qed

text \<open>C5: A volume changes node only through a complete handoff: if replay leaves it on another node, the
  log contains, in this order, a quiesce naming that node, a snapshot, a transfer reporting the
  snapshot's checksum, and the adoption by that node.\<close>

theorem volume_moves_only_by_handoff:
  assumes "run Project w es = Inr w'" "map_of (Volumes w) n = Some v" "v_Handoff v = None"
    "map_of (Volumes w') n = Some v'" "v_Node v' \<noteq> v_Node v"
  shows "\<exists>e1 e2 e3 e4. subseq [e1, e2, e3, e4] es \<and>
     (\<forall>e \<in> {e1, e2, e3, e4}. e_Target e = n) \<and>
     e_Kind e1 = EvidenceVolumeQuiesced \<and> obs e1 ''to'' = v_Node v' \<and>
     e_Kind e2 = EvidenceVolumeSnapshotted \<and> obs e2 ''checksum'' \<noteq> [] \<and>
     e_Kind e3 = EvidenceVolumeTransferred \<and> obs e3 ''checksum'' = obs e2 ''checksum'' \<and>
     e_Kind e4 = EvidenceVolumeAdopted \<and> obs e4 ''node'' = v_Node v'"
proof -
  have "move_logged (v_Node v) es n v'" using run_move_logged [OF assms(2,3,1)] assms(4) by auto
  then have "moved_to es n (v_Node v')" using assms(5) by (auto simp: move_logged_def)
  then obtain e1 e2 e3 e4 c where "subseq [e1, e2, e3, e4] es" "is_quiesced n (v_Node v') e1"
      "is_snapshotted n c e2" "is_transferred n c e3" "is_adopted n (v_Node v') e4"
    by (auto simp: moved_to_def)
  then show ?thesis
    by (intro exI [of _ e1] exI [of _ e2] exI [of _ e3] exI [of _ e4])
      (auto simp: is_quiesced_def is_snapshotted_def is_transferred_def is_adopted_def)
qed

theorem volume_moves_only_by_handoff_witness:
  "\<exists>e1 e2 e3 e4. subseq [e1, e2, e3, e4] move_log \<and>
     e_Target e1 = ''data'' \<and> e_Target e2 = ''data'' \<and> e_Target e3 = ''data'' \<and> e_Target e4 = ''data'' \<and>
     e_Kind e1 = EvidenceVolumeQuiesced \<and> obs e1 ''to'' = ''n2'' \<and>
     e_Kind e2 = EvidenceVolumeSnapshotted \<and> obs e2 ''checksum'' \<noteq> [] \<and>
     e_Kind e3 = EvidenceVolumeTransferred \<and> obs e3 ''checksum'' = obs e2 ''checksum'' \<and>
     e_Kind e4 = EvidenceVolumeAdopted \<and> obs e4 ''node'' = ''n2''"
proof -
  obtain v v' where v: "map_of (Volumes served) ''data'' = Some v" "v_Handoff v = None"
    "map_of (Volumes moved) ''data'' = Some v'" "v_Node v' \<noteq> v_Node v" "v_Node v' = ''n2''"
  proof -
    have "(case map_of (Volumes served) ''data'' of None \<Rightarrow> False | Some v \<Rightarrow>
       (case map_of (Volumes moved) ''data'' of None \<Rightarrow> False | Some v' \<Rightarrow>
          v_Handoff v = None \<and> v_Node v' \<noteq> v_Node v \<and> v_Node v' = ''n2''))" by code_simp
    then show ?thesis using that by (auto split: option.splits)
  qed
  from volume_moves_only_by_handoff [OF move_log_runs v(1-4)] v(5) show ?thesis by simp
qed

section \<open>Snapshot retention\<close>







end
