(* ===== verification/Control_Directory.thy ===== *)
theory Control_Directory
  imports Control_Actions Control_Patterns "HOL-Library.Product_Lexorder"
begin

text \<open>
  Who receives traffic: the service directory (\<^verbatim>\<open>src/control/directory.go\<close>), canary weights
  (\<^verbatim>\<open>src/control/canary.go\<close>) and name resolution (\<^verbatim>\<open>src/control/resolve.go\<close>).  A directory,
  a route snapshot and a zone are all derived from the world; the lemmas give each of them as a
  set of allocations rather than as a loop.  \<open>sort.Slice\<close> by a key is \<open>sort_key\<close>.
\<close>

section \<open>Endpoints and services\<close>

record Endpoint =
  ep_Allocation :: string
  ep_Node :: string
  ep_Address :: string
  ep_Port :: int

record Service =
  sv_Name :: string
  sv_Endpoints :: "Endpoint list"

definition JoinHostPort :: "string \<Rightarrow> string \<Rightarrow> string" where
  "JoinHostPort host port =
     (if CHR '':'' \<in> set host then ''['' @ host @ '']:'' @ port else host @ '':'' @ port)"

definition Endpoint_HostPort :: "Endpoint \<Rightarrow> string" where
  "Endpoint_HostPort e = JoinHostPort (ep_Address e) (itoa (ep_Port e))"

definition directory_add :: "time \<Rightarrow> int smap \<Rightarrow> Service smap \<Rightarrow> Allocation \<Rightarrow> Service smap" where
  "directory_add now ports services al =
     (if \<not> ReadyAt al now then services
      else if al_Address al = [] then services
      else case map_of ports (al_Workload al) of
          None \<Rightarrow> services
        | Some port \<Rightarrow>
            if port \<le> 0 then services
            else let found = (case map_of services (al_Workload al) of None \<Rightarrow> [] | Some s \<Rightarrow> sv_Endpoints s)
                 in mput (al_Workload al) \<lparr>sv_Name = al_Workload al,
                      sv_Endpoints = found @ [\<lparr>ep_Allocation = al_ID al, ep_Node = al_Node al,
                                               ep_Address = al_Address al, ep_Port = port\<rparr>]\<rparr> services)"

definition BuildDirectory :: "time \<Rightarrow> World \<Rightarrow> int smap \<Rightarrow> Service smap" where
  "BuildDirectory wall w ports =
     map (\<lambda>(name, s). (name, s\<lparr>sv_Endpoints := sort_key ep_Allocation (sv_Endpoints s)\<rparr>))
       (foldl (directory_add (World_Now wall w) ports) [] (mvals (Allocations w)))"

definition endpoints_of :: "Service smap \<Rightarrow> string \<Rightarrow> Endpoint list" where
  "endpoints_of dir name = (case map_of dir name of None \<Rightarrow> [] | Some s \<Rightarrow> sv_Endpoints s)"

section \<open>Canary weights\<close>

datatype canary_error = No_steps | Step_out_of_range int | Steps_not_increasing int int
  | Last_step_not_100 int | Negative_hold

fun canary_steps :: "int \<Rightarrow> int list \<Rightarrow> canary_error + int" where
  "canary_steps previous [] = Inr previous"
| "canary_steps previous (step # steps) =
    (if step < 1 \<or> step > 100 then Inl (Step_out_of_range step)
     else if step \<le> previous then Inl (Steps_not_increasing step previous)
     else canary_steps step steps)"

definition Canary_Validate :: "Canary option \<Rightarrow> canary_error option" where
  "Canary_Validate c = (case c of
       None \<Rightarrow> None
     | Some c \<Rightarrow>
         if Steps c = [] then Some No_steps
         else case canary_steps 0 (Steps c) of
             Inl err \<Rightarrow> Some err
           | Inr previous \<Rightarrow>
               if last (Steps c) \<noteq> 100 then Some (Last_step_not_100 previous)
               else if HoldFor c < 0 then Some Negative_hold
               else None)"

record WeightedEndpoint =
  we_Endpoint :: Endpoint
  we_Weight :: int
  we_Version :: string

record CanaryState =
  cs_Target :: string
  cs_Step :: int
  cs_TargetReady :: int
  cs_PreviousReady :: int
  cs_Complete :: bool
  cs_HeldFor :: duration

text \<open>The loop of \<open>EvaluateCanary\<close>: target and previous counts, and the shortest continuous
  readiness on the target side, \<open>-1\<close> before the first.\<close>

definition canary_count ::
  "time \<Rightarrow> Goal \<Rightarrow> int \<times> int \<times> duration \<Rightarrow> Allocation \<Rightarrow> int \<times> int \<times> duration" where
  "canary_count now goal acc al = (case acc of (target, previous, held) \<Rightarrow>
     if al_Workload al \<noteq> wl_Name (g_Workload goal) then acc
     else if \<not> ReadyAt al now then acc
     else if al_Image al = wl_Image (g_Workload goal)
       then (target + 1, previous,
             (if held < 0 \<or> ReadyFor al now < held then ReadyFor al now else held))
     else (target, previous + 1, held))"

fun canary_index :: "int \<Rightarrow> nat \<Rightarrow> nat \<Rightarrow> int list \<Rightarrow> nat" where
  "canary_index proportion index position [] = index"
| "canary_index proportion index position (step # steps) =
     canary_index proportion (if step \<le> proportion then position else index) (Suc position) steps"

definition EvaluateCanary :: "time \<Rightarrow> Goal \<Rightarrow> World \<Rightarrow> go_error + CanaryState" where
  "EvaluateCanary wall goal w =
     (let state = \<lparr>cs_Target = wl_Image (g_Workload goal), cs_Step = 0, cs_TargetReady = 0,
                   cs_PreviousReady = 0, cs_Complete = False, cs_HeldFor = 0\<rparr> in
      case g_Canary goal of
        None \<Rightarrow> Inr state
      | Some canary \<Rightarrow>
          let (target, previous, held) =
                foldl (canary_count (World_Now wall w) goal) (0, 0, - 1) (mvals (Allocations w));
              state = state\<lparr>cs_TargetReady := target, cs_PreviousReady := previous,
                            cs_HeldFor := (if held > 0 then held else 0)\<rparr>
          in if previous = 0 then Inr (state\<lparr>cs_Step := 100, cs_Complete := (target > 0)\<rparr>)
             else if target = 0 then Inr (state\<lparr>cs_Step := 0\<rparr>)
             else let proportion = target * 100 div (target + previous);
                      index = canary_index proportion 0 0 (Steps canary);
                      reached = cs_HeldFor state div HoldFor canary;
                      index = (if HoldFor canary > 0 \<and> reached < int index then nat reached else index)
                  in if index < length (Steps canary)
                     then Inr (state\<lparr>cs_Step := Steps canary ! index\<rparr>)
                     else Inl Go_panic)"

definition weigh :: "string smap \<Rightarrow> int \<Rightarrow> Endpoint \<Rightarrow> WeightedEndpoint" where
  "weigh versions weight e =
     \<lparr>we_Endpoint = e, we_Weight = weight, we_Version = mget_str versions (ep_Allocation e)\<rparr>"

abbreviation we_Allocation :: "WeightedEndpoint \<Rightarrow> string" where
  "we_Allocation e \<equiv> ep_Allocation (we_Endpoint e)"

definition share_weight :: "nat \<Rightarrow> int \<Rightarrow> nat \<Rightarrow> int" where
  "share_weight n share index =
     (let weight = share div int n + (if int index < share mod int n then 1 else 0)
      in if weight \<le> 0 then 1 else weight)"

definition shareAcross :: "Endpoint list \<Rightarrow> int \<Rightarrow> string smap \<Rightarrow> WeightedEndpoint list" where
  "shareAcross endpoints share versions =
     (if endpoints = [] \<or> share \<le> 0 then []
      else map (\<lambda>(index, e). weigh versions (share_weight (length endpoints) share index) e)
             (zip [0..<length endpoints] endpoints))"

definition equalWeights :: "Endpoint list \<Rightarrow> string smap \<Rightarrow> WeightedEndpoint list" where
  "equalWeights endpoints versions = sort_key we_Allocation (map (weigh versions 1) endpoints)"

definition versions_of :: "World \<Rightarrow> string smap" where
  "versions_of w = foldl (\<lambda>m al. mput (al_ID al) (al_Image al) m) [] (mvals (Allocations w))"

definition WeightEndpoints :: "time \<Rightarrow> Goal \<Rightarrow> World \<Rightarrow> Endpoint list \<Rightarrow> go_error + WeightedEndpoint list" where
  "WeightEndpoints wall goal w endpoints =
     (if endpoints = [] then Inr []
      else let versions = versions_of w in
        if g_Canary goal = None then Inr (map (weigh versions 1) endpoints)
        else case EvaluateCanary wall goal w of
            Inl err \<Rightarrow> Inl err
          | Inr state \<Rightarrow>
              let on_target = (\<lambda>e. mget_str versions (ep_Allocation e) = wl_Image (g_Workload goal));
                  target = filter on_target endpoints;
                  previous = filter (\<lambda>e. \<not> on_target e) endpoints
              in if target = [] then Inr (equalWeights previous versions)
                 else if previous = [] then Inr (equalWeights target versions)
                 else Inr (sort_key we_Allocation
                        (shareAcross target (cs_Step state) versions
                         @ shareAcross previous (100 - cs_Step state) versions)))"

section \<open>Route snapshots\<close>

record RouteSnapshot =
  rt_Host :: string
  rt_Workload :: string
  rt_Port :: int
  rt_Exposure :: string
  rt_Endpoints :: "Endpoint list"
  rt_Weighted :: "WeightedEndpoint list"

definition splitsTraffic :: "WeightedEndpoint list \<Rightarrow> bool" where
  "splitsTraffic weighted =
     (if length weighted < 2 then False
      else list_ex (\<lambda>e. we_Weight e \<noteq> we_Weight (hd weighted)) (tl weighted))"

definition route_snapshot ::
  "time \<Rightarrow> World \<Rightarrow> Service smap \<Rightarrow> Goal smap \<Rightarrow> Route \<Rightarrow> go_error + RouteSnapshot" where
  "route_snapshot wall w dir byWorkload route =
     (let endpoints = endpoints_of dir (r_Workload route);
          snapshot = \<lparr>rt_Host = r_Host route, rt_Workload = r_Workload route, rt_Port = r_Port route,
                      rt_Exposure = r_Exposure route, rt_Endpoints = endpoints, rt_Weighted = []\<rparr>
      in case map_of byWorkload (r_Workload route) of
          None \<Rightarrow> Inr snapshot
        | Some goal \<Rightarrow>
            if g_Canary goal = None then Inr snapshot
            else case WeightEndpoints wall goal w endpoints of
                Inl err \<Rightarrow> Inl err
              | Inr weighted \<Rightarrow>
                  Inr (if splitsTraffic weighted then snapshot\<lparr>rt_Weighted := weighted\<rparr> else snapshot))"

definition collect_snapshot ::
  "(string \<Rightarrow> go_error + RouteSnapshot) \<Rightarrow> RouteSnapshot list \<Rightarrow> string \<Rightarrow> go_error + RouteSnapshot list" where
  "collect_snapshot f acc host = (case f host of Inl err \<Rightarrow> Inl err | Inr s \<Rightarrow> Inr (acc @ [s]))"

definition BuildWeightedRouteSnapshots ::
  "time \<Rightarrow> World \<Rightarrow> int smap \<Rightarrow> Goal list \<Rightarrow> go_error + RouteSnapshot list" where
  "BuildWeightedRouteSnapshots wall w ports goals =
     (let dir = BuildDirectory wall w ports;
          byWorkload = foldl (\<lambda>m g. mput (wl_Name (g_Workload g)) g m) [] goals;
          hosts = sort (mkeys (Routes w))
      in run (collect_snapshot (\<lambda>host. route_snapshot wall w dir byWorkload (the (map_of (Routes w) host)))) [] hosts)"

definition BuildRouteSnapshots :: "time \<Rightarrow> World \<Rightarrow> int smap \<Rightarrow> go_error + RouteSnapshot list" where
  "BuildRouteSnapshots wall w ports = BuildWeightedRouteSnapshots wall w ports []"

definition WorkloadPorts :: "Goal list \<Rightarrow> int smap" where
  "WorkloadPorts goals =
     foldl (\<lambda>ports g. if wl_Port (g_Workload g) > 0
                      then mput (wl_Name (g_Workload g)) (wl_Port (g_Workload g)) ports else ports) [] goals"

definition StaleAfter :: "time \<Rightarrow> World \<Rightarrow> int smap \<Rightarrow> time \<Rightarrow> string list" where
  "StaleAfter wall w ports at =
     (let live = BuildDirectory wall (w\<lparr>ObservedAt := at\<rparr>) ports
      in sort (map r_Host (filter (\<lambda>r. endpoints_of live (r_Workload r) = []) (mvals (Routes w)))))"

section \<open>Name resolution\<close>

definition ServiceDomain :: string where
  "ServiceDomain = ''a4s.internal''"

definition ResolvedEndpoint_HostPort :: "ResolvedEndpoint \<Rightarrow> string" where
  "ResolvedEndpoint_HostPort e = JoinHostPort (re_Address e) (itoa (re_Port e))"

definition ServiceName :: "string \<Rightarrow> string" where
  "ServiceName workload = workload @ ''.'' @ ServiceDomain"

text \<open>\<open>strings.ToLower\<close>, \<open>strings.TrimSpace\<close>, \<open>strings.HasSuffix\<close> and \<open>strings.TrimSuffix\<close> on
  ASCII text.\<close>

definition to_lower :: "char \<Rightarrow> char" where
  "to_lower c = (if 65 \<le> (of_char c :: nat) \<and> (of_char c :: nat) \<le> 90 then char_of ((of_char c :: nat) + 32) else c)"

definition trim_space :: "string \<Rightarrow> string" where
  "trim_space s = rev (dropWhile is_space (rev (dropWhile is_space s)))"

definition has_suffix :: "string \<Rightarrow> string \<Rightarrow> bool" where
  "has_suffix s t \<longleftrightarrow> has_prefix (rev s) (rev t)"

definition trim_suffix :: "string \<Rightarrow> string \<Rightarrow> string" where
  "trim_suffix s t = (if has_suffix s t then take (length s - length t) s else s)"

definition ParseServiceName :: "string \<Rightarrow> string option" where
  "ParseServiceName name =
     (let name = trim_suffix (map to_lower (trim_space name)) ''.'';
          suffix = ''.'' @ ServiceDomain
      in if name = [] then None
         else if has_suffix name suffix
           then (let workload = trim_suffix name suffix
                 in if workload = [] \<or> CHR ''.'' \<in> set workload then None else Some workload)
         else if CHR ''.'' \<in> set name then None
         else Some name)"

definition resolve_endpoint :: "World \<Rightarrow> string \<Rightarrow> Endpoint \<Rightarrow> ResolvedEndpoint option" where
  "resolve_endpoint w fromNode e =
     (if ep_Node e = fromNode
      then Some \<lparr>re_Address = ep_Address e, re_Port = ep_Port e, re_Allocation = ep_Allocation e,
                 re_Node = ep_Node e, re_Local = True\<rparr>
      else case map_of (Nodes w) (ep_Node e) of
          None \<Rightarrow> None
        | Some n \<Rightarrow>
            if n_Address n = [] \<or> n_GatewayPort n \<le> 0 then None
            else Some \<lparr>re_Address = n_Address n, re_Port = n_GatewayPort n,
                       re_Allocation = ep_Allocation e, re_Node = ep_Node e, re_Local = False\<rparr>)"

definition Resolve :: "time \<Rightarrow> World \<Rightarrow> int smap \<Rightarrow> string \<Rightarrow> string \<Rightarrow> ResolvedEndpoint list" where
  "Resolve wall w ports workload fromNode =
     (case map_of (BuildDirectory wall w ports) workload of
        None \<Rightarrow> []
      | Some service \<Rightarrow> sort_key (\<lambda>r. (\<not> re_Local r, re_Allocation r))
          (List.map_filter (resolve_endpoint w fromNode) (sv_Endpoints service)))"

definition ResolveName ::
  "time \<Rightarrow> World \<Rightarrow> int smap \<Rightarrow> string \<Rightarrow> string \<Rightarrow> ResolvedEndpoint list option" where
  "ResolveName wall w ports name fromNode = (case ParseServiceName name of
       None \<Rightarrow> None
     | Some workload \<Rightarrow> Some (Resolve wall w ports workload fromNode))"

text \<open>The bytes a zone's SHA-256 fingerprint covers; the digest is a parameter.\<close>

definition zone_line :: "ResolvedEndpoint \<Rightarrow> string" where
  "zone_line e = ''  '' @ ResolvedEndpoint_HostPort e @ '' '' @ re_Allocation e @ '' '' @ re_Node e @ [CHR 0x0A]"

definition Zone_text :: "ServiceZone \<Rightarrow> string" where
  "Zone_text z = ''node='' @ zone_Node z @ [CHR 0x0A] @
     concat (map (\<lambda>name. name @ [CHR 0x0A] @
        concat (map zone_line (case map_of (zone_Records z) name of None \<Rightarrow> [] | Some es \<Rightarrow> es)))
       (sort (mkeys (zone_Records z))))"

definition Zone_Fingerprint :: "(string \<Rightarrow> string) \<Rightarrow> ServiceZone \<Rightarrow> string" where
  "Zone_Fingerprint digest z = digest (Zone_text z)"

definition zone_add ::
  "time \<Rightarrow> World \<Rightarrow> int smap \<Rightarrow> string \<Rightarrow> ResolvedEndpoint list smap \<Rightarrow> string \<Rightarrow> ResolvedEndpoint list smap" where
  "zone_add wall w ports fromNode records workload =
     (let endpoints = Resolve wall w ports workload fromNode
      in if endpoints = [] then records else mput (ServiceName workload) endpoints records)"

definition BuildServiceZone :: "time \<Rightarrow> World \<Rightarrow> int smap \<Rightarrow> string \<Rightarrow> ServiceZone" where
  "BuildServiceZone wall w ports fromNode =
     \<lparr>zone_Node = fromNode,
      zone_Records = foldl (zone_add wall w ports fromNode) [] (mkeys (BuildDirectory wall w ports))\<rparr>"

section \<open>The directory as a set of allocations\<close>

definition serves :: "time \<Rightarrow> int smap \<Rightarrow> string \<Rightarrow> Allocation \<Rightarrow> bool" where
  "serves now ports name al \<longleftrightarrow> al_Workload al = name \<and> ReadyAt al now \<and> al_Address al \<noteq> [] \<and>
     (\<exists>port. map_of ports name = Some port \<and> 0 < port)"

definition as_endpoint :: "int smap \<Rightarrow> Allocation \<Rightarrow> Endpoint" where
  "as_endpoint ports al = \<lparr>ep_Allocation = al_ID al, ep_Node = al_Node al, ep_Address = al_Address al,
     ep_Port = the (map_of ports (al_Workload al))\<rparr>"

lemma directory_add_alt:
  "directory_add now ports services al =
    (if serves now ports (al_Workload al) al
     then mput (al_Workload al) \<lparr>sv_Name = al_Workload al,
            sv_Endpoints = endpoints_of services (al_Workload al) @ [as_endpoint ports al]\<rparr> services
     else services)"
  by (auto simp: directory_add_def serves_def as_endpoint_def endpoints_of_def Let_def split: option.splits)

lemma directory_fold:
  "map_of (foldl (directory_add now ports) services als) name =
    (let new = map (as_endpoint ports) (filter (serves now ports name) als) in
     if new = [] then map_of services name
     else Some \<lparr>sv_Name = name, sv_Endpoints = endpoints_of services name @ new\<rparr>)"
proof (induction als arbitrary: services)
  case (Cons al als)
  have other: "\<not> serves now ports name al" if "al_Workload al \<noteq> name"
    using that by (simp add: serves_def)
  show ?case
    unfolding foldl_Cons Cons.IH
    using other by (auto simp: directory_add_alt Let_def endpoints_of_def split: option.splits)
qed simp

lemma map_of_map_snd: "map_of (map (\<lambda>(k, v). (k, f v)) m) k = map_option f (map_of m k)"
  by (induction m) auto

lemma BuildDirectory_lookup:
  "map_of (BuildDirectory wall w ports) name =
    (let es = filter (serves (World_Now wall w) ports name) (mvals (Allocations w)) in
     if es = [] then None
     else Some \<lparr>sv_Name = name, sv_Endpoints = sort_key ep_Allocation (map (as_endpoint ports) es)\<rparr>)"
  unfolding BuildDirectory_def map_of_map_snd directory_fold
  by (simp add: Let_def endpoints_of_def)

lemma endpoints_of_directory:
  "endpoints_of (BuildDirectory wall w ports) name =
    sort_key ep_Allocation (map (as_endpoint ports) (filter (serves (World_Now wall w) ports name) (mvals (Allocations w))))"
  by (simp add: endpoints_of_def BuildDirectory_lookup Let_def)

lemma directory_keys:
  "name \<in> set (mkeys (BuildDirectory wall w ports)) \<longleftrightarrow>
    (\<exists>al \<in> set (mvals (Allocations w)). serves (World_Now wall w) ports name al)"
proof -
  have "name \<in> set (mkeys (BuildDirectory wall w ports)) \<longleftrightarrow> map_of (BuildDirectory wall w ports) name \<noteq> None"
    by (simp add: map_of_eq_None_iff)
  then show ?thesis by (auto simp: BuildDirectory_lookup Let_def filter_empty_conv)
qed

section \<open>Shares of a canary\<close>

lemma canary_index_bound:
  "index < n \<Longrightarrow> position + length steps = n \<Longrightarrow> canary_index p index position steps < n"
  by (induction p index position steps rule: canary_index.induct) auto

lemma canary_index_supported:
  assumes "canary_index p index position steps \<noteq> index"
  shows "position \<le> canary_index p index position steps \<and>
    canary_index p index position steps < position + length steps \<and>
    steps ! (canary_index p index position steps - position) \<le> p"
  using assms
proof (induction p index position steps rule: canary_index.induct)
  case (2 p index position step steps)
  let ?j = "if step \<le> p then position else index"
  let ?r = "canary_index p ?j (Suc position) steps"
  show ?case
  proof (cases "?r = ?j")
    case True
    then show ?thesis using 2(2) by (simp split: if_splits)
  next
    case False
    from 2(1) [OF False] have "Suc position \<le> ?r" "?r < Suc position + length steps"
      "steps ! (?r - Suc position) \<le> p" by auto
    moreover have "(step # steps) ! (?r - position) = steps ! (?r - Suc position)"
      using \<open>Suc position \<le> ?r\<close> by (simp add: nth_Cons' )
    ultimately show ?thesis by simp
  qed
qed simp

lemma canary_steps_sorted:
  "canary_steps previous steps = Inr r \<Longrightarrow>
    (\<forall>s \<in> set steps. previous < s \<and> 1 \<le> s \<and> s \<le> 100) \<and> sorted_wrt (<) steps"
  by (induction previous steps rule: canary_steps.induct) (fastforce split: if_splits)+

lemma Canary_Validate_steps:
  assumes "Canary_Validate (Some c) = None"
  shows "Steps c \<noteq> []" "sorted_wrt (<) (Steps c)" "\<And>s. s \<in> set (Steps c) \<Longrightarrow> 1 \<le> s \<and> s \<le> 100"
    "last (Steps c) = 100" "0 \<le> HoldFor c"
  using assms canary_steps_sorted [of 0 "Steps c"]
  by (auto simp: Canary_Validate_def split: if_splits sum.splits)

text \<open>The counts of the loop as sizes of filters.\<close>

definition canary_side :: "time \<Rightarrow> Goal \<Rightarrow> bool \<Rightarrow> Allocation \<Rightarrow> bool" where
  "canary_side now goal on_target al \<longleftrightarrow> al_Workload al = wl_Name (g_Workload goal) \<and> ReadyAt al now \<and>
     (al_Image al = wl_Image (g_Workload goal)) = on_target"

lemma canary_fold_counts:
  "foldl (canary_count now goal) (t, p, h) als = (t', p', h') \<Longrightarrow>
    t' = t + int (length (filter (canary_side now goal True) als)) \<and>
    p' = p + int (length (filter (canary_side now goal False) als))"
proof (induction als arbitrary: t p h)
  case (Cons al als)
  obtain t1 p1 h1 where c: "canary_count now goal (t, p, h) al = (t1, p1, h1)"
    by (cases "canary_count now goal (t, p, h) al") auto
  from Cons.IH [of t1 p1 h1] Cons.prems c
  have "t' = t1 + int (length (filter (canary_side now goal True) als)) \<and>
    p' = p1 + int (length (filter (canary_side now goal False) als))" by simp
  with c show ?case by (auto simp: canary_count_def canary_side_def [of _ _ _ al] split: if_splits)
qed simp

lemma ReadyFor_nonneg: "0 \<le> ReadyFor al now"
  by (simp add: ReadyFor_def)

text \<open>The hold clock never runs ahead of any target replica.\<close>

lemma canary_fold_held:
  "foldl (canary_count now goal) (t, p, h) als = (t', p', h') \<Longrightarrow>
    (0 \<le> h \<longrightarrow> 0 \<le> h' \<and> h' \<le> h) \<and> (\<forall>al \<in> set als. canary_side now goal True al \<longrightarrow> 0 \<le> h' \<and> h' \<le> ReadyFor al now)"
proof (induction als arbitrary: t p h)
  case (Cons al als)
  obtain t1 p1 h1 where c: "canary_count now goal (t, p, h) al = (t1, p1, h1)"
    by (cases "canary_count now goal (t, p, h) al") auto
  have h1: "(0 \<le> h \<longrightarrow> 0 \<le> h1 \<and> h1 \<le> h) \<and> (canary_side now goal True al \<longrightarrow> 0 \<le> h1 \<and> h1 \<le> ReadyFor al now)"
    using c ReadyFor_nonneg [of al now] by (auto simp: canary_count_def canary_side_def split: if_splits)
  from Cons.IH [of t1 p1 h1] Cons.prems c h1 show ?case by fastforce
qed simp

section \<open>Weights across endpoints\<close>

lemma length_shareAcross: "0 < share \<Longrightarrow> length (shareAcross es share vs) = length es"
  by (auto simp: shareAcross_def)

lemma share_weight_pos: "1 \<le> share_weight n share i"
  by (simp add: share_weight_def Let_def)

lemma sum_upt_indicator: "(\<Sum>i\<leftarrow>[0..<n]. if int i < r then 1 else 0) = min (int n) (max 0 r)"
  by (induction n) auto

lemma shareAcross_weights:
  "es \<noteq> [] \<Longrightarrow> 0 < share \<Longrightarrow>
    map we_Weight (shareAcross es share vs) = map (share_weight (length es) share) [0..<length es]"
  by (rule nth_equalityI) (simp_all add: shareAcross_def weigh_def)

text \<open>A share of at least one percent per endpoint is divided without loss.\<close>

lemma shareAcross_exact:
  assumes "es \<noteq> []" "int (length es) \<le> share"
  shows "sum_list (map we_Weight (shareAcross es share vs)) = share"
proof -
  let ?n = "length es"
  have n: "0 < ?n" using assms(1) by simp
  have pos: "1 \<le> share div int ?n"
    using zdiv_mono1 [OF assms(2), of "int ?n"] n by simp
  have w: "share_weight ?n share i = share div int ?n + (if int i < share mod int ?n then 1 else 0)" for i
    using pos by (simp add: share_weight_def Let_def)
  have "0 < share" using assms(2) n by linarith
  then have "sum_list (map we_Weight (shareAcross es share vs)) = (\<Sum>i\<leftarrow>[0..<?n]. share_weight ?n share i)"
    by (simp only: shareAcross_weights [OF assms(1)])
  also have "\<dots> = (\<Sum>i\<leftarrow>[0..<?n]. share div int ?n) + (\<Sum>i\<leftarrow>[0..<?n]. if int i < share mod int ?n then 1 else 0)"
    unfolding w by (rule sum_list_addf)
  also have "(\<Sum>i\<leftarrow>[0..<?n]. share div int ?n) = int ?n * (share div int ?n)"
    by (simp add: sum_list_triv)
  also have "(\<Sum>i\<leftarrow>[0..<?n]. if int i < share mod int ?n then 1 else 0) = share mod int ?n"
    using n pos_mod_bound [of "int ?n" share] pos_mod_sign [of "int ?n" share]
    by (simp add: sum_upt_indicator)
  finally show ?thesis by (simp only: mult_div_mod_eq)
qed

lemma shareAcross_endpoints: "0 < share \<Longrightarrow> map we_Endpoint (shareAcross es share vs) = es"
  by (auto simp: shareAcross_def weigh_def intro!: nth_equalityI)

lemma we_Version_shareAcross:
  "e \<in> set (shareAcross es share vs) \<Longrightarrow>
    we_Endpoint e \<in> set es \<and> we_Version e = mget_str vs (we_Allocation e) \<and> 1 \<le> we_Weight e"
  by (auto simp: shareAcross_def weigh_def share_weight_pos split: if_splits dest: set_zip_rightD)

text \<open>A share smaller than the number of endpoints is rounded up: the weights exceed the share.\<close>

lemma shareAcross_rounds_up:
  "sum_list (map we_Weight (shareAcross [a, b, c] 2 vs)) = 3"
  by (simp add: shareAcross_def share_weight_def weigh_def)

section \<open>Service names\<close>

lemma has_suffix_append: "has_suffix (s @ t) t"
  by (simp add: has_suffix_def has_prefix_append)

lemma trim_suffix_append: "trim_suffix (s @ t) t = s"
  by (simp add: trim_suffix_def has_suffix_append)

lemma alnum_not_space: "is_alnum c \<Longrightarrow> \<not> is_space c"
  by (auto simp: is_alnum_def is_lower_def is_digit_def is_space_def)

lemma to_lower_id: "is_alnum c \<or> c = CHR ''-'' \<Longrightarrow> to_lower c = c"
  by (auto simp: is_alnum_def is_lower_def is_digit_def to_lower_def)

lemma namePattern_chars: "namePattern s \<Longrightarrow> c \<in> set s \<Longrightarrow> is_alnum c \<or> c = CHR ''-''"
  by (simp add: namePattern_def handle_def list_all_iff)

lemma namePattern_no_dot: "namePattern s \<Longrightarrow> CHR ''.'' \<notin> set s"
  using namePattern_chars [of s "CHR ''.''"] by (auto simp: is_alnum_def is_lower_def is_digit_def)

lemma ServiceName_inj: "ServiceName a = ServiceName b \<longleftrightarrow> a = b"
  by (simp add: ServiceName_def)

text \<open>What \<open>ServiceName\<close> renders for a workload name, \<open>ParseServiceName\<close> reads back.\<close>

lemma ParseServiceName_ServiceName:
  assumes "namePattern s"
  shows "ParseServiceName (ServiceName s) = Some s"
proof -
  define d where "d = ''.'' @ ServiceDomain"
  have s: "s \<noteq> []" using assms by (rule namePattern_nonempty)
  have d1: "map to_lower d = d" by (simp add: d_def ServiceDomain_def to_lower_def)
  have d2: "\<not> has_prefix (rev d) ''.''" by (simp add: d_def ServiceDomain_def)
  have d3: "rev d \<noteq> []" "\<not> is_space (hd (rev d))" by (simp_all add: d_def ServiceDomain_def is_space_def)
  have "is_alnum (hd s)" using assms by (simp add: namePattern_def handle_def)
  then have "dropWhile is_space (s @ d) = s @ d"
    using s alnum_not_space by (cases s) auto
  moreover have "dropWhile is_space (rev d @ rev s) = rev d @ rev s"
    using d3 by (cases "rev d") auto
  ultimately have t: "trim_space (s @ d) = s @ d" by (simp add: trim_space_def)
  have "map to_lower s = s"
    using namePattern_chars [OF assms] to_lower_id by (simp add: map_idI)
  then have low: "map to_lower (s @ d) = s @ d" using d1 by simp
  have "has_prefix (rev d @ rev s) ''.'' = has_prefix (rev d) ''.''"
    using d3(1) by (cases "rev d") auto
  then have "\<not> has_suffix (s @ d) ''.''" using d2 by (simp add: has_suffix_def)
  then have dot: "trim_suffix (s @ d) ''.'' = s @ d" by (simp add: trim_suffix_def)
  have "ParseServiceName (s @ d) = Some s"
    unfolding ParseServiceName_def d_def [symmetric] Let_def t low dot has_suffix_append trim_suffix_append
    using s namePattern_no_dot [OF assms] by (simp add: has_suffix_append)
  then show ?thesis by (simp add: ServiceName_def d_def)
qed

section \<open>What a zone answers\<close>

lemma zone_fold:
  "map_of (foldl (zone_add wall w ports src) records names) (ServiceName name) =
    (if name \<in> set names \<and> Resolve wall w ports name src \<noteq> [] then Some (Resolve wall w ports name src)
     else map_of records (ServiceName name))"
  by (induction names arbitrary: records) (auto simp: zone_add_def ServiceName_inj Let_def)

lemma Resolve_unknown: "map_of (BuildDirectory wall w ports) name = None \<Longrightarrow> Resolve wall w ports name src = []"
  by (simp add: Resolve_def)

lemma BuildServiceZone_lookup:
  "map_of (zone_Records (BuildServiceZone wall w ports src)) (ServiceName name) =
    (if Resolve wall w ports name src = [] then None else Some (Resolve wall w ports name src))"
proof -
  have "name \<in> set (mkeys (BuildDirectory wall w ports))" if "Resolve wall w ports name src \<noteq> []"
    using that Resolve_unknown [of wall w ports name src] by (force simp: map_of_eq_None_iff)
  then show ?thesis by (auto simp: BuildServiceZone_def zone_fold)
qed

lemma set_map_filter_Some: "set (List.map_filter f xs) = {y. \<exists>x \<in> set xs. f x = Some y}"
  by (induction xs) (auto simp: map_filter_simps split: option.splits)

lemma set_Resolve:
  "set (Resolve wall w ports name src) =
    {r. \<exists>al \<in> set (mvals (Allocations w)). serves (World_Now wall w) ports name al \<and>
        resolve_endpoint w src (as_endpoint ports al) = Some r}"
proof -
  let ?es = "filter (serves (World_Now wall w) ports name) (mvals (Allocations w))"
  have "set (Resolve wall w ports name src) =
      {r. \<exists>e \<in> set (map (as_endpoint ports) ?es). resolve_endpoint w src e = Some r}"
  proof (cases "?es = []")
    case True
    then show ?thesis by (simp add: Resolve_def BuildDirectory_lookup)
  next
    case False
    then show ?thesis
      by (simp only: Resolve_def BuildDirectory_lookup Let_def if_False option.case Service.simps set_sort set_map_filter_Some)
  qed
  then show ?thesis by auto
qed

end
