(* ===== verification/Control_NetPolicy.thy ===== *)
theory Control_NetPolicy
  imports Control_Directory
begin

text \<open>
  Network intent and its compilation to an nftables script (\<^verbatim>\<open>src/control/netpolicy.go\<close>).
  \<open>net.ParseCIDR\<close> is modelled on the text it accepts, IPv6 included, because the validator's
  answer depends on it.  The compiled script is characterised as the default-deny preamble
  followed by exactly the accept rules that the declared intent and the directory justify.
\<close>

section \<open>Parsing prefixes\<close>

text \<open>The dotted quad: four decimal fields of at most 255 without leading zeros.\<close>

definition ipv4_field :: "string \<Rightarrow> nat option" where
  "ipv4_field s = (case parse_nat s of
       None \<Rightarrow> None
     | Some n \<Rightarrow> if n > 255 \<or> (length s > 1 \<and> hd s = CHR ''0'') then None else Some n)"

fun ipv4_fields :: "string list \<Rightarrow> nat list option" where
  "ipv4_fields [] = Some []"
| "ipv4_fields (f # fs) = (case ipv4_field f of None \<Rightarrow> None
     | Some n \<Rightarrow> map_option (\<lambda>ns. n # ns) (ipv4_fields fs))"

definition parse_ipv4 :: "string \<Rightarrow> nat list option" where
  "parse_ipv4 s = (case ipv4_fields (split_on (CHR ''.'') s) of
       None \<Rightarrow> None
     | Some ns \<Rightarrow> if length ns = 4 then Some ns else None)"

definition hex_val :: "char \<Rightarrow> nat option" where
  "hex_val c =
     (if is_digit c then Some (digit_val c)
      else if 97 \<le> (of_char c :: nat) \<and> (of_char c :: nat) \<le> 102 then Some (of_char c - 87)
      else if 65 \<le> (of_char c :: nat) \<and> (of_char c :: nat) \<le> 70 then Some (of_char c - 55)
      else None)"

definition hex_digits :: "string \<Rightarrow> string" where
  "hex_digits s = takeWhile (\<lambda>c. hex_val c \<noteq> None) s"

fun hex_group :: "nat \<Rightarrow> string \<Rightarrow> nat" where
  "hex_group acc [] = acc"
| "hex_group acc (c # cs) = hex_group (16 * acc + (case hex_val c of None \<Rightarrow> 0 | Some v \<Rightarrow> v)) cs"

text \<open>The loop of the IPv6 parser: hexadecimal groups into bytes, an optional ellipsis, an optional
  trailing dotted quad.  The result is the bytes read and the position of the ellipsis.\<close>

function ipv6_groups :: "nat list \<Rightarrow> nat option \<Rightarrow> string \<Rightarrow> (nat list \<times> nat option) option" where
  "ipv6_groups ip ellipsis s =
    (if length ip \<ge> 16 then (if s = [] then Some (ip, ellipsis) else None)
     else let g = hex_digits s; rest = drop (length g) s in
       if g = [] \<or> length g > 4 then None
       else if rest \<noteq> [] \<and> hd rest = CHR ''.'' then
         (if ellipsis = None \<and> length ip \<noteq> 12 then None
          else if length ip + 4 > 16 then None
          else map_option (\<lambda>ns. (ip @ ns, ellipsis)) (parse_ipv4 s))
       else let v = hex_group 0 g; ip = ip @ [v div 256, v mod 256] in
         if rest = [] then Some (ip, ellipsis)
         else if hd rest \<noteq> CHR '':'' \<or> length rest = 1 then None
         else let s = tl rest in
           if hd s = CHR '':'' then
             (if ellipsis \<noteq> None then None
              else if tl s = [] then Some (ip, Some (length ip))
              else ipv6_groups ip (Some (length ip)) (tl s))
           else ipv6_groups ip ellipsis s)"
  by pat_completeness auto

termination
  by (relation "measure (\<lambda>(ip, e, s). 16 - length ip)") auto

declare ipv6_groups.simps [simp del]

definition parse_ipv6 :: "string \<Rightarrow> nat list option" where
  "parse_ipv6 s =
     (if take 2 s = ''::'' \<and> drop 2 s = [] then Some (replicate 16 0)
      else case (if take 2 s = ''::'' then ipv6_groups [] (Some 0) (drop 2 s) else ipv6_groups [] None s) of
          None \<Rightarrow> None
        | Some (ip, ellipsis) \<Rightarrow> (case ellipsis of
              None \<Rightarrow> if length ip < 16 then None else Some ip
            | Some e \<Rightarrow> if length ip < 16 then Some (take e ip @ replicate (16 - length ip) 0 @ drop e ip)
                        else None))"

text \<open>\<open>netip.ParseAddr\<close> as \<open>net.ParseCIDR\<close> uses it: the first of \<open>.\<close>, \<open>:\<close> and \<open>%\<close> decides the
  family, and an address with a zone is refused.\<close>

datatype ip_addr = IPv4 "nat list" | IPv6 "nat list"

definition parse_addr :: "string \<Rightarrow> ip_addr option" where
  "parse_addr s = (case dropWhile (\<lambda>c. c \<noteq> CHR ''.'' \<and> c \<noteq> CHR '':'' \<and> c \<noteq> CHR ''%'') s of
       [] \<Rightarrow> None
     | c # _ \<Rightarrow>
         if c = CHR ''.'' then map_option IPv4 (parse_ipv4 s)
         else if c = CHR '':'' then
           (if CHR ''%'' \<in> set s then None else map_option IPv6 (parse_ipv6 s))
         else None)"

definition mask_byte :: "nat \<Rightarrow> nat \<Rightarrow> nat \<Rightarrow> nat" where
  "mask_byte bits i b = (let keep = min 8 (bits - 8 * i) in b div 2 ^ (8 - keep) * 2 ^ (8 - keep))"

definition mask_ip :: "nat \<Rightarrow> nat list \<Rightarrow> nat list" where
  "mask_ip bits ip = map (\<lambda>(i, b). mask_byte bits i b) (zip [0..<length ip] ip)"

text \<open>\<open>net.ParseCIDR\<close>: the masked network address, four bytes for IPv4 and sixteen for IPv6.
  A prefix length is decimal digits only.\<close>

definition ParseCIDR :: "string \<Rightarrow> nat list option" where
  "ParseCIDR s =
     (if CHR ''/'' \<notin> set s then None
      else let addr = takeWhile (\<lambda>c. c \<noteq> CHR ''/'') s; mask = tl (dropWhile (\<lambda>c. c \<noteq> CHR ''/'') s) in
        case (parse_addr addr, parse_nat mask) of
          (Some (IPv4 ip), Some n) \<Rightarrow> if n > 32 then None else Some (mask_ip n ip)
        | (Some (IPv6 ip), Some n) \<Rightarrow> if n > 128 then None else Some (mask_ip n ip)
        | _ \<Rightarrow> None)"

text \<open>\<open>IP.To4\<close>: four bytes, or the sixteen of an IPv4-mapped address.\<close>

definition To4 :: "nat list \<Rightarrow> nat list option" where
  "To4 ip = (if length ip = 4 then Some ip
     else if length ip = 16 \<and> take 12 ip = replicate 10 0 @ [255, 255] then Some (drop 12 ip) else None)"

section \<open>Validation\<close>

datatype netpolicy_error = Workload_required | No_peer nat | Two_peers nat | Bad_CIDR nat string
  | Not_IPv4 nat string | Port_range nat int

definition validateCIDR :: "nat \<Rightarrow> string \<Rightarrow> netpolicy_error option" where
  "validateCIDR index value = (case ParseCIDR value of
       None \<Rightarrow> Some (Bad_CIDR index value)
     | Some network \<Rightarrow> if To4 network = None then Some (Not_IPv4 index value) else None)"

definition validate_peer :: "nat \<Rightarrow> string \<Rightarrow> string \<Rightarrow> int \<Rightarrow> netpolicy_error option" where
  "validate_peer index workload cidr port =
     (if workload = [] \<and> cidr = [] then Some (No_peer index)
      else if workload \<noteq> [] \<and> cidr \<noteq> [] then Some (Two_peers index)
      else case (if cidr \<noteq> [] then validateCIDR index cidr else None) of
          Some err \<Rightarrow> Some err
        | None \<Rightarrow> if port < 0 \<or> port > 65535 then Some (Port_range index port) else None)"

fun validate_ingress :: "nat \<Rightarrow> IngressRule list \<Rightarrow> netpolicy_error option" where
  "validate_ingress index [] = None"
| "validate_ingress index (r # rs) =
    (case validate_peer index (FromWorkload r) (FromCIDR r) (in_Port r) of
       Some err \<Rightarrow> Some err | None \<Rightarrow> validate_ingress (Suc index) rs)"

fun validate_egress :: "nat \<Rightarrow> EgressRule list \<Rightarrow> netpolicy_error option" where
  "validate_egress index [] = None"
| "validate_egress index (r # rs) =
    (case validate_peer index (ToWorkload r) (ToCIDR r) (eg_Port r) of
       Some err \<Rightarrow> Some err | None \<Rightarrow> validate_egress (Suc index) rs)"

definition NetworkPolicy_Validate :: "NetworkPolicy \<Rightarrow> netpolicy_error option" where
  "NetworkPolicy_Validate p =
     (if np_Workload p = [] then Some Workload_required
      else case validate_ingress 0 (Ingress p) of
          Some err \<Rightarrow> Some err
        | None \<Rightarrow> validate_egress 0 (Egress p))"

section \<open>Compilation\<close>

definition policy_preamble :: "string list" where
  "policy_preamble =
     [''add table inet a4s'',
      ''flush table inet a4s'',
      ''add chain inet a4s input { type filter hook input priority 0 ; policy drop ; }'',
      ''add chain inet a4s output { type filter hook output priority 0 ; policy drop ; }'',
      ''add rule inet a4s input ct state established,related accept'',
      ''add rule inet a4s output ct state established,related accept'']"

definition ingressRule :: "string \<Rightarrow> string \<Rightarrow> int \<Rightarrow> string" where
  "ingressRule destination source port =
     ''add rule inet a4s input ip saddr '' @ source @ '' ip daddr '' @ destination
       @ (if port > 0 then '' tcp dport '' @ itoa port else []) @ '' accept''"

definition egressRule :: "string \<Rightarrow> string \<Rightarrow> int \<Rightarrow> string" where
  "egressRule source destination port =
     ''add rule inet a4s output ip saddr '' @ source @ '' ip daddr '' @ destination
       @ (if port > 0 then '' tcp dport '' @ itoa port else []) @ '' accept''"

definition local_serving :: "string \<Rightarrow> string \<Rightarrow> Allocation \<Rightarrow> bool" where
  "local_serving workload node al \<longleftrightarrow>
     \<not> (al_Workload al \<noteq> workload \<or> al_Node al \<noteq> node) \<and> \<not> (al_Address al = [] \<or> al_Phase al = AllocationStopped)"

definition localAddresses :: "World \<Rightarrow> string \<Rightarrow> string \<Rightarrow> string list" where
  "localAddresses w workload node =
     sort (map (\<lambda>al. al_Address al @ ''/32'') (filter (local_serving workload node) (mvals (Allocations w))))"

definition ruleAddresses :: "Service smap \<Rightarrow> string \<Rightarrow> string \<Rightarrow> string list" where
  "ruleAddresses directory workload cidr =
     (if cidr \<noteq> [] then [cidr]
      else case map_of directory workload of
          None \<Rightarrow> []
        | Some service \<Rightarrow> sort (map (\<lambda>e. ep_Address e @ ''/32'') (sv_Endpoints service)))"

definition address_rules :: "Service smap \<Rightarrow> NetworkPolicy \<Rightarrow> string \<Rightarrow> string list" where
  "address_rules directory p address =
     concat (map (\<lambda>r. map (\<lambda>source. ingressRule address source (in_Port r))
              (ruleAddresses directory (FromWorkload r) (FromCIDR r))) (Ingress p))
     @ concat (map (\<lambda>r. map (\<lambda>destination. egressRule address destination (eg_Port r))
              (ruleAddresses directory (ToWorkload r) (ToCIDR r))) (Egress p))"

definition compile_policy ::
  "World \<Rightarrow> Service smap \<Rightarrow> string \<Rightarrow> string list \<Rightarrow> NetworkPolicy \<Rightarrow> netpolicy_error + string list" where
  "compile_policy w directory node rules p = (case NetworkPolicy_Validate p of
       Some err \<Rightarrow> Inl err
     | None \<Rightarrow> Inr (rules @ concat (map (address_rules directory p) (localAddresses w (np_Workload p) node))))"

definition CompilePolicies ::
  "time \<Rightarrow> World \<Rightarrow> int smap \<Rightarrow> NetworkPolicy list \<Rightarrow> string \<Rightarrow> netpolicy_error + CompiledPolicy" where
  "CompilePolicies wall w ports policies node =
     (case run (compile_policy w (BuildDirectory wall w ports) node) policy_preamble (sort_key np_Workload policies) of
        Inl err \<Rightarrow> Inl err
      | Inr rules \<Rightarrow> Inr \<lparr>cp_Node = node, cp_Table = ''a4s'', cp_Rules = rules\<rparr>)"

definition Script :: "CompiledPolicy \<Rightarrow> string" where
  "Script c = join [CHR 0x0A] (cp_Rules c) @ [CHR 0x0A]"

definition Policy_Fingerprint :: "(string \<Rightarrow> string) \<Rightarrow> CompiledPolicy \<Rightarrow> string" where
  "Policy_Fingerprint digest c = digest (Script c)"

section \<open>What is compiled\<close>

lemma compile_run:
  "run (compile_policy w dir node) rules ps =
    (case List.find (\<lambda>p. NetworkPolicy_Validate p \<noteq> None) ps of
       Some p \<Rightarrow> Inl (the (NetworkPolicy_Validate p))
     | None \<Rightarrow> Inr (rules @ concat (map (\<lambda>p. concat (map (address_rules dir p) (localAddresses w (np_Workload p) node))) ps)))"
  by (induction ps arbitrary: rules) (auto simp: compile_policy_def split: option.splits)

text \<open>The addresses a peer stands for: the literal range, or the serving endpoints of the workload.\<close>

definition peer_addresses :: "time \<Rightarrow> World \<Rightarrow> int smap \<Rightarrow> string \<Rightarrow> string \<Rightarrow> string set" where
  "peer_addresses wall w ports workload cidr =
     (if cidr \<noteq> [] then {cidr}
      else {al_Address al @ ''/32'' | al. al \<in> set (mvals (Allocations w)) \<and> serves (World_Now wall w) ports workload al})"

lemma set_ruleAddresses:
  "set (ruleAddresses (BuildDirectory wall w ports) workload cidr) = peer_addresses wall w ports workload cidr"
proof (cases "cidr = []")
  case True
  let ?es = "filter (serves (World_Now wall w) ports workload) (mvals (Allocations w))"
  have "set (ruleAddresses (BuildDirectory wall w ports) workload cidr)
      = (\<lambda>e. ep_Address e @ ''/32'') ` set (endpoints_of (BuildDirectory wall w ports) workload)"
    using True by (auto simp: ruleAddresses_def endpoints_of_def split: option.splits)
  also have "\<dots> = (\<lambda>al. al_Address al @ ''/32'') ` set ?es"
    by (simp only: endpoints_of_directory set_sort set_map image_image as_endpoint_def Endpoint.simps)
  finally show ?thesis using True by (auto simp: peer_addresses_def)
qed (simp add: ruleAddresses_def peer_addresses_def)

text \<open>A rule that the declared intent justifies.\<close>

definition declared_rule ::
  "time \<Rightarrow> World \<Rightarrow> int smap \<Rightarrow> NetworkPolicy list \<Rightarrow> string \<Rightarrow> string \<Rightarrow> bool" where
  "declared_rule wall w ports policies node rule \<longleftrightarrow>
     (\<exists>p \<in> set policies. \<exists>al \<in> set (mvals (Allocations w)). local_serving (np_Workload p) node al \<and>
        ((\<exists>r \<in> set (Ingress p). \<exists>source \<in> peer_addresses wall w ports (FromWorkload r) (FromCIDR r).
            rule = ingressRule (al_Address al @ ''/32'') source (in_Port r)) \<or>
         (\<exists>r \<in> set (Egress p). \<exists>destination \<in> peer_addresses wall w ports (ToWorkload r) (ToCIDR r).
            rule = egressRule (al_Address al @ ''/32'') destination (eg_Port r))))"

lemma set_address_rules:
  "set (address_rules (BuildDirectory wall w ports) p address) =
    {ingressRule address source (in_Port r) | r source. r \<in> set (Ingress p) \<and>
        source \<in> peer_addresses wall w ports (FromWorkload r) (FromCIDR r)} \<union>
    {egressRule address destination (eg_Port r) | r destination. r \<in> set (Egress p) \<and>
        destination \<in> peer_addresses wall w ports (ToWorkload r) (ToCIDR r)}"
  by (auto simp: address_rules_def set_ruleAddresses)

lemma compiled_rules:
  assumes "CompilePolicies wall w ports policies node = Inr c"
  shows "take 6 (cp_Rules c) = policy_preamble \<and>
    set (drop 6 (cp_Rules c)) = {rule. declared_rule wall w ports policies node rule}"
proof -
  let ?dir = "BuildDirectory wall w ports"
  let ?rest = "concat (map (\<lambda>p. concat (map (address_rules ?dir p) (localAddresses w (np_Workload p) node)))
      (sort_key np_Workload policies))"
  have "cp_Rules c = policy_preamble @ ?rest"
    using assms by (auto simp: CompilePolicies_def compile_run split: option.splits)
  moreover have "length policy_preamble = 6" by (simp add: policy_preamble_def)
  moreover have "set ?rest = {rule. declared_rule wall w ports policies node rule}"
  proof -
    have "set ?rest = (\<Union>p \<in> set policies. \<Union>al \<in> {al \<in> set (mvals (Allocations w)). local_serving (np_Workload p) node al}.
        set (address_rules ?dir p (al_Address al @ ''/32'')))"
      by (auto simp: localAddresses_def)
    then show ?thesis unfolding set_address_rules declared_rule_def by blast
  qed
  ultimately show ?thesis by simp
qed

end
