(* ===== verification/Control_Executor.thy ===== *)
theory Control_Executor
  imports Control_Projection Control_NetPolicy
begin

text \<open>
  The in-memory data plane of \<^verbatim>\<open>src/control/executor.go\<close> and the durable projection of
  \<^verbatim>\<open>src/control/durable.go\<close>.  \<open>Execute\<close> has one definition per case of the Go switch and reports
  evidence; it never advances the world.  The locale \<open>projector\<close> is the contract the engine
  relies on, interpreted on both projections.  The last sections show that for every action the
  kernel accepts, projecting the evidence of its execution gives the world the kernel simulated,
  as far as placement, phases, ownership and routes are concerned.
\<close>

section \<open>Reporting evidence\<close>

definition report :: "EvidenceKind \<Rightarrow> string \<Rightarrow> string smap \<Rightarrow> Evidence" where
  "report k target observed =
     \<lparr>e_Kind = k, e_Target = target, e_Source = [], e_ObservedAt = 0, e_ExpiresAt = 0, e_Observed = observed\<rparr>"

definition need_volume :: "Action \<Rightarrow> (VolumeRef \<Rightarrow> go_error + Evidence) \<Rightarrow> go_error + Evidence" where
  "need_volume a f = (case ac_Volume a of None \<Rightarrow> Inl (Vol Volume_nil) | Some ref \<Rightarrow> f ref)"

definition need_snapshot :: "Action \<Rightarrow> (VolumeRef \<Rightarrow> go_error + Evidence) \<Rightarrow> go_error + Evidence" where
  "need_snapshot a f = (case ac_Volume a of
       None \<Rightarrow> Inl (Vol Snapshot_id_missing)
     | Some ref \<Rightarrow> if ac_Snapshot a = [] then Inl (Vol Snapshot_id_missing) else f ref)"

definition need_allocation :: "World \<Rightarrow> Action \<Rightarrow> (Allocation \<Rightarrow> go_error + Evidence) \<Rightarrow> go_error + Evidence" where
  "need_allocation w a f = (case map_of (Allocations w) (ac_Target a) of
       None \<Rightarrow> Inl (Alloc Allocation_missing) | Some al \<Rightarrow> f al)"

definition need_node :: "World \<Rightarrow> string \<Rightarrow> go_error + Evidence \<Rightarrow> go_error + Evidence" where
  "need_node w i r = (if mhas (Nodes w) i then r else Inl (Nod Node_missing))"

lemmas need_defs = need_volume_def need_snapshot_def need_allocation_def need_node_def

section \<open>One definition per executed action\<close>

definition execute_PullImage :: "World \<Rightarrow> Action \<Rightarrow> go_error + Evidence" where
  "execute_PullImage w a = need_node w (ac_Node a)
     (Inr (report EvidenceImagePresent (ac_Image a) [(''node'', ac_Node a), (''image'', ac_Image a)]))"

definition execute_CreateAllocation :: "World \<Rightarrow> Action \<Rightarrow> go_error + Evidence" where
  "execute_CreateAllocation w a = need_node w (ac_Node a)
     (let observed = [(''node'', ac_Node a), (''workload'', ac_Workload a), (''image'', ac_Image a),
            (''replica'', itoa (ac_Replica a)), (''cpu_millis'', itoa (CPUMillis (ac_Resources a))),
            (''memory_mb'', itoa (MemoryMB (ac_Resources a)))];
          budget = [(''tokens'', itoa (Tokens (ac_Budget a))), (''cost_millis'', itoa (CostMillis (ac_Budget a))),
            (''wall_seconds'', itoa (WallSeconds (ac_Budget a))), (''tool_calls'', itoa (ToolCalls (ac_Budget a)))]
      in Inr (report EvidenceAllocationCreated (ac_Target a)
           (if \<not> Budget_IsZero (ac_Budget a) then observed @ budget else observed)))"

definition execute_CreateVolume :: "World \<Rightarrow> Action \<Rightarrow> go_error + Evidence" where
  "execute_CreateVolume w a = need_volume a (\<lambda>ref. need_node w (ac_Node a)
     (Inr (report EvidenceVolumeCreated (vr_Name ref) [(''node'', ac_Node a)])))"

definition execute_AttachVolume :: "World \<Rightarrow> Action \<Rightarrow> go_error + Evidence" where
  "execute_AttachVolume w a = need_volume a (\<lambda>ref. need_allocation w a (\<lambda>al.
     Inr (report EvidenceVolumeAttached (vr_Name ref)
       [(''allocation'', ac_Target a), (''mount_path'', vr_MountPath ref)])))"

definition execute_Cordon :: "World \<Rightarrow> Action \<Rightarrow> go_error + Evidence" where
  "execute_Cordon w a = need_node w (ac_Target a) (CordonEvidence a)"

definition execute_DetachVolume :: "World \<Rightarrow> Action \<Rightarrow> go_error + Evidence" where
  "execute_DetachVolume w a = need_volume a (\<lambda>ref.
     Inr (report EvidenceVolumeDetached (vr_Name ref) [(''allocation'', ac_Target a)]))"

definition execute_SnapshotVolume :: "World \<Rightarrow> Action \<Rightarrow> go_error + Evidence" where
  "execute_SnapshotVolume w a = need_volume a (\<lambda>ref.
     Inr (report EvidenceVolumeSnapshotted (vr_Name ref)
       [(''snapshot'', vr_Name ref @ ''-simulated''), (''checksum'', ''simulated'')]))"

definition execute_QuiesceVolume :: "World \<Rightarrow> Action \<Rightarrow> go_error + Evidence" where
  "execute_QuiesceVolume w a = need_volume a (\<lambda>ref.
     Inr (report EvidenceVolumeQuiesced (vr_Name ref) [(''to'', ac_Node a)]))"

definition execute_TransferVolume :: "World \<Rightarrow> Action \<Rightarrow> go_error + Evidence" where
  "execute_TransferVolume w a = need_volume a (\<lambda>ref.
     case map_of (Volumes w) (vr_Name ref) of
       None \<Rightarrow> Inl (Vol No_handoff)
     | Some v \<Rightarrow> (case v_Handoff v of
         None \<Rightarrow> Inl (Vol No_handoff)
       | Some h \<Rightarrow> Inr (report EvidenceVolumeTransferred (vr_Name ref)
           [(''node'', ac_Node a), (''checksum'', ho_Checksum h)])))"

definition execute_AdoptVolume :: "World \<Rightarrow> Action \<Rightarrow> go_error + Evidence" where
  "execute_AdoptVolume w a = need_volume a (\<lambda>ref.
     Inr (report EvidenceVolumeAdopted (vr_Name ref) [(''node'', ac_Node a)]))"

definition execute_DatabaseBackup :: "World \<Rightarrow> Action \<Rightarrow> go_error + Evidence" where
  "execute_DatabaseBackup w a = need_snapshot a (\<lambda>ref.
     Inr (report EvidenceDatabaseBackedUp (vr_Name ref)
       [(''label'', ac_Snapshot a), (''checksum'', ''simulated'')]))"

definition execute_VerifyBackup :: "World \<Rightarrow> Action \<Rightarrow> go_error + Evidence" where
  "execute_VerifyBackup w a = need_snapshot a (\<lambda>ref.
     if \<not> mhas (Volumes w) (vr_Name ref) then Inl (Vol Volume_missing)
     else Inr (report EvidenceBackupVerified (vr_Name ref)
       [(''snapshot'', ac_Snapshot a), (''verified'', ''true'')]))"

definition execute_ApplyPolicy :: "(string \<Rightarrow> string) \<Rightarrow> World \<Rightarrow> Action \<Rightarrow> go_error + Evidence" where
  "execute_ApplyPolicy digest w a = (case ac_Policy a of
       None \<Rightarrow> Inl (Nod Policy_nil)
     | Some cp \<Rightarrow> Inr (report EvidencePolicyApplied (ac_Node a)
         [(''fingerprint'', Policy_Fingerprint digest cp), (''rules'', itoa (int (length (cp_Rules cp))))]))"

definition execute_PublishZone :: "(string \<Rightarrow> string) \<Rightarrow> World \<Rightarrow> Action \<Rightarrow> go_error + Evidence" where
  "execute_PublishZone digest w a = (case ac_Zone a of
       None \<Rightarrow> Inl (Nod Zone_nil)
     | Some z \<Rightarrow> Inr (report EvidenceZonePublished (ac_Node a)
         [(''names'', itoa (int (length (zone_Records z)))), (''fingerprint'', Zone_Fingerprint digest z)]))"

definition execute_CollectImages :: "World \<Rightarrow> Action \<Rightarrow> go_error + Evidence" where
  "execute_CollectImages w a =
     Inr (report EvidenceImagesCollected (ac_Node a)
       [(''reclaimed'', []), (''protected'', join [CHR 0x0A] (ProtectedImages w)), (''dry_run'', btoa (ac_DryRun a))])"

definition execute_PruneSnapshots :: "World \<Rightarrow> Action \<Rightarrow> go_error + Evidence" where
  "execute_PruneSnapshots w a = need_volume a (\<lambda>ref. case map_of (Volumes w) (vr_Name ref) of
       None \<Rightarrow> Inl (Vol Volume_missing)
     | Some v \<Rightarrow>
         let removable = prunableSnapshots v (ac_Retain a)
         in Inr (report EvidenceSnapshotsPruned (vr_Name ref)
              [(''removed'', join [CHR 0x0A] removable),
               (''retained'', itoa (int (length (v_SnapshotOrder v)) - int (length removable))),
               (''dry_run'', btoa (ac_DryRun a))]))"

definition execute_BackupSnapshot :: "World \<Rightarrow> Action \<Rightarrow> go_error + Evidence" where
  "execute_BackupSnapshot w a = need_snapshot a (\<lambda>ref.
     Inr (report EvidenceVolumeBackedUp (vr_Name ref)
       [(''snapshot'', ac_Snapshot a), (''location'', ''simulated'')]))"

definition execute_RestoreSnapshot :: "World \<Rightarrow> Action \<Rightarrow> go_error + Evidence" where
  "execute_RestoreSnapshot w a = need_snapshot a (\<lambda>ref.
     Inr (report EvidenceVolumeRestored (vr_Name ref) [(''snapshot'', ac_Snapshot a)]))"

definition execute_MountSecret :: "World \<Rightarrow> Action \<Rightarrow> go_error + Evidence" where
  "execute_MountSecret w a = need_allocation w a (\<lambda>al. case ac_Secret a of
       None \<Rightarrow> Inl (Alloc Secret_nil)
     | Some s \<Rightarrow> Inr (report EvidenceSecretMounted (ac_Target a)
         [(''secret'', sr_Name s), (''version'', sr_Version s), (''mount_path'', sr_MountPath s)]))"

text \<open>Go's \<open>/\<close> and \<open>%\<close> truncate towards zero.\<close>

definition quot_go :: "int \<Rightarrow> int \<Rightarrow> int" where
  "quot_go a b = (if a < 0 then - ((- a) div b) else a div b)"

definition rem_go :: "int \<Rightarrow> int \<Rightarrow> int" where
  "rem_go a b = a - quot_go a b * b"

definition execute_AttachNetwork :: "World \<Rightarrow> Action \<Rightarrow> go_error + Evidence" where
  "execute_AttachNetwork w a = need_allocation w a (\<lambda>al.
     Inr (report EvidenceNetworkAttached (ac_Target a)
       [(''node'', al_Node al),
        (''address'', ''10.42.'' @ itoa (quot_go (al_Replica al) 256 + 1) @ ''.'' @ itoa (rem_go (al_Replica al) 256 + 2))]))"

definition execute_StartAllocation :: "World \<Rightarrow> Action \<Rightarrow> go_error + Evidence" where
  "execute_StartAllocation w a = need_allocation w a (\<lambda>al.
     Inr (report EvidenceAllocationRunning (ac_Target a) [(''node'', al_Node al), (''phase'', ''running'')]))"

definition execute_StopAllocation :: "World \<Rightarrow> Action \<Rightarrow> go_error + Evidence" where
  "execute_StopAllocation w a = need_allocation w a (\<lambda>al.
     Inr (report EvidenceAllocationStopped (ac_Target a) [(''phase'', ''stopped'')]))"

definition execute_DeleteAllocation :: "World \<Rightarrow> Action \<Rightarrow> go_error + Evidence" where
  "execute_DeleteAllocation w a = need_allocation w a (\<lambda>al.
     Inr (report EvidenceAllocationDeleted (ac_Target a) [(''deleted'', ''true'')]))"

definition execute_GrantTools :: "World \<Rightarrow> Action \<Rightarrow> go_error + Evidence" where
  "execute_GrantTools w a = need_allocation w a (\<lambda>al.
     Inr (report EvidenceToolsGranted (ac_Target a) [(''count'', itoa (int (length (ac_Tools a))))]))"

definition execute_DrainAllocation :: "World \<Rightarrow> Action \<Rightarrow> go_error + Evidence" where
  "execute_DrainAllocation w a = need_allocation w a (\<lambda>al.
     Inr (report EvidenceAllocationDrained (ac_Target a) [(''drained'', ''true'')]))"

definition execute_PublishRoute :: "World \<Rightarrow> Action \<Rightarrow> go_error + Evidence" where
  "execute_PublishRoute w a =
     Inr (report EvidenceRouteReachable (ac_Target a)
       [(''workload'', ac_Workload a), (''exposure'', ac_Exposure a), (''port'', itoa (ac_Port a))])"

definition Execute :: "(string \<Rightarrow> string) \<Rightarrow> World \<Rightarrow> Action \<Rightarrow> go_error + Evidence" where
  "Execute digest w a = (case ac_Kind a of
       ActionPullImage \<Rightarrow> execute_PullImage w a
     | ActionCreateAllocation \<Rightarrow> execute_CreateAllocation w a
     | ActionCreateVolume \<Rightarrow> execute_CreateVolume w a
     | ActionAttachVolume \<Rightarrow> execute_AttachVolume w a
     | ActionCordonNode \<Rightarrow> execute_Cordon w a
     | ActionUncordonNode \<Rightarrow> execute_Cordon w a
     | ActionDetachVolume \<Rightarrow> execute_DetachVolume w a
     | ActionSnapshotVolume \<Rightarrow> execute_SnapshotVolume w a
     | ActionQuiesceVolume \<Rightarrow> execute_QuiesceVolume w a
     | ActionTransferVolume \<Rightarrow> execute_TransferVolume w a
     | ActionAdoptVolume \<Rightarrow> execute_AdoptVolume w a
     | ActionDatabaseBackup \<Rightarrow> execute_DatabaseBackup w a
     | ActionVerifyBackup \<Rightarrow> execute_VerifyBackup w a
     | ActionApplyPolicy \<Rightarrow> execute_ApplyPolicy digest w a
     | ActionPublishZone \<Rightarrow> execute_PublishZone digest w a
     | ActionCollectImages \<Rightarrow> execute_CollectImages w a
     | ActionPruneSnapshots \<Rightarrow> execute_PruneSnapshots w a
     | ActionBackupSnapshot \<Rightarrow> execute_BackupSnapshot w a
     | ActionRestoreSnapshot \<Rightarrow> execute_RestoreSnapshot w a
     | ActionMountSecret \<Rightarrow> execute_MountSecret w a
     | ActionAttachNetwork \<Rightarrow> execute_AttachNetwork w a
     | ActionStartAllocation \<Rightarrow> execute_StartAllocation w a
     | ActionStopAllocation \<Rightarrow> execute_StopAllocation w a
     | ActionDeleteAllocation \<Rightarrow> execute_DeleteAllocation w a
     | ActionGrantTools \<Rightarrow> execute_GrantTools w a
     | ActionDrainAllocation \<Rightarrow> execute_DrainAllocation w a
     | ActionPublishRoute \<Rightarrow> execute_PublishRoute w a
     | _ \<Rightarrow> Inl (Plan Unsupported_action))"

lemmas execute_defs =
  execute_PullImage_def execute_CreateAllocation_def execute_CreateVolume_def execute_AttachVolume_def
  execute_Cordon_def execute_DetachVolume_def execute_SnapshotVolume_def execute_QuiesceVolume_def
  execute_TransferVolume_def execute_AdoptVolume_def execute_DatabaseBackup_def execute_VerifyBackup_def
  execute_ApplyPolicy_def execute_PublishZone_def execute_CollectImages_def execute_PruneSnapshots_def
  execute_BackupSnapshot_def execute_RestoreSnapshot_def execute_MountSecret_def execute_AttachNetwork_def
  execute_StartAllocation_def execute_StopAllocation_def execute_DeleteAllocation_def
  execute_GrantTools_def execute_DrainAllocation_def execute_PublishRoute_def

definition ObserveReadiness :: "World \<Rightarrow> ProbeTarget \<Rightarrow> go_error + (bool \<times> string smap)" where
  "ObserveReadiness w t = (case map_of (Allocations w) (pt_Allocation t) of
       None \<Rightarrow> Inl (Alloc Allocation_missing)
     | Some al \<Rightarrow>
         let reachable = (case map_of (Nodes w) (al_Node al) of None \<Rightarrow> False | Some n \<Rightarrow> n_Healthy n)
         in Inr (reachable \<and> al_Phase al = AllocationRunning,
              [(''phase'', (case al_Phase al of AllocationCreated \<Rightarrow> ''created''
                  | AllocationRunning \<Rightarrow> ''running'' | AllocationStopped \<Rightarrow> ''stopped'')),
               (''observer'', ''memory-executor'')]))"

section \<open>Projections\<close>

text \<open>\<open>World.normalize\<close> replaces absent maps by empty ones, which are the same association list.\<close>

definition normalize :: "World \<Rightarrow> World" where
  "normalize w = w"

record MemoryExecutor =
  me_world :: World

definition NewMemoryExecutor :: "World \<Rightarrow> MemoryExecutor" where
  "NewMemoryExecutor w = \<lparr>me_world = cloneWorld (normalize w)\<rparr>"

definition Memory_World :: "MemoryExecutor \<Rightarrow> World" where
  "Memory_World m = cloneWorld (me_world m)"

definition Memory_Project :: "MemoryExecutor \<Rightarrow> Evidence \<Rightarrow> go_error + MemoryExecutor" where
  "Memory_Project m e = (case Project (me_world m) e of
       Inl err \<Rightarrow> Inl err | Inr next \<Rightarrow> Inr (m\<lparr>me_world := next\<rparr>))"

record DurableProjector =
  dp_base :: World
  dp_world :: World

text \<open>A replay error names the position and the projection's own error; a source that cannot be read
  is its own error.  \<open>None\<close> stands for an absent source.\<close>

datatype replay_error = Source_failed | Replay_failed nat EvidenceKind string go_error

type_synonym evidence_source = "(unit + Evidence list) option"

fun replay :: "nat \<Rightarrow> World \<Rightarrow> Evidence list \<Rightarrow> replay_error + World" where
  "replay index w [] = Inr w"
| "replay index w (e # es) = (case Project w e of
     Inl err \<Rightarrow> Inl (Replay_failed (index + 1) (e_Kind e) (e_Target e) err)
   | Inr next \<Rightarrow> replay (index + 1) next es)"

definition NewDurableProjector :: "World \<Rightarrow> evidence_source \<Rightarrow> replay_error + DurableProjector" where
  "NewDurableProjector base source =
     (let base = normalize base; p = \<lparr>dp_base = cloneWorld base, dp_world = cloneWorld base\<rparr> in
      case source of
        None \<Rightarrow> Inr p
      | Some (Inl _) \<Rightarrow> Inl Source_failed
      | Some (Inr evidence) \<Rightarrow> (case replay 0 (dp_world p) evidence of
            Inl err \<Rightarrow> Inl err | Inr w \<Rightarrow> Inr (p\<lparr>dp_world := w\<rparr>)))"

definition Durable_World :: "DurableProjector \<Rightarrow> World" where
  "Durable_World p = cloneWorld (dp_world p)"

definition Durable_Project :: "DurableProjector \<Rightarrow> Evidence \<Rightarrow> go_error + DurableProjector" where
  "Durable_Project p e = (case Project (dp_world p) e of
       Inl err \<Rightarrow> Inl err | Inr next \<Rightarrow> Inr (p\<lparr>dp_world := next\<rparr>))"

definition Rebuild :: "DurableProjector \<Rightarrow> evidence_source \<Rightarrow> replay_error + DurableProjector" where
  "Rebuild p source =
     (let rebuilt = cloneWorld (dp_base p) in
      case source of
        None \<Rightarrow> Inr (p\<lparr>dp_world := rebuilt\<rparr>)
      | Some (Inl _) \<Rightarrow> Inl Source_failed
      | Some (Inr evidence) \<Rightarrow> (case replay 0 rebuilt evidence of
            Inl err \<Rightarrow> Inl err | Inr w \<Rightarrow> Inr (p\<lparr>dp_world := w\<rparr>)))"

section \<open>The contract of a projection\<close>

text \<open>What the engine relies on: the world it reads advances exactly as \<open>Project\<close> says.\<close>

locale projector =
  fixes view :: "'p \<Rightarrow> World"
    and advance :: "'p \<Rightarrow> Evidence \<Rightarrow> go_error + 'p"
  assumes advance_ok: "advance p e = Inr p' \<Longrightarrow> Project (view p) e = Inr (view p')"
    and advance_error: "advance p e = Inl err \<Longrightarrow> Project (view p) e = Inl err"
begin

lemma advance_all: "run advance p es = Inr p' \<Longrightarrow> run Project (view p) es = Inr (view p')"
proof (induction es arbitrary: p)
  case (Cons e es)
  then obtain q where "advance p e = Inr q" "run advance q es = Inr p'"
    by (cases "advance p e") auto
  then show ?case using Cons.IH advance_ok by simp
qed simp

lemma advance_all_error: "run advance p es = Inl err \<Longrightarrow> run Project (view p) es = Inl err"
proof (induction es arbitrary: p)
  case (Cons e es)
  show ?case
  proof (cases "advance p e")
    case (Inl err')
    then show ?thesis using Cons.prems advance_error [OF Inl] by simp
  next
    case (Inr q)
    then show ?thesis using Cons advance_ok [OF Inr] by simp
  qed
qed simp

end

interpretation mem: projector Memory_World Memory_Project
  by unfold_locales (auto simp: Memory_World_def Memory_Project_def split: sum.splits)

interpretation dur: projector Durable_World Durable_Project
  by unfold_locales (auto simp: Durable_World_def Durable_Project_def split: sum.splits)

lemma replay_run: "replay i w es = Inr w' \<longleftrightarrow> run Project w es = Inr w'"
  by (induction es arbitrary: i w) (auto split: sum.splits)

lemma replay_error: "replay i w es = Inl err \<Longrightarrow> \<exists>k e. k < length es \<and> es ! k = e \<and>
    (\<exists>w' perr. run Project w (take k es) = Inr w' \<and> Project w' e = Inl perr \<and>
      err = Replay_failed (i + k + 1) (e_Kind e) (e_Target e) perr)"
proof (induction es arbitrary: i w)
  case (Cons e es)
  show ?case
  proof (cases "Project w e")
    case (Inl perr)
    then show ?thesis using Cons.prems by (intro exI [of _ 0]) auto
  next
    case (Inr w1)
    then obtain k e' w' perr where "k < length es" "es ! k = e'" "run Project w1 (take k es) = Inr w'"
      "Project w' e' = Inl perr" "err = Replay_failed (i + 1 + k + 1) (e_Kind e') (e_Target e') perr"
      using Cons.IH [of "i + 1" w1] Cons.prems by auto
    then show ?thesis using Inr by (intro exI [of _ "Suc k"]) auto
  qed
qed simp

lemma dp_base_run: "run Durable_Project p es = Inr p' \<Longrightarrow> dp_base p' = dp_base p"
proof (induction es arbitrary: p)
  case (Cons e es)
  then obtain q where "Durable_Project p e = Inr q" "run Durable_Project q es = Inr p'"
    by (cases "Durable_Project p e") auto
  moreover from this(1) have "dp_base q = dp_base p" by (auto simp: Durable_Project_def split: sum.splits)
  ultimately show ?case using Cons.IH by simp
qed simp

end
