(* ===== verification/Executor_Simulation.thy ===== *)
theory Executor_Simulation
  imports Control_Executor
begin

text \<open>
  The kernel authorizes a plan by simulating it; the engine executes the plan and projects the
  evidence.  This theory relates the two: on the part of the world the authorization depends on
  (\<open>placement_view\<close>), executing an accepted action on the in-memory data plane and projecting what
  it reports agrees with \<open>simulateAction\<close>.
\<close>

section \<open>What the two worlds agree on\<close>

definition alloc_view :: "Allocation \<Rightarrow> _" where
  "alloc_view al = (al_Workload al, al_Replica al, al_Node al, al_Image al, al_Resources al, al_Phase al,
     al_Volumes al, al_Secrets al, al_Draining al, al_Task al)"

definition node_view :: "Node \<Rightarrow> _" where
  "node_view n = (n_ID n, n_Capacity n, n_Used n, n_Images n, n_Healthy n, n_Cordoned n)"

definition volume_view :: "Volume \<Rightarrow> _" where
  "volume_view v = (v_Node v, v_Owner v, v_Generation v)"

abbreviation view_map :: "('v \<Rightarrow> 'x) \<Rightarrow> ('k, 'v) gomap \<Rightarrow> ('k, 'x) gomap" where
  "view_map f \<equiv> map (map_prod id f)"

definition placement_view :: "World \<Rightarrow> _" where
  "placement_view w = (view_map alloc_view (Allocations w), view_map node_view (Nodes w),
     view_map volume_view (Volumes w), Routes w)"

lemma view_map_mput [simp]: "view_map f (mput k v m) = mput k (f v) (view_map f m)"
  by (induction m) auto

lemma view_map_mdel [simp]: "view_map f (mdel k m) = mdel k (view_map f m)"
  by (induction m) auto

text \<open>Writing a value whose view is the one already there changes nothing.\<close>

lemma mput_same: "map_of m k = Some v \<Longrightarrow> mput k v m = m"
  by (induction m) (auto split: if_splits)

lemma view_mput_same: "map_of m k = Some u \<Longrightarrow> f v = f u \<Longrightarrow> mput k (f v) (view_map f m) = view_map f m"
proof (induction m)
  case (Cons p m)
  then show ?case by (cases p) (auto split: if_splits)
qed simp

section \<open>Reading back what was reported\<close>

lemma sscanf_itoa:
  assumes "in64 i"
  shows "sscanf_d (itoa i) = Some i"
proof (cases "i < 0")
  case True
  have "takeWhile is_digit (utoa (nat (- i))) = utoa (nat (- i))"
    using utoa_digits [of _ "nat (- i)"] by (simp add: takeWhile_eq_all_conv)
  note [simp] = this
  show ?thesis using True assms by (simp add: itoa_def is_blank_def)
next
  case False
  then obtain c cs where c: "utoa (nat i) = c # cs" by (cases "utoa (nat i)") auto
  then have d: "is_digit c" using utoa_digits [of c "nat i"] by simp
  then have "\<not> is_blank c" "c \<noteq> CHR ''-''" "c \<noteq> CHR ''+''" by (auto simp: is_digit_def is_blank_def)
  moreover have "takeWhile is_digit cs = cs"
    using utoa_digits [of _ "nat i"] c by (simp add: takeWhile_eq_all_conv)
  note [simp] = this
  ultimately show ?thesis
    using False assms c d parse_nat_utoa [of "nat i"] by (simp add: itoa_def)
qed

lemma observedInt_itoa: "obs e k = itoa i \<Longrightarrow> in64 i \<Longrightarrow> observedInt e k = i"
  by (simp add: observedInt_def sscanf_itoa)

section \<open>The simulation theorem\<close>

definition action_sane :: "Action \<Rightarrow> bool" where
  "action_sane a \<longleftrightarrow> ac_Target a \<noteq> [] \<and> in64 (ac_Replica a) \<and> in64 (ac_Port a) \<and>
     in64 (CPUMillis (ac_Resources a)) \<and> in64 (MemoryMB (ac_Resources a)) \<and> in64 (int (length (ac_Tools a))) \<and>
     (ac_Kind a = ActionCreateAllocation \<longrightarrow> 1 \<le> CPUMillis (ac_Resources a) \<and> 1 \<le> MemoryMB (ac_Resources a)) \<and>
     (ac_Kind a = ActionQuiesceVolume \<longrightarrow> ac_Node a \<noteq> []) \<and>
     (case ac_Volume a of None \<Rightarrow> True | Some ref \<Rightarrow> vr_Name ref \<noteq> []) \<and>
     (case ac_Secret a of None \<Rightarrow> True | Some s \<Rightarrow> sr_Name s \<noteq> [] \<and> sr_Version s \<noteq> [])"

definition world_sane :: "World \<Rightarrow> bool" where
  "world_sane w \<longleftrightarrow>
     (\<forall>i n. map_of (Nodes w) i = Some n \<longrightarrow> n_ID n = i) \<and>
     (\<forall>i v. map_of (Volumes w) i = Some v \<longrightarrow>
        (case v_Handoff v of None \<Rightarrow> True | Some h \<Rightarrow> ho_Phase h = HandoffSnapshotted \<longrightarrow> ho_Checksum h \<noteq> []) \<and>
        (case map_of (v_Snapshots v) (i @ ''-simulated'') of None \<Rightarrow> True | Some c \<Rightarrow> c = ''simulated''))"

lemma world_sane_volume:
  "world_sane w \<Longrightarrow> map_of (Volumes w) i = Some v \<Longrightarrow>
    (case v_Handoff v of None \<Rightarrow> True | Some h \<Rightarrow> ho_Phase h = HandoffSnapshotted \<longrightarrow> ho_Checksum h \<noteq> []) \<and>
    (case map_of (v_Snapshots v) (i @ ''-simulated'') of None \<Rightarrow> True | Some c \<Rightarrow> c = ''simulated'')"
  unfolding world_sane_def by blast

text \<open>The engine stamps evidence that carries no time before projecting it.\<close>

definition stamped :: "time \<Rightarrow> Evidence \<Rightarrow> Evidence" where
  "stamped t e = (if IsZero (e_ObservedAt e) then e\<lparr>e_ObservedAt := t\<rparr> else e)"

definition predicted :: "(string \<Rightarrow> string) \<Rightarrow> time \<Rightarrow> World \<Rightarrow> Action \<Rightarrow> bool" where
  "predicted digest t w a \<longleftrightarrow> (\<exists>e w' ws. Execute digest w a = Inr e \<and> Project w (stamped t e) = Inr w' \<and>
     simulateAction w a = Inr ws \<and> placement_view w' = placement_view ws)"

lemma projected_view:
  "projectInto w e = Inr w1 \<Longrightarrow> \<exists>w'. Project w e = Inr w' \<and> placement_view w' = placement_view w1"
  by (auto simp: Project_def placement_view_def)

text \<open>The same, as one computation.\<close>

definition predicts :: "(string \<Rightarrow> string) \<Rightarrow> time \<Rightarrow> World \<Rightarrow> Action \<Rightarrow> bool" where
  "predicts digest t w a = (case Execute digest w a of Inl _ \<Rightarrow> False
    | Inr e \<Rightarrow> (case projectInto w (stamped t e) of Inl _ \<Rightarrow> False
      | Inr w1 \<Rightarrow> (case simulateAction w a of Inl _ \<Rightarrow> False
        | Inr ws \<Rightarrow> placement_view w1 = placement_view ws)))"

lemma predictedI: "predicts digest t w a \<Longrightarrow> predicted digest t w a"
  unfolding predicted_def predicts_def using projected_view by (fastforce split: sum.splits)

lemma stamped_report [simp]: "stamped t (report k i os) = (report k i os)\<lparr>e_ObservedAt := t\<rparr>"
  by (simp add: stamped_def report_def IsZero_def)

lemma obs_report [simp]: "obs ((report k i os)\<lparr>e_ObservedAt := t\<rparr>) key = mget_str os key"
  by (simp add: obs_def report_def)

lemma report_fields [simp]:
  "e_Kind ((report k i os)\<lparr>e_ObservedAt := t\<rparr>) = k" "e_Target ((report k i os)\<lparr>e_ObservedAt := t\<rparr>) = i"
  "e_ObservedAt ((report k i os)\<lparr>e_ObservedAt := t\<rparr>) = t"
  by (simp_all add: report_def)

lemma placement_view_records [simp]:
  "placement_view (recordDisruption w al k t) = placement_view w"
  by (simp add: placement_view_def recordDisruption_def Let_def)

lemmas view_defs = placement_view_def alloc_view_def node_view_def volume_view_def
lemma set_node_view:
  "map_of (Nodes w) i = Some n \<Longrightarrow> node_view n' = node_view n \<Longrightarrow> placement_view (set_node i n' w) = placement_view w"
  by (simp add: placement_view_def view_mput_same)

lemma set_vol_view:
  "map_of (Volumes w) i = Some v \<Longrightarrow> volume_view v' = volume_view v \<Longrightarrow> placement_view (set_vol i v' w) = placement_view w"
  by (simp add: placement_view_def view_mput_same)

lemma set_vol_views:
  "volume_view v = volume_view v' \<Longrightarrow> placement_view (set_vol i v w) = placement_view (set_vol i v' w)"
  by (simp add: placement_view_def)

lemmas act_defs = predicts_def Execute_def need_defs simulateAction_def projectInto_def mhas_def mget_str_def

text \<open>Pulling, creating and mounting.\<close>

lemma predicts_PullImage:
  assumes "ac_Kind a = ActionPullImage" "validatePullImage goal w a = None"
  shows "predicts digest t w a"
proof -
  have "ac_Image a \<noteq> []" using assms(2) by (auto simp: validatePullImage_def split: option.splits if_splits)
  then show ?thesis
    using assms by (auto simp: act_defs execute_PullImage_def simulate_PullImage_def project_ImagePresent_def
        validatePullImage_def split: option.splits)
qed

lemma predicts_CreateAllocation:
  assumes "ac_Kind a = ActionCreateAllocation" "validateCreateAllocation wall goal w a = None"
    "action_sane a" "world_sane w"
  shows "predicts digest t w a"
proof -
  obtain n where n: "map_of (Nodes w) (ac_Node a) = Some n" "map_of (Allocations w) (ac_Target a) = None"
    using assms(2) by (auto simp: validateCreateAllocation_def mhas_def split: option.splits if_splits)
  have id: "n_ID n = ac_Node a" using assms(4) n(1) by (simp add: world_sane_def)
  obtain os where e: "execute_CreateAllocation w a = Inr (report EvidenceAllocationCreated (ac_Target a) os)"
    and os: "mget_str os ''node'' = ac_Node a" "mget_str os ''workload'' = ac_Workload a"
      "mget_str os ''image'' = ac_Image a" "mget_str os ''replica'' = itoa (ac_Replica a)"
      "mget_str os ''cpu_millis'' = itoa (CPUMillis (ac_Resources a))"
      "mget_str os ''memory_mb'' = itoa (MemoryMB (ac_Resources a))"
    using n by (auto simp: execute_CreateAllocation_def need_node_def mhas_def mget_str_def Let_def)
  let ?e = "(report EvidenceAllocationCreated (ac_Target a) os)\<lparr>e_ObservedAt := t\<rparr>"
  have ints: "observedInt ?e ''replica'' = ac_Replica a"
      "observedInt ?e ''cpu_millis'' = CPUMillis (ac_Resources a)"
      "observedInt ?e ''memory_mb'' = MemoryMB (ac_Resources a)"
    using os assms(3) by (auto intro!: observedInt_itoa simp: action_sane_def)
  have "observedResources ?e = Inr (ac_Resources a)"
    using ints assms(1,3) by (simp add: observedResources_def Let_def action_sane_def)
  then show ?thesis
    using assms(1,3) n id os ints e
    by (simp add: predicts_def Execute_def simulateAction_def simulate_CreateAllocation_def projectInto_def
        project_AllocationCreated_def mhas_def Let_def view_defs action_sane_def)
qed

lemma predicts_MountSecret:
  assumes "ac_Kind a = ActionMountSecret" "validateMountSecret goal w a = None" "action_sane a"
  shows "predicts digest t w a"
  using assms by (auto simp: act_defs execute_MountSecret_def simulate_MountSecret_def project_SecretMounted_def
      validateMountSecret_def action_sane_def split: option.splits if_splits)

lemma predicts_GrantTools:
  assumes "ac_Kind a = ActionGrantTools" "validateGrantTools wall goal w a = None" "action_sane a"
  shows "predicts digest t w a"
proof -
  let ?e = "(report EvidenceToolsGranted (ac_Target a) [(''count'', itoa (int (length (ac_Tools a))))])\<lparr>e_ObservedAt := t\<rparr>"
  have "observedInt ?e ''count'' = int (length (ac_Tools a))"
    using assms(3) by (intro observedInt_itoa) (auto simp: action_sane_def mget_str_def)
  then show ?thesis
    using assms by (auto simp: act_defs execute_GrantTools_def simulate_GrantTools_def project_ToolsGranted_def
        validateGrantTools_def view_defs split: option.splits if_splits)
qed

lemma predicts_AttachNetwork:
  assumes "ac_Kind a = ActionAttachNetwork" "validateAttachNetwork goal w a = None"
  shows "predicts digest t w a"
  using assms by (auto simp: act_defs execute_AttachNetwork_def simulate_AttachNetwork_def project_NetworkAttached_def
      validateAttachNetwork_def view_defs split: option.splits if_splits)

text \<open>The life of an allocation.\<close>

lemma predicts_StartAllocation:
  assumes "ac_Kind a = ActionStartAllocation" "validateStartAllocation goal w a = None"
  shows "predicts digest t w a"
  using assms by (auto simp: act_defs execute_StartAllocation_def simulate_StartAllocation_def
      project_AllocationRunning_def validateStartAllocation_def view_defs split: option.splits)

lemma predicts_StopAllocation:
  assumes "ac_Kind a = ActionStopAllocation" "validateStopAllocation wall goal w a = None"
  shows "predicts digest t w a"
  using assms by (auto simp: act_defs execute_StopAllocation_def simulate_StopAllocation_def
      project_AllocationStopped_def validateStopAllocation_def recordDisruption_def Let_def view_defs split: option.splits)

lemma predicts_DeleteAllocation:
  assumes "ac_Kind a = ActionDeleteAllocation" "validateDeleteAllocation wall goal w a = None"
  shows "predicts digest t w a"
  using assms by (auto simp: act_defs execute_DeleteAllocation_def simulate_DeleteAllocation_def
      project_AllocationDeleted_def validateDeleteAllocation_def recordDisruption_def Let_def view_defs split: option.splits)

lemma predicts_DrainAllocation:
  assumes "ac_Kind a = ActionDrainAllocation" "validateDrainAllocation goal w a = None"
  shows "predicts digest t w a"
  using assms by (auto simp: act_defs execute_DrainAllocation_def simulate_DrainAllocation_def
      project_AllocationDrained_def validateDrainAllocation_def recordDisruption_def Let_def view_defs split: option.splits)

lemma predicts_PublishRoute:
  assumes "ac_Kind a = ActionPublishRoute" "action_sane a"
  shows "predicts digest t w a"
proof -
  let ?e = "(report EvidenceRouteReachable (ac_Target a) [(''workload'', ac_Workload a), (''exposure'', ac_Exposure a),
      (''port'', itoa (ac_Port a))])\<lparr>e_ObservedAt := t\<rparr>"
  have "observedInt ?e ''port'' = ac_Port a"
    using assms(2) by (intro observedInt_itoa) (auto simp: action_sane_def mget_str_def)
  then show ?thesis
    using assms by (auto simp: act_defs execute_PublishRoute_def simulate_PublishRoute_def project_RouteReachable_def
        action_sane_def view_defs)
qed

text \<open>Nodes.\<close>

lemma predicts_Cordon:
  assumes "ac_Kind a = ActionCordonNode \<or> ac_Kind a = ActionUncordonNode" "mhas (Nodes w) (ac_Target a)" "action_sane a"
  shows "predicts digest t w a"
  using assms by (auto simp: act_defs execute_Cordon_def CordonEvidence_def simulate_CordonNode_def simulate_UncordonNode_def
      project_NodeCordoned_def project_NodeUncordoned_def stamped_def IsZero_def obs_def action_sane_def view_defs)

lemma predicts_ApplyPolicy:
  assumes "ac_Kind a = ActionApplyPolicy" "validateApplyPolicy goal w a = None"
  shows "predicts digest t w a"
  using assms by (auto simp: act_defs execute_ApplyPolicy_def project_PolicyApplied_def validateApplyPolicy_def
      node_view_def intro!: set_node_view split: option.splits if_splits)

lemma predicts_PublishZone:
  assumes "ac_Kind a = ActionPublishZone" "validatePublishZone goal w a = None"
  shows "predicts digest t w a"
  using assms by (auto simp: act_defs execute_PublishZone_def project_ZonePublished_def validatePublishZone_def
      node_view_def intro!: set_node_view split: option.splits if_splits)

lemma predicts_CollectImages:
  assumes "ac_Kind a = ActionCollectImages" "validateCollectImages goal w a = None"
  shows "predicts digest t w a"
  using assms by (auto simp: act_defs execute_CollectImages_def project_ImagesCollected_def validateCollectImages_def
      splitLines_def node_view_def intro!: set_node_view split: option.splits if_splits)

text \<open>Volumes.\<close>

lemma predicts_CreateVolume:
  assumes "ac_Kind a = ActionCreateVolume" "validateCreateVolume goal w a = None" "action_sane a"
  shows "predicts digest t w a"
  using assms by (auto simp: act_defs execute_CreateVolume_def simulate_CreateVolume_def project_VolumeCreated_def
      validateCreateVolume_def action_sane_def view_defs split: option.splits if_splits)

lemma predicts_AttachVolume:
  assumes "ac_Kind a = ActionAttachVolume" "validateAttachVolume goal w a = None" "action_sane a"
  shows "predicts digest t w a"
  using assms by (auto simp: act_defs execute_AttachVolume_def simulate_AttachVolume_def project_VolumeAttached_def
      validateAttachVolume_def action_sane_def Let_def split: option.splits if_splits)

lemma predicts_DetachVolume:
  assumes "ac_Kind a = ActionDetachVolume" "validateDetachVolume goal w a = None"
  shows "predicts digest t w a"
  using assms by (auto simp: act_defs execute_DetachVolume_def simulate_DetachVolume_def project_VolumeDetached_def
      validateDetachVolume_def Let_def split: option.splits if_splits)

lemma predicts_SnapshotVolume:
  assumes "ac_Kind a = ActionSnapshotVolume" "validateSnapshotVolume goal w a = None" "world_sane w"
  shows "predicts digest t w a"
proof -
  obtain ref v where r: "ac_Volume a = Some ref" "map_of (Volumes w) (vr_Name ref) = Some v"
    using assms(2) by (auto simp: validateSnapshotVolume_def split: option.splits)
  then have "case map_of (v_Snapshots v) (vr_Name ref @ ''-simulated'') of None \<Rightarrow> True | Some c \<Rightarrow> c = ''simulated''"
    using world_sane_volume [OF assms(3)] by blast
  then show ?thesis using assms(1) r
    by (auto simp: act_defs execute_SnapshotVolume_def simulate_SnapshotVolume_def project_VolumeSnapshotted_def
        Let_def volume_view_def intro!: set_vol_views split: option.splits)
qed

lemma predicts_handoff:
  assumes "ac_Kind a = ActionQuiesceVolume \<and> validateQuiesceVolume wall goal w a = None \<or>
      ac_Kind a = ActionTransferVolume \<and> validateTransferVolume goal w a = None \<or>
      ac_Kind a = ActionAdoptVolume \<and> validateAdoptVolume goal w a = None" "action_sane a" "world_sane w"
  shows "predicts digest t w a"
  using assms(1)
proof (elim disjE conjE)
  assume k: "ac_Kind a = ActionQuiesceVolume" and v: "validateQuiesceVolume wall goal w a = None"
  have "ac_Node a \<noteq> []" using assms(2) k by (simp add: action_sane_def)
  then show ?thesis using k v
    by (auto simp: act_defs execute_QuiesceVolume_def simulate_QuiesceVolume_def project_VolumeQuiesced_def
        validateQuiesceVolume_def Let_def split: option.splits if_splits)
next
  assume k: "ac_Kind a = ActionTransferVolume" and "validateTransferVolume goal w a = None"
  then obtain ref v h where r: "ac_Volume a = Some ref" "map_of (Volumes w) (vr_Name ref) = Some v"
      "v_Handoff v = Some h" "ho_Phase h = HandoffSnapshotted"
    by (auto simp: validateTransferVolume_def split: option.splits if_splits)
  then have "ho_Checksum h \<noteq> []" using world_sane_volume [OF assms(3) r(2)] by simp
  then show ?thesis using k r
    by (auto simp: act_defs execute_TransferVolume_def simulate_TransferVolume_def project_VolumeTransferred_def)
next
  assume "ac_Kind a = ActionAdoptVolume" "validateAdoptVolume goal w a = None"
  then show ?thesis
    by (auto simp: act_defs execute_AdoptVolume_def simulate_AdoptVolume_def project_VolumeAdopted_def
        validateAdoptVolume_def split: option.splits if_splits)
qed

lemma volume_view_drop: "volume_view (foldl drop_snapshot v xs) = volume_view v"
  by (induction xs arbitrary: v) (auto simp: drop_snapshot_def volume_view_def)

lemma predicts_PruneSnapshots:
  assumes "ac_Kind a = ActionPruneSnapshots" "validatePruneSnapshots goal w a = None"
  shows "predicts digest t w a"
proof -
  obtain ref v where r: "ac_Volume a = Some ref" "map_of (Volumes w) (vr_Name ref) = Some v"
    using assms(2) by (auto simp: validatePruneSnapshots_def split: option.splits)
  have last: "volume_view (u\<lparr>v_LastSnapshot := x\<rparr>) = volume_view u" for u x by (simp add: volume_view_def)
  show ?thesis using assms(1) r
    by (auto simp: act_defs execute_PruneSnapshots_def simulate_PruneSnapshots_def project_SnapshotsPruned_def
        Let_def volume_view_drop last intro!: set_vol_views set_vol_view [where v = v])
qed

lemma predicts_snapshots:
  assumes "ac_Kind a = ActionDatabaseBackup \<and> validateDatabaseBackup goal w a = None \<or>
      ac_Kind a = ActionVerifyBackup \<and> validateVerifyBackup goal w a = None \<or>
      ac_Kind a = ActionBackupSnapshot \<and> validateBackupSnapshot goal w a = None \<or>
      ac_Kind a = ActionRestoreSnapshot \<and> validateRestoreSnapshot wall goal w a = None"
  shows "predicts digest t w a"
  using assms
proof (elim disjE conjE)
  assume "ac_Kind a = ActionDatabaseBackup" "validateDatabaseBackup goal w a = None"
  then show ?thesis
    by (auto simp: act_defs execute_DatabaseBackup_def simulate_DatabaseBackup_def project_DatabaseBackedUp_def
        validateDatabaseBackup_def Let_def split: option.splits if_splits)
next
  assume "ac_Kind a = ActionVerifyBackup" "validateVerifyBackup goal w a = None"
  then show ?thesis
    by (auto simp: act_defs execute_VerifyBackup_def simulate_VerifyBackup_def project_BackupVerified_def
        validateVerifyBackup_def Let_def volume_view_def intro!: set_vol_view split: option.splits if_splits)
next
  assume "ac_Kind a = ActionBackupSnapshot" "validateBackupSnapshot goal w a = None"
  then show ?thesis
    by (auto simp: act_defs execute_BackupSnapshot_def simulate_BackupSnapshot_def project_VolumeBackedUp_def
        validateBackupSnapshot_def Let_def split: option.splits if_splits)
next
  assume "ac_Kind a = ActionRestoreSnapshot" "validateRestoreSnapshot wall goal w a = None"
  then show ?thesis
    by (auto simp: act_defs execute_RestoreSnapshot_def simulate_RestoreSnapshot_def project_VolumeRestored_def
        validateRestoreSnapshot_def Let_def split: option.splits if_splits)
qed

lemmas predicts_intros =
  predicts_PullImage predicts_CreateAllocation predicts_MountSecret predicts_GrantTools predicts_AttachNetwork
  predicts_StartAllocation predicts_StopAllocation predicts_DeleteAllocation predicts_DrainAllocation
  predicts_PublishRoute predicts_Cordon predicts_ApplyPolicy predicts_PublishZone predicts_CollectImages
  predicts_CreateVolume predicts_AttachVolume predicts_DetachVolume predicts_SnapshotVolume predicts_handoff
  predicts_PruneSnapshots predicts_snapshots

lemma validateCordon_known:
  "validateCordonNode goal w a = None \<Longrightarrow> mhas (Nodes w) (ac_Target a)"
  "validateUncordonNode goal w a = None \<Longrightarrow> mhas (Nodes w) (ac_Target a)"
  by (auto simp: validateCordonNode_def validateUncordonNode_def mhas_def split: if_splits option.splits)

lemma validated_predicts:
  assumes "validateAction wall goal w a = None" "action_sane a" "world_sane w"
  shows "predicts digest t w a"
  using assms by (cases "ac_Kind a")
    (simp_all add: validateAction_def predicts_intros validateCordon_known)

end
