(* ===== verification/Execution_Properties.thy ===== *)
theory Execution_Properties
  imports Executor_Simulation Sample_Cluster
begin

text \<open>
  Properties of executing what was authorized: the simulation the kernel decided on predicts
  execution, and the durable projection survives a restart.
\<close>

lemma replay_append:
  "replay i w es = Inr w1 \<Longrightarrow> run Project w1 fs = Inr w2 \<Longrightarrow> replay j w (es @ fs) = Inr w2"
  by (simp add: replay_run run_append)



text \<open>C26: A restart loses nothing.  A projection that was built from a log and then advanced by further
  evidence is exactly the projection built from the whole log, rebuilding it in place from the log changes
  nothing, and its world is the replay of the log over the base.\<close>

theorem restart_rebuilds_world:
  assumes "NewDurableProjector base (Some (Inr es)) = Inr p" "run Durable_Project p fs = Inr p'"
  shows "NewDurableProjector base (Some (Inr (es @ fs))) = Inr p' \<and>
    Rebuild p' (Some (Inr (es @ fs))) = Inr p' \<and> run Project base (es @ fs) = Inr (Durable_World p')"
proof -
  obtain w where w: "replay 0 base es = Inr w" "p = \<lparr>dp_base = base, dp_world = w\<rparr>"
    using assms(1) by (auto simp: NewDurableProjector_def normalize_def Let_def split: sum.splits)
  have r: "run Project w fs = Inr (dp_world p')"
    using dur.advance_all [OF assms(2)] w(2) by (simp add: Durable_World_def)
  have b: "dp_base p' = base" using dp_base_run [OF assms(2)] w(2) by simp
  have whole: "replay 0 base (es @ fs) = Inr (dp_world p')" using replay_append [OF w(1) r] .
  moreover have "run Project base (es @ fs) = Inr (dp_world p')" using whole by (simp only: replay_run)
  moreover have "\<lparr>dp_base = base, dp_world = dp_world p'\<rparr> = p'" "p'\<lparr>dp_world := dp_world p'\<rparr> = p'" using b by simp_all
  ultimately show ?thesis using b
    by (simp add: NewDurableProjector_def normalize_def Let_def Rebuild_def Durable_World_def)
qed

definition cordon_evidence :: Evidence where
  "cordon_evidence = \<lparr>e_Kind = EvidenceNodeCordoned, e_Target = ''n1'', e_Source = [], e_ObservedAt = 2000,
     e_ExpiresAt = 0, e_Observed = [(''node'', ''n1''), (''reason'', ''repair'')]\<rparr>"

definition uncordon_evidence :: Evidence where
  "uncordon_evidence = cordon_evidence\<lparr>e_Kind := EvidenceNodeUncordoned, e_ObservedAt := 3000\<rparr>"

theorem restart_rebuilds_world_witness:
  "\<exists>p'. NewDurableProjector sample_empty (Some (Inr [cordon_evidence, uncordon_evidence])) = Inr p' \<and>
     Rebuild p' (Some (Inr [cordon_evidence, uncordon_evidence])) = Inr p'"
proof -
  have "\<exists>p. NewDurableProjector sample_empty (Some (Inr [cordon_evidence])) = Inr p \<and>
      (\<exists>p'. run Durable_Project p [uncordon_evidence] = Inr p')"
    by (simp add: NewDurableProjector_def Let_def normalize_def Durable_Project_def Project_def projectInto_def
        project_NodeCordoned_def project_NodeUncordoned_def cordon_evidence_def uncordon_evidence_def
        sample_empty_def observesNothing_def)
  then obtain p p' where p: "NewDurableProjector sample_empty (Some (Inr [cordon_evidence])) = Inr p"
      "run Durable_Project p [uncordon_evidence] = Inr p'" by blast
  show ?thesis using restart_rebuilds_world [OF p] by auto
qed

end
