(* ===== verification/Traffic_Properties.thy ===== *)
theory Traffic_Properties
  imports Control_NetPolicy Sample_Cluster
begin

text \<open>
  Properties of the traffic plane: canary shares, service zones and compiled network policy.
\<close>

text \<open>The step a canary is authorized for: the one its proportion supports, held back to the number of
  hold periods that have passed.\<close>

definition held_index :: "int \<Rightarrow> Canary \<Rightarrow> int \<Rightarrow> nat" where
  "held_index proportion c h =
     (let j = canary_index proportion 0 0 (Steps c)
      in if HoldFor c > 0 \<and> h div HoldFor c < int j then nat (h div HoldFor c) else j)"

lemma held_index_le: "held_index q c h \<le> canary_index q 0 0 (Steps c)"
  by (auto simp: held_index_def Let_def)

lemma held_index_bound: "Canary_Validate (Some c) = None \<Longrightarrow> held_index q c h < length (Steps c)"
  by (rule le_less_trans [OF held_index_le]) (use Canary_Validate_steps(1) in \<open>auto intro!: canary_index_bound\<close>)

lemma held_index_reached:
  assumes "0 < HoldFor c" and "0 \<le> h"
  shows "int (held_index q c h) * HoldFor c \<le> h"
proof -
  have "int (held_index q c h) \<le> h div HoldFor c"
    using assms by (auto simp: held_index_def Let_def pos_imp_zdiv_nonneg_iff)
  then have "int (held_index q c h) * HoldFor c \<le> h div HoldFor c * HoldFor c"
    using assms(1) by (simp add: mult_right_mono)
  also have "\<dots> \<le> h" using assms(1) by (metis div_mult_mod_eq pos_mod_sign le_add_same_cancel1)
  finally show ?thesis .
qed

lemma held_index_supported:
  assumes "Canary_Validate (Some c) = None"
  shows "held_index q c h = 0 \<or> Steps c ! held_index q c h \<le> q"
proof (cases "canary_index q 0 0 (Steps c) = 0")
  case False
  let ?j = "canary_index q 0 0 (Steps c)" and ?i = "held_index q c h"
  note ok = Canary_Validate_steps [OF assms]
  have j: "?j < length (Steps c)" using ok(1) by (intro canary_index_bound) auto
  have "Steps c ! ?j \<le> q" using False canary_index_supported [of q 0 0 "Steps c"] by auto
  moreover have "Steps c ! ?i \<le> Steps c ! ?j"
    using held_index_le [of q c h] j ok(2) by (cases "?i = ?j") (auto simp: sorted_wrt_iff_nth_less less_imp_le)
  ultimately show ?thesis by simp
qed (use held_index_le [of q c h] in simp)

text \<open>What evaluation returns, given the counts of its loop.\<close>

lemma EvaluateCanary_counts:
  assumes "g_Canary goal = Some c" and "Canary_Validate (Some c) = None"
    and "foldl (canary_count (World_Now wall w) goal) (0, 0, - 1) (mvals (Allocations w)) = (T, P, h)"
  shows "EvaluateCanary wall goal w = Inr \<lparr>cs_Target = wl_Image (g_Workload goal),
      cs_Step = (if P = 0 then 100 else if T = 0 then 0
                 else Steps c ! held_index (T * 100 div (T + P)) c (if h > 0 then h else 0)),
      cs_TargetReady = T, cs_PreviousReady = P, cs_Complete = (P = 0 \<and> T > 0),
      cs_HeldFor = (if h > 0 then h else 0)\<rparr>"
  using held_index_bound [OF assms(2), of "T * 100 div (T + P)" "if h > 0 then h else 0"]
  unfolding EvaluateCanary_def Let_def assms(1,3) option.case prod.case CanaryState.simps
    held_index_def [unfolded Let_def, symmetric]
  by simp

text \<open>C30: A canary never overreaches.  For a valid canary, evaluation always returns; when nothing else serves,
  the target carries everything; while another version serves, a target with no ready replica carries nothing,
  and otherwise the authorized share is a declared step that is the first one or at most the proportion of ready
  replicas on the target, and that every ready target replica has been held for.\<close>

theorem canary_share_is_supported:
  assumes "g_Canary goal = Some c" "Canary_Validate (Some c) = None"
  shows "\<exists>st. EvaluateCanary wall goal w = Inr st \<and>
    (let now = World_Now wall w; als = mvals (Allocations w);
         T = int (length (filter (canary_side now goal True) als));
         P = int (length (filter (canary_side now goal False) als))
     in cs_TargetReady st = T \<and> cs_PreviousReady st = P \<and>
        (if P = 0 then cs_Step st = 100 else if T = 0 then cs_Step st = 0
         else \<exists>i < length (Steps c). cs_Step st = Steps c ! i \<and>
                (i = 0 \<or> Steps c ! i \<le> T * 100 div (T + P)) \<and>
                (0 < HoldFor c \<longrightarrow> (\<forall>al \<in> set als. canary_side now goal True al \<longrightarrow>
                    int i * HoldFor c \<le> ReadyFor al now))))"
proof -
  let ?now = "World_Now wall w" and ?als = "mvals (Allocations w)"
  obtain T P h where f: "foldl (canary_count ?now goal) (0, 0, - 1) ?als = (T, P, h)"
    by (cases "foldl (canary_count ?now goal) (0, 0, - 1) ?als") auto
  let ?h = "if h > 0 then h else 0"
  let ?i = "held_index (T * 100 div (T + P)) c ?h"
  have hold: "int ?i * HoldFor c \<le> ReadyFor al ?now"
    if "0 < HoldFor c" "al \<in> set ?als" "canary_side ?now goal True al" for al
  proof -
    have "?h \<le> ReadyFor al ?now" using canary_fold_held [OF f] that(2,3) ReadyFor_nonneg [of al ?now] by auto
    moreover have "int ?i * HoldFor c \<le> ?h" by (rule held_index_reached [OF that(1)]) simp
    ultimately show ?thesis by (rule order_trans [rotated])
  qed
  have share: "\<exists>i < length (Steps c). Steps c ! ?i = Steps c ! i \<and> (i = 0 \<or> Steps c ! i \<le> T * 100 div (T + P)) \<and>
      (0 < HoldFor c \<longrightarrow> (\<forall>al \<in> set ?als. canary_side ?now goal True al \<longrightarrow> int i * HoldFor c \<le> ReadyFor al ?now))"
    using held_index_bound [OF assms(2)] held_index_supported [OF assms(2)] hold by (intro exI [of _ ?i]) blast
  have counts: "int (length (filter (canary_side ?now goal True) ?als)) = T"
    "int (length (filter (canary_side ?now goal False) ?als)) = P" using canary_fold_counts [OF f] by simp_all
  obtain st where st: "EvaluateCanary wall goal w = Inr st" "cs_TargetReady st = T" "cs_PreviousReady st = P"
    and step: "cs_Step st = (if P = 0 then 100 else if T = 0 then 0 else Steps c ! ?i)"
    by (rule that [OF EvaluateCanary_counts [OF assms f]]) (simp_all only: CanaryState.simps)
  show ?thesis
    unfolding Let_def counts
  proof (intro exI [of _ st] conjI st)
    show "if P = 0 then cs_Step st = 100 else if T = 0 then cs_Step st = 0
      else \<exists>i < length (Steps c). cs_Step st = Steps c ! i \<and> (i = 0 \<or> Steps c ! i \<le> T * 100 div (T + P)) \<and>
        (0 < HoldFor c \<longrightarrow> (\<forall>al \<in> set ?als. canary_side ?now goal True al \<longrightarrow> int i * HoldFor c \<le> ReadyFor al ?now))"
      unfolding step using share by (cases "P = 0"; cases "T = 0") (simp_all only: if_True if_False simp_thms)
  qed
qed

definition canary_goal :: Goal where
  "canary_goal = sample_goal\<lparr>g_Canary := Some \<lparr>Steps = [10, 50, 100], HoldFor = 60\<rparr>\<rparr>"

definition canary_world :: World where
  "canary_world = sample_running\<lparr>Allocations :=
     [(''web-0'', (sample_alloc ''web-0'' 0 ''n1'' AllocationRunning)\<lparr>al_ReadySince := 900\<rparr>),
      (''web-1'', (sample_alloc ''web-1'' 1 ''n2'' AllocationRunning)\<lparr>al_Image := ''old''\<rparr>)]\<rparr>"

theorem canary_share_is_supported_witness:
  "\<exists>st. EvaluateCanary 0 canary_goal canary_world = Inr st \<and> cs_TargetReady st = 1 \<and> cs_PreviousReady st = 1"
proof -
  have c: "g_Canary canary_goal = Some \<lparr>Steps = [10, 50, 100], HoldFor = 60\<rparr>" by (simp add: canary_goal_def)
  have v: "Canary_Validate (Some \<lparr>Steps = [10, 50, 100], HoldFor = 60\<rparr>) = None" by (simp add: Canary_Validate_def)
  have counts: "length (filter (canary_side (World_Now 0 canary_world) canary_goal True) (mvals (Allocations canary_world))) = 1"
    "length (filter (canary_side (World_Now 0 canary_world) canary_goal False) (mvals (Allocations canary_world))) = 1"
    by code_simp+
  show ?thesis
    using canary_share_is_supported [OF c v, of 0 canary_world] unfolding Let_def counts by auto
qed







text \<open>Two gaps between the validator and its documentation: a prefix written as an IPv4-mapped IPv6 address is
  accepted as IPv4, and an egress range without a port is accepted for any range.\<close>

lemma mapped_prefix_accepted: "validateCIDR 0 ''::ffff:10.0.0.0/104'' = None"
proof -
  have "ParseCIDR ''::ffff:10.0.0.0/104'' = Some (mask_ip 104 (replicate 10 0 @ [255, 255, 10, 0, 0, 0]))"
    by (simp add: ParseCIDR_def parse_addr_def parse_ipv6_def ipv6_groups.simps hex_digits_def hex_val_def
        is_digit_def digit_val_def parse_nat_def parse_ipv4_def ipv4_field_def)
  moreover have "To4 (mask_ip 104 (replicate 10 0 @ [255, 255, 10, 0, 0, 0])) = Some [10, 0, 0, 0]"
    by code_simp
  ultimately show ?thesis by (simp add: validateCIDR_def)
qed

lemma open_egress_accepted:
  "NetworkPolicy_Validate \<lparr>np_Workload = ''web'', Ingress = [],
     Egress = [\<lparr>ToWorkload = [], ToCIDR = ''0.0.0.0/0'', eg_Port = 0\<rparr>]\<rparr> = None"
  by code_simp

end
