(* ===== verification/Control_Lease.thy ===== *)
theory Control_Lease
  imports Control_Actions
begin

text \<open>
  Exclusive, expiring claims on mutation targets (\<^verbatim>\<open>src/control/lease.go\<close>).  The manager's map
  is the state; the clock reading of each call is an argument.  The locale \<open>lease_service\<close>
  is what the engine relies on: a claim is granted on all targets or on none, and a live claim
  survives everything other proposals do.  It is interpreted on the model of the manager.
\<close>

section \<open>The manager\<close>

definition DefaultLeaseTTL :: duration where
  "DefaultLeaseTTL = 5 * minute_ns"

record Lease =
  ls_Target :: string
  ls_ProposalID :: string
  ls_GoalID :: string
  ls_ID :: string
  ls_ExpiresAt :: time

record LeaseManager =
  leases :: "Lease smap"
  ttl :: duration

datatype lease_error = Leased_by string string time

definition NewLeaseManager :: LeaseManager where
  "NewLeaseManager = \<lparr>leases = [], ttl = DefaultLeaseTTL\<rparr>"

definition WithTTL :: "LeaseManager \<Rightarrow> duration \<Rightarrow> LeaseManager" where
  "WithTTL m d = m\<lparr>ttl := d\<rparr>"

text \<open>\<open>time.Time.UnixNano\<close>: nanoseconds since 1970, as a 64-bit integer.\<close>

definition UnixNano :: "time \<Rightarrow> int" where
  "UnixNano t = wrap64 (t - 62135596800 * second_ns)"

definition lease_id :: "string \<Rightarrow> time \<Rightarrow> string" where
  "lease_id proposal now = ''lease-'' @ proposal @ ''-'' @ itoa (UnixNano now)"

fun lease_conflict :: "Lease smap \<Rightarrow> time \<Rightarrow> string \<Rightarrow> string list \<Rightarrow> lease_error option" where
  "lease_conflict held now proposal [] = None"
| "lease_conflict held now proposal (t # ts) = (case map_of held t of
       None \<Rightarrow> lease_conflict held now proposal ts
     | Some l \<Rightarrow>
         if \<not> now < ls_ExpiresAt l then lease_conflict held now proposal ts
         else if ls_ProposalID l = proposal then lease_conflict held now proposal ts
         else Some (Leased_by t (ls_ProposalID l) (ls_ExpiresAt l)))"

definition Acquire ::
  "LeaseManager \<Rightarrow> time \<Rightarrow> string \<Rightarrow> string \<Rightarrow> string list \<Rightarrow> lease_error + (string \<times> LeaseManager)" where
  "Acquire m now goal_id proposal targets =
     (let ordered = sort targets in
      case lease_conflict (leases m) now proposal ordered of
        Some err \<Rightarrow> Inl err
      | None \<Rightarrow>
          let i = lease_id proposal now; expiry = now + ttl m
          in Inr (i, m\<lparr>leases := foldl (\<lambda>ls t. mput t \<lparr>ls_Target = t, ls_ProposalID = proposal,
                      ls_GoalID = goal_id, ls_ID = i, ls_ExpiresAt = expiry\<rparr> ls) (leases m) ordered\<rparr>))"

definition Release :: "LeaseManager \<Rightarrow> string \<Rightarrow> LeaseManager" where
  "Release m i = m\<lparr>leases := foldl (\<lambda>ls t. mdel t ls) (leases m)
      (map fst (filter (\<lambda>(t, l). ls_ID l = i) (leases m)))\<rparr>"

definition Holder :: "LeaseManager \<Rightarrow> time \<Rightarrow> string \<Rightarrow> Lease option" where
  "Holder m now target = (case map_of (leases m) target of
       None \<Rightarrow> None
     | Some l \<Rightarrow> if \<not> now < ls_ExpiresAt l then None else Some l)"

definition leased_kind :: "ActionKind \<Rightarrow> bool" where
  "leased_kind k \<longleftrightarrow> k \<in> {ActionCreateAllocation, ActionStartAllocation, ActionStopAllocation,
     ActionDeleteAllocation, ActionPublishRoute}"

definition LeaseTargets :: "Proposal \<Rightarrow> string list" where
  "LeaseTargets p = sort (remdups (filter (\<lambda>t. t \<noteq> [])
      (map ac_Target (filter (\<lambda>a. leased_kind (ac_Kind a)) (p_Actions p)))))"

section \<open>What each operation does\<close>

lemma lease_conflict_None:
  "lease_conflict held now proposal ts = None \<longleftrightarrow>
    (\<forall>t \<in> set ts. \<forall>l. map_of held t = Some l \<longrightarrow> now < ls_ExpiresAt l \<longrightarrow> ls_ProposalID l = proposal)"
  by (induction ts) (auto split: option.splits)

lemma Acquire_Inl:
  "(\<exists>err. Acquire m now g p ts = Inl err) \<longleftrightarrow>
    (\<exists>t \<in> set ts. \<exists>l. Holder m now t = Some l \<and> ls_ProposalID l \<noteq> p)"
proof -
  have "(\<exists>err. Acquire m now g p ts = Inl err) \<longleftrightarrow> lease_conflict (leases m) now p (sort ts) \<noteq> None"
    by (auto simp: Acquire_def Let_def split: option.splits)
  also have "\<dots> \<longleftrightarrow> (\<exists>t \<in> set ts. \<exists>l. Holder m now t = Some l \<and> ls_ProposalID l \<noteq> p)"
    by (auto simp: lease_conflict_None Holder_def split: option.splits)
  finally show ?thesis .
qed

lemma Acquire_leases:
  assumes "Acquire m now g p ts = Inr (i, m')"
  shows "map_of (leases m') t = (if t \<in> set ts
      then Some \<lparr>ls_Target = t, ls_ProposalID = p, ls_GoalID = g, ls_ID = i, ls_ExpiresAt = now + ttl m\<rparr>
      else map_of (leases m) t)"
    "ttl m' = ttl m" "i = lease_id p now"
  using assms by (auto simp: Acquire_def Let_def gm.lookup_update_all split: option.splits)

lemma Acquire_wf: "Acquire m now g p ts = Inr (i, m') \<Longrightarrow> mwf (leases m) \<Longrightarrow> mwf (leases m')"
  by (auto simp: Acquire_def Let_def gm.invar_update_all split: option.splits)

lemma Release_leases:
  assumes "mwf (leases m)"
  shows "map_of (leases (Release m i)) t = (case map_of (leases m) t of
      None \<Rightarrow> None | Some l \<Rightarrow> if ls_ID l = i then None else Some l)"
proof -
  have "t \<in> set (map fst (filter (\<lambda>(t, l). ls_ID l = i) (leases m))) \<longleftrightarrow>
      (\<exists>l. map_of (leases m) t = Some l \<and> ls_ID l = i)"
    using mwf_in_set [OF assms] by force
  then show ?thesis
    by (auto simp: Release_def gm.lookup_delete_all split: option.splits)
qed

lemma Release_wf: "mwf (leases m) \<Longrightarrow> mwf (leases (Release m i)) \<and> ttl (Release m i) = ttl m"
  by (simp add: Release_def gm.invar_delete_all)

section \<open>The contract\<close>

datatype lease_call = Call_acquire time string string "string list" | Call_release string

fun lease_step :: "LeaseManager \<Rightarrow> lease_call \<Rightarrow> LeaseManager" where
  "lease_step m (Call_acquire now g p ts) = (case Acquire m now g p ts of Inl _ \<Rightarrow> m | Inr (_, m') \<Rightarrow> m')"
| "lease_step m (Call_release i) = Release m i"

text \<open>A call made by someone else while the claim is live.\<close>

fun foreign_call :: "string \<Rightarrow> string \<Rightarrow> time \<Rightarrow> lease_call \<Rightarrow> bool" where
  "foreign_call p i expiry (Call_acquire now g q ts) = (q \<noteq> p \<and> now < expiry)"
| "foreign_call p i expiry (Call_release j) = (j \<noteq> i)"

locale lease_service =
  fixes acquire :: "'m \<Rightarrow> time \<Rightarrow> string \<Rightarrow> string \<Rightarrow> string list \<Rightarrow> 'e + (string \<times> 'm)"
    and step :: "'m \<Rightarrow> lease_call \<Rightarrow> 'm"
    and claim :: "'m \<Rightarrow> string \<Rightarrow> (string \<times> string \<times> time) option"
    and invar :: "'m \<Rightarrow> bool"
    and life :: "'m \<Rightarrow> duration"
  assumes grants_all: "invar m \<Longrightarrow> acquire m now g p ts = Inr (i, m') \<Longrightarrow> t \<in> set ts \<Longrightarrow>
      claim m' t = Some (p, i, now + life m)"
    and keeps_invar: "invar m \<Longrightarrow> invar (step m c)"
    and acquire_step: "acquire m now g p ts = Inr (i, m') \<Longrightarrow> m' = step m (Call_acquire now g p ts)"
    and foreign_keeps: "invar m \<Longrightarrow> claim m t = Some (p, i, expiry) \<Longrightarrow> foreign_call p i expiry c \<Longrightarrow>
      claim (step m c) t = Some (p, i, expiry)"
begin

text \<open>However other proposals' calls interleave, a granted claim stands until it expires.\<close>

lemma claim_survives:
  assumes "invar m" "claim m t = Some (p, i, expiry)" "list_all (foreign_call p i expiry) cs"
  shows "invar (foldl step m cs) \<and> claim (foldl step m cs) t = Some (p, i, expiry)"
  using assms by (induction cs arbitrary: m) (auto simp: keeps_invar foreign_keeps)

lemma granted_survives:
  assumes "invar m" "acquire m now g p ts = Inr (i, m')" "t \<in> set ts"
    "list_all (foreign_call p i (now + life m)) cs"
  shows "claim (foldl step m' cs) t = Some (p, i, now + life m)"
proof -
  have "invar m'" using assms(1) keeps_invar acquire_step [OF assms(2)] by simp
  then show ?thesis using claim_survives [OF _ grants_all [OF assms(1-3)] assms(4)] by blast
qed

end

definition lease_claim :: "LeaseManager \<Rightarrow> string \<Rightarrow> (string \<times> string \<times> time) option" where
  "lease_claim m t = map_option (\<lambda>l. (ls_ProposalID l, ls_ID l, ls_ExpiresAt l)) (map_of (leases m) t)"

definition lease_invar :: "LeaseManager \<Rightarrow> bool" where
  "lease_invar m \<longleftrightarrow> mwf (leases m)"

lemma lease_step_foreign:
  assumes "mwf (leases m)" "lease_claim m t = Some (p, i, expiry)" "foreign_call p i expiry c"
  shows "lease_claim (lease_step m c) t = Some (p, i, expiry)"
proof (cases c)
  case (Call_acquire now g q ts)
  show ?thesis
  proof (cases "Acquire m now g q ts")
    case (Inl err)
    then show ?thesis using Call_acquire assms(2) by simp
  next
    case (Inr r)
    then obtain j m' where r: "Acquire m now g q ts = Inr (j, m')" by (cases r) auto
    have "t \<notin> set ts"
    proof
      assume "t \<in> set ts"
      moreover obtain l where "map_of (leases m) t = Some l" "ls_ProposalID l = p" "ls_ExpiresAt l = expiry"
        using assms(2) by (auto simp: lease_claim_def)
      ultimately have "\<exists>err. Acquire m now g q ts = Inl err"
        using assms(3) Call_acquire unfolding Acquire_Inl Holder_def
        by (intro bexI [of _ t] exI [of _ l]) auto
      then show False using r by simp
    qed
    then show ?thesis using assms(2) r Call_acquire by (simp add: lease_claim_def Acquire_leases(1) [OF r])
  qed
next
  case (Call_release j)
  then show ?thesis using assms by (auto simp: lease_claim_def Release_leases)
qed

interpretation lm: lease_service Acquire lease_step lease_claim lease_invar ttl
proof
  fix m now g p ts i m' t
  assume "Acquire m now g p ts = Inr (i, m')" "t \<in> set ts"
  then show "lease_claim m' t = Some (p, i, now + ttl m)" by (simp add: lease_claim_def Acquire_leases(1))
next
  fix m c
  assume "lease_invar m"
  then show "lease_invar (lease_step m c)"
    by (cases c) (auto simp: lease_invar_def Release_wf dest: Acquire_wf split: sum.splits)
next
  fix m now g p ts i m'
  assume "Acquire m now g p ts = Inr (i, m')"
  then show "m' = lease_step m (Call_acquire now g p ts)" by simp
next
  fix m t p i expiry c
  assume "lease_invar m" "lease_claim m t = Some (p, i, expiry)" "foreign_call p i expiry c"
  then show "lease_claim (lease_step m c) t = Some (p, i, expiry)"
    unfolding lease_invar_def by (rule lease_step_foreign)
qed

section \<open>Properties\<close>

text \<open>C27: Mutual exclusion.  Once a proposal has acquired its targets, no interleaving of acquisitions by
  other proposals and releases of other leases takes any of them away before the lease expires, and until
  then every acquisition by another proposal that overlaps them fails.\<close>

theorem lease_is_exclusive:
  assumes "mwf (leases m)" "Acquire m now g p ts = Inr (i, m')" "t \<in> set ts"
    "list_all (foreign_call p i (now + ttl m)) cs" "at < now + ttl m" "q \<noteq> p" "t \<in> set us"
  shows "(\<exists>l. Holder (foldl lease_step m' cs) at t = Some l \<and> ls_ProposalID l = p \<and> ls_ID l = i) \<and>
         (\<exists>err. Acquire (foldl lease_step m' cs) at h q us = Inl err)"
proof -
  let ?n = "foldl lease_step m' cs"
  have "lease_claim ?n t = Some (p, i, now + ttl m)"
    using lm.granted_survives [OF _ assms(2-4)] assms(1) by (simp add: lease_invar_def)
  then obtain l where l: "map_of (leases ?n) t = Some l" "ls_ProposalID l = p" "ls_ID l = i"
      "ls_ExpiresAt l = now + ttl m"
    by (auto simp: lease_claim_def)
  then have h: "Holder ?n at t = Some l" using assms(5) by (simp add: Holder_def)
  then have "\<exists>err. Acquire ?n at h q us = Inl err"
    using assms(6,7) l(2) by (subst Acquire_Inl) auto
  then show ?thesis using h l by blast
qed

theorem lease_is_exclusive_witness:
  "\<exists>m' err. Acquire NewLeaseManager 1000 ''g1'' ''p1'' [''web-1'', ''web-0''] = Inr (lease_id ''p1'' 1000, m') \<and>
     Acquire (lease_step m' (Call_acquire 1500 ''g2'' ''p2'' [''db-0''])) 2000 ''g2'' ''p2'' [''web-0''] = Inl err"
proof -
  obtain i m' where a: "Acquire NewLeaseManager 1000 ''g1'' ''p1'' [''web-1'', ''web-0''] = Inr (i, m')"
    by (auto simp: Acquire_def NewLeaseManager_def Let_def lease_conflict_None split: option.splits)
  have "\<exists>err. Acquire (foldl lease_step m' [Call_acquire 1500 ''g2'' ''p2'' [''db-0'']]) 2000 ''g2'' ''p2'' [''web-0''] = Inl err"
    using lease_is_exclusive [OF _ a, of "''web-0''" "[Call_acquire 1500 ''g2'' ''p2'' [''db-0'']]" 2000 "''p2''" "[''web-0'']" "''g2''"]
    by (auto simp: NewLeaseManager_def DefaultLeaseTTL_def)
  then show ?thesis using a Acquire_leases(3) [OF a] by auto
qed

text \<open>C28: Acquisition is all or nothing.  It fails exactly when some target is held live by another proposal,
  and then grants nothing; when it succeeds, every target is held by the proposal under one lease id until
  now plus the time to live, no other target changes, and releasing that id frees all of them.\<close>

theorem lease_all_or_nothing:
  assumes "mwf (leases m)"
  shows "case Acquire m now g p ts of
     Inl err \<Rightarrow> \<exists>t \<in> set ts. \<exists>l. Holder m now t = Some l \<and> ls_ProposalID l \<noteq> p
   | Inr (i, m') \<Rightarrow>
       (\<forall>t \<in> set ts. \<forall>l. Holder m now t = Some l \<longrightarrow> ls_ProposalID l = p) \<and>
       (\<forall>t. map_of (leases m') t = (if t \<in> set ts
          then Some \<lparr>ls_Target = t, ls_ProposalID = p, ls_GoalID = g, ls_ID = i, ls_ExpiresAt = now + ttl m\<rparr>
          else map_of (leases m) t)) \<and>
       (\<forall>t \<in> set ts. map_of (leases (Release m' i)) t = None)"
proof (cases "Acquire m now g p ts")
  case (Inl err)
  then have "\<exists>err. Acquire m now g p ts = Inl err" by blast
  then show ?thesis unfolding Acquire_Inl using Inl by simp
next
  case (Inr r)
  then obtain i m' where r: "Acquire m now g p ts = Inr (i, m')" by (cases r) auto
  have "\<not> (\<exists>t \<in> set ts. \<exists>l. Holder m now t = Some l \<and> ls_ProposalID l \<noteq> p)"
    using r by (simp flip: Acquire_Inl [of m now g p ts])
  moreover have "mwf (leases m')" using Acquire_wf [OF r assms] .
  ultimately show ?thesis using r by (auto simp: Acquire_leases(1) [OF r] Release_leases)
qed

theorem lease_all_or_nothing_witness:
  "\<exists>m'. Acquire NewLeaseManager 1000 ''g1'' ''p1'' [''web-1'', ''web-0''] = Inr (lease_id ''p1'' 1000, m') \<and>
     map_of (leases (Release m' (lease_id ''p1'' 1000))) ''web-0'' = None"
proof -
  have wf: "mwf (leases NewLeaseManager)" by (simp add: NewLeaseManager_def)
  obtain i m' where a: "Acquire NewLeaseManager 1000 ''g1'' ''p1'' [''web-1'', ''web-0''] = Inr (i, m')"
    by (auto simp: Acquire_def NewLeaseManager_def Let_def lease_conflict_None split: option.splits)
  have "map_of (leases (Release m' i)) ''web-0'' = None"
    using lease_all_or_nothing [OF wf, where now = 1000 and g = "''g1''" and p = "''p1''"
        and ts = "[''web-1'', ''web-0'']"] a by simp
  then show ?thesis using a Acquire_leases(3) [OF a] by auto
qed

end
