(* ===== verification/Control_Schedule.thy ===== *)
theory Control_Schedule
  imports Control_Actions Control_Patterns
begin

text \<open>
  Cron schedules (\<^verbatim>\<open>src/control/schedule.go\<close>).  A time is a number of nanoseconds since the
  zero time, midnight of Monday, January 1 of year 1; the calendar functions are those of the
  proleptic Gregorian calendar that Go's \<open>time\<close> uses in UTC.  A loop whose counter wraps is a
  partial function into \<open>option\<close>, so that \<open>None\<close> would mean it never returns; it is shown never
  to be \<open>None\<close>.
\<close>

section \<open>The calendar\<close>

abbreviation day_ns :: int where "day_ns \<equiv> 86400000000000"

definition day_of :: "time \<Rightarrow> int" where
  "day_of t = t div day_ns"

definition is_leap :: "int \<Rightarrow> bool" where
  "is_leap y \<longleftrightarrow> y mod 4 = 0 \<and> (y mod 100 \<noteq> 0 \<or> y mod 400 = 0)"

text \<open>Year and day of the year of a day number, by 400-, 100-, 4- and 1-year cycles.\<close>

definition year_day :: "int \<Rightarrow> int \<times> int" where
  "year_day d =
     (let n400 = d div 146097; d = d mod 146097;
          n100 = min 3 (d div 36524); d = d - 36524 * n100;
          n4 = d div 1461; d = d - 1461 * n4;
          n1 = min 3 (d div 365); d = d - 365 * n1
      in (400 * n400 + 100 * n100 + 4 * n4 + n1 + 1, d))"

definition days_before :: "bool \<Rightarrow> int \<Rightarrow> int" where
  "days_before leap m =
     (if m \<le> 1 then 0 else if m = 2 then 31
      else (if leap then 1 else 0) + (if m = 3 then 59 else if m = 4 then 90 else if m = 5 then 120
        else if m = 6 then 151 else if m = 7 then 181 else if m = 8 then 212 else if m = 9 then 243
        else if m = 10 then 273 else if m = 11 then 304 else 334))"

fun month_from :: "bool \<Rightarrow> int \<Rightarrow> int list \<Rightarrow> int" where
  "month_from leap yday [] = 1"
| "month_from leap yday (m # ms) = (if days_before leap m \<le> yday then m else month_from leap yday ms)"

definition Year :: "time \<Rightarrow> int" where
  "Year t = fst (year_day (day_of t))"

definition Month :: "time \<Rightarrow> int" where
  "Month t = (let (y, yday) = year_day (day_of t) in month_from (is_leap y) yday [12, 11, 10, 9, 8, 7, 6, 5, 4, 3, 2, 1])"

definition Day :: "time \<Rightarrow> int" where
  "Day t = (let (y, yday) = year_day (day_of t) in yday - days_before (is_leap y) (Month t) + 1)"

definition Hour :: "time \<Rightarrow> int" where
  "Hour t = t mod day_ns div hour_ns"

definition Minute :: "time \<Rightarrow> int" where
  "Minute t = t mod hour_ns div minute_ns"

definition Weekday :: "time \<Rightarrow> int" where
  "Weekday t = (day_of t + 1) mod 7"

text \<open>\<open>time.Date\<close> at midnight for a month from 1 to 12; the day may run past the month.\<close>

definition year_start :: "int \<Rightarrow> int" where
  "year_start y = (let n = y - 1 in 365 * n + n div 4 - n div 100 + n div 400)"

definition Date :: "int \<Rightarrow> int \<Rightarrow> int \<Rightarrow> time" where
  "Date y m d = (year_start y + days_before (is_leap y) m + d - 1) * day_ns"

definition Truncate_minute :: "time \<Rightarrow> time" where
  "Truncate_minute t = t div minute_ns * minute_ns"

definition AddYears :: "time \<Rightarrow> int \<Rightarrow> time" where
  "AddYears t n = Date (Year t + n) (Month t) (Day t) + t mod day_ns"

section \<open>Parsing\<close>

datatype cron_error = Field_count nat | Empty_field | Bad_step | Bad_range_start | Bad_range_end
  | Bad_value | Out_of_range

record CronSchedule =
  minutes :: "int list"
  hours :: "int list"
  days :: "int list"
  months :: "int list"
  weekdays :: "int list"

partial_function (option) cron_values :: "int \<Rightarrow> int \<Rightarrow> int \<Rightarrow> int list option" where
  [code]: "cron_values step high x =
    (if x \<le> high
     then Option.bind (cron_values step high (wrap64 (x + step))) (\<lambda>vs. Some (x # vs))
     else Some [])"

definition before :: "char \<Rightarrow> string \<Rightarrow> string" where
  "before c s = takeWhile (\<lambda>d. d \<noteq> c) s"

definition after_first :: "char \<Rightarrow> string \<Rightarrow> string" where
  "after_first c s = tl (dropWhile (\<lambda>d. d \<noteq> c) s)"

definition cron_step :: "string \<Rightarrow> cron_error + (int \<times> string)" where
  "cron_step part =
     (if CHR ''/'' \<in> set part
      then (case atoi (after_first (CHR ''/'') part) of
              None \<Rightarrow> Inl Bad_step
            | Some parsed \<Rightarrow> if parsed \<le> 0 then Inl Bad_step else Inr (parsed, before (CHR ''/'') part))
      else Inr (1, part))"

definition cron_bounds :: "int \<Rightarrow> int \<Rightarrow> string \<Rightarrow> cron_error + (int \<times> int)" where
  "cron_bounds lo hi part =
     (if part = ''*'' then Inr (lo, hi)
      else if CHR ''-'' \<in> set part
      then (case atoi (before (CHR ''-'') part) of
              None \<Rightarrow> Inl Bad_range_start
            | Some low \<Rightarrow> (case atoi (after_first (CHR ''-'') part) of
                None \<Rightarrow> Inl Bad_range_end | Some high \<Rightarrow> Inr (low, high)))
      else (case atoi part of None \<Rightarrow> Inl Bad_value | Some x \<Rightarrow> Inr (x, x)))"

definition cron_part :: "int \<Rightarrow> int \<Rightarrow> string \<Rightarrow> (cron_error + int list) option" where
  "cron_part lo hi part = (case cron_step part of
       Inl err \<Rightarrow> Some (Inl err)
     | Inr (step, part) \<Rightarrow> (case cron_bounds lo hi part of
         Inl err \<Rightarrow> Some (Inl err)
       | Inr (low, high) \<Rightarrow>
           if low < lo \<or> high > hi \<or> low > high then Some (Inl Out_of_range)
           else map_option Inr (cron_values step high low)))"

fun cron_parts :: "int \<Rightarrow> int \<Rightarrow> string list \<Rightarrow> (cron_error + int list) option" where
  "cron_parts lo hi [] = Some (Inr [])"
| "cron_parts lo hi (part # parts) = (case cron_part lo hi part of
     None \<Rightarrow> None
   | Some (Inl err) \<Rightarrow> Some (Inl err)
   | Some (Inr vs) \<Rightarrow> map_option (map_sum id (\<lambda>ws. vs @ ws)) (cron_parts lo hi parts))"

definition parseCronField :: "int \<Rightarrow> int \<Rightarrow> string \<Rightarrow> (cron_error + int list) option" where
  "parseCronField lo hi field =
     (if field = [] then Some (Inl Empty_field)
      else map_option (map_sum id (\<lambda>vs. sort (remdups vs))) (cron_parts lo hi (split_on (CHR '','') field)))"

fun fields :: "string \<Rightarrow> string \<Rightarrow> string list" where
  "fields word [] = (if word = [] then [] else [word])"
| "fields word (c # cs) =
    (if is_space c then (if word = [] then fields [] cs else word # fields [] cs)
     else fields (word @ [c]) cs)"

fun cron_fields :: "(int \<times> int) list \<Rightarrow> string list \<Rightarrow> (cron_error + int list list) option" where
  "cron_fields ((lo, hi) # bounds) (field # rest) = (case parseCronField lo hi field of
     None \<Rightarrow> None
   | Some (Inl err) \<Rightarrow> Some (Inl err)
   | Some (Inr vs) \<Rightarrow> map_option (map_sum id (\<lambda>vss. vs # vss)) (cron_fields bounds rest))"
| "cron_fields bounds rest = Some (Inr [])"

definition ParseCron :: "string \<Rightarrow> (cron_error + CronSchedule) option" where
  "ParseCron expression =
     (let fs = fields [] expression in
      if length fs \<noteq> 5 then Some (Inl (Field_count (length fs)))
      else map_option (map_sum id (\<lambda>vss. \<lparr>minutes = vss ! 0, hours = vss ! 1, days = vss ! 2,
             months = vss ! 3, weekdays = vss ! 4\<rparr>))
           (cron_fields [(0, 59), (0, 23), (1, 31), (1, 12), (0, 6)] fs))"

section \<open>Matching\<close>

definition matchesDate :: "CronSchedule \<Rightarrow> time \<Rightarrow> bool" where
  "matchesDate c at =
     (if Month at \<notin> set (months c) then False
      else let dayRestricted = (length (days c) \<noteq> 31); weekdayRestricted = (length (weekdays c) \<noteq> 7);
               dayMatch = (Day at \<in> set (days c)); weekdayMatch = (Weekday at \<in> set (weekdays c))
           in if dayRestricted \<and> weekdayRestricted then dayMatch \<or> weekdayMatch
              else if dayRestricted then dayMatch
              else if weekdayRestricted then weekdayMatch
              else True)"

definition Matches :: "CronSchedule \<Rightarrow> time \<Rightarrow> bool" where
  "Matches c at =
     (if Minute at \<notin> set (minutes c) \<or> Hour at \<notin> set (hours c) then False else matchesDate c at)"

lemma capped_div:
  fixes r m :: int
  assumes "0 \<le> r" "0 < m"
  shows "0 \<le> min 3 (r div m) \<and> m * min 3 (r div m) \<le> r \<and> (r - m * min 3 (r div m) < m \<or> min 3 (r div m) = 3)"
proof -
  have q: "0 \<le> r div m" using assms by (simp add: pos_imp_zdiv_nonneg_iff)
  have r: "m * (r div m) + r mod m = r" "0 \<le> r mod m" "r mod m < m" using assms by simp_all
  show ?thesis
  proof (cases "r div m \<le> 3")
    case True
    then have e: "min 3 (r div m) = r div m" by simp
    have "m * (r div m) \<le> r" "r - m * (r div m) < m" using r by linarith+
    then show ?thesis unfolding e using q by blast
  next
    case False
    then have "m * 3 \<le> m * (r div m)" using assms(2) by (intro mult_left_mono) auto
    then have "m * 3 \<le> r" using r by linarith
    moreover have e: "min 3 (r div m) = 3" using False by simp
    ultimately show ?thesis unfolding e by simp
  qed
qed

lemma year_day_split:
  assumes "year_day d = (y, yday)"
  shows "year_start y + yday = d"
proof -
  define a r1 where "a = d div 146097" and "r1 = d mod 146097"
  have r1: "d = 146097 * a + r1" "0 \<le> r1" "r1 < 146097" by (simp_all add: a_def r1_def)
  define b where "b = min 3 (r1 div 36524)"
  define r2 where "r2 = r1 - 36524 * b"
  have b: "0 \<le> b" "b \<le> 3" "0 \<le> r2" "r2 \<le> 36524"
    using capped_div [OF r1(2), of 36524] r1(3) unfolding b_def [symmetric] r2_def by (auto simp: b_def)
  define c r3 where "c = r2 div 1461" and "r3 = r2 - 1461 * c"
  have r2: "r2 = 1461 * c + r3" "r3 = r2 mod 1461" by (simp_all add: c_def r3_def minus_mult_div_eq_mod)
  have c: "0 \<le> c" "0 \<le> r3" "r3 < 1461" using b(3) by (simp_all add: c_def r2(2) pos_imp_zdiv_nonneg_iff)
  have c24: "c \<le> 24" using r2(1) b(4) c by linarith
  define e where "e = min 3 (r3 div 365)"
  have e: "0 \<le> e" "e \<le> 3" using capped_div [OF c(2), of 365] unfolding e_def by auto
  have "year_day d = (400 * a + 100 * b + 4 * c + e + 1, r3 - 365 * e)"
    unfolding year_day_def Let_def e_def r3_def c_def r2_def b_def r1_def a_def by (rule refl)
  then have y: "y = 400 * a + 100 * b + 4 * c + e + 1" "yday = r3 - 365 * e"
    using assms by simp_all
  have q4: "(400 * a + 100 * b + 4 * c + e) div 4 = 100 * a + 25 * b + c"
    using e by (intro int_div_pos_eq [where r = e]) auto
  have q100: "(400 * a + 100 * b + 4 * c + e) div 100 = 4 * a + b"
    using c c24 e by (intro int_div_pos_eq [where r = "4 * c + e"]) auto
  have q400: "(400 * a + 100 * b + 4 * c + e) div 400 = a"
    using b c c24 e by (intro int_div_pos_eq [where r = "100 * b + 4 * c + e"]) auto
  show ?thesis using r1(1) y q4 q100 q400 by (simp add: year_start_def Let_def r2_def r3_def)
qed

text \<open>The calendar date of a time names its day, and the next day's date is the next midnight.\<close>

lemma Date_next: "Date (Year t) (Month t) (Day t + 1) = (day_of t + 1) * day_ns"
proof -
  obtain y yday where y: "year_day (day_of t) = (y, yday)" by (cases "year_day (day_of t)") auto
  then show ?thesis using year_day_split [OF y] by (simp add: Date_def Day_def Year_def)
qed

lemma Date_today: "Date (Year t) (Month t) (Day t) = day_of t * day_ns"
proof -
  obtain y yday where y: "year_day (day_of t) = (y, yday)" by (cases "year_day (day_of t)") auto
  then show ?thesis using year_day_split [OF y] by (simp add: Date_def Day_def Year_def)
qed

lemma midnight_after: "t < (day_of t + 1) * day_ns" "day_of t * day_ns \<le> t"
  by (auto simp: day_of_def)

function next_from :: "CronSchedule \<Rightarrow> time \<Rightarrow> time \<Rightarrow> time option" where
  "next_from c limit candidate =
    (if candidate < limit then
       (if \<not> matchesDate c candidate
        then next_from c limit (Date (Year candidate) (Month candidate) (Day candidate + 1))
        else if Matches c candidate then Some candidate
        else next_from c limit (candidate + minute_ns))
     else None)"
  by pat_completeness auto

termination
proof (relation "measure (\<lambda>(c, limit, candidate). nat (limit - candidate))")
  fix c limit candidate
  assume "candidate < limit" "\<not> matchesDate c candidate"
  then show "((c, limit, Date (Year candidate) (Month candidate) (Day candidate + 1)), (c, limit, candidate))
      \<in> measure (\<lambda>(c, limit, candidate). nat (limit - candidate))"
    using midnight_after(1) [of candidate] by (simp add: Date_next)
qed auto

declare next_from.simps [simp del]

definition Next :: "CronSchedule \<Rightarrow> time \<Rightarrow> time option" where
  "Next c after =
     (let candidate = Truncate_minute after + minute_ns
      in next_from c (AddYears candidate 4) candidate)"

definition Due :: "CronSchedule \<Rightarrow> time \<Rightarrow> time \<Rightarrow> bool" where
  "Due c now lastRun =
     (let now = Truncate_minute now in
      if IsZero lastRun then Matches c now
      else case Next c lastRun of None \<Rightarrow> False | Some next \<Rightarrow> \<not> now < next)"

section \<open>Schedules\<close>

datatype schedule_error = Bad_cron cron_error | Negative_deadline | Negative_completions | Negative_retries
  | Unknown_concurrency string

definition Schedule_Validate :: "Schedule option \<Rightarrow> schedule_error option option" where
  "Schedule_Validate s = (case s of
       None \<Rightarrow> Some None
     | Some s \<Rightarrow> (case ParseCron (Cron s) of
         None \<Rightarrow> None
       | Some (Inl err) \<Rightarrow> Some (Some (Bad_cron err))
       | Some (Inr _) \<Rightarrow> Some
           (if Deadline s < 0 then Some Negative_deadline
            else if Completions s < 0 then Some Negative_completions
            else if Retries s < 0 then Some Negative_retries
            else case Concurrency s of ConcurrencyOther p \<Rightarrow> Some (Unknown_concurrency p) | _ \<Rightarrow> None)))"

definition DefaultRunDeadline :: duration where
  "DefaultRunDeadline = hour_ns"

definition RunDeadline :: "Schedule option \<Rightarrow> duration" where
  "RunDeadline s = (case s of None \<Rightarrow> DefaultRunDeadline
     | Some s \<Rightarrow> if Deadline s \<le> 0 then DefaultRunDeadline else Deadline s)"

definition RequiredCompletions :: "Schedule option \<Rightarrow> int" where
  "RequiredCompletions s = (case s of None \<Rightarrow> 1 | Some s \<Rightarrow> if Completions s \<le> 0 then 1 else Completions s)"

definition ConcurrencyPolicyOrDefault :: "Schedule option \<Rightarrow> ConcurrencyPolicy" where
  "ConcurrencyPolicyOrDefault s = (case s of None \<Rightarrow> ConcurrencyForbid
     | Some s \<Rightarrow> if Concurrency s = ConcurrencyUnset then ConcurrencyForbid else Concurrency s)"

section \<open>The x loop returns\<close>

lemma cron_values_small_step:
  assumes "0 < step" "step + high < 2 ^ 63" "- (2 ^ 62) \<le> x" "high < 2 ^ 62"
  shows "\<exists>vs. cron_values step high x = Some vs"
  using assms(3)
proof (induction "nat (high - x + 1)" arbitrary: x rule: less_induct)
  case less
  show ?case
  proof (cases "x \<le> high")
    case True
    have w: "wrap64 (x + step) = x + step"
      using True less.prems assms by (intro wrap64_id) auto
    have "\<exists>vs. cron_values step high (x + step) = Some vs"
      using True less.prems assms(1) by (intro less.hyps) auto
    then show ?thesis using True w by (subst cron_values.simps) auto
  qed (subst cron_values.simps, simp)
qed

text \<open>A step so large that the counter wraps: with \<open>k\<close> the distance of the step from \<open>2 ^ 63\<close>, two rounds
  of the loop take the counter down by \<open>2 * k\<close>, until an addition stays in range and leaves the loop.\<close>

lemma cron_values_wrapping_step:
  assumes "0 < k" "k < 2 ^ 62" "step = 2 ^ 63 - k" "0 \<le> high" "high < 2 ^ 62" "k + high < 2 ^ 62"
    "- (2 ^ 62) \<le> x" "x \<le> high"
  shows "\<exists>vs. cron_values step high x = Some vs"
  using assms(7,8)
proof (induction "nat (x + 2 ^ 62)" arbitrary: x rule: less_induct)
  case less
  show ?case
  proof (cases "x < k")
    case True
    have "wrap64 (x + step) = x + step"
      using True less.prems assms by (intro wrap64_id) auto
    moreover have "\<not> x + step \<le> high" using less.prems assms by auto
    ultimately have "cron_values step high (wrap64 (x + step)) = Some []" by (subst cron_values.simps) simp
    then show ?thesis using less.prems(2) by (subst cron_values.simps) simp
  next
    case False
    have w1: "wrap64 (x + step) = x - k - 2 ^ 63"
      using False less.prems assms unfolding wrap64_def
      by (simp add: mod_pos_neg_trivial)
    have w2: "wrap64 (x - k - 2 ^ 63 + step) = x - 2 * k"
      using False less.prems assms by (subst wrap64_id) auto
    have "\<exists>vs. cron_values step high (x - 2 * k) = Some vs"
      using False less.prems assms(1,2) by (intro less.hyps) auto
    then have "\<exists>vs. cron_values step high (x - k - 2 ^ 63) = Some vs"
      using w2 False less.prems assms by (subst cron_values.simps) auto
    then show ?thesis using w1 less.prems(2) by (subst cron_values.simps) auto
  qed
qed

lemma cron_values_total:
  assumes "0 < step" "step < 2 ^ 63" "0 \<le> x" "x \<le> high" "high < 2 ^ 60"
  shows "\<exists>vs. cron_values step high x = Some vs"
proof (cases "step + high < 2 ^ 63")
  case True
  then show ?thesis using assms by (intro cron_values_small_step) auto
next
  case False
  show ?thesis
    by (rule cron_values_wrapping_step [where k = "2 ^ 63 - step"]) (use False assms in auto)
qed

lemma atoi_range: "atoi s = Some i \<Longrightarrow> in64 i"
  by (cases s) (auto simp: Let_def split: option.splits if_splits)

lemma cron_step_range: "cron_step part = Inr (step, rest) \<Longrightarrow> 0 < step \<and> step < 2 ^ 63"
  by (auto simp: cron_step_def in64_def dest: atoi_range split: if_splits option.splits)

lemma cron_part_total:
  assumes "0 \<le> lo" "hi < 2 ^ 60"
  shows "\<exists>r. cron_part lo hi part = Some r"
  using assms cron_values_total
  by (fastforce simp: cron_part_def dest: cron_step_range split: sum.splits prod.splits)

lemma cron_parts_total:
  assumes "0 \<le> lo" "hi < 2 ^ 60"
  shows "\<exists>r. cron_parts lo hi parts = Some r"
proof (induction parts)
  case (Cons part parts)
  obtain r where "cron_part lo hi part = Some r" using cron_part_total [OF assms] by blast
  then show ?case using Cons by (auto split: sum.splits)
qed simp

lemma parseCronField_total: "0 \<le> lo \<Longrightarrow> hi < 2 ^ 60 \<Longrightarrow> \<exists>r. parseCronField lo hi field = Some r"
  using cron_parts_total [of lo hi "split_on (CHR '','') field"] by (auto simp: parseCronField_def)

lemma cron_fields_total:
  "list_all (\<lambda>(lo, hi). 0 \<le> lo \<and> hi < 2 ^ 60) bounds \<Longrightarrow> \<exists>r. cron_fields bounds fs = Some r"
proof (induction bounds fs rule: cron_fields.induct)
  case (1 lo hi bounds field rest)
  obtain r where r: "parseCronField lo hi field = Some r"
    using 1(2) parseCronField_total [of lo hi field] by auto
  show ?case
  proof (cases r)
    case (Inr vs)
    then have "\<exists>q. cron_fields bounds rest = Some q" using 1 r by auto
    then show ?thesis using r Inr by auto
  qed (use r in auto)
qed auto

section \<open>The search\<close>

definition aligned :: "time \<Rightarrow> bool" where
  "aligned t \<longleftrightarrow> minute_ns dvd t"

lemma matchesDate_day: "day_of u = day_of t \<Longrightarrow> matchesDate c u = matchesDate c t"
  by (simp add: matchesDate_def Month_def Day_def Weekday_def)

lemma Matches_date: "Matches c t \<Longrightarrow> matchesDate c t"
  by (simp add: Matches_def split: if_splits)

lemma same_day: "t \<le> u \<Longrightarrow> u < (day_of t + 1) * day_ns \<Longrightarrow> day_of u = day_of t"
proof -
  assume "t \<le> u" "u < (day_of t + 1) * day_ns"
  then have "day_of t * day_ns \<le> u" "u < day_of t * day_ns + day_ns"
    using midnight_after(2) [of t] by (auto simp: algebra_simps)
  then show ?thesis
    unfolding day_of_def [of u] by (intro int_div_pos_eq [where r = "u - day_of t * day_ns"]) auto
qed

lemma aligned_step: "aligned u \<Longrightarrow> aligned t \<Longrightarrow> t < u \<Longrightarrow> t + minute_ns \<le> u"
proof -
  assume a: "aligned u" "aligned t" "t < u"
  then obtain i j where "u = minute_ns * i" "t = minute_ns * j" by (auto simp: aligned_def elim!: dvdE)
  then show ?thesis using a(3) by auto
qed

lemma aligned_midnight: "aligned ((d :: int) * day_ns)"
proof -
  have "d * day_ns = minute_ns * (1440 * d)" by simp
  then show ?thesis unfolding aligned_def by (metis dvd_triv_left)
qed

lemma aligned_add: "aligned t \<Longrightarrow> aligned (t + minute_ns)"
  by (simp add: aligned_def)

lemma next_from_least:
  "aligned t \<Longrightarrow> case next_from c limit t of
     Some n \<Rightarrow> t \<le> n \<and> n < limit \<and> aligned n \<and> Matches c n \<and>
       (\<forall>u. aligned u \<and> t \<le> u \<and> u < n \<longrightarrow> \<not> Matches c u)
   | None \<Rightarrow> \<forall>u. aligned u \<and> t \<le> u \<and> u < limit \<longrightarrow> \<not> Matches c u"
proof (induction c limit t rule: next_from.induct)
  case (1 c limit t)
  note unfold = next_from.simps [of c limit t]
  consider (past) "\<not> t < limit" | (skip) "t < limit" "\<not> matchesDate c t"
    | (hit) "t < limit" "matchesDate c t" "Matches c t" | (step) "t < limit" "matchesDate c t" "\<not> Matches c t"
    by blast
  then show ?case
  proof cases
    case past
    then show ?thesis using unfold by auto
  next
    case skip
    let ?m = "(day_of t + 1) * day_ns"
    have no: "\<not> Matches c u" if "t \<le> u" "u < ?m" for u
      using skip(2) matchesDate_day [OF same_day [OF that]] Matches_date [of c u] by blast
    have ih: "case next_from c limit ?m of
        Some n \<Rightarrow> ?m \<le> n \<and> n < limit \<and> aligned n \<and> Matches c n \<and> (\<forall>u. aligned u \<and> ?m \<le> u \<and> u < n \<longrightarrow> \<not> Matches c u)
      | None \<Rightarrow> \<forall>u. aligned u \<and> ?m \<le> u \<and> u < limit \<longrightarrow> \<not> Matches c u"
      using 1(1) [OF skip] aligned_midnight by (simp only: Date_next)
    have "next_from c limit t = next_from c limit ?m" using unfold skip by (simp only: Date_next if_True not_False_eq_True)
    moreover have "t < ?m" by (rule midnight_after(1))
    ultimately show ?thesis using ih no by (auto split: option.splits) (meson not_le_imp_less)+
  next
    case hit
    then show ?thesis using unfold 1(3) by auto
  next
    case step
    have ih: "case next_from c limit (t + minute_ns) of
        Some n \<Rightarrow> t + minute_ns \<le> n \<and> n < limit \<and> aligned n \<and> Matches c n \<and>
          (\<forall>u. aligned u \<and> t + minute_ns \<le> u \<and> u < n \<longrightarrow> \<not> Matches c u)
      | None \<Rightarrow> \<forall>u. aligned u \<and> t + minute_ns \<le> u \<and> u < limit \<longrightarrow> \<not> Matches c u"
      using step aligned_add [OF 1(3)] by (intro 1(2)) simp_all
    have no: "\<not> Matches c u" if "aligned u" "t \<le> u" "u < t + minute_ns" for u
      using step(3) aligned_step [OF that(1) 1(3)] that by (cases "u = t") auto
    have "next_from c limit t = next_from c limit (t + minute_ns)" using unfold step by simp
    then show ?thesis using ih no by (auto split: option.splits) (meson not_le_imp_less)+
  qed
qed

lemma truncate_aligned: "aligned (Truncate_minute t + minute_ns)"
  by (simp add: Truncate_minute_def aligned_def)

lemma truncate_after: "aligned u \<Longrightarrow> Truncate_minute t + minute_ns \<le> u \<longleftrightarrow> t < u"
proof -
  assume "aligned u"
  then obtain i where u: "u = i * minute_ns" by (metis aligned_def dvdE mult.commute)
  have t: "t = t div minute_ns * minute_ns + t mod minute_ns" "0 \<le> t mod minute_ns" "t mod minute_ns < minute_ns" by simp_all
  have "t div minute_ns + 1 \<le> i \<longleftrightarrow> t < u"
  proof
    assume "t div minute_ns + 1 \<le> i"
    then show "t < u" using t u by linarith
  next
    assume "t < u"
    then have "t div minute_ns < i" using u t by linarith
    then show "t div minute_ns + 1 \<le> i" by simp
  qed
  then show ?thesis unfolding Truncate_minute_def u by linarith
qed

lemma Next_least:
  "case Next c after of
     Some n \<Rightarrow> after < n \<and> aligned n \<and> Matches c n \<and> n < AddYears (Truncate_minute after + minute_ns) 4 \<and>
       (\<forall>u. aligned u \<and> after < u \<and> u < n \<longrightarrow> \<not> Matches c u)
   | None \<Rightarrow> \<forall>u. aligned u \<and> after < u \<and> u < AddYears (Truncate_minute after + minute_ns) 4 \<longrightarrow> \<not> Matches c u"
  using next_from_least [OF truncate_aligned, where c = c and limit = "AddYears (Truncate_minute after + minute_ns) 4" and t1 = after]
  by (auto simp: Next_def Let_def truncate_after split: option.splits)

lemma truncate_below: "aligned u \<Longrightarrow> u \<le> Truncate_minute t \<longleftrightarrow> u \<le> t"
  using truncate_after [of "u + minute_ns" t] aligned_add [of u]
proof -
  assume a: "aligned u"
  have "Truncate_minute t + minute_ns \<le> u \<longleftrightarrow> t < u" by (rule truncate_after [OF a])
  moreover have "aligned (Truncate_minute t)" by (simp add: Truncate_minute_def aligned_def)
  then have "Truncate_minute t < u \<Longrightarrow> Truncate_minute t + minute_ns \<le> u" using aligned_step a by blast
  ultimately show ?thesis by linarith
qed

section \<open>Properties\<close>

text \<open>C34: Parsing a cron expression always returns.  Whatever the text, even with a step so large that the loop
  counter of a field wraps around at 64 bits, the parser ends with a schedule or an error.\<close>

theorem ParseCron_returns: "\<exists>r. ParseCron expression = Some r"
proof -
  have "\<exists>r. cron_fields [(0, 59), (0, 23), (1, 31), (1, 12), (0, 6)] (fields [] expression) = Some r"
    by (rule cron_fields_total) simp
  then show ?thesis by (auto simp: ParseCron_def Let_def)
qed

text \<open>C32: The day-skipping search finds the least match.  \<open>Next\<close> returns the first whole minute strictly after
  the given time that matches the schedule, and when it returns none, no minute before the four-year limit matches;
  skipping a whole day never skips a match.\<close>

theorem cron_next_is_least:
  "case Next c after of
     Some n \<Rightarrow> after < n \<and> aligned n \<and> Matches c n \<and>
       (\<forall>u. aligned u \<and> after < u \<and> u < n \<longrightarrow> \<not> Matches c u)
   | None \<Rightarrow> \<forall>u. aligned u \<and> after < u \<and> u < AddYears (Truncate_minute after + minute_ns) 4 \<longrightarrow> \<not> Matches c u"
  using Next_least [where c = c and after = after] by (auto split: option.splits)

definition every_minute :: CronSchedule where
  "every_minute = \<lparr>minutes = [0..59], hours = [0..23], days = [1..31], months = [1..12], weekdays = [0..6]\<rparr>"

theorem cron_next_is_least_witness:
  "(case Next every_minute 0 of Some n \<Rightarrow> Matches every_minute n
    | None \<Rightarrow> \<not> Matches every_minute (AddYears minute_ns 4 - minute_ns))"
proof -
  have "aligned (AddYears minute_ns 4 - minute_ns)" "0 < AddYears minute_ns 4 - minute_ns" by code_simp+
  then show ?thesis
    using cron_next_is_least [where c = every_minute and after = 0] by (auto simp: Truncate_minute_def split: option.splits)
qed

text \<open>C33: A run is due exactly when a slot was missed.  After a first run, a run is due at a time if and only if
  some whole minute after the last run and not after that time matches the schedule, within four years of the last
  run; before the first run, it is due only in a matching minute.\<close>

theorem due_iff_slot_missed:
  "Due c now lastRun \<longleftrightarrow>
    (if IsZero lastRun then Matches c (Truncate_minute now)
     else \<exists>u. aligned u \<and> lastRun < u \<and> u \<le> now \<and> u < AddYears (Truncate_minute lastRun + minute_ns) 4 \<and> Matches c u)"
proof (cases "IsZero lastRun")
  case False
  show ?thesis
  proof (cases "Next c lastRun")
    case None
    then show ?thesis using False Next_least [where c = c and after = lastRun] by (auto simp: Due_def)
  next
    case (Some n)
    note n = Next_least [where c = c and after = lastRun, unfolded Some option.case]
    have "Due c now lastRun \<longleftrightarrow> n \<le> now"
      using False Some n truncate_below [of n now] by (simp add: Due_def Let_def not_less)
    moreover have "n \<le> u" if "aligned u" "lastRun < u" "Matches c u" for u using n that by (meson not_le)
    ultimately show ?thesis using n False by (meson order_trans)
  qed
qed (simp add: Due_def)

text \<open>A step near \<open>2 ^ 63\<close> makes the loop counter wrap and adds values the field does not name: the minute field
  \<open>3/9223372036854775807\<close> also matches minute 1.\<close>

lemma wide_step_wraps:
  "cron_values (2 ^ 63 - 1) 3 3 = Some [3, 2 - 2 ^ 63, 1, - (2 ^ 63), - 1]"
  by (simp add: cron_values.simps wrap64_def)

end
