(* ===== verification/Control_Events.thy ===== *)
theory Control_Events
  imports Control_Actions
begin

text \<open>
  The events of \<^verbatim>\<open>src/control/types.go\<close> and the text of the string enumerations they carry:
  action kinds, evidence kinds and event types.
\<close>

definition action_kind_text :: "ActionKind \<Rightarrow> string" where
  "action_kind_text k = (case k of
       ActionPullImage \<Rightarrow> ''pull_image''
     | ActionCreateAllocation \<Rightarrow> ''create_allocation''
     | ActionAttachNetwork \<Rightarrow> ''attach_network''
     | ActionMountSecret \<Rightarrow> ''mount_secret''
     | ActionCreateVolume \<Rightarrow> ''create_volume''
     | ActionAttachVolume \<Rightarrow> ''attach_volume''
     | ActionDetachVolume \<Rightarrow> ''detach_volume''
     | ActionSnapshotVolume \<Rightarrow> ''snapshot_volume''
     | ActionRestoreSnapshot \<Rightarrow> ''restore_snapshot''
     | ActionBackupSnapshot \<Rightarrow> ''backup_snapshot''
     | ActionQuiesceVolume \<Rightarrow> ''quiesce_volume''
     | ActionTransferVolume \<Rightarrow> ''transfer_volume''
     | ActionAdoptVolume \<Rightarrow> ''adopt_volume''
     | ActionPruneSnapshots \<Rightarrow> ''prune_snapshots''
     | ActionCollectImages \<Rightarrow> ''collect_images''
     | ActionVerifyBackup \<Rightarrow> ''verify_backup''
     | ActionDatabaseBackup \<Rightarrow> ''database_backup''
     | ActionStartAllocation \<Rightarrow> ''start_allocation''
     | ActionStopAllocation \<Rightarrow> ''stop_allocation''
     | ActionDeleteAllocation \<Rightarrow> ''delete_allocation''
     | ActionPublishRoute \<Rightarrow> ''publish_route''
     | ActionApplyPolicy \<Rightarrow> ''apply_policy''
     | ActionPublishZone \<Rightarrow> ''publish_zone''
     | ActionGrantTools \<Rightarrow> ''grant_tools''
     | ActionDrainAllocation \<Rightarrow> ''drain_allocation''
     | ActionCordonNode \<Rightarrow> ''cordon_node''
     | ActionUncordonNode \<Rightarrow> ''uncordon_node''
     | ActionProbeReadiness \<Rightarrow> ''probe_readiness''
     | ActionOther s \<Rightarrow> s)"

definition evidence_kind_text :: "EvidenceKind \<Rightarrow> string" where
  "evidence_kind_text k = (case k of
       EvidenceImagePresent \<Rightarrow> ''image.present''
     | EvidenceAllocationCreated \<Rightarrow> ''allocation.created''
     | EvidenceSecretMounted \<Rightarrow> ''secret.mounted''
     | EvidenceVolumeCreated \<Rightarrow> ''volume.created''
     | EvidenceVolumeAttached \<Rightarrow> ''volume.attached''
     | EvidenceVolumeDetached \<Rightarrow> ''volume.detached''
     | EvidenceVolumeSnapshotted \<Rightarrow> ''volume.snapshotted''
     | EvidenceVolumeRestored \<Rightarrow> ''volume.restored''
     | EvidenceVolumeBackedUp \<Rightarrow> ''volume.backed_up''
     | EvidenceVolumeQuiesced \<Rightarrow> ''volume.quiesced''
     | EvidenceVolumeTransferred \<Rightarrow> ''volume.transferred''
     | EvidenceVolumeAdopted \<Rightarrow> ''volume.adopted''
     | EvidenceSnapshotsPruned \<Rightarrow> ''volume.snapshots_pruned''
     | EvidenceBackupVerified \<Rightarrow> ''volume.backup_verified''
     | EvidenceDatabaseBackedUp \<Rightarrow> ''database.backed_up''
     | EvidenceNetworkAttached \<Rightarrow> ''network.attached''
     | EvidenceNetworkDetached \<Rightarrow> ''network.detached''
     | EvidenceAllocationRunning \<Rightarrow> ''allocation.running''
     | EvidenceAllocationReady \<Rightarrow> ''allocation.ready''
     | EvidenceNodeCordoned \<Rightarrow> ''node.cordoned''
     | EvidenceNodeUncordoned \<Rightarrow> ''node.uncordoned''
     | EvidenceNodeReachable \<Rightarrow> ''node.reachable''
     | EvidenceNodeUnreachable \<Rightarrow> ''node.unreachable''
     | EvidenceAllocationStopped \<Rightarrow> ''allocation.stopped''
     | EvidenceAllocationDeleted \<Rightarrow> ''allocation.deleted''
     | EvidenceAllocationFailed \<Rightarrow> ''allocation.failed''
     | EvidenceRouteReachable \<Rightarrow> ''route.reachable''
     | EvidenceRouteRemoved \<Rightarrow> ''route.removed''
     | EvidenceToolsGranted \<Rightarrow> ''agent.tools_granted''
     | EvidenceAgentReady \<Rightarrow> ''agent.ready''
     | EvidenceAgentSpent \<Rightarrow> ''agent.spent''
     | EvidenceAgentDraining \<Rightarrow> ''agent.draining''
     | EvidenceAllocationDrained \<Rightarrow> ''allocation.drained''
     | EvidenceQueueObserved \<Rightarrow> ''queue.observed''
     | EvidenceProviderReachable \<Rightarrow> ''provider.reachable''
     | EvidencePolicyApplied \<Rightarrow> ''policy.applied''
     | EvidenceZonePublished \<Rightarrow> ''zone.published''
     | EvidenceImagesCollected \<Rightarrow> ''images.collected''
     | EvidenceApprovalGranted \<Rightarrow> ''approval.granted''
     | EvidenceApprovalRevoked \<Rightarrow> ''approval.revoked''
     | EvidenceDiagnosisRecorded \<Rightarrow> ''diagnosis.recorded''
     | EvidenceOther s \<Rightarrow> s)"

datatype (plugins only: code size) EventType =
    EventGoalAccepted | EventProposalCreated | EventProposalApproved | EventProposalDenied
  | EventActionDispatched | EventActionCompleted | EventObservationRecorded
  | EventGoalAchieved | EventGoalBlocked | EventGoalCompensating | EventOther string

record Event =
  ev_Sequence :: "64 word"
  ev_At :: time
  ev_Type :: EventType
  ev_Actor :: string
  ev_GoalID :: string
  ev_ProposalID :: string
  ev_ActionID :: string
  ev_Target :: string
  ev_Kind :: string
  ev_WorldRevision :: "64 word"
  ev_Message :: string
  ev_Evidence :: "Evidence option"

definition Event_zero :: Event where
  "Event_zero = \<lparr>ev_Sequence = 0, ev_At = 0, ev_Type = EventOther [], ev_Actor = [], ev_GoalID = [],
     ev_ProposalID = [], ev_ActionID = [], ev_Target = [], ev_Kind = [], ev_WorldRevision = 0,
     ev_Message = [], ev_Evidence = None\<rparr>"

text \<open>The evidence a list of events carries, in order.\<close>

definition evidence_of :: "Event list \<Rightarrow> Evidence list" where
  "evidence_of evs = List.map_filter ev_Evidence evs"

lemma evidence_of_simps [simp]:
  "evidence_of [] = []"
  "evidence_of (e # es) = (case ev_Evidence e of None \<Rightarrow> evidence_of es | Some x \<Rightarrow> x # evidence_of es)"
  "evidence_of (es @ fs) = evidence_of es @ evidence_of fs"
  by (simp_all add: evidence_of_def map_filter_def split: option.splits)

end
