(* ===== verification/Eventlog_Store.thy ===== *)
theory Eventlog_Store
  imports Control_Events
begin

text \<open>
  The durable event log of \<^verbatim>\<open>src/eventlog\<close>: the hash chain (\<^verbatim>\<open>chain.go\<close>), the store with the
  constraints its schema declares (\<^verbatim>\<open>store.go\<close>, \<^verbatim>\<open>schema.go\<close>), the outside witness of the chain
  head (\<^verbatim>\<open>anchor.go\<close>) and verified backups (\<^verbatim>\<open>backup.go\<close>).  JSON, SHA-256 and the rendering of a
  time are the parameters of \<open>LogCodec\<close>.  The database is the migration table, the table of rows
  and the head row that the SQL of the source reads and writes; whether the engine or the file
  system carries a write out is an argument, and a query on an open database is answered.
\<close>

section \<open>The chain\<close>

record LogCodec =
  marshal :: "Event \<Rightarrow> string option"
  unmarshal :: "string \<Rightarrow> Event option"
  sha256 :: "string \<Rightarrow> string"
  rfc3339 :: "time \<Rightarrow> string"

record Record =
  rec_Sequence :: "64 word"
  rec_PreviousHash :: string
  rec_Hash :: string
  rec_Event :: Event

datatype log_error = Encode_failed | Invalid_sequence nat | Breaks_chain nat | Invalid_hash nat
  | Log_closed | Unexpected_sequence | Database_failed | Row_refused | Head_moved
  | Decode_failed | Count_mismatch | Ingest_failed log_error | Diverged
  | Anchor_no_hash | Anchor_backwards | Anchor_conflict | Anchor_malformed nat
  | Log_behind_anchor | History_rewritten | No_anchored_record
  | Bytes_mismatch | Checksum_mismatched | Archive_unreadable | Records_mismatch | Chain_broken
  | Head_mismatch | Manifest_unreadable | Unsupported_version
  | Newer_schema | Path_not_absolute | Not_a_database

definition eventHash :: "LogCodec \<Rightarrow> string \<Rightarrow> Event \<Rightarrow> log_error + string" where
  "eventHash C previous e = (case marshal C e of
       None \<Rightarrow> Inl Encode_failed
     | Some payload \<Rightarrow> Inr (sha256 C (previous @ [CHR 0x00] @ payload)))"

fun verify_from :: "LogCodec \<Rightarrow> string \<Rightarrow> nat \<Rightarrow> Record list \<Rightarrow> log_error option" where
  "verify_from C previous index [] = None"
| "verify_from C previous index (r # rs) =
    (let sequence = word_of_nat (index + 1) in
     if rec_Sequence r \<noteq> sequence \<or> ev_Sequence (rec_Event r) \<noteq> rec_Sequence r then Some (Invalid_sequence (index + 1))
     else if rec_PreviousHash r \<noteq> previous then Some (Breaks_chain (index + 1))
     else case eventHash C previous (rec_Event r) of
         Inl err \<Rightarrow> Some err
       | Inr hash \<Rightarrow>
           if hash \<noteq> rec_Hash r then Some (Invalid_hash (index + 1))
           else verify_from C (rec_Hash r) (index + 1) rs)"

definition verifyChain :: "LogCodec \<Rightarrow> Record list \<Rightarrow> log_error option" where
  "verifyChain C rs = verify_from C [] 0 rs"

section \<open>The database\<close>

record Row =
  row_sequence :: int
  row_previous_hash :: string
  row_hash :: string
  row_recorded_at :: string
  row_event :: string

record Database =
  db_versions :: "int list"
  db_records :: "Row list"
  db_head_sequence :: int
  db_head_hash :: string

text \<open>What the driver opens: a file without tables, with only the migration table filled in so far,
  or a database with its tables.\<close>

datatype Sqlite_file = Untabled "int list" | Tabled Database

definition schemaVersion :: int where
  "schemaVersion = 1"

definition migration_1 :: "int list \<Rightarrow> Database" where
  "migration_1 versions =
     \<lparr>db_versions = versions @ [1], db_records = [], db_head_sequence = 0, db_head_hash = []\<rparr>"

definition file_versions :: "Sqlite_file \<Rightarrow> int list" where
  "file_versions file = (case file of Untabled vs \<Rightarrow> vs | Tabled db \<Rightarrow> db_versions db)"

definition migrate :: "bool \<Rightarrow> Sqlite_file \<Rightarrow> log_error + Sqlite_file" where
  "migrate io file =
     (let versions = file_versions file; current = (if versions = [] then 0 else Max (set versions)) in
      if current > schemaVersion then Inl Newer_schema
      else if 1 \<le> current then Inr file
      else if \<not> io then Inl Database_failed
      else case file of
          Untabled vs \<Rightarrow> Inr (Tabled (migration_1 vs))
        | Tabled db \<Rightarrow> Inl Database_failed)"

text \<open>The constraints of the table: the primary key, the unique hash and the checks.\<close>

definition row_ok :: "Database \<Rightarrow> Row \<Rightarrow> bool" where
  "row_ok db r \<longleftrightarrow> row_sequence r > 0 \<and>
     (row_sequence r = 1 \<and> row_previous_hash r = [] \<or> row_sequence r > 1 \<and> length (row_previous_hash r) = 64) \<and>
     length (row_hash r) = 64 \<and>
     (\<forall>q \<in> set (db_records db). row_sequence q \<noteq> row_sequence r \<and> row_hash q \<noteq> row_hash r)"

definition read_row :: "LogCodec \<Rightarrow> Row \<Rightarrow> Record option" where
  "read_row C r =
     (if row_sequence r < 0 then None
      else case unmarshal C (row_event r) of
       None \<Rightarrow> None
     | Some e \<Rightarrow> Some \<lparr>rec_Sequence = word_of_int (row_sequence r), rec_PreviousHash = row_previous_hash r,
                       rec_Hash = row_hash r, rec_Event = e\<rparr>)"

fun read_rows :: "LogCodec \<Rightarrow> Row list \<Rightarrow> log_error + Record list" where
  "read_rows C [] = Inr []"
| "read_rows C (r # rs) = (case read_row C r of
     None \<Rightarrow> Inl Decode_failed
   | Some q \<Rightarrow> map_sum id (\<lambda>qs. q # qs) (read_rows C rs))"

section \<open>The store\<close>

record File =
  lf_db :: "Database option"
  lf_head :: Record
  lf_count :: "64 word"

definition readRecords :: "LogCodec \<Rightarrow> File \<Rightarrow> log_error + Record list" where
  "readRecords C f = (case lf_db f of
       None \<Rightarrow> Inl Log_closed
     | Some db \<Rightarrow> read_rows C (sort_key row_sequence (db_records db)))"

definition head_record :: "64 word \<Rightarrow> string \<Rightarrow> Record" where
  "head_record seq hash = \<lparr>rec_Sequence = seq, rec_PreviousHash = [], rec_Hash = hash, rec_Event = Event_zero\<rparr>"

definition loadHead :: "Database \<Rightarrow> log_error + File" where
  "loadHead db =
     (let sequence = word_of_int (db_head_sequence db);
          count = word_of_nat (length (db_records db)) in
      if db_head_sequence db < 0 then Inl Decode_failed
      else if count \<noteq> sequence then Inl Count_mismatch
      else Inr \<lparr>lf_db = Some db, lf_head = head_record sequence (db_head_hash db), lf_count = count\<rparr>)"

definition Verify :: "LogCodec \<Rightarrow> File \<Rightarrow> log_error option" where
  "Verify C f = (case readRecords C f of Inl err \<Rightarrow> Some err | Inr rs \<Rightarrow> verifyChain C rs)"

definition checkDatabaseFile :: "string option \<Rightarrow> log_error option" where
  "checkDatabaseFile contents = (case contents of
       None \<Rightarrow> None
     | Some bytes \<Rightarrow>
         let header = take 16 bytes in
         if header = [] then None
         else if \<not> has_prefix header ''SQLite format 3'' then Some Not_a_database
         else None)"

text \<open>\<open>connect\<close> is what the driver finds in the file, if it opens it.\<close>

definition Open ::
  "LogCodec \<Rightarrow> (string option \<Rightarrow> Sqlite_file option) \<Rightarrow> bool \<Rightarrow> string \<Rightarrow> string option \<Rightarrow> log_error + File" where
  "Open C connect io path contents =
     (if \<not> has_prefix path ''/'' then Inl Path_not_absolute
      else case checkDatabaseFile contents of Some err \<Rightarrow> Inl err
      | None \<Rightarrow> (case connect contents of None \<Rightarrow> Inl Database_failed
      | Some file \<Rightarrow> (case migrate io file of Inl err \<Rightarrow> Inl err
      | Inr (Untabled _) \<Rightarrow> Inl Database_failed
      | Inr (Tabled db) \<Rightarrow> (case loadHead db of Inl err \<Rightarrow> Inl err
      | Inr f \<Rightarrow> (case Verify C f of Some err \<Rightarrow> Inl err | None \<Rightarrow> Inr f)))))"

definition Close :: "File \<Rightarrow> File" where
  "Close f = f\<lparr>lf_db := None\<rparr>"

text \<open>\<open>io\<close> says whether the engine carries the transaction out; the driver refuses an unsigned value
  with the high bit set.\<close>

definition Append :: "LogCodec \<Rightarrow> bool \<Rightarrow> File \<Rightarrow> Event \<Rightarrow> log_error + File" where
  "Append C io f e = (case lf_db f of
       None \<Rightarrow> Inl Log_closed
     | Some db \<Rightarrow>
         let expected = lf_count f + 1 in
         if ev_Sequence e \<noteq> expected then Inl Unexpected_sequence
         else case eventHash C (rec_Hash (lf_head f)) e of
             Inl err \<Rightarrow> Inl err
           | Inr hash \<Rightarrow> (case marshal C e of
               None \<Rightarrow> Inl Encode_failed
             | Some payload \<Rightarrow>
                 let row = \<lparr>row_sequence = uint expected, row_previous_hash = rec_Hash (lf_head f), row_hash = hash,
                            row_recorded_at = rfc3339 C (ev_At e), row_event = payload\<rparr> in
                 if \<not> io \<or> uint expected \<ge> 2 ^ 63 then Inl Database_failed
                 else if \<not> row_ok db row then Inl Row_refused
                 else if db_head_sequence db \<noteq> uint (rec_Sequence (lf_head f)) then Inl Head_moved
                 else Inr \<lparr>lf_db = Some (db\<lparr>db_records := db_records db @ [row], db_head_sequence := uint expected,
                                         db_head_hash := hash\<rparr>),
                           lf_head = \<lparr>rec_Sequence = expected, rec_PreviousHash = rec_Hash (lf_head f),
                                      rec_Hash = hash, rec_Event = e\<rparr>,
                           lf_count = expected\<rparr>))"

definition NextSequence :: "File \<Rightarrow> 64 word" where
  "NextSequence f = lf_count f + 1"

definition Head :: "File \<Rightarrow> Record" where
  "Head f = lf_head f"

definition Records :: "LogCodec \<Rightarrow> File \<Rightarrow> Record list" where
  "Records C f = (case readRecords C f of Inl _ \<Rightarrow> [] | Inr rs \<Rightarrow> rs)"

definition ReplayEvents :: "LogCodec \<Rightarrow> File \<Rightarrow> log_error + Event list" where
  "ReplayEvents C f = map_sum id (map rec_Event) (readRecords C f)"

definition ReplayEvidence :: "LogCodec \<Rightarrow> File \<Rightarrow> log_error + Evidence list" where
  "ReplayEvidence C f = map_sum id (\<lambda>rs. List.map_filter (\<lambda>r. ev_Evidence (rec_Event r)) rs) (readRecords C f)"

definition confirmRecord :: "LogCodec \<Rightarrow> File \<Rightarrow> Record \<Rightarrow> log_error option" where
  "confirmRecord C f r = (case readRecords C f of
       Inl err \<Rightarrow> Some err
     | Inr held \<Rightarrow>
         if rec_Sequence r = 0 \<or> rec_Sequence r > word_of_nat (length held) then None
         else if rec_Hash (held ! (unat (rec_Sequence r) - 1)) \<noteq> rec_Hash r then Some Diverged
         else None)"

text \<open>A failed ingest returns how many records were appended before it and leaves those in place.\<close>

fun Ingest :: "LogCodec \<Rightarrow> bool \<Rightarrow> File \<Rightarrow> nat \<Rightarrow> Record list \<Rightarrow> nat \<times> log_error option \<times> File" where
  "Ingest C io f appended [] = (appended, None, f)"
| "Ingest C io f appended (r # rs) =
    (if rec_Sequence r \<le> NextSequence f - 1
     then (case confirmRecord C f r of
             Some err \<Rightarrow> (appended, Some err, f)
           | None \<Rightarrow> Ingest C io f appended rs)
     else (case Append C io f (rec_Event r) of
             Inl err \<Rightarrow> (appended, Some (Ingest_failed err), f)
           | Inr f' \<Rightarrow>
               if rec_Hash (Head f') \<noteq> rec_Hash r then (appended, Some Diverged, f')
               else Ingest C io f' (appended + 1) rs))"

section \<open>The anchor\<close>

record AnchorRecord =
  ar_Sequence :: "64 word"
  ar_Hash :: string
  ar_WitnessedAt :: time

text \<open>The lines of the file: a blank line, a record, or something JSON does not accept.\<close>

datatype anchor_line = Blank_line | Anchor_line AnchorRecord | Malformed_line

record Anchor =
  an_file :: "anchor_line list"
  an_last :: AnchorRecord

definition AnchorRecord_zero :: AnchorRecord where
  "AnchorRecord_zero = \<lparr>ar_Sequence = 0, ar_Hash = [], ar_WitnessedAt = 0\<rparr>"

fun anchor_lines :: "nat \<Rightarrow> anchor_line list \<Rightarrow> log_error + AnchorRecord list" where
  "anchor_lines line [] = Inr []"
| "anchor_lines line (l # ls) = (case l of
     Blank_line \<Rightarrow> anchor_lines (line + 1) ls
   | Malformed_line \<Rightarrow> Inl (Anchor_malformed line)
   | Anchor_line r \<Rightarrow>
       if ar_Hash r = [] then Inl (Anchor_malformed line)
       else map_sum id (\<lambda>rs. r # rs) (anchor_lines (line + 1) ls))"

text \<open>\<open>sort.Slice\<close> leaves the order of equal sequences open; the model takes the stable one.\<close>

definition OpenAnchor :: "string \<Rightarrow> anchor_line list option \<Rightarrow> log_error + Anchor" where
  "OpenAnchor path contents =
     (if \<not> has_prefix path ''/'' then Inl Path_not_absolute
      else case contents of None \<Rightarrow> Inr \<lparr>an_file = [], an_last = AnchorRecord_zero\<rparr>
      | Some ls \<Rightarrow> (case anchor_lines 1 ls of
           Inl err \<Rightarrow> Inl err
         | Inr rs \<Rightarrow> Inr \<lparr>an_file = ls,
             an_last = (if rs = [] then AnchorRecord_zero else last (sort_key ar_Sequence rs))\<rparr>))"

text \<open>How an append to the file ends: written and synced, nothing written, or written with the sync
  failing.\<close>

datatype write_outcome = Synced | Not_written | Not_synced

definition Witness ::
  "Anchor \<Rightarrow> time \<Rightarrow> write_outcome \<Rightarrow> 64 word \<Rightarrow> string \<Rightarrow> log_error option \<times> Anchor" where
  "Witness a now io sequence hash =
     (if hash = [] then (Some Anchor_no_hash, a)
      else if sequence < ar_Sequence (an_last a) then (Some Anchor_backwards, a)
      else if sequence = ar_Sequence (an_last a) \<and> hash \<noteq> ar_Hash (an_last a) then (Some Anchor_conflict, a)
      else if sequence = ar_Sequence (an_last a) then (None, a)
      else
        let r = \<lparr>ar_Sequence = sequence, ar_Hash = hash, ar_WitnessedAt = now\<rparr>;
            written = a\<lparr>an_file := an_file a @ [Anchor_line r]\<rparr>
        in case io of
             Not_written \<Rightarrow> (Some Database_failed, a)
           | Not_synced \<Rightarrow> (Some Database_failed, written)
           | Synced \<Rightarrow> (None, written\<lparr>an_last := r\<rparr>))"

fun find_witnessed :: "AnchorRecord \<Rightarrow> Record list \<Rightarrow> log_error option" where
  "find_witnessed w [] = Some No_anchored_record"
| "find_witnessed w (r # rs) =
    (if rec_Sequence r \<noteq> ar_Sequence w then find_witnessed w rs
     else if rec_Hash r \<noteq> ar_Hash w then Some History_rewritten
     else None)"

definition Anchor_Check :: "LogCodec \<Rightarrow> Anchor \<Rightarrow> File \<Rightarrow> log_error option" where
  "Anchor_Check C a f =
     (let witnessed = an_last a; head = Head f in
      if ar_Hash witnessed = [] then None
      else if rec_Sequence head < ar_Sequence witnessed then Some Log_behind_anchor
      else if rec_Sequence head = ar_Sequence witnessed
        then (if rec_Hash head \<noteq> ar_Hash witnessed then Some History_rewritten else None)
      else case readRecords C f of
          Inl err \<Rightarrow> Some err
        | Inr rs \<Rightarrow> find_witnessed witnessed rs)"

section \<open>Backups\<close>

record BackupManifest =
  bm_Version :: int
  bm_TakenAt :: time
  bm_Records :: int
  bm_HeadSequence :: "64 word"
  bm_HeadHash :: string
  bm_Checksum :: string
  bm_Bytes :: int
  bm_Format :: string

definition BackupVersion :: int where
  "BackupVersion = 2"

definition manifestSuffix :: string where
  "manifestSuffix = ''.manifest.json''"

definition quoteLiteral :: "string \<Rightarrow> string" where
  "quoteLiteral text = [CHR 0x27] @ concat (map (\<lambda>c. if c = CHR 0x27 then [c, c] else [c]) text) @ [CHR 0x27]"

text \<open>The file system is a map from paths to contents.  \<open>vacuum\<close> is the file \<open>VACUUM INTO\<close> writes for a
  database, \<open>attach\<close> what opening bytes read-only gives, \<open>encode\<close> and \<open>decode\<close> the manifest's JSON.\<close>

record BackupCodec =
  vacuum :: "Database \<Rightarrow> string"
  attach :: "string \<Rightarrow> Database option"
  encode :: "BackupManifest \<Rightarrow> string option"
  decode :: "string \<Rightarrow> BackupManifest option"

definition writeFileAtomic :: "bool \<Rightarrow> string smap \<Rightarrow> string \<Rightarrow> string \<Rightarrow> log_error + string smap" where
  "writeFileAtomic io fs path payload = (if \<not> io then Inl Database_failed else Inr (mput path payload fs))"

definition new_manifest :: "LogCodec \<Rightarrow> time \<Rightarrow> Record list \<Rightarrow> string \<Rightarrow> BackupManifest" where
  "new_manifest C now rs payload =
     \<lparr>bm_Version = BackupVersion, bm_TakenAt = now, bm_Records = int (length rs),
      bm_HeadSequence = (if rs = [] then 0 else rec_Sequence (last rs)),
      bm_HeadHash = (if rs = [] then [] else rec_Hash (last rs)),
      bm_Checksum = sha256 C payload, bm_Bytes = int (length payload), bm_Format = ''sqlite''\<rparr>"

text \<open>\<open>io\<close> tells for each of the two writes, the archive and the manifest, whether it succeeds.\<close>

definition Backup ::
  "LogCodec \<Rightarrow> BackupCodec \<Rightarrow> time \<Rightarrow> bool \<times> bool \<Rightarrow> File \<Rightarrow> string \<Rightarrow> string smap
    \<Rightarrow> (log_error + BackupManifest) \<times> string smap" where
  "Backup C B now io f destination fs =
     (if \<not> has_prefix destination ''/'' then (Inl Path_not_absolute, fs)
      else case lf_db f of None \<Rightarrow> (Inl Log_closed, fs)
      | Some db \<Rightarrow> (case readRecords C f of Inl err \<Rightarrow> (Inl err, fs)
      | Inr rs \<Rightarrow> (case verifyChain C rs of Some err \<Rightarrow> (Inl err, fs)
      | None \<Rightarrow>
          if \<not> fst io then (Inl Database_failed, mdel destination fs)
          else let payload = vacuum B db; fs = mput destination payload (mdel destination fs);
                   manifest = new_manifest C now rs payload in
               case encode B manifest of None \<Rightarrow> (Inl Encode_failed, fs)
               | Some text \<Rightarrow> (case writeFileAtomic (snd io) fs (destination @ manifestSuffix) (text @ [CHR 0x0A]) of
                     Inl err \<Rightarrow> (Inl err, fs)
                   | Inr fs \<Rightarrow> (Inr manifest, fs)))))"

definition readManifest :: "BackupCodec \<Rightarrow> string smap \<Rightarrow> string \<Rightarrow> log_error + BackupManifest" where
  "readManifest B fs archive = (case map_of fs (archive @ manifestSuffix) of
       None \<Rightarrow> Inl Manifest_unreadable
     | Some raw \<Rightarrow> (case decode B raw of
         None \<Rightarrow> Inl Decode_failed
       | Some m \<Rightarrow> if bm_Version m \<noteq> BackupVersion then Inl Unsupported_version else Inr m))"

definition recordsIn :: "LogCodec \<Rightarrow> BackupCodec \<Rightarrow> string \<Rightarrow> log_error + Record list" where
  "recordsIn C B payload = (case attach B payload of
       None \<Rightarrow> Inl Database_failed
     | Some db \<Rightarrow> (case loadHead db of Inl err \<Rightarrow> Inl err | Inr f \<Rightarrow> readRecords C f))"

definition VerifyBackup :: "LogCodec \<Rightarrow> BackupCodec \<Rightarrow> string smap \<Rightarrow> string \<Rightarrow> log_error + BackupManifest" where
  "VerifyBackup C B fs archive = (case readManifest B fs archive of
       Inl err \<Rightarrow> Inl err
     | Inr m \<Rightarrow> (case map_of fs archive of None \<Rightarrow> Inl Archive_unreadable
     | Some payload \<Rightarrow>
         if int (length payload) \<noteq> bm_Bytes m then Inl Bytes_mismatch
         else if sha256 C payload \<noteq> bm_Checksum m then Inl Checksum_mismatched
         else case recordsIn C B payload of
             Inl err \<Rightarrow> Inl err
           | Inr rs \<Rightarrow>
               if int (length rs) \<noteq> bm_Records m then Inl Records_mismatch
               else if verifyChain C rs \<noteq> None then Inl Chain_broken
               else if rs \<noteq> [] \<and> (rec_Hash (last rs) \<noteq> bm_HeadHash m \<or> rec_Sequence (last rs) \<noteq> bm_HeadSequence m)
                 then Inl Head_mismatch
               else Inr m))"

text \<open>\<open>os.Rename\<close> of a file that exists; \<open>aside\<close> is the name with the restore's time in it.\<close>

definition rename :: "string \<Rightarrow> string \<Rightarrow> string smap \<Rightarrow> string smap" where
  "rename old new fs = (case map_of fs old of None \<Rightarrow> fs | Some bytes \<Rightarrow> mput new bytes (mdel old fs))"

definition aside_path :: "string \<Rightarrow> int \<Rightarrow> string" where
  "aside_path path unix = path @ ''.superseded-'' @ itoa unix"

definition set_aside :: "string \<Rightarrow> int \<Rightarrow> string smap \<Rightarrow> string smap" where
  "set_aside path unix fs = (case map_of fs path of
       None \<Rightarrow> fs
     | Some bytes \<Rightarrow>
         if length bytes = 0 then fs
         else let aside = aside_path path unix in
              foldl (\<lambda>fs suffix. rename (path @ suffix) (aside @ suffix) fs) (rename path aside fs) [''-wal'', ''-shm''])"

definition Restore ::
  "LogCodec \<Rightarrow> BackupCodec \<Rightarrow> int \<Rightarrow> bool \<Rightarrow> string \<Rightarrow> string \<Rightarrow> string smap
    \<Rightarrow> (log_error + BackupManifest) \<times> string smap" where
  "Restore C B unix io archive path fs =
     (if \<not> has_prefix path ''/'' then (Inl Path_not_absolute, fs)
      else case VerifyBackup C B fs archive of Inl err \<Rightarrow> (Inl err, fs)
      | Inr manifest \<Rightarrow> (case map_of fs archive of None \<Rightarrow> (Inl Archive_unreadable, fs)
      | Some payload \<Rightarrow>
          let fs = set_aside path unix fs in
          (case writeFileAtomic io fs path payload of
             Inl err \<Rightarrow> (Inl err, fs)
           | Inr fs \<Rightarrow> (Inr manifest, fs))))"

end
