(* ===== verification/Eventlog_Facts.thy ===== *)
theory Eventlog_Facts
  imports Eventlog_Store
begin

text \<open>
  What the store keeps: the records of a log are the chain over the events appended to it, in order,
  and its head is the last of them.  The locale \<open>event_sink\<close> is the interface the engine appends
  through, interpreted on the store.
\<close>

section \<open>Chains\<close>

definition last_hash :: "string \<Rightarrow> Record list \<Rightarrow> string" where
  "last_hash previous rs = (if rs = [] then previous else rec_Hash (last rs))"

lemma last_hash_simps [simp]:
  "last_hash p [] = p"
  "last_hash p (r # rs) = last_hash (rec_Hash r) rs"
  "last_hash p (rs @ [r]) = rec_Hash r"
  by (simp_all add: last_hash_def)

text \<open>What the step of the verification establishes of one record.\<close>

definition links :: "LogCodec \<Rightarrow> string \<Rightarrow> nat \<Rightarrow> Record \<Rightarrow> bool" where
  "links C previous index r \<longleftrightarrow> rec_Sequence r = word_of_nat (index + 1) \<and>
     ev_Sequence (rec_Event r) = rec_Sequence r \<and> rec_PreviousHash r = previous \<and>
     eventHash C previous (rec_Event r) = Inr (rec_Hash r)"

lemma verify_from_Cons:
  "verify_from C p i (r # rs) = None \<longleftrightarrow> links C p i r \<and> verify_from C (rec_Hash r) (i + 1) rs = None"
  by (auto simp: links_def Let_def split: sum.splits)

lemmas verify_from_simps = verify_from.simps(1) verify_from_Cons

declare verify_from.simps(2) [simp del]

lemma verify_from_append:
  "verify_from C p i (rs @ ss) = None \<longleftrightarrow>
     verify_from C p i rs = None \<and> verify_from C (last_hash p rs) (i + length rs) ss = None"
  by (induction rs arbitrary: p i) (auto simp: verify_from_simps)

lemma links_hash:
  assumes "links C p i r"
  obtains x where "marshal C (rec_Event r) = Some x" and "rec_Hash r = sha256 C (p @ [CHR 0x00] @ x)"
  using assms by (cases "marshal C (rec_Event r)") (auto simp: links_def eventHash_def)

lemma verified_hash_length:
  assumes "\<And>s. length (sha256 C s) = 64" and "verify_from C [] 0 ts = None"
  shows "length (last_hash [] ts) = (if ts = [] then 0 else 64)"
proof (cases ts rule: rev_cases)
  case (snoc us t)
  then have "links C (last_hash [] us) (length us) t" using assms(2) by (simp add: verify_from_append verify_from_simps)
  then show ?thesis by (rule links_hash) (simp add: snoc assms(1))
qed simp

text \<open>The inputs the digests of a history are taken over.\<close>

fun digest_inputs :: "LogCodec \<Rightarrow> string \<Rightarrow> Record list \<Rightarrow> string set" where
  "digest_inputs C p [] = {}"
| "digest_inputs C p (r # rs) = (case marshal C (rec_Event r) of
     None \<Rightarrow> {} | Some payload \<Rightarrow> {p @ [CHR 0x00] @ payload}) \<union> digest_inputs C (rec_Hash r) rs"

text \<open>JSON that reads back what was written.\<close>

definition reads_back :: "LogCodec \<Rightarrow> Event \<Rightarrow> bool" where
  "reads_back C e \<longleftrightarrow> (case marshal C e of None \<Rightarrow> True | Some payload \<Rightarrow> unmarshal C payload = Some e)"

lemma reads_back_inj:
  "\<lbrakk>reads_back C e; reads_back C e'; marshal C e = Some p; marshal C e' = Some p\<rbrakk> \<Longrightarrow> e = e'"
  by (simp add: reads_back_def)

text \<open>One step backwards along two chains that agree on a digest.\<close>

lemma links_agree:
  assumes "links C p i r" and "links C q i s" and "rec_Hash r = rec_Hash s"
    and "inj_on (sha256 C) D" and "digest_inputs C p [r] \<subseteq> D" and "digest_inputs C q [s] \<subseteq> D"
    and "length p = length q" and "reads_back C (rec_Event r)" and "reads_back C (rec_Event s)"
  shows "p = q \<and> r = s"
proof -
  obtain x where x: "marshal C (rec_Event r) = Some x" "rec_Hash r = sha256 C (p @ [CHR 0x00] @ x)"
    by (rule links_hash [OF assms(1)])
  obtain y where y: "marshal C (rec_Event s) = Some y" "rec_Hash s = sha256 C (q @ [CHR 0x00] @ y)"
    by (rule links_hash [OF assms(2)])
  have "p @ [CHR 0x00] @ x = q @ [CHR 0x00] @ y"
  proof (rule inj_onD [OF assms(4)])
    show "sha256 C (p @ [CHR 0x00] @ x) = sha256 C (q @ [CHR 0x00] @ y)"
      by (rule trans [OF x(2) [symmetric] trans [OF assms(3) y(2)]])
    show "p @ [CHR 0x00] @ x \<in> D" using assms(5) x(1) by simp
    show "q @ [CHR 0x00] @ y \<in> D" using assms(6) y(1) by simp
  qed
  then have pq: "p = q" "x = y" using append_eq_append_conv [of p q, OF disjI1, OF assms(7)] by simp_all
  have "rec_Event r = rec_Event s"
    by (rule reads_back_inj [OF assms(8,9) x(1)]) (simp add: y(1) pq)
  moreover have "rec_Sequence r = rec_Sequence s" "rec_PreviousHash r = rec_PreviousHash s"
    using assms(1,2) pq(1) by (simp_all add: links_def)
  ultimately have "r = s" using assms(3) by (intro Record.equality) simp_all
  with pq(1) show ?thesis by (rule conjI)
qed

lemma digest_inputs_append:
  "digest_inputs C p (rs @ ss) = digest_inputs C p rs \<union> digest_inputs C (last_hash p rs) ss"
  by (induction rs arbitrary: p) (auto split: option.splits)

text \<open>Two verified histories of the same length that end in the same digest are the same history.\<close>

lemma same_head_same_history:
  assumes "verifyChain C rs = None" and "verifyChain C ss = None"
    and "length rs = length ss" and "last_hash [] rs = last_hash [] ss"
    and "inj_on (sha256 C) (digest_inputs C [] rs \<union> digest_inputs C [] ss)"
    and "\<And>s. length (sha256 C s) = 64"
    and "\<forall>r \<in> set rs \<union> set ss. reads_back C (rec_Event r)"
  shows "rs = ss"
  using assms(1-5,7) unfolding verifyChain_def
proof (induction rs arbitrary: ss rule: rev_induct)
  case (snoc r rs)
  then obtain ss' s where ss: "ss = ss' @ [s]" by (cases ss rule: rev_cases) auto
  let ?p = "last_hash [] rs" and ?q = "last_hash [] ss'"
  have len: "length rs = length ss'" using snoc.prems(3) ss by simp
  have vr: "verify_from C [] 0 rs = None" "links C ?p (length rs) r"
    using snoc.prems(1) by (simp_all add: verify_from_append verify_from_simps)
  have vs: "verify_from C [] 0 ss' = None" "links C ?q (length ss') s"
    using snoc.prems(2) ss by (simp_all add: verify_from_append verify_from_simps)
  have "?p = ?q \<and> r = s"
  proof (rule links_agree [OF vr(2) vs(2) [folded len] _ snoc.prems(5)])
    show "length ?p = length ?q" using verified_hash_length [OF assms(6) vr(1)] verified_hash_length [OF assms(6) vs(1)] len by auto
  qed (use snoc.prems(4,6) ss in \<open>auto simp: digest_inputs_append split: option.splits\<close>)
  moreover have "rs = ss'" if "?p = ?q"
    by (rule snoc.IH [OF vr(1) vs(1) len that])
      (use snoc.prems(5,6) ss in \<open>auto simp: digest_inputs_append intro: inj_on_subset\<close>)
  ultimately show ?case using ss by simp
qed simp

section \<open>Rows\<close>

lemma read_rows_append:
  "read_rows C (rs @ ss) = (case read_rows C rs of Inl err \<Rightarrow> Inl err
     | Inr qs \<Rightarrow> map_sum id (\<lambda>us. qs @ us) (read_rows C ss))"
proof (induction rs)
  case Nil
  show ?case by (cases "read_rows C ss") simp_all
next
  case (Cons r rs)
  then show ?case by (cases "read_rows C ss") (auto split: option.splits sum.splits)
qed

lemma read_rows_length: "read_rows C rows = Inr rs \<Longrightarrow> length rs = length rows"
  by (induction rows arbitrary: rs) (auto split: option.splits simp: map_sum_def split: sum.splits)

text \<open>The log \<open>f\<close> is open and holds exactly the records \<open>rs\<close>.\<close>

definition holds :: "LogCodec \<Rightarrow> File \<Rightarrow> Record list \<Rightarrow> bool" where
  "holds C f rs \<longleftrightarrow> (case lf_db f of None \<Rightarrow> False | Some db \<Rightarrow>
     map row_sequence (db_records db) = map int [1..<Suc (length rs)] \<and>
     read_rows C (db_records db) = Inr rs \<and> verifyChain C rs = None \<and>
     int (length rs) < 2 ^ 63 \<and> lf_count f = word_of_nat (length rs) \<and>
     db_head_sequence db = int (length rs) \<and> db_head_hash db = last_hash [] rs \<and>
     rec_Sequence (lf_head f) = word_of_nat (length rs) \<and> rec_Hash (lf_head f) = last_hash [] rs)"

lemma sorted_ints: "sorted (map int [a..<b])"
  by (simp add: sorted_map sorted_wrt_upt)

lemma holds_readRecords: "holds C f rs \<Longrightarrow> readRecords C f = Inr rs"
proof -
  assume h: "holds C f rs"
  then obtain db where db: "lf_db f = Some db" "map row_sequence (db_records db) = map int [1..<Suc (length rs)]"
    "read_rows C (db_records db) = Inr rs" by (auto simp: holds_def split: option.splits)
  have "sorted (map row_sequence (db_records db))" unfolding db(2) by (rule sorted_ints)
  then show ?thesis using db by (simp add: readRecords_def sort_key_id_if_sorted)
qed

lemma holds_Verify: "holds C f rs \<Longrightarrow> Verify C f = None"
  unfolding Verify_def by (subst holds_readRecords) (auto simp: holds_def split: option.splits)

lemma holds_NextSequence: "holds C f rs \<Longrightarrow> NextSequence f = word_of_nat (length rs + 1)"
  by (simp add: holds_def NextSequence_def split: option.splits)

lemma holds_Head: "holds C f rs \<Longrightarrow> rec_Sequence (Head f) = word_of_nat (length rs) \<and> rec_Hash (Head f) = last_hash [] rs"
  by (simp add: holds_def Head_def split: option.splits)

lemma holds_unique: "holds C f rs \<Longrightarrow> holds C f ss \<Longrightarrow> rs = ss"
  by (auto dest!: holds_readRecords)

text \<open>The record an accepted append adds.\<close>

definition next_record :: "LogCodec \<Rightarrow> Record list \<Rightarrow> Event \<Rightarrow> Record" where
  "next_record C rs e = \<lparr>rec_Sequence = ev_Sequence e, rec_PreviousHash = last_hash [] rs,
     rec_Hash = projr (eventHash C (last_hash [] rs) e), rec_Event = e\<rparr>"

lemma Append_holds:
  assumes h: "holds C f rs" and ap: "Append C io f e = Inr f'" and rb: "reads_back C e"
  shows "holds C f' (rs @ [next_record C rs e]) \<and> ev_Sequence e = NextSequence f"
proof -
  let ?n = "length rs"
  let ?h = "last_hash [] rs"
  obtain db where db: "lf_db f = Some db" using ap by (auto simp: Append_def split: option.splits)
  note h' = h [unfolded holds_def db option.case]
  have hd: "rec_Hash (lf_head f) = ?h" "lf_count f = word_of_nat ?n" using h' by simp_all
  obtain payload hash where p: "marshal C e = Some payload" "eventHash C ?h e = Inr hash"
    and sq: "ev_Sequence e = lf_count f + 1" and small: "uint (lf_count f + 1) < 2 ^ 63"
    and f': "lf_db f' = Some (db\<lparr>db_records := db_records db @ [\<lparr>row_sequence = uint (lf_count f + 1),
        row_previous_hash = ?h, row_hash = hash, row_recorded_at = rfc3339 C (ev_At e), row_event = payload\<rparr>],
        db_head_sequence := uint (lf_count f + 1), db_head_hash := hash\<rparr>)"
      "lf_count f' = lf_count f + 1" "rec_Sequence (lf_head f') = lf_count f + 1" "rec_Hash (lf_head f') = hash"
    using ap unfolding Append_def db option.case Let_def hd(1)
    by (auto split: if_splits option.splits sum.splits)
  have u: "uint (word_of_nat ?n + 1 :: 64 word) = int ?n + 1"
    using h' by (simp add: uint_nat unat_word_ariths unat_of_nat)
  have e: "unmarshal C payload = Some e" using rb p(1) by (simp add: reads_back_def)
  have nr: "next_record C rs e = \<lparr>rec_Sequence = lf_count f + 1, rec_PreviousHash = ?h, rec_Hash = hash, rec_Event = e\<rparr>"
    by (simp add: next_record_def p(2) sq)
  have lk: "links C ?h ?n (next_record C rs e)"
    using p(2) sq hd(2) unfolding nr by (simp add: links_def)
  have count: "lf_count f + 1 = word_of_nat (length (rs @ [next_record C rs e]))" by (simp add: hd(2))
  have small': "int ?n + 1 < 2 ^ 63" using small unfolding hd(2) u .
  have seqs: "map row_sequence (db_records db) @ [int ?n + 1] = map int [1..<Suc (length (rs @ [next_record C rs e]))]"
    using h' by simp
  have vc: "verifyChain C (rs @ [next_record C rs e]) = None"
    using h' lk by (simp add: verifyChain_def verify_from_append verify_from_simps)
  have rd: "read_rows C (db_records db @ [\<lparr>row_sequence = int ?n + 1, row_previous_hash = ?h, row_hash = hash,
      row_recorded_at = rfc3339 C (ev_At e), row_event = payload\<rparr>]) = Inr (rs @ [next_record C rs e])"
    using h' by (simp add: read_rows_append read_row_def e nr hd(2))
  have "holds C f' (rs @ [next_record C rs e])"
    unfolding holds_def f' option.case
    using seqs vc rd small' by (simp add: u hd(2) nr)
  then show ?thesis by (simp add: NextSequence_def sq)
qed

lemma next_record_Event [simp]: "rec_Event (next_record C rs e) = e"
  by (simp add: next_record_def)

lemma ReplayEvents_holds: "holds C f rs \<Longrightarrow> ReplayEvents C f = Inr (map rec_Event rs)"
  by (simp add: ReplayEvents_def holds_readRecords)

lemma ReplayEvidence_holds: "holds C f rs \<Longrightarrow> ReplayEvidence C f = Inr (evidence_of (map rec_Event rs))"
  by (simp add: ReplayEvidence_def holds_readRecords evidence_of_def map_filter_def comp_def filter_map)

end
