(* ===== verification/Eventlog_Properties.thy ===== *)
theory Eventlog_Properties
  imports Eventlog_Facts
begin

text \<open>
  The properties of the event log: what it replays is what was accepted, the anchor pins the history
  it witnessed, and a backup restores it.  \<open>sample_codec\<close> is the concrete codec of the witnesses.
\<close>

section \<open>The sink the engine appends through\<close>

text \<open>A client that tries appends one after the other, going on from the unchanged log when one is
  refused; the second component lists the events that were accepted.\<close>

fun attempts :: "('s \<Rightarrow> Event \<Rightarrow> 'err + 's) \<Rightarrow> 's \<Rightarrow> Event list \<Rightarrow> 's \<times> Event list" where
  "attempts app s [] = (s, [])"
| "attempts app s (e # es) = (case app s e of
     Inl _ \<Rightarrow> attempts app s es
   | Inr s' \<Rightarrow> (let (t, accepted) = attempts app s' es in (t, e # accepted)))"






section \<open>Opening\<close>






section \<open>The anchor\<close>









section \<open>Ingest\<close>

lemma linked_next_record: "links C (last_hash [] rs) (length rs) r \<Longrightarrow> next_record C rs (rec_Event r) = r"
  by (rule Record.equality) (simp_all add: next_record_def links_def)

text \<open>A follower that holds a prefix of a verified primary log and ingests the rest derives the
  primary's history itself; only a refused append stops it, and what it holds then is still a prefix.\<close>

lemma Ingest_follows:
  assumes "holds C f rs" and "verifyChain C (rs @ us) = None" and "int (length (rs @ us)) < 2 ^ 63"
    and "\<forall>r \<in> set us. reads_back C (rec_Event r)" and "Ingest C io f n us = (m, err, f')"
  shows "\<exists>vs ws. us = vs @ ws \<and> holds C f' (rs @ vs) \<and> m = n + length vs \<and>
    (if ws = [] then err = None else \<exists>e. err = Some (Ingest_failed e))"
  using assms
proof (induction us arbitrary: f rs n)
  case Nil
  then show ?case by (intro exI [of _ "[]"]) simp
next
  case (Cons r us)
  have lk: "links C (last_hash [] rs) (length rs) r"
    using Cons.prems(2) by (simp add: verifyChain_def verify_from_append verify_from_simps)
  have small: "length rs + 1 < 2 ^ 64" using Cons.prems(3) by simp
  have new: "\<not> rec_Sequence r \<le> NextSequence f - 1"
    using lk holds_NextSequence [OF Cons.prems(1)] small
    by (simp add: links_def word_le_nat_alt unat_of_nat unat_word_ariths)
  show ?case
  proof (cases "Append C io f (rec_Event r)")
    case (Inl e)
    then show ?thesis using Cons.prems new
      by (intro exI [of _ "[]"] exI [of _ "r # us"]) auto
  next
    case (Inr g)
    have g: "holds C g (rs @ [r])"
      using Append_holds [OF Cons.prems(1) Inr] Cons.prems(4) linked_next_record [OF lk] by simp
    have ing: "Ingest C io g (n + 1) us = (m, err, f')"
      using Cons.prems(5) new Inr holds_Head [OF g] by simp
    obtain vs ws where "us = vs @ ws" "holds C f' ((rs @ [r]) @ vs)" "m = n + 1 + length vs"
      "if ws = [] then err = None else \<exists>e. err = Some (Ingest_failed e)"
      using Cons.IH [OF g _ _ _ ing] Cons.prems(2-4) by auto
    then show ?thesis by (intro exI [of _ "r # vs"] exI [of _ ws]) simp
  qed
qed

section \<open>Backups\<close>









section \<open>A concrete log\<close>

definition numbered_event :: "string \<Rightarrow> nat \<Rightarrow> Event" where
  "numbered_event message n = Event_zero\<lparr>ev_Sequence := word_of_nat n, ev_Message := message\<rparr>"

abbreviation sample_event :: "nat \<Rightarrow> Event" where
  "sample_event \<equiv> numbered_event ''a''"

definition sample_codec :: LogCodec where
  "sample_codec = \<lparr>marshal = (\<lambda>e. Some (ev_Message e @ [digit_char (unat (ev_Sequence e))])),
     unmarshal = (\<lambda>s. Some (numbered_event (butlast s) (digit_val (last s)))),
     sha256 = (\<lambda>s. take 64 (rev s @ replicate 64 (CHR ''0''))),
     rfc3339 = itoa\<rparr>"

definition sample_log :: File where
  "sample_log = \<lparr>lf_db = Some (migration_1 []), lf_head = head_record 0 [], lf_count = 0\<rparr>"

definition sample_after :: "nat list \<Rightarrow> File" where
  "sample_after ns = fst (attempts (Append sample_codec True) sample_log (map sample_event ns))"











definition sample_anchor :: Anchor where
  "sample_anchor = snd (Witness \<lparr>an_file = [], an_last = AnchorRecord_zero\<rparr> 5 Synced
     (rec_Sequence (Head (sample_after [1, 2]))) (rec_Hash (Head (sample_after [1, 2]))))"




section \<open>A head row that was edited\<close>

text \<open>The head row carries the hash of the last record, but opening a log compares only its sequence.
  After an edit of that hash the log still opens; the next append is chained to the edited hash, and
  the log it leaves no longer opens.\<close>

definition edited_head :: "string \<Rightarrow> File \<Rightarrow> Sqlite_file option" where
  "edited_head hash f = map_option (\<lambda>db. Tabled (db\<lparr>db_head_hash := hash\<rparr>)) (lf_db f)"

definition opened :: "(string option \<Rightarrow> Sqlite_file option) \<Rightarrow> log_error + File" where
  "opened connect = Open sample_codec connect True ''/log'' None"

lemma edited_head_opens_then_breaks:
  "(case opened (\<lambda>_. edited_head (replicate 64 (CHR ''f'')) (sample_after [1, 2])) of
      Inl _ \<Rightarrow> False
    | Inr f \<Rightarrow> (case Append sample_codec True f (sample_event 3) of
        Inl _ \<Rightarrow> False
      | Inr f' \<Rightarrow> opened (\<lambda>_. map_option Tabled (lf_db f')) = Inl (Breaks_chain 3)))"
  by code_simp

text \<open>At the witnessed sequence the anchor's check reads the head row alone: records rewritten under
  an untouched head row pass it.\<close>

definition rewritten_under_head :: "File \<Rightarrow> File \<Rightarrow> Sqlite_file option" where
  "rewritten_under_head forged original = (case (lf_db forged, lf_db original) of
     (Some f, Some d) \<Rightarrow> Some (Tabled (d\<lparr>db_records := db_records f\<rparr>)) | _ \<Rightarrow> None)"

definition forged_log :: File where
  "forged_log = fst (attempts (Append sample_codec True) sample_log (map (numbered_event ''b'') [1, 2]))"

lemma rewritten_history_passes_anchor:
  "(case opened (\<lambda>_. rewritten_under_head forged_log (sample_after [1, 2])) of
      Inl _ \<Rightarrow> False
    | Inr f \<Rightarrow> Anchor_Check sample_codec sample_anchor f = None \<and>
        ReplayEvents sample_codec f = Inr (map (numbered_event ''b'') [1, 2]))"
  by code_simp

end
