(* ===== verification/Spec2Isabelle.thy ===== *)
theory Spec2Isabelle
  imports Kernel_Properties Governor_Properties Replay_Properties Execution_Properties Traffic_Properties
    Control_Lease Control_Schedule Eventlog_Properties
begin

text \<open>
  A verification development for a4s, a control plane in which agents propose plans, a kernel
  authorizes them, executors carry them out and evidence, recorded in a log, is the only thing that
  changes the observed world.

  \<^bold>\<open>The program.\<close>  \<^verbatim>\<open>src/control\<close> holds the kernel.  An agent turns a goal and a world
  into a proposal; \<open>Kernel.Authorize\<close> (\<^verbatim>\<open>policy.go\<close>) validates each action against a simulated world
  (\<open>simulateAction\<close>, \<^verbatim>\<open>executor.go\<close>) and the whole proposal against the disruption governor
  (\<^verbatim>\<open>disruption.go\<close>), image provenance (\<^verbatim>\<open>provenance.go\<close>) and the cluster ceilings
  (\<^verbatim>\<open>clusterbudget.go\<close>); evidence of what happened is folded into the world by \<open>Project\<close>
  (\<^verbatim>\<open>projection.go\<close>).  A lease manager (\<^verbatim>\<open>lease.go\<close>) keeps two plans off one target, executors
  (\<^verbatim>\<open>executor.go\<close>) carry actions out, and the service directory, canary weights, network policy and
  cron schedules are derived from goals and world.  \<^verbatim>\<open>src/eventlog\<close> is the hash-chained log the
  evidence is kept in.

  \<^bold>\<open>The model.\<close>  Go structs are records, string enumerations datatypes, maps association lists
  read through \<open>map_of\<close>, \<open>uint64\<close> a 64-bit word, \<open>int\<close> an \<open>int\<close> whose additions wrap at
  64 bits in \<open>Resources\<close> and \<open>Budget\<close>, \<open>time.Time\<close> nanoseconds since the zero time, errors
  values of \<open>go_error\<close>.  The wall clock that \<open>World.Now\<close> falls back to is the argument \<open>wall\<close>.

  \<^item> \<^verbatim>\<open>Prelude\<close>: Go maps and the interface \<open>dict\<close> they satisfy, fallible loops (\<open>run\<close>), machine
    integers, time, strings.
  \<^item> \<^verbatim>\<open>Control_Types\<close>, \<^verbatim>\<open>Control_Actions\<close>: the data of \<^verbatim>\<open>types.go\<close> and its methods.
  \<^item> \<^verbatim>\<open>Control_Placement\<close>: \<^verbatim>\<open>spread.go\<close>, \<^verbatim>\<open>node_lifecycle.go\<close>, \<^verbatim>\<open>clusterbudget.go\<close>.
  \<^item> \<^verbatim>\<open>Control_Disruption\<close>: \<^verbatim>\<open>disruption.go\<close>.
  \<^item> \<^verbatim>\<open>Control_Policy\<close>, \<^verbatim>\<open>Control_Simulate\<close>, \<^verbatim>\<open>Control_Kernel\<close>: the validators, the plan
    simulation and \<open>Authorize\<close>.
  \<^item> \<^verbatim>\<open>Control_Patterns\<close>, \<^verbatim>\<open>Control_Provenance\<close>: name patterns and image attestations.
  \<^item> \<^verbatim>\<open>Control_Projection\<close>, \<^verbatim>\<open>Projection_Facts\<close>: \<open>Project\<close>, one definition per evidence kind, and
    what each kind leaves alone.
  \<^item> \<^verbatim>\<open>Kernel_Capacity\<close>, \<^verbatim>\<open>Kernel_Safety\<close>: the invariants of plans and logs.
  \<^item> \<^verbatim>\<open>Volume_Fencing\<close>: an abstract machine of volume ownership, its invariant, and the
    refinement of both the projection and the plan simulation to it (locale \<open>fencing\<close>, interpreted
    twice).
  \<^item> \<^verbatim>\<open>Volume_Handoff\<close>: the state machine of moving a volume.
  \<^item> \<^verbatim>\<open>Sample_Cluster\<close>: the concrete clusters on which properties are instantiated.
  \<^item> \<^verbatim>\<open>Kernel_Properties\<close>, \<^verbatim>\<open>Governor_Properties\<close>, \<^verbatim>\<open>Replay_Properties\<close>: the properties of
    authorization, of the governor with cluster ceilings and provenance, and of replayed logs.
  \<^item> \<^verbatim>\<open>Control_Lease\<close>: \<^verbatim>\<open>lease.go\<close>, its interface \<open>lease_service\<close>, exclusiveness and all-or-nothing.
  \<^item> \<^verbatim>\<open>Control_Executor\<close>, \<^verbatim>\<open>Executor_Simulation\<close>, \<^verbatim>\<open>Execution_Properties\<close>: the memory executor and
    the durable projection (\<^verbatim>\<open>durable.go\<close>); an accepted action executes as the kernel simulated it,
    and a restart rebuilds the world.
  \<^item> \<^verbatim>\<open>Control_Directory\<close>, \<^verbatim>\<open>Control_NetPolicy\<close>, \<^verbatim>\<open>Traffic_Properties\<close>: \<^verbatim>\<open>directory.go\<close>,
    \<^verbatim>\<open>canary.go\<close>, \<^verbatim>\<open>resolve.go\<close> and \<^verbatim>\<open>netpolicy.go\<close>; canary shares, service zones, default deny.
  \<^item> \<^verbatim>\<open>Control_Schedule\<close>: the cron language of \<^verbatim>\<open>schedule.go\<close>; its search finds the least match.
  \<^item> \<^verbatim>\<open>Control_Events\<close>, \<^verbatim>\<open>Eventlog_Store\<close>: events, and \<^verbatim>\<open>chain.go\<close>, \<^verbatim>\<open>schema.go\<close>, \<^verbatim>\<open>store.go\<close>,
    \<^verbatim>\<open>anchor.go\<close>, \<^verbatim>\<open>backup.go\<close>.  The database is its rows, its head row and its migration versions.
  \<^item> \<^verbatim>\<open>Eventlog_Facts\<close>, \<^verbatim>\<open>Eventlog_Properties\<close>: the invariant of the store, the interface
    \<open>event_sink\<close> interpreted on it, replay, the anchor, ingest by a follower, backup and restore.

  \<^bold>\<open>Bounds.\<close>  No fuel is used.  Most loops are structural; the calendar and the search of a cron
  schedule, and the groups of an IPv6 address, are functions with a termination proof, and the value
  loop of a cron field, whose counter wraps, is a partial function shown to return.  Generations and
  revisions are 64-bit words, so the theorems about logs assume fewer than \<open>2^64\<close> entries; the store
  refuses sequences from \<open>2^63\<close> on, as its driver does.  The capacity theorem assumes requests below
  \<open>2^62\<close>, because the additions it relies on wrap.

  \<^bold>\<open>Hypotheses about code outside the sources.\<close>  Ed25519, base64 and JSON are the parameters of
  \<open>Signing\<close>, SHA-256, JSON and the rendering of a time those of \<open>LogCodec\<close>, \<open>VACUUM INTO\<close> and the
  manifest's JSON those of \<open>BackupCodec\<close>.  The log theorems assume that the events in question read
  back as they were written; the anchor theorem assumes that the digest has no collision among the
  inputs of the two histories, not that it has none at all.  Whether a write is carried out is an
  argument.

  \<^bold>\<open>Not modelled.\<close>  Text rendering, files, sockets, processes, HTTP and the command line have no
  counterpart.  The engine that drives a run, the agents that propose, goal validation, operator
  approvals, key rotation, the node (queue, dispatcher, supervisor, storage, network, channel) and the
  server with its standby hold further logic that is not covered: nothing is proved about a whole run
  of the loop.  Mutexes are not modelled, each call of a locked method is one step.  The event store's
  connection settings and file permissions are left out; a query on an open database is answered.
\<close>

end
